(* ===== verification/Prelude.thy ===== *)
theory Prelude
  imports Main "HOL-Library.Word" "HOL-Library.Sublist"
begin

text \<open>
  What the components share.
  \<^item> \<open>go_error\<close> is a Go \<open>error\<close> value, with the chain that \<open>errors.Wrap\<close> and
    \<open>fmt.Errorf("...: %w")\<close> build; \<open>Error\<close> is its text.
  \<^item> \<open>outcome\<close> is how a Go call ends: a value, an error return, or a panic (a nil pointer
    dereference, an index out of range).
  \<^item> \<open>('s, 'a) go\<close> is a Go function body over a state \<open>'s\<close>. The state survives all three
    endings, because deferred calls and the outside world still see it.
  \<^item> \<open>steps_in R m\<close>, \<open>gives P m Q\<close> and \<open>ends P m Q\<close> are the judgements the component proofs use: every
    run of \<open>m\<close> relates its first and last state by \<open>R\<close>; every run from \<open>P\<close> that returns a value does so in
    \<open>Q\<close>; every run from \<open>P\<close> returns a value, and in \<open>Q\<close>. The locale \<open>frame\<close> holds the composition rules for the first.
\<close>

section \<open>Errors, outcomes and the monad\<close>

datatype go_error =
    ErrorString string
  | Wrapped string go_error
  | ServiceResponseError int string string
  | ForeignError string string

text \<open>
  \<open>ServiceResponseError status code text\<close> is the cloud SDK's \<open>*sdkerr.ServiceResponseError\<close>
  (fields \<open>StatusCode\<close> and \<open>ErrorCode\<close>, and the text its \<open>Error\<close> method gives);
  \<open>ForeignError kind text\<close> is any other error value that comes from a library.
\<close>

fun Error :: "go_error \<Rightarrow> string" where
  "Error (ErrorString m) = m"
| "Error (Wrapped m e) = m @ '': '' @ Error e"
| "Error (ServiceResponseError st cd txt) = txt"
| "Error (ForeignError k txt) = txt"

datatype 'a outcome = Ret 'a | Err go_error | Panic

type_synonym ('s, 'a) go = "'s \<Rightarrow> 'a outcome \<times> 's"

named_theorems go_simps "how each monad operation runs"

definition ret :: "'a \<Rightarrow> ('s, 'a) go" where
  "ret x = (\<lambda>s. (Ret x, s))"

definition fail :: "go_error \<Rightarrow> ('s, 'a) go" where
  "fail e = (\<lambda>s. (Err e, s))"

definition panic :: "('s, 'a) go" where
  "panic = (\<lambda>s. (Panic, s))"

definition andThen :: "('s, 'a) go \<Rightarrow> ('a \<Rightarrow> ('s, 'b) go) \<Rightarrow> ('s, 'b) go" where
  "andThen m f = (\<lambda>s. case m s of (r, s') \<Rightarrow>
     (case r of Ret x \<Rightarrow> f x s' | Err e \<Rightarrow> (Err e, s') | Panic \<Rightarrow> (Panic, s')))"

definition onErr :: "('s, 'a) go \<Rightarrow> (go_error \<Rightarrow> ('s, 'a) go) \<Rightarrow> ('s, 'a) go" where
  "onErr m h = (\<lambda>s. case m s of (r, s') \<Rightarrow>
     (case r of Ret x \<Rightarrow> (Ret x, s') | Err e \<Rightarrow> h e s' | Panic \<Rightarrow> (Panic, s')))"

definition attempt :: "('s, 'a) go \<Rightarrow> ('s, go_error + 'a) go" where
  "attempt m = (\<lambda>s. case m s of (r, s') \<Rightarrow>
     (case r of Ret x \<Rightarrow> (Ret (Inr x), s') | Err e \<Rightarrow> (Ret (Inl e), s') | Panic \<Rightarrow> (Panic, s')))"

definition gets :: "('s \<Rightarrow> 'a) \<Rightarrow> ('s, 'a) go" where
  "gets f = (\<lambda>s. (Ret (f s), s))"

definition modify :: "('s \<Rightarrow> 's) \<Rightarrow> ('s, unit) go" where
  "modify f = (\<lambda>s. (Ret (), f s))"

text \<open>\<open>*p\<close> on a Go pointer: a nil pointer panics.\<close>

definition deref :: "'a option \<Rightarrow> ('s, 'a) go" where
  "deref p = (case p of None \<Rightarrow> panic | Some x \<Rightarrow> ret x)"

text \<open>\<open>if err != nil { return ..., errors.Wrap(err, msg) }\<close>.\<close>

definition wrapErr :: "string \<Rightarrow> ('s, 'a) go \<Rightarrow> ('s, 'a) go" where
  "wrapErr msg m = onErr m (\<lambda>e. fail (Wrapped msg e))"

lemma ret_apply [go_simps]: "ret x s = (Ret x, s)"
  by (simp add: ret_def)

lemma fail_apply [go_simps]: "fail e s = (Err e, s)"
  by (simp add: fail_def)

lemma panic_apply [go_simps]: "panic s = (Panic, s)"
  by (simp add: panic_def)

lemma gets_apply [go_simps]: "gets f s = (Ret (f s), s)"
  by (simp add: gets_def)

lemma modify_apply [go_simps]: "modify f s = (Ret (), f s)"
  by (simp add: modify_def)

lemma deref_apply [go_simps]:
  "deref p s = (case p of None \<Rightarrow> (Panic, s) | Some x \<Rightarrow> (Ret x, s))"
  by (simp add: deref_def go_simps split: option.split)

lemma andThen_apply [go_simps]:
  "andThen m f s = (case m s of (r, s') \<Rightarrow>
     (case r of Ret x \<Rightarrow> f x s' | Err e \<Rightarrow> (Err e, s') | Panic \<Rightarrow> (Panic, s')))"
  by (simp add: andThen_def)

lemma onErr_apply [go_simps]:
  "onErr m h s = (case m s of (r, s') \<Rightarrow>
     (case r of Ret x \<Rightarrow> (Ret x, s') | Err e \<Rightarrow> h e s' | Panic \<Rightarrow> (Panic, s')))"
  by (simp add: onErr_def)

lemma attempt_apply [go_simps]:
  "attempt m s = (case m s of (r, s') \<Rightarrow>
     (case r of Ret x \<Rightarrow> (Ret (Inr x), s') | Err e \<Rightarrow> (Ret (Inl e), s') | Panic \<Rightarrow> (Panic, s')))"
  by (simp add: attempt_def)

lemma wrapErr_apply [go_simps]:
  "wrapErr msg m s = (case m s of (r, s') \<Rightarrow>
     (case r of Ret x \<Rightarrow> (Ret x, s') | Err e \<Rightarrow> (Err (Wrapped msg e), s') | Panic \<Rightarrow> (Panic, s')))"
  by (simp add: wrapErr_def go_simps split: prod.split outcome.split)

text \<open>The monad laws, so that a pipeline may be regrouped.\<close>

lemma andThen_ret [simp]: "andThen (ret x) f = f x"
  by (rule ext) (simp add: go_simps)

lemma andThen_ret_right [simp]: "andThen m ret = m"
  by (rule ext) (simp add: go_simps split: prod.split outcome.split)

lemma andThen_assoc: "andThen (andThen m f) g = andThen m (\<lambda>x. andThen (f x) g)"
  by (rule ext) (simp add: go_simps split: prod.split outcome.split)

text \<open>Inversion: how a sequence can have ended with a value.\<close>

lemma andThen_RetE:
  assumes "andThen m f s = (Ret y, t)"
  obtains x u where "m s = (Ret x, u)" "f x u = (Ret y, t)"
  using assms by (auto simp: go_simps split: prod.splits outcome.splits)

lemma andThen_ErrE:
  assumes "andThen m f s = (Err e, t)"
  obtains (first) "m s = (Err e, t)" | (second) x u where "m s = (Ret x, u)" "f x u = (Err e, t)"
  using assms by (auto simp: go_simps split: prod.splits outcome.splits)

lemma andThen_run: "m s = (Ret x, u) \<Longrightarrow> andThen m f s = f x u"
  by (simp add: go_simps)

lemma andThen_stop_Err: "m s = (Err e, u) \<Longrightarrow> andThen m f s = (Err e, u)"
  by (simp add: go_simps)

lemma andThen_stop_Panic: "m s = (Panic, u) \<Longrightarrow> andThen m f s = (Panic, u)"
  by (simp add: go_simps)

text \<open>A panic goes through everything.\<close>

lemma panic_through:
  "fst (m s) = Panic \<Longrightarrow> fst (andThen m f s) = Panic"
  "fst (m s) = Panic \<Longrightarrow> fst (onErr m h s) = Panic"
  "fst (m s) = Panic \<Longrightarrow> fst (wrapErr msg m s) = Panic"
  "fst (m s) = Panic \<Longrightarrow> fst (attempt m s) = Panic"
  by (auto simp: go_simps split: prod.split)

lemma wrapErr_RetE:
  assumes "wrapErr msg m s = (Ret y, t)"
  obtains "m s = (Ret y, t)"
  using assms by (auto simp: go_simps split: prod.splits outcome.splits)

lemma wrapErr_Ret [simp]: "wrapErr msg m s = (Ret y, t) \<longleftrightarrow> m s = (Ret y, t)"
  by (auto simp: go_simps split: prod.splits outcome.splits)

lemma deref_Ret [simp]: "deref p s = (Ret y, t) \<longleftrightarrow> p = Some y \<and> t = s"
  by (auto simp: go_simps split: option.splits)

section \<open>Frame judgement\<close>

definition steps_in :: "('s \<Rightarrow> 's \<Rightarrow> bool) \<Rightarrow> ('s, 'a) go \<Rightarrow> bool" where
  "steps_in R m \<longleftrightarrow> (\<forall>s. R s (snd (m s)))"

lemma steps_inD: "steps_in R m \<Longrightarrow> m s = (r, t) \<Longrightarrow> R s t"
  by (metis snd_conv steps_in_def)

lemma steps_inI: "(\<And>s r t. m s = (r, t) \<Longrightarrow> R s t) \<Longrightarrow> steps_in R m"
  by (simp add: steps_in_def) (metis prod.collapse)

text \<open>
  A reflexive and transitive relation between states is preserved by every control structure of
  the monad: what is left to check of a component are its primitive steps.
\<close>

locale frame =
  fixes R :: "'s \<Rightarrow> 's \<Rightarrow> bool"
  assumes frame_refl: "R s s"
    and frame_trans: "R s t \<Longrightarrow> R t u \<Longrightarrow> R s u"
begin

lemma in_ret: "steps_in R (ret x)"
  by (simp add: steps_in_def go_simps frame_refl)

lemma in_fail: "steps_in R (fail e)"
  by (simp add: steps_in_def go_simps frame_refl)

lemma in_panic: "steps_in R panic"
  by (simp add: steps_in_def go_simps frame_refl)

lemma in_gets: "steps_in R (gets f)"
  by (simp add: steps_in_def go_simps frame_refl)

lemma in_deref: "steps_in R (deref p)"
  by (simp add: steps_in_def go_simps frame_refl split: option.split)

lemma in_modify: "(\<And>s. R s (f s)) \<Longrightarrow> steps_in R (modify f)"
  by (simp add: steps_in_def go_simps)

lemma in_andThen: "steps_in R m \<Longrightarrow> (\<And>x. steps_in R (f x)) \<Longrightarrow> steps_in R (andThen m f)"
  by (rule steps_inI)
    (auto simp: go_simps split: prod.splits outcome.splits dest: steps_inD intro: frame_trans)

text \<open>The same, when the rest is only known to be a step after the values the first part really returns.\<close>

lemma in_andThen_ran:
  assumes m: "steps_in R m" and f: "\<And>s x t. m s = (Ret x, t) \<Longrightarrow> steps_in R (f x)"
  shows "steps_in R (andThen m f)"
proof (rule steps_inI)
  fix s r t assume run: "andThen m f s = (r, t)"
  obtain q u where q: "m s = (q, u)" by fastforce
  have su: "R s u" by (rule steps_inD[OF m q])
  show "R s t"
  proof (cases q)
    case (Ret x)
    with run q have "f x u = (r, t)" by (simp add: andThen_apply)
    from frame_trans[OF su steps_inD[OF f this]] q Ret show ?thesis by simp
  qed (use run q su in \<open>auto simp: andThen_apply\<close>)
qed

lemma in_onErr: "steps_in R m \<Longrightarrow> (\<And>e. steps_in R (h e)) \<Longrightarrow> steps_in R (onErr m h)"
  by (rule steps_inI)
    (auto simp: go_simps split: prod.splits outcome.splits dest: steps_inD intro: frame_trans)

lemma in_wrapErr: "steps_in R m \<Longrightarrow> steps_in R (wrapErr msg m)"
  unfolding wrapErr_def by (rule in_onErr) (auto intro: in_fail)

lemma in_attempt: "steps_in R m \<Longrightarrow> steps_in R (attempt m)"
  by (rule steps_inI) (auto simp: go_simps split: prod.splits outcome.splits dest: steps_inD)

lemma in_if: "(b \<Longrightarrow> steps_in R m) \<Longrightarrow> (\<not> b \<Longrightarrow> steps_in R n) \<Longrightarrow> steps_in R (if b then m else n)"
  by simp

lemma in_case_option:
  "(x = None \<Longrightarrow> steps_in R m) \<Longrightarrow> (\<And>y. x = Some y \<Longrightarrow> steps_in R (f y)) \<Longrightarrow>
   steps_in R (case x of None \<Rightarrow> m | Some y \<Rightarrow> f y)"
  by (simp split: option.split)

lemma in_case_sum:
  "(\<And>e. x = Inl e \<Longrightarrow> steps_in R (g e)) \<Longrightarrow> (\<And>y. x = Inr y \<Longrightarrow> steps_in R (f y)) \<Longrightarrow>
   steps_in R (case x of Inl e \<Rightarrow> g e | Inr y \<Rightarrow> f y)"
  by (simp split: sum.split)

lemma in_case_list:
  "(x = [] \<Longrightarrow> steps_in R m) \<Longrightarrow> (\<And>y ys. x = y # ys \<Longrightarrow> steps_in R (f y ys)) \<Longrightarrow>
   steps_in R (case x of [] \<Rightarrow> m | y # ys \<Rightarrow> f y ys)"
  by (simp split: list.split)

lemma in_case_prod:
  "(\<And>a b. x = (a, b) \<Longrightarrow> steps_in R (f a b)) \<Longrightarrow> steps_in R (case x of (a, b) \<Rightarrow> f a b)"
  by (simp split: prod.split)

lemma in_let: "(\<And>y. y = x \<Longrightarrow> steps_in R (f y)) \<Longrightarrow> steps_in R (let y = x in f y)"
  by simp

lemmas in_rules =
  in_ret in_fail in_panic in_gets in_deref in_andThen in_onErr in_wrapErr in_attempt
  in_if in_case_option in_case_sum in_case_list in_case_prod in_let

end

section \<open>Outcome judgement\<close>

definition gives :: "('s \<Rightarrow> bool) \<Rightarrow> ('s, 'a) go \<Rightarrow> ('a \<Rightarrow> 's \<Rightarrow> bool) \<Rightarrow> bool" where
  "gives P m Q \<longleftrightarrow> (\<forall>s x t. P s \<longrightarrow> m s = (Ret x, t) \<longrightarrow> Q x t)"

lemma givesI: "(\<And>s x t. P s \<Longrightarrow> m s = (Ret x, t) \<Longrightarrow> Q x t) \<Longrightarrow> gives P m Q"
  by (simp add: gives_def)

lemma givesD: "gives P m Q \<Longrightarrow> P s \<Longrightarrow> m s = (Ret x, t) \<Longrightarrow> Q x t"
  by (auto simp: gives_def)

lemma gives_andThen:
  "gives P m Q \<Longrightarrow> (\<And>x. gives (Q x) (f x) T) \<Longrightarrow> gives P (andThen m f) T"
  by (rule givesI) (erule andThen_RetE, meson givesD)

section \<open>Total correctness\<close>

text \<open>\<open>ends P m Q\<close>: from a state in \<open>P\<close>, \<open>m\<close> returns a value, without an error and without a panic, and in \<open>Q\<close>.\<close>

definition ends :: "('s \<Rightarrow> bool) \<Rightarrow> ('s, 'a) go \<Rightarrow> ('a \<Rightarrow> 's \<Rightarrow> bool) \<Rightarrow> bool" where
  "ends P m Q \<longleftrightarrow> (\<forall>s. P s \<longrightarrow> (\<exists>x t. m s = (Ret x, t) \<and> Q x t))"

lemma endsI: "(\<And>s. P s \<Longrightarrow> \<exists>x t. m s = (Ret x, t) \<and> Q x t) \<Longrightarrow> ends P m Q"
  by (simp add: ends_def)

lemma endsD: "ends P m Q \<Longrightarrow> P s \<Longrightarrow> \<exists>x t. m s = (Ret x, t) \<and> Q x t"
  by (simp add: ends_def)

lemma endsE:
  assumes "ends P m Q" and "P s"
  obtains x t where "m s = (Ret x, t)" "Q x t"
  using assms by (auto simp: ends_def)

lemma ends_ret: "(\<And>s. P s \<Longrightarrow> Q x s) \<Longrightarrow> ends P (ret x) Q"
  by (simp add: ends_def go_simps)

lemma ends_andThen: "ends P m Q \<Longrightarrow> (\<And>x. ends (Q x) (f x) R) \<Longrightarrow> ends P (andThen m f) R"
  unfolding ends_def by (metis andThen_run)

lemma ends_onErr: "ends P m Q \<Longrightarrow> ends P (onErr m h) Q"
  by (rule endsI) (auto simp: go_simps elim!: endsE)

lemma ends_wrapErr: "ends P m Q \<Longrightarrow> ends P (wrapErr msg m) Q"
  unfolding wrapErr_def by (rule ends_onErr)

lemma ends_pre: "ends P' m Q \<Longrightarrow> (\<And>s. P s \<Longrightarrow> P' s) \<Longrightarrow> ends P m Q"
  by (auto simp: ends_def)

lemma ends_post: "ends P m Q' \<Longrightarrow> (\<And>x t. Q' x t \<Longrightarrow> Q x t) \<Longrightarrow> ends P m Q"
  unfolding ends_def by blast

lemma ends_and: "ends P m Q \<Longrightarrow> ends (\<lambda>s. P s \<and> A s) m Q"
  by (auto simp: ends_def)

lemma ends_gets_then: "(\<And>y. ends (\<lambda>s. P s \<and> f s = y) (k y) Q) \<Longrightarrow> ends P (andThen (gets f) k) Q"
  by (simp add: ends_def go_simps)

lemma ends_deref_then:
  "(\<And>y. p = Some y \<Longrightarrow> ends P (k y) Q) \<Longrightarrow> (\<And>s. P s \<Longrightarrow> p \<noteq> None) \<Longrightarrow> ends P (andThen (deref p) k) Q"
  by (cases p) (auto simp: ends_def go_simps)

lemma ends_if: "(b \<Longrightarrow> ends P m Q) \<Longrightarrow> (\<not> b \<Longrightarrow> ends P n Q) \<Longrightarrow> ends P (if b then m else n) Q"
  by simp

text \<open>A fact that does not speak of the state.\<close>

lemma ends_fact: "(\<And>s. P s \<Longrightarrow> A) \<Longrightarrow> (A \<Longrightarrow> ends P m Q) \<Longrightarrow> ends P m Q"
  by (auto simp: ends_def)

lemma ends_fact_then:
  "ends P m (\<lambda>x s. P' s \<and> R x) \<Longrightarrow> (\<And>x. R x \<Longrightarrow> ends P' (g x) Q) \<Longrightarrow> ends P (andThen m g) Q"
  by (erule ends_andThen, rule ends_fact) (auto intro: ends_pre)

text \<open>A value of which nothing more is needed.\<close>

lemma ends_gets_any: "(\<And>y. ends P (g y) Q) \<Longrightarrow> ends P (andThen (gets f) g) Q"
  by (simp add: ends_def go_simps)

section \<open>Strings\<close>

text \<open>
  The verb \<open>%q\<close>. It is applied to Kubernetes names, a constant and digits only, which hold no
  character that Go escapes inside the quotes.
\<close>

definition quoted :: "string \<Rightarrow> string" where
  "quoted s = [CHR 0x22] @ s @ [CHR 0x22]"

end
