(* ===== verification/Go_Std.thy ===== *)
theory Go_Std
  imports Prelude
begin

text \<open>
  The parts of Go's standard library the source calls: \<open>net/url.Parse\<close> with \<open>Host\<close>, \<open>Port\<close> and
  \<open>Hostname\<close>, \<open>strconv.Atoi\<close> and \<open>encoding/base64.StdEncoding\<close>. Strings are byte strings, as in
  Go. \<open>url.Parse\<close> is modelled up to the value of \<open>Host\<close>, which is all that \<open>parseURL\<close> reads; its
  error value carries the rejected URL instead of the library's quoted text.
\<close>

section \<open>Bytes\<close>

definition byte :: "char \<Rightarrow> nat" where
  "byte c = of_char c"

definition chr :: "nat \<Rightarrow> char" where
  "chr n = char_of n"

lemma byte_less: "byte c < 256"
  by (simp add: byte_def)

lemma chr_byte [simp]: "chr (byte c) = c"
  by (simp add: byte_def chr_def)

lemma byte_chr: "n < 256 \<Longrightarrow> byte (chr n) = n"
  by (simp add: byte_def chr_def)

definition isDigit :: "char \<Rightarrow> bool" where
  "isDigit c \<longleftrightarrow> 48 \<le> byte c \<and> byte c \<le> 57"

definition isAlpha :: "char \<Rightarrow> bool" where
  "isAlpha c \<longleftrightarrow> (97 \<le> byte c \<and> byte c \<le> 122) \<or> (65 \<le> byte c \<and> byte c \<le> 90)"

section \<open>strconv.Atoi\<close>

fun decimal :: "nat \<Rightarrow> string \<Rightarrow> nat" where
  "decimal n [] = n"
| "decimal n (c # cs) = decimal (10 * n + (byte c - 48)) cs"

definition Atoi_error :: "string \<Rightarrow> string \<Rightarrow> go_error" where
  "Atoi_error s why =
     ForeignError ''*strconv.NumError''
       (''strconv.Atoi: parsing '' @ quoted s @ '': '' @ why)"

definition Atoi :: "string \<Rightarrow> go_error + int" where
  "Atoi s =
     (let neg = (case s of [] \<Rightarrow> False | c # _ \<Rightarrow> c = CHR ''-'');
          ds = (case s of [] \<Rightarrow> [] | c # cs \<Rightarrow> if c = CHR ''-'' \<or> c = CHR ''+'' then cs else s);
          v = (if neg then - int (decimal 0 ds) else int (decimal 0 ds))
      in if ds = [] \<or> \<not> list_all isDigit ds then Inl (Atoi_error s ''invalid syntax'')
         else if v < - (2 ^ 63) \<or> 2 ^ 63 \<le> v then Inl (Atoi_error s ''value out of range'')
         else Inr v)"

section \<open>net/url\<close>

definition isHex :: "char \<Rightarrow> bool" where
  "isHex c \<longleftrightarrow> isDigit c \<or> (97 \<le> byte c \<and> byte c \<le> 102) \<or> (65 \<le> byte c \<and> byte c \<le> 70)"

definition unhex :: "char \<Rightarrow> nat" where
  "unhex c = (if isDigit c then byte c - 48
              else if 97 \<le> byte c then byte c - 87 else byte c - 55)"

datatype encoding = EncHost | EncZone | EncOther

definition shouldEscapeHost :: "char \<Rightarrow> bool" where
  "shouldEscapeHost c \<longleftrightarrow>
     \<not> (isAlpha c \<or> isDigit c \<or>
        c \<in> set ''!$&()*+,;=:[]<>-_.~'' \<or> byte c = 39 \<or> byte c = 34)"

fun unescape :: "encoding \<Rightarrow> string \<Rightarrow> string option" where
  "unescape m [] = Some []"
| "unescape m (c # cs) =
     (if c = CHR ''%'' then
        (case cs of
           a # b # rest \<Rightarrow>
             let v = 16 * unhex a + unhex b in
             if \<not> isHex a \<or> \<not> isHex b then None
             else if m = EncHost \<and> unhex a < 8 \<and> v \<noteq> 37 then None
             else if m = EncZone \<and> v \<noteq> 37 \<and> v \<noteq> 32 \<and> shouldEscapeHost (chr v) then None
             else map_option ((#) (chr v)) (unescape m rest)
         | _ \<Rightarrow> None)
      else if m \<noteq> EncOther \<and> byte c < 128 \<and> shouldEscapeHost c then None
      else map_option ((#) c) (unescape m cs))"

text \<open>\<open>strings.LastIndex\<close> for one byte: what is before its last occurrence, and the rest.\<close>

definition cutLast :: "char \<Rightarrow> string \<Rightarrow> (string \<times> string) option" where
  "cutLast c s =
     (if c \<in> set s
      then (let after = rev (takeWhile (\<lambda>x. x \<noteq> c) (rev s));
                n = length s - length after - 1
            in Some (take n s, drop n s))
      else None)"

definition validOptionalPort :: "string \<Rightarrow> bool" where
  "validOptionalPort p \<longleftrightarrow> (case p of [] \<Rightarrow> True | c # cs \<Rightarrow> c = CHR '':'' \<and> list_all isDigit cs)"

fun indexOfZone :: "string \<Rightarrow> nat option" where
  "indexOfZone [] = None"
| "indexOfZone (c # cs) =
     (if prefix ''%25'' (c # cs) then Some 0 else map_option Suc (indexOfZone cs))"

definition append_opt :: "string option \<Rightarrow> string option \<Rightarrow> string option" where
  "append_opt x y = (case x of None \<Rightarrow> None | Some a \<Rightarrow> map_option ((@) a) y)"

definition parseHost :: "string \<Rightarrow> string option" where
  "parseHost h =
     (if prefix ''['' h then
        (case cutLast (CHR '']'') h of
           None \<Rightarrow> None
         | Some (inside, closing) \<Rightarrow>
             if \<not> validOptionalPort (tl closing) then None
             else (case indexOfZone inside of
                     None \<Rightarrow> unescape EncHost h
                   | Some z \<Rightarrow>
                       append_opt (unescape EncHost (take z inside))
                         (append_opt (unescape EncZone (drop z inside)) (unescape EncHost closing))))
      else (case cutLast (CHR '':'') h of
              None \<Rightarrow> unescape EncHost h
            | Some (_, colonPort) \<Rightarrow>
                if validOptionalPort colonPort then unescape EncHost h else None))"

definition validUserinfo :: "string \<Rightarrow> bool" where
  "validUserinfo s =
     list_all (\<lambda>c. isAlpha c \<or> isDigit c \<or> c \<in> set ''-._:~!$&()*+,;=%@'' \<or> byte c = 39) s"

definition parseAuthority :: "string \<Rightarrow> string option" where
  "parseAuthority a =
     (case cutLast (CHR ''@'') a of
        None \<Rightarrow> parseHost a
      | Some (userinfo, rest) \<Rightarrow>
          (case parseHost (tl rest) of
             None \<Rightarrow> None
           | Some host \<Rightarrow>
               if validUserinfo userinfo \<and> unescape EncOther userinfo \<noteq> None then Some host else None))"

text \<open>\<open>getScheme\<close>: \<open>None\<close> for a missing scheme, else the scheme and what follows it.\<close>

fun schemeAt :: "string \<Rightarrow> string \<Rightarrow> string \<Rightarrow> (string \<times> string) option" where
  "schemeAt raw acc [] = Some ([], raw)"
| "schemeAt raw acc (c # cs) =
     (if isAlpha c then schemeAt raw (acc @ [c]) cs
      else if isDigit c \<or> c \<in> set ''+-.'' then
        (if acc = [] then Some ([], raw) else schemeAt raw (acc @ [c]) cs)
      else if c = CHR '':'' then (if acc = [] then None else Some (acc, cs))
      else Some ([], raw))"

definition setPath :: "string \<Rightarrow> string \<Rightarrow> string option" where
  "setPath host path = (if unescape EncOther path = None then None else Some host)"

definition parseNoFragment :: "string \<Rightarrow> string option" where
  "parseNoFragment u =
     (if list_ex (\<lambda>c. byte c < 32 \<or> byte c = 127) u then None
      else if u = ''*'' then Some []
      else (case schemeAt u [] u of
              None \<Rightarrow> None
            | Some (scheme, rest0) \<Rightarrow>
                let rest = takeWhile (\<lambda>c. c \<noteq> CHR ''?'') rest0 in
                if \<not> prefix ''/'' rest \<and> scheme \<noteq> [] then Some []
                else if \<not> prefix ''/'' rest \<and> CHR '':'' \<in> set (takeWhile (\<lambda>c. c \<noteq> CHR ''/'') rest)
                then None
                else if prefix ''//'' rest \<and> (scheme \<noteq> [] \<or> \<not> prefix ''///'' rest)
                then (case parseAuthority (takeWhile (\<lambda>c. c \<noteq> CHR ''/'') (drop 2 rest)) of
                        None \<Rightarrow> None
                      | Some host \<Rightarrow> setPath host (dropWhile (\<lambda>c. c \<noteq> CHR ''/'') (drop 2 rest)))
                else setPath [] rest))"

definition url_Parse :: "string \<Rightarrow> go_error + string" where
  "url_Parse raw =
     (let u = takeWhile (\<lambda>c. c \<noteq> CHR ''#'') raw;
          frag = drop (Suc (length u)) raw
      in case parseNoFragment u of
           None \<Rightarrow> Inl (ForeignError ''*url.Error'' raw)
         | Some host \<Rightarrow>
             if unescape EncOther frag = None then Inl (ForeignError ''*url.Error'' raw)
             else Inr host)"

definition splitHostPort :: "string \<Rightarrow> string \<times> string" where
  "splitHostPort hp =
     (let (host, port) =
        (case cutLast (CHR '':'') hp of
           None \<Rightarrow> (hp, [])
         | Some (h, p) \<Rightarrow> if validOptionalPort p then (h, tl p) else (hp, []))
      in if prefix ''['' host \<and> suffix '']'' host then (butlast (tl host), port) else (host, port))"

definition url_Hostname :: "string \<Rightarrow> string" where
  "url_Hostname host = fst (splitHostPort host)"

definition url_Port :: "string \<Rightarrow> string" where
  "url_Port host = snd (splitHostPort host)"

section \<open>encoding/base64\<close>

definition base64_alphabet :: string where
  "base64_alphabet = ''ABCDEFGHIJKLMNOPQRSTUVWXYZabcdefghijklmnopqrstuvwxyz0123456789+/''"

definition base64_value :: "char \<Rightarrow> nat option" where
  "base64_value c =
     (if 65 \<le> byte c \<and> byte c \<le> 90 then Some (byte c - 65)
      else if 97 \<le> byte c \<and> byte c \<le> 122 then Some (byte c - 71)
      else if isDigit c then Some (byte c + 4)
      else if c = CHR ''+'' then Some 62
      else if c = CHR ''/'' then Some 63
      else None)"

text \<open>The quantum loop on input without line breaks: a padded quantum ends the input.\<close>

fun base64_quanta :: "string \<Rightarrow> string option" where
  "base64_quanta [] = Some []"
| "base64_quanta (a # b # c # d # rest) =
     (case (base64_value a, base64_value b) of
        (Some va, Some vb) \<Rightarrow>
          if c = CHR ''='' then
            (if d = CHR ''='' \<and> rest = [] then Some [chr ((va * 64 + vb) div 16)] else None)
          else (case base64_value c of
                  None \<Rightarrow> None
                | Some vc \<Rightarrow>
                    if d = CHR ''='' then
                      (if rest = []
                       then Some [chr ((va * 64 + vb) div 16),
                                  chr (((va * 4096 + vb * 64 + vc) div 4) mod 256)]
                       else None)
                    else (case base64_value d of
                            None \<Rightarrow> None
                          | Some vd \<Rightarrow>
                              let v = ((va * 64 + vb) * 64 + vc) * 64 + vd in
                              map_option (\<lambda>r. chr (v div 65536) # chr ((v div 256) mod 256) #
                                              chr (v mod 256) # r)
                                (base64_quanta rest)))
      | _ \<Rightarrow> None)"
| "base64_quanta xs = None"

definition base64_DecodeString :: "string \<Rightarrow> go_error + string" where
  "base64_DecodeString s =
     (case base64_quanta (filter (\<lambda>c. byte c \<noteq> 10 \<and> byte c \<noteq> 13) s) of
        None \<Rightarrow> Inl (ForeignError ''base64.CorruptInputError'' s)
      | Some bs \<Rightarrow> Inr bs)"

fun base64_EncodeToString :: "string \<Rightarrow> string" where
  "base64_EncodeToString [] = []"
| "base64_EncodeToString [x] =
     (let v = byte x * 16
      in [base64_alphabet ! (v div 64), base64_alphabet ! (v mod 64), CHR ''='', CHR ''=''])"
| "base64_EncodeToString [x, y] =
     (let v = (byte x * 256 + byte y) * 4
      in [base64_alphabet ! (v div 4096), base64_alphabet ! (v div 64 mod 64),
          base64_alphabet ! (v mod 64), CHR ''=''])"
| "base64_EncodeToString (x # y # z # rest) =
     (let v = (byte x * 256 + byte y) * 256 + byte z
      in [base64_alphabet ! (v div 262144), base64_alphabet ! (v div 4096 mod 64),
          base64_alphabet ! (v div 64 mod 64), base64_alphabet ! (v mod 64)]
         @ base64_EncodeToString rest)"

end
