(* ===== verification/Kube_Types.thy ===== *)
theory Kube_Types
  imports Go_Std
begin

text \<open>
  The Kubernetes and Cluster API structs the source reads and writes, with the fields it uses
  (packages \<open>metav1\<close>, \<open>corev1\<close>, \<open>clusterv1\<close>, \<open>expclusterv1\<close>, \<open>clientcmd/api\<close>). A Go pointer is an
  \<open>option\<close>, a possibly nil map an \<open>option\<close> of a map, an \<open>int32\<close> a \<open>32 word\<close>. The time a condition
  last changed is left out: nothing in the source reads it.
\<close>

type_synonym int32 = "32 word"

record NamespacedName =
  nn_Namespace :: string
  nn_Name :: string

record ObjectReference =
  or_APIVersion :: string
  or_Kind :: string
  or_Namespace :: string
  or_Name :: string

record OwnerReference =
  ow_APIVersion :: string
  ow_Kind :: string
  ow_Name :: string

text \<open>A \<open>*metav1.Time\<close>: nil, or seconds after Go's zero time.\<close>

type_synonym Time = "int option"

definition Time_IsZero :: "Time \<Rightarrow> bool" where
  "Time_IsZero t \<longleftrightarrow> (case t of None \<Rightarrow> True | Some x \<Rightarrow> x = 0)"

lemma Time_IsZero_simps [simp]: "Time_IsZero None" "Time_IsZero (Some x) \<longleftrightarrow> x = 0"
  by (simp_all add: Time_IsZero_def)

record ObjectMeta =
  om_Name :: string
  om_Namespace :: string
  om_Labels :: "(string \<rightharpoonup> string) option"
  om_Annotations :: "(string \<rightharpoonup> string) option"
  om_OwnerReferences :: "OwnerReference list"
  om_Finalizers :: "string list"
  om_DeletionTimestamp :: Time

text \<open>Reading a key of a possibly nil map: a nil map has no keys.\<close>

definition lookup_label :: "(string \<rightharpoonup> string) option \<Rightarrow> string \<rightharpoonup> string" where
  "lookup_label m k = (case m of None \<Rightarrow> None | Some f \<Rightarrow> f k)"

lemma lookup_label_simps [simp]:
  "lookup_label None k = None"
  "lookup_label (Some f) k = f k"
  by (simp_all add: lookup_label_def)

section \<open>clusterv1\<close>

datatype ConditionSeverity = SeverityError | SeverityWarning | SeverityInfo | SeverityNone

datatype ConditionStatus = StatusTrue | StatusFalse | StatusUnknown

record Condition =
  co_Type :: string
  co_Status :: ConditionStatus
  co_Severity :: ConditionSeverity
  co_Reason :: string
  co_Message :: string

record APIEndpoint =
  Host :: string
  Port :: int32

record NetworkRanges =
  CIDRBlocks :: "string list"

record ClusterNetwork =
  cn_Services :: "NetworkRanges option"
  cn_Pods :: "NetworkRanges option"

record Cluster =
  cl_Meta :: ObjectMeta
  cl_ClusterNetwork :: "ClusterNetwork option"
  cl_ControlPlaneRef :: "ObjectReference option"
  cl_InfrastructureRef :: "ObjectReference option"
  cl_InfrastructureReady :: bool

record FailureDomainSpec =
  fd_ControlPlane :: bool
  fd_Attributes :: "(string \<rightharpoonup> string) option"

definition ControlPlaneInitializedCondition :: string where
  "ControlPlaneInitializedCondition = ''ControlPlaneInitialized''"

definition ClusterNameLabel :: string where
  "ClusterNameLabel = ''cluster.x-k8s.io/cluster-name''"

definition DeletingReason :: string where
  "DeletingReason = ''Deleting''"

definition DeletedReason :: string where
  "DeletedReason = ''Deleted''"

text \<open>The API group of both \<open>clusterv1\<close> and \<open>expclusterv1\<close>.\<close>

definition ClusterAPI_Group :: string where
  "ClusterAPI_Group = ''cluster.x-k8s.io''"

text \<open>\<open>expclusterv1.MachinePool\<close>; \<open>mpo_InfrastructureRef\<close> is \<open>Spec.Template.Spec.InfrastructureRef\<close>.\<close>

record MachinePool =
  mpo_Meta :: ObjectMeta
  mpo_InfrastructureRef :: ObjectReference

section \<open>Secrets and kubeconfig files\<close>

record Secret =
  se_Name :: string
  se_Namespace :: string
  se_Data :: "string \<rightharpoonup> string"
  se_Owner :: "OwnerReference option"

definition KubeconfigDataName :: string where
  "KubeconfigDataName = ''value''"

text \<open>
  \<open>clientcmdapi.Config\<close>. Its maps hold pointers: a missing key and a nil pointer behave alike in
  the source, which only ever writes through them, so both are \<open>None\<close> here.
\<close>

record ConfigCluster =
  cc_Server :: string
  cc_InsecureSkipTLSVerify :: bool

record ConfigContext =
  cx_Cluster :: string
  cx_AuthInfo :: string

record AuthInfo =
  ClientCertificateData :: string
  ClientKeyData :: string

record Config =
  cfg_APIVersion :: string
  cfg_Clusters :: "string \<rightharpoonup> ConfigCluster"
  cfg_Contexts :: "string \<rightharpoonup> ConfigContext"
  cfg_CurrentContext :: string
  cfg_AuthInfos :: "string \<rightharpoonup> AuthInfo"

end
