(* ===== verification/Api_Types.thy ===== *)
theory Api_Types
  imports Kube_Types
begin

text \<open>
  The custom resources of the API group, \<open>api/v1beta1\<close>: their specs and statuses field by field,
  the constants, and the methods. The locale \<open>conditions_setter\<close> is the interface
  \<open>conditions.Setter\<close> through which the Cluster API library reads and writes an object's conditions;
  both kinds that implement it are interpreted.
\<close>

section \<open>Constants\<close>

definition CCEManagedControlPlaneKind :: string where
  "CCEManagedControlPlaneKind = ''CCEManagedControlPlane''"

definition ManagedControlPlaneFinalizer :: string where
  "ManagedControlPlaneFinalizer = ''ccemanagedcontrolplane.infrastructure.cluster.x-k8s.io''"

definition InfraClusterIDLabel :: string where
  "InfraClusterIDLabel = ''cluster.x-k8s.io/infra-cluster-id''"

definition CCEControlPlaneReadyCondition :: string where
  "CCEControlPlaneReadyCondition = ''CCEControlPlaneReady''"

definition CCEControlPlaneCreatingCondition :: string where
  "CCEControlPlaneCreatingCondition = ''CCEControlPlaneCreating''"

definition CCEControlPlaneUpdatingCondition :: string where
  "CCEControlPlaneUpdatingCondition = ''CCEControlPlaneUpdating''"

definition CCEControlPlaneReconciliationFailedReason :: string where
  "CCEControlPlaneReconciliationFailedReason = ''CCEControlPlaneReconciliationFailed''"

definition VpcReadyCondition :: string where
  "VpcReadyCondition = ''VpcReady''"

definition VpcCreationStartedReason :: string where
  "VpcCreationStartedReason = ''VpcCreationStarted''"

definition VpcReconciliationFailedReason :: string where
  "VpcReconciliationFailedReason = ''VpcReconciliationFailed''"

definition SubnetsReadyCondition :: string where
  "SubnetsReadyCondition = ''SubnetsReady''"

definition SubnetsReconciliationFailedReason :: string where
  "SubnetsReconciliationFailedReason = ''SubnetsReconciliationFailed''"

definition EIPReadyCondition :: string where
  "EIPReadyCondition = ''EIPReady''"

definition EIPFailedReason :: string where
  "EIPFailedReason = ''EIPFailed''"

definition ManagedMachinePoolFinalizer :: string where
  "ManagedMachinePoolFinalizer = ''ccemanagedmachinepools.infrastructure.cluster.x-k8s.io''"

definition InfraMachinePoolIDLabel :: string where
  "InfraMachinePoolIDLabel = ''cluster.x-k8s.io/infra-machinepool-id''"

definition CCENodepoolReadyCondition :: string where
  "CCENodepoolReadyCondition = ''CCENodepoolReady''"

definition CCENodepoolReconciliationFailedReason :: string where
  "CCENodepoolReconciliationFailedReason = ''CCENodepoolReconciliationFailed''"

definition WaitingForCCEControlPlaneReason :: string where
  "WaitingForCCEControlPlaneReason = ''WaitingForCCEControlPlane''"

definition GroupVersion_Group :: string where
  "GroupVersion_Group = ''infrastructure.cluster.x-k8s.io''"

definition GroupVersion_Version :: string where
  "GroupVersion_Version = ''v1beta1''"

lemmas condition_types =
  CCEControlPlaneReadyCondition_def CCEControlPlaneCreatingCondition_def
  CCEControlPlaneUpdatingCondition_def VpcReadyCondition_def SubnetsReadyCondition_def
  EIPReadyCondition_def CCENodepoolReadyCondition_def

section \<open>CCEManagedControlPlane\<close>

record VPC = VPC_ID :: string

record Subnet = Subnet_ID :: string

record EIP = EIP_ID :: string

record NetworkSpec =
  ns_Mode :: "string option"
  ns_VPC :: VPC
  ns_Subnet :: Subnet

record NetworkStatus = nst_EIP :: EIP

record EndpointAccess = ea_Public :: "bool option"

record CCEManagedControlPlaneSpec =
  cps_IdentityRef :: "ObjectReference option"
  cps_Project :: "string option"
  cps_Region :: string
  cps_Version :: "string option"
  cps_Flavor :: "string option"
  cps_NetworkSpec :: NetworkSpec
  cps_EndpointAccess :: "EndpointAccess option"
  cps_ControlPlaneEndpoint :: APIEndpoint

record CCEManagedControlPlaneStatus =
  cpst_Network :: NetworkStatus
  cpst_ExternalManagedControlPlane :: "bool option"
  cpst_Initialized :: bool
  cpst_Ready :: bool
  cpst_FailureMessage :: "string option"
  cpst_Conditions :: "Condition list"

record CCEManagedControlPlane =
  cp_Meta :: ObjectMeta
  cp_Spec :: CCEManagedControlPlaneSpec
  cp_Status :: CCEManagedControlPlaneStatus

definition cp_GetConditions :: "CCEManagedControlPlane \<Rightarrow> Condition list" where
  "cp_GetConditions r = cpst_Conditions (cp_Status r)"

definition cp_SetConditions :: "Condition list \<Rightarrow> CCEManagedControlPlane \<Rightarrow> CCEManagedControlPlane" where
  "cp_SetConditions cs r = r\<lparr>cp_Status := (cp_Status r)\<lparr>cpst_Conditions := cs\<rparr>\<rparr>"

definition cp_InfraClusterID :: "CCEManagedControlPlane \<Rightarrow> string" where
  "cp_InfraClusterID r =
     (case lookup_label (om_Labels (cp_Meta r)) InfraClusterIDLabel of Some i \<Rightarrow> i | None \<Rightarrow> [])"

section \<open>CCEManagedMachinePool\<close>

record Taint =
  ta_Key :: string
  ta_Value :: "string option"
  ta_Effect :: string

record Volume =
  vo_Size :: int32
  vo_Volumetype :: string

record CCEManagedMachinePoolSpec =
  mps_Replicas :: "int32 option"
  mps_Flavor :: "string option"
  mps_Runtime :: "string option"
  mps_SSHKeyName :: "string option"
  mps_RootVolume :: "Volume option"
  mps_DataVolumes :: "Volume list"
  mps_Labels :: "(string \<rightharpoonup> string) option"
  mps_Taints :: "Taint list option"
  mps_Subnet :: "Subnet option"
  mps_ProviderIDList :: "string list"

record CCEManagedMachinePoolStatus =
  mpst_Ready :: bool
  mpst_Replicas :: int32
  mpst_FailureReason :: "string option"
  mpst_FailureMessage :: "string option"
  mpst_Conditions :: "Condition list"

record CCEManagedMachinePool =
  mp_Meta :: ObjectMeta
  mp_Spec :: CCEManagedMachinePoolSpec
  mp_Status :: CCEManagedMachinePoolStatus

definition mp_GetConditions :: "CCEManagedMachinePool \<Rightarrow> Condition list" where
  "mp_GetConditions r = mpst_Conditions (mp_Status r)"

definition mp_SetConditions :: "Condition list \<Rightarrow> CCEManagedMachinePool \<Rightarrow> CCEManagedMachinePool" where
  "mp_SetConditions cs r = r\<lparr>mp_Status := (mp_Status r)\<lparr>mpst_Conditions := cs\<rparr>\<rparr>"

definition mp_InfraMachinePoolID :: "CCEManagedMachinePool \<Rightarrow> string" where
  "mp_InfraMachinePoolID r =
     (case lookup_label (om_Labels (mp_Meta r)) InfraMachinePoolIDLabel of Some i \<Rightarrow> i | None \<Rightarrow> [])"

section \<open>CCEManagedCluster\<close>

record CCEManagedClusterSpec = mcs_ControlPlaneEndpoint :: APIEndpoint

record CCEManagedClusterStatus =
  mcst_Ready :: bool
  mcst_FailureDomains :: "(string \<rightharpoonup> FailureDomainSpec) option"

record CCEManagedCluster =
  mc_Meta :: ObjectMeta
  mc_Spec :: CCEManagedClusterSpec
  mc_Status :: CCEManagedClusterStatus

section \<open>The interface conditions.Setter\<close>

locale conditions_setter =
  fixes GetConditions :: "'o \<Rightarrow> Condition list"
    and SetConditions :: "Condition list \<Rightarrow> 'o \<Rightarrow> 'o"
  assumes get_set: "GetConditions (SetConditions cs o1) = cs"
    and set_get: "SetConditions (GetConditions o1) o1 = o1"
    and set_set: "SetConditions cs (SetConditions ds o1) = SetConditions cs o1"
begin

text \<open>Two objects that agree once their conditions are blanked differ in their conditions only.\<close>

lemma set_cong: "SetConditions [] o1 = SetConditions [] o2 \<Longrightarrow> SetConditions cs o1 = SetConditions cs o2"
  by (metis set_set)

lemma eq_iff_conditions:
  "o1 = o2 \<longleftrightarrow> GetConditions o1 = GetConditions o2 \<and> SetConditions [] o1 = SetConditions [] o2"
  by (metis set_get set_set)

end

interpretation cp_setter: conditions_setter cp_GetConditions cp_SetConditions
  by unfold_locales (simp_all add: cp_GetConditions_def cp_SetConditions_def)

interpretation mp_setter: conditions_setter mp_GetConditions mp_SetConditions
  by unfold_locales (simp_all add: mp_GetConditions_def mp_SetConditions_def)

lemma cp_SetConditions_frame [simp]:
  "cp_Meta (cp_SetConditions cs r) = cp_Meta r"
  "cp_Spec (cp_SetConditions cs r) = cp_Spec r"
  "cpst_Ready (cp_Status (cp_SetConditions cs r)) = cpst_Ready (cp_Status r)"
  "cpst_Initialized (cp_Status (cp_SetConditions cs r)) = cpst_Initialized (cp_Status r)"
  "cpst_Network (cp_Status (cp_SetConditions cs r)) = cpst_Network (cp_Status r)"
  "cpst_FailureMessage (cp_Status (cp_SetConditions cs r)) = cpst_FailureMessage (cp_Status r)"
  by (simp_all add: cp_SetConditions_def)

lemma mp_SetConditions_frame [simp]:
  "mp_Meta (mp_SetConditions cs r) = mp_Meta r"
  "mp_Spec (mp_SetConditions cs r) = mp_Spec r"
  "mpst_Ready (mp_Status (mp_SetConditions cs r)) = mpst_Ready (mp_Status r)"
  "mpst_Replicas (mp_Status (mp_SetConditions cs r)) = mpst_Replicas (mp_Status r)"
  "mpst_FailureMessage (mp_Status (mp_SetConditions cs r)) = mpst_FailureMessage (mp_Status r)"
  by (simp_all add: mp_SetConditions_def)

end
