(* ===== verification/Cloud_Sdk.thy ===== *)
theory Cloud_Sdk
  imports Api_Types
begin

text \<open>
  Requests, responses and client interfaces of the Huawei Cloud SDK (services \<open>cce/v3\<close>, \<open>vpc/v2\<close>,
  \<open>eip/v2\<close>), with the fields the source sets or reads. Structs that the source nests with a single
  \<open>&\<close> literal are flattened into the request record. The SDK's methods are not under \<open>src/\<close>: a
  client is a record of functions over an outside world \<open>'w\<close>, and every definition that talks to
  the cloud takes the client as an argument.
\<close>

section \<open>Enumerations\<close>

text \<open>The SDK's enum values are structs around a string; they are compared by that string.\<close>

record SdkEnums =
  en_VPC_ROUTER :: string
  en_OVERLAY_L2 :: string
  en_NP_SYNCHRONIZING :: string
  en_NP_SYNCHRONIZED :: string
  en_NP_SOLD_OUT :: string
  en_NP_DELETING :: string
  en_NP_ERROR :: string
  en_NODEPOOL_VM :: string
  en_NO_SCHEDULE :: string
  en_PREFER_NO_SCHEDULE :: string
  en_NO_EXECUTE :: string
  en_DOCKER :: string
  en_CONTAINERD :: string
  en_EIP_TRAFFIC :: string
  en_EIP_PER :: string
  en_EIP_BIND :: string
  en_phase_text :: "string \<Rightarrow> string"

text \<open>\<open>en_phase_text\<close> is how \<open>fmt\<close> prints a \<open>NodePoolStatusPhase\<close> struct with \<open>%s\<close>.\<close>

text \<open>The documented values the properties rely on: node pool phases differ and none is empty.\<close>

definition phases_documented :: "SdkEnums \<Rightarrow> bool" where
  "phases_documented en \<longleftrightarrow>
     en_NP_DELETING en = ''Deleting'' \<and>
     [] \<notin> set [en_NP_SYNCHRONIZING en, en_NP_SYNCHRONIZED en, en_NP_SOLD_OUT en,
               en_NP_DELETING en, en_NP_ERROR en] \<and>
     distinct [en_NP_SYNCHRONIZING en, en_NP_SYNCHRONIZED en, en_NP_SOLD_OUT en,
               en_NP_DELETING en, en_NP_ERROR en]"

section \<open>Clusters\<close>

record ClusterEndpoints =
  ep_Url :: "string option"
  ep_Type :: "string option"

record ClusterStatus =
  cs_Phase :: "string option"
  cs_Reason :: "string option"
  cs_Message :: "string option"
  cs_Endpoints :: "ClusterEndpoints list option"

record ShowClusterResponse =
  sc_Status :: "ClusterStatus option"

record ClusterMetadata =
  cm_Uid :: "string option"

record CreateClusterResponse =
  ccr_Metadata :: "ClusterMetadata option"
  ccr_Status :: "ClusterStatus option"

record CreateClusterRequest =
  ccq_Name :: string
  ccq_ApiVersion :: string
  ccq_Kind :: string
  ccq_Version :: "string option"
  ccq_Flavor :: string
  ccq_Vpc :: string
  ccq_Subnet :: string
  ccq_Mode :: string
  ccq_Cidrs :: "string list"
  ccq_KubernetesSvcIpRange :: string
  ccq_EnterpriseProjectId :: string
  ccq_AlphaCceFixPoolMask :: "string option"

record ClusterEndpointsStatus = ces_PublicEndpoint :: "string option"

record ShowClusterEndpointsResponse = sce_Status :: "ClusterEndpointsStatus option"

record UpdateClusterEipRequest =
  ue_ClusterId :: string
  ue_Action :: string
  ue_Id :: "string option"

record CertUser =
  cu_ClientCertificateData :: "string option"
  cu_ClientKeyData :: "string option"

record CertUsers = us_User :: "CertUser option"

record CreateCertRequest =
  ct_ClusterId :: string
  ct_Duration :: int32

record CreateCertResponse = ctr_Users :: "CertUsers list option"

section \<open>Node pools\<close>

record NodePoolStatus =
  nps_Phase :: "string option"
  nps_CurrentNode :: "int32 option"

record NodePoolMetadata =
  npm_Name :: string
  npm_Uid :: "string option"

record SdkVolume =
  sv_Size :: int32
  sv_Volumetype :: string

record NodePoolSpec =
  nsp_Type :: string
  nsp_Flavor :: string
  nsp_Az :: string
  nsp_Os :: string
  nsp_SshKey :: "string option"
  nsp_RootVolume :: SdkVolume
  nsp_DataVolumes :: "SdkVolume list"
  nsp_SubnetId :: string
  nsp_RuntimeName :: string
  nsp_InitialNodeCount :: "int32 option"
  nsp_AutoscalingEnable :: bool

record NodePool =
  np_Kind :: string
  np_ApiVersion :: string
  np_Metadata :: "NodePoolMetadata option"
  np_Spec :: "NodePoolSpec option"
  np_Status :: "NodePoolStatus option"

text \<open>\<open>ShowNodePoolResponse\<close> and \<open>CreateNodePoolResponse\<close> have the same fields.\<close>

record NodePoolResponse =
  npr_Kind :: "string option"
  npr_ApiVersion :: "string option"
  npr_Metadata :: "NodePoolMetadata option"
  npr_Spec :: "NodePoolSpec option"
  npr_Status :: "NodePoolStatus option"

record CreateNodePoolRequest =
  cnq_ClusterId :: string
  cnq_Body :: NodePool

text \<open>The annotations of a node, a Go map, as an association list.\<close>

record NodeMetadata =
  nm_Uid :: "string option"
  nm_Annotations :: "(string \<times> string) list"

record Node =
  no_Metadata :: "NodeMetadata option"
  no_Az :: "string option"

record ListNodesResponse = ln_Items :: "Node list option"

section \<open>Networks\<close>

record CreateVpcRequest =
  cv_Name :: string
  cv_Cidr :: string
  cv_EnterpriseProjectId :: string
  cv_Tags :: "string list"

record CreateVpcResponse = cvr_Vpc :: "string option"

record CreateSubnetRequest =
  cn_Name :: string
  cn_Cidr :: string
  cn_VpcId :: string
  cn_GatewayIp :: string
  cn_Tags :: "string list"

record CreateSubnetResponse = cnr_Subnet :: "string option"

record ListSubnetsResponse = lsr_Subnets :: "string list option"

record CreatePublicipRequest =
  pq_Type :: string
  pq_ChargeMode :: string
  pq_BandwidthName :: string
  pq_ShareType :: string
  pq_Size :: int32
  pq_EnterpriseProjectId :: string

record Publicip = pi_Id :: "string option"

record CreatePublicipResponse = pr_Publicip :: "Publicip option"

section \<open>Clients\<close>

record 'w CceClient =
  ShowCluster :: "string \<Rightarrow> ('w, ShowClusterResponse) go"
  CreateCluster :: "CreateClusterRequest \<Rightarrow> ('w, CreateClusterResponse) go"
  DeleteCluster :: "string \<Rightarrow> ('w, unit) go"
  ShowClusterEndpoints :: "string \<Rightarrow> ('w, ShowClusterEndpointsResponse) go"
  UpdateClusterEip :: "UpdateClusterEipRequest \<Rightarrow> ('w, unit) go"
  CreateKubernetesClusterCert :: "CreateCertRequest \<Rightarrow> ('w, CreateCertResponse) go"
  ShowNodePool :: "string \<Rightarrow> string \<Rightarrow> ('w, NodePoolResponse) go"
  CreateNodePool :: "CreateNodePoolRequest \<Rightarrow> ('w, NodePoolResponse) go"
  DeleteNodePool :: "string \<Rightarrow> string \<Rightarrow> ('w, unit) go"
  ListNodes :: "string \<Rightarrow> ('w, ListNodesResponse) go"

record 'w VpcClient =
  CreateVpc :: "CreateVpcRequest \<Rightarrow> ('w, CreateVpcResponse) go"
  CreateSubnet :: "CreateSubnetRequest \<Rightarrow> ('w, CreateSubnetResponse) go"
  ListSubnets :: "string \<Rightarrow> ('w, ListSubnetsResponse) go"

record 'w EipClient =
  CreatePublicip :: "CreatePublicipRequest \<Rightarrow> ('w, CreatePublicipResponse) go"

record Credentials =
  cr_Ak :: string
  cr_Sk :: string

end
