(* ===== verification/Environment.thy ===== *)
theory Environment
  imports Cloud_Sdk
begin

text \<open>
  Everything outside \<open>src/\<close>, as parameters. \<open>lib\<close> holds the pure library functions (Cluster API's
  \<open>conditions\<close>, controller-runtime's finalizer helpers, \<open>clientcmd\<close>, enum tables); \<open>kube\<close> the
  Kubernetes API operations, the event recorder, the clock and the random source; \<open>env\<close> adds the
  SDK's client builders. The state \<open>st\<close> of a reconcile holds the object being reconciled (the one
  the scope points to), the outside world, and the trace of calls made so far. The trace is an
  observation only: no modelled operation reads it.
\<close>

section \<open>Library functions\<close>

record lib =
  lib_MarkTrue :: "string \<Rightarrow> Condition list \<Rightarrow> Condition list"
  lib_MarkFalse :: "string \<Rightarrow> string \<Rightarrow> ConditionSeverity \<Rightarrow> string \<Rightarrow> Condition list \<Rightarrow> Condition list"
  lib_Has :: "string \<Rightarrow> Condition list \<Rightarrow> bool"
  lib_IsTrue :: "string \<Rightarrow> Condition list \<Rightarrow> bool"
  lib_SetSummary :: "string list \<Rightarrow> Condition list \<Rightarrow> Condition list"
  lib_AddFinalizer :: "string \<Rightarrow> string list \<Rightarrow> string list \<times> bool"
  lib_RemoveFinalizer :: "string \<Rightarrow> string list \<Rightarrow> string list"
  lib_IsPaused :: "Cluster \<Rightarrow> ObjectMeta \<Rightarrow> bool"
  lib_IsNotFound :: "go_error \<Rightarrow> bool"
  lib_NewHelperControlPlane :: "CCEManagedControlPlane \<Rightarrow> go_error option"
  lib_NewHelperMachinePool :: "CCEManagedMachinePool \<Rightarrow> go_error option"
  lib_NewHelperCAPIPool :: "MachinePool \<Rightarrow> go_error option"
  lib_NewHelperManagedCluster :: "CCEManagedCluster \<Rightarrow> go_error option"
  lib_APIEndpoint_String :: "APIEndpoint \<Rightarrow> string"
  lib_APIEndpoint_IsZero :: "APIEndpoint \<Rightarrow> bool"
  lib_NetworkRanges_String :: "NetworkRanges \<Rightarrow> string"
  lib_NewControllerRef :: "ObjectMeta \<Rightarrow> string \<Rightarrow> string \<Rightarrow> string \<Rightarrow> OwnerReference"
  lib_clientcmd_api_Version :: string
  lib_GenerateSecretWithOwner :: "NamespacedName \<Rightarrow> string \<Rightarrow> OwnerReference \<Rightarrow> Secret"
  lib_clientcmd_Write :: "Config \<Rightarrow> go_error + string"
  lib_clientcmd_Load :: "string \<Rightarrow> go_error + Config"
  lib_ParseGroupVersion :: "string \<Rightarrow> go_error + string"
  lib_GroupKind :: "ObjectReference \<Rightarrow> string \<times> string"
  lib_enums :: SdkEnums

text \<open>
  The documented contract of the library functions, each part named by what it is about. The
  properties that rely on one take it as a hypothesis.
\<close>

definition conditions_documented :: "lib \<Rightarrow> bool" where
  "conditions_documented L \<longleftrightarrow>
     (\<forall>t cs. lib_IsTrue L t (lib_MarkTrue L t cs) \<and> lib_Has L t (lib_MarkTrue L t cs)) \<and>
     (\<forall>t r v m cs. \<not> lib_IsTrue L t (lib_MarkFalse L t r v m cs) \<and> lib_Has L t (lib_MarkFalse L t r v m cs)) \<and>
     (\<forall>t u cs. t \<noteq> u \<longrightarrow> lib_IsTrue L u (lib_MarkTrue L t cs) = lib_IsTrue L u cs
                       \<and> lib_Has L u (lib_MarkTrue L t cs) = lib_Has L u cs) \<and>
     (\<forall>t u r v m cs. t \<noteq> u \<longrightarrow> lib_IsTrue L u (lib_MarkFalse L t r v m cs) = lib_IsTrue L u cs
                             \<and> lib_Has L u (lib_MarkFalse L t r v m cs) = lib_Has L u cs)"

definition finalizers_documented :: "lib \<Rightarrow> bool" where
  "finalizers_documented L \<longleftrightarrow>
     (\<forall>f fs. lib_AddFinalizer L f fs = (if f \<in> set fs then (fs, False) else (fs @ [f], True))) \<and>
     (\<forall>f fs. lib_RemoveFinalizer L f fs = filter (\<lambda>g. g \<noteq> f) fs)"

lemma conditions_documentedD:
  assumes "conditions_documented L"
  shows "lib_IsTrue L t (lib_MarkTrue L t cs)"
    and "lib_Has L t (lib_MarkTrue L t cs)"
    and "\<not> lib_IsTrue L t (lib_MarkFalse L t r v m cs)"
    and "lib_Has L t (lib_MarkFalse L t r v m cs)"
    and "t \<noteq> u \<Longrightarrow> lib_IsTrue L u (lib_MarkTrue L t cs) = lib_IsTrue L u cs"
    and "t \<noteq> u \<Longrightarrow> lib_Has L u (lib_MarkTrue L t cs) = lib_Has L u cs"
    and "t \<noteq> u \<Longrightarrow> lib_IsTrue L u (lib_MarkFalse L t r v m cs) = lib_IsTrue L u cs"
    and "t \<noteq> u \<Longrightarrow> lib_Has L u (lib_MarkFalse L t r v m cs) = lib_Has L u cs"
  using assms by (simp_all add: conditions_documented_def)

lemma finalizers_documentedD:
  assumes "finalizers_documented L"
  shows "lib_AddFinalizer L f fs = (if f \<in> set fs then (fs, False) else (fs @ [f], True))"
    and "lib_RemoveFinalizer L f fs = filter (\<lambda>g. g \<noteq> f) fs"
  using assms by (simp_all add: finalizers_documented_def)

section \<open>Kubernetes operations\<close>

record 'w kube =
  k_GetControlPlane :: "NamespacedName \<Rightarrow> ('w, CCEManagedControlPlane) go"
  k_GetManagedCluster :: "NamespacedName \<Rightarrow> ('w, CCEManagedCluster) go"
  k_GetManagedMachinePool :: "NamespacedName \<Rightarrow> ('w, CCEManagedMachinePool) go"
  k_GetMachinePool :: "NamespacedName \<Rightarrow> ('w, MachinePool) go"
  k_GetSecret :: "NamespacedName \<Rightarrow> ('w, Secret) go"
  k_GetKubeconfigSecret :: "NamespacedName \<Rightarrow> ('w, Secret) go"
  k_GetOwnerCluster :: "ObjectMeta \<Rightarrow> ('w, Cluster option) go"
  k_GetClusterFromMetadata :: "ObjectMeta \<Rightarrow> ('w, Cluster) go"
  k_ListManagedMachinePools :: "string \<Rightarrow> string \<Rightarrow> ('w, CCEManagedMachinePool list) go"
  k_ListMachinePools :: "string \<Rightarrow> string \<Rightarrow> ('w, MachinePool list) go"
  k_CreateSecret :: "Secret \<Rightarrow> ('w, unit) go"
  k_UpdateSecret :: "Secret \<Rightarrow> ('w, unit) go"
  k_PatchControlPlane :: "CCEManagedControlPlane \<Rightarrow> string list \<Rightarrow> CCEManagedControlPlane \<Rightarrow> ('w, unit) go"
  k_PatchMachinePool :: "CCEManagedMachinePool \<Rightarrow> string list \<Rightarrow> CCEManagedMachinePool \<Rightarrow> ('w, unit) go"
  k_PatchManagedCluster :: "CCEManagedCluster \<Rightarrow> CCEManagedCluster \<Rightarrow> ('w, unit) go"
  k_Eventf :: "string \<Rightarrow> string \<Rightarrow> 'w \<Rightarrow> 'w"
  k_Sleep :: "int \<Rightarrow> 'w \<Rightarrow> 'w"
  k_RandString :: "nat \<Rightarrow> 'w \<Rightarrow> string \<times> 'w"

record 'w env =
  env_lib :: lib
  env_kube :: "'w kube"
  env_NewCceClient :: "Credentials \<Rightarrow> string \<Rightarrow> 'w CceClient outcome"
  env_NewEipClient :: "Credentials \<Rightarrow> string \<Rightarrow> 'w EipClient outcome"
  env_NewVpcClient :: "Credentials \<Rightarrow> string \<Rightarrow> 'w VpcClient outcome"

section \<open>The state of a reconcile and its trace of calls\<close>

datatype call =
    CallShowCluster string
  | CallCreateCluster CreateClusterRequest
  | CallDeleteCluster string
  | CallShowClusterEndpoints string
  | CallUpdateClusterEip UpdateClusterEipRequest
  | CallCreateCert CreateCertRequest
  | CallShowNodePool string string
  | CallCreateNodePool CreateNodePoolRequest
  | CallDeleteNodePool string string
  | CallListNodes string
  | CallCreateVpc CreateVpcRequest
  | CallCreateSubnet CreateSubnetRequest
  | CallListSubnets string
  | CallCreatePublicip CreatePublicipRequest
  | CallPatchControlPlane CCEManagedControlPlane
  | CallPatchMachinePool CCEManagedMachinePool
  | CallPatchManagedCluster CCEManagedCluster
  | CallCreateSecret Secret
  | CallUpdateSecret Secret
  | CallRead string
  | CallEvent string string
  | CallSleep int
  | CallRand nat

text \<open>\<open>CallRead what\<close> is a read of the Kubernetes API.\<close>

record ('o, 'w) st =
  obj :: 'o
  world :: 'w
  calls :: "call list"

definition ext :: "call \<Rightarrow> ('w, 'a) go \<Rightarrow> (('o, 'w) st, 'a) go" where
  "ext c f = (\<lambda>s. case f (world s) of (r, w) \<Rightarrow> (r, s\<lparr>world := w, calls := calls s @ [c]\<rparr>))"

definition ext_upd :: "call \<Rightarrow> ('w \<Rightarrow> 'w) \<Rightarrow> (('o, 'w) st, unit) go" where
  "ext_upd c f = ext c (\<lambda>w. (Ret (), f w))"

lemma ext_apply [go_simps]:
  "ext c f s = (case f (world s) of (r, w) \<Rightarrow> (r, s\<lparr>world := w, calls := calls s @ [c]\<rparr>))"
  by (simp add: ext_def)

lemma ext_upd_apply [go_simps]:
  "ext_upd c f s = (Ret (), s\<lparr>world := f (world s), calls := calls s @ [c]\<rparr>)"
  by (simp add: ext_upd_def go_simps)

lemma ext_Ret [simp]:
  "ext c f s = (Ret x, t) \<longleftrightarrow>
   (\<exists>w. f (world s) = (Ret x, w) \<and> t = s\<lparr>world := w, calls := calls s @ [c]\<rparr>)"
  by (auto simp: ext_def split: prod.splits)

definition get_obj :: "(('o, 'w) st, 'o) go" where
  "get_obj = gets obj"

definition upd_obj :: "('o \<Rightarrow> 'o) \<Rightarrow> (('o, 'w) st, unit) go" where
  "upd_obj f = modify (obj_update f)"

lemma get_obj_apply [go_simps]: "get_obj s = (Ret (obj s), s)"
  by (simp add: get_obj_def go_simps)

lemma upd_obj_apply [go_simps]: "upd_obj f s = (Ret (), s\<lparr>obj := f (obj s)\<rparr>)"
  by (simp add: upd_obj_def go_simps)

lemma ends_get_obj_then: "(\<And>x. ends (\<lambda>s. P s \<and> obj s = x) (k x) Q) \<Longrightarrow> ends P (andThen get_obj k) Q"
  unfolding get_obj_def by (rule ends_gets_then)

lemma ends_get_obj_any: "(\<And>y. ends P (g y) Q) \<Longrightarrow> ends P (andThen get_obj g) Q"
  unfolding get_obj_def by (rule ends_gets_any)

definition Eventf :: "'w env \<Rightarrow> string \<Rightarrow> string \<Rightarrow> (('o, 'w) st, unit) go" where
  "Eventf E reason msg = ext_upd (CallEvent reason msg) (k_Eventf (env_kube E) reason msg)"

definition sleep :: "'w env \<Rightarrow> int \<Rightarrow> (('o, 'w) st, unit) go" where
  "sleep E d = ext_upd (CallSleep d) (k_Sleep (env_kube E) d)"

lemma Eventf_apply [go_simps]:
  "Eventf E a b s = (Ret (), s\<lparr>world := k_Eventf (env_kube E) a b (world s), calls := calls s @ [CallEvent a b]\<rparr>)"
  by (simp add: Eventf_def go_simps)

lemma sleep_apply [go_simps]:
  "sleep E d s = (Ret (), s\<lparr>world := k_Sleep (env_kube E) d (world s), calls := calls s @ [CallSleep d]\<rparr>)"
  by (simp add: sleep_def go_simps)

section \<open>Frames over that state\<close>

text \<open>\<open>issues A\<close>: the trace grows, by calls that satisfy \<open>A\<close> only.\<close>

definition issues :: "(call \<Rightarrow> bool) \<Rightarrow> ('o, 'w) st \<Rightarrow> ('o, 'w) st \<Rightarrow> bool" where
  "issues A s t \<longleftrightarrow> (\<exists>cs. calls t = calls s @ cs \<and> list_all A cs)"

text \<open>\<open>keeps f\<close>: the part \<open>f\<close> of the reconciled object is unchanged.\<close>

definition keeps :: "('o \<Rightarrow> 'p) \<Rightarrow> ('o, 'w) st \<Rightarrow> ('o, 'w) st \<Rightarrow> bool" where
  "keeps f s t \<longleftrightarrow> f (obj t) = f (obj s)"

interpretation issues: frame "issues A" for A
proof
  show "issues A s s" for s
    by (simp add: issues_def)
  show "issues A s t \<Longrightarrow> issues A t u \<Longrightarrow> issues A s u" for s t u
    by (auto simp: issues_def)
qed

interpretation keeps: frame "keeps f" for f
  by unfold_locales (simp_all add: keeps_def)

lemma issues_ext: "A c \<Longrightarrow> steps_in (issues A) (ext c f)"
  by (rule steps_inI) (auto simp: go_simps issues_def split: prod.splits)

lemma issues_ext_upd: "A c \<Longrightarrow> steps_in (issues A) (ext_upd c f)"
  by (simp add: ext_upd_def issues_ext)

lemma issues_get_obj: "steps_in (issues A) get_obj"
  by (simp add: get_obj_def issues.in_gets)

lemma issues_upd_obj: "steps_in (issues A) (upd_obj g)"
  by (simp add: upd_obj_def issues.in_modify issues_def)

lemma issues_mono: "steps_in (issues A) m \<Longrightarrow> (\<And>c. A c \<Longrightarrow> B c) \<Longrightarrow> steps_in (issues B) m"
  by (rule steps_inI) (force simp: issues_def list_all_iff dest: steps_inD)

lemma issues_Eventf: "(\<And>a b. A (CallEvent a b)) \<Longrightarrow> steps_in (issues A) (Eventf E r m)"
  by (simp add: Eventf_def issues_ext_upd)

lemmas issues_rules =
  issues.in_rules issues_ext issues_ext_upd issues_get_obj issues_upd_obj

lemma keeps_ext: "steps_in (keeps f) (ext c g)"
  by (rule steps_inI) (auto simp: go_simps keeps_def split: prod.splits)

lemma keeps_ext_upd: "steps_in (keeps f) (ext_upd c g)"
  by (simp add: ext_upd_def keeps_ext)

lemma keeps_Eventf: "steps_in (keeps f) (Eventf E r m)"
  by (simp add: Eventf_def keeps_ext_upd)

lemma keeps_get_obj: "steps_in (keeps f) get_obj"
  by (simp add: get_obj_def keeps.in_gets)

lemma keeps_upd_obj: "(\<And>x. f (g x) = f x) \<Longrightarrow> steps_in (keeps f) (upd_obj g)"
  by (simp add: upd_obj_def keeps.in_modify keeps_def)

lemmas keeps_rules =
  keeps.in_rules keeps_ext keeps_ext_upd keeps_Eventf keeps_get_obj keeps_upd_obj

end
