(* ===== verification/Scope.thy ===== *)
theory Scope
  imports Environment
begin

text \<open>
  \<open>pkg/cloud/scope\<close>: the two scopes a reconcile works in, with their constructors, the patching
  of the reconciled object, the infrastructure ID kept in a label, and
  \<open>pkg/util/conditions\<close>. A patch helper is what it was built from, the object as it was when the
  scope was created. The scope's pointer to the reconciled object is the state's \<open>obj\<close>; the
  client and the logger are not modelled as fields, since every call takes the environment.
\<close>

section \<open>Conditions of the two kinds\<close>

definition cp_MarkTrue :: "lib \<Rightarrow> string \<Rightarrow> CCEManagedControlPlane \<Rightarrow> CCEManagedControlPlane" where
  "cp_MarkTrue L t cp = cp_SetConditions (lib_MarkTrue L t (cp_GetConditions cp)) cp"

definition cp_MarkFalse ::
  "lib \<Rightarrow> string \<Rightarrow> string \<Rightarrow> ConditionSeverity \<Rightarrow> string \<Rightarrow> CCEManagedControlPlane \<Rightarrow> CCEManagedControlPlane" where
  "cp_MarkFalse L t reason sev msg cp =
     cp_SetConditions (lib_MarkFalse L t reason sev msg (cp_GetConditions cp)) cp"

definition cp_IsTrue :: "lib \<Rightarrow> string \<Rightarrow> CCEManagedControlPlane \<Rightarrow> bool" where
  "cp_IsTrue L t cp = lib_IsTrue L t (cp_GetConditions cp)"

definition cp_Has :: "lib \<Rightarrow> string \<Rightarrow> CCEManagedControlPlane \<Rightarrow> bool" where
  "cp_Has L t cp = lib_Has L t (cp_GetConditions cp)"

definition mp_MarkTrue :: "lib \<Rightarrow> string \<Rightarrow> CCEManagedMachinePool \<Rightarrow> CCEManagedMachinePool" where
  "mp_MarkTrue L t mp = mp_SetConditions (lib_MarkTrue L t (mp_GetConditions mp)) mp"

definition mp_MarkFalse ::
  "lib \<Rightarrow> string \<Rightarrow> string \<Rightarrow> ConditionSeverity \<Rightarrow> string \<Rightarrow> CCEManagedMachinePool \<Rightarrow> CCEManagedMachinePool" where
  "mp_MarkFalse L t reason sev msg mp =
     mp_SetConditions (lib_MarkFalse L t reason sev msg (mp_GetConditions mp)) mp"

definition mp_SetSummary :: "lib \<Rightarrow> string list \<Rightarrow> CCEManagedMachinePool \<Rightarrow> CCEManagedMachinePool" where
  "mp_SetSummary L ts mp = mp_SetConditions (lib_SetSummary L ts (mp_GetConditions mp)) mp"

context conditions_setter begin

lemma update_twice:
  "SetConditions (f (GetConditions (SetConditions (g (GetConditions o1)) o1)))
                 (SetConditions (g (GetConditions o1)) o1)
   = SetConditions (f (g (GetConditions o1))) o1"
  by (simp add: get_set set_set)

lemma isTrue_after_MarkTrue:
  assumes "conditions_documented L"
  shows "lib_IsTrue L u (GetConditions (SetConditions (lib_MarkTrue L t (GetConditions o1)) o1))
         \<longleftrightarrow> u = t \<or> lib_IsTrue L u (GetConditions o1)"
  using conditions_documentedD[OF assms] by (cases "u = t") (auto simp: get_set)

lemma isTrue_after_MarkFalse:
  assumes "conditions_documented L"
  shows "lib_IsTrue L u (GetConditions (SetConditions (lib_MarkFalse L t r v m (GetConditions o1)) o1))
         \<longleftrightarrow> u \<noteq> t \<and> lib_IsTrue L u (GetConditions o1)"
  using conditions_documentedD[OF assms] by (cases "u = t") (auto simp: get_set)

lemma has_after_MarkTrue:
  assumes "conditions_documented L"
  shows "lib_Has L u (GetConditions (SetConditions (lib_MarkTrue L t (GetConditions o1)) o1))
         \<longleftrightarrow> u = t \<or> lib_Has L u (GetConditions o1)"
  using conditions_documentedD[OF assms] by (cases "u = t") (auto simp: get_set)

end

lemma cp_IsTrue_MarkTrue:
  "conditions_documented L \<Longrightarrow> cp_IsTrue L u (cp_MarkTrue L t cp) \<longleftrightarrow> u = t \<or> cp_IsTrue L u cp"
  unfolding cp_IsTrue_def cp_MarkTrue_def by (rule cp_setter.isTrue_after_MarkTrue)

lemma cp_IsTrue_MarkFalse:
  "conditions_documented L \<Longrightarrow>
   cp_IsTrue L u (cp_MarkFalse L t r v m cp) \<longleftrightarrow> u \<noteq> t \<and> cp_IsTrue L u cp"
  unfolding cp_IsTrue_def cp_MarkFalse_def by (rule cp_setter.isTrue_after_MarkFalse)

lemma cp_Has_MarkTrue:
  "conditions_documented L \<Longrightarrow> cp_Has L u (cp_MarkTrue L t cp) \<longleftrightarrow> u = t \<or> cp_Has L u cp"
  unfolding cp_Has_def cp_MarkTrue_def by (rule cp_setter.has_after_MarkTrue)

lemma cp_Mark_frame [simp]:
  "cp_Meta (cp_MarkTrue L t cp) = cp_Meta cp"
  "cp_Spec (cp_MarkTrue L t cp) = cp_Spec cp"
  "cp_Meta (cp_MarkFalse L t r v m cp) = cp_Meta cp"
  "cp_Spec (cp_MarkFalse L t r v m cp) = cp_Spec cp"
  "cpst_Ready (cp_Status (cp_MarkTrue L t cp)) = cpst_Ready (cp_Status cp)"
  "cpst_Ready (cp_Status (cp_MarkFalse L t r v m cp)) = cpst_Ready (cp_Status cp)"
  "cpst_Initialized (cp_Status (cp_MarkTrue L t cp)) = cpst_Initialized (cp_Status cp)"
  "cpst_Initialized (cp_Status (cp_MarkFalse L t r v m cp)) = cpst_Initialized (cp_Status cp)"
  "cpst_FailureMessage (cp_Status (cp_MarkTrue L t cp)) = cpst_FailureMessage (cp_Status cp)"
  "cpst_FailureMessage (cp_Status (cp_MarkFalse L t r v m cp)) = cpst_FailureMessage (cp_Status cp)"
  "cpst_Network (cp_Status (cp_MarkTrue L t cp)) = cpst_Network (cp_Status cp)"
  "cpst_Network (cp_Status (cp_MarkFalse L t r v m cp)) = cpst_Network (cp_Status cp)"
  by (simp_all add: cp_MarkTrue_def cp_MarkFalse_def)

lemma mp_Mark_frame [simp]:
  "mp_Meta (mp_MarkTrue L t mp) = mp_Meta mp"
  "mp_Spec (mp_MarkTrue L t mp) = mp_Spec mp"
  "mp_Meta (mp_MarkFalse L t r v m mp) = mp_Meta mp"
  "mp_Spec (mp_MarkFalse L t r v m mp) = mp_Spec mp"
  "mp_Meta (mp_SetSummary L ts mp) = mp_Meta mp"
  "mp_Spec (mp_SetSummary L ts mp) = mp_Spec mp"
  "mpst_Ready (mp_Status (mp_MarkTrue L t mp)) = mpst_Ready (mp_Status mp)"
  "mpst_Ready (mp_Status (mp_MarkFalse L t r v m mp)) = mpst_Ready (mp_Status mp)"
  "mpst_Ready (mp_Status (mp_SetSummary L ts mp)) = mpst_Ready (mp_Status mp)"
  by (simp_all add: mp_MarkTrue_def mp_MarkFalse_def mp_SetSummary_def)

text \<open>\<open>pkg/util/conditions\<close>.\<close>

definition ErrorConditionAfterInit :: "lib \<Rightarrow> CCEManagedControlPlane \<Rightarrow> ConditionSeverity" where
  "ErrorConditionAfterInit L getter =
     (if cp_IsTrue L ControlPlaneInitializedCondition getter then SeverityError else SeverityWarning)"

section \<open>ManagedControlPlaneScope\<close>

record ManagedControlPlaneScopeParams =
  cpp_Cluster :: "Cluster option"
  cpp_ControlPlane :: "CCEManagedControlPlane option"
  cpp_ControllerName :: string

record ManagedControlPlaneScope =
  scp_patchHelper :: CCEManagedControlPlane
  scp_Cluster :: Cluster
  scp_controllerName :: string

definition NewManagedControlPlaneScope ::
  "lib \<Rightarrow> ManagedControlPlaneScopeParams \<Rightarrow> go_error + ManagedControlPlaneScope" where
  "NewManagedControlPlaneScope L p =
     (case cpp_Cluster p of
        None \<Rightarrow> Inl (ErrorString ''failed to generate new scope from nil Cluster'')
      | Some cluster \<Rightarrow>
          (case cpp_ControlPlane p of
             None \<Rightarrow> Inl (ErrorString ''failed to generate new scope from nil CCEManagedControlPlane'')
           | Some cp \<Rightarrow>
               (case lib_NewHelperControlPlane L cp of
                  Some e \<Rightarrow> Inl (Wrapped ''failed to init patch helper'' e)
                | None \<Rightarrow> Inr \<lparr>scp_patchHelper = cp, scp_Cluster = cluster,
                                scp_controllerName = cpp_ControllerName p\<rparr>)))"

definition scp_ownedConditions :: "string list" where
  "scp_ownedConditions =
     [VpcReadyCondition, SubnetsReadyCondition, EIPReadyCondition, CCEControlPlaneCreatingCondition,
      CCEControlPlaneReadyCondition, CCEControlPlaneUpdatingCondition]"

definition scp_PatchObject ::
  "'w env \<Rightarrow> ManagedControlPlaneScope \<Rightarrow> ((CCEManagedControlPlane, 'w) st, unit) go" where
  "scp_PatchObject E sc =
     andThen get_obj (\<lambda>cp.
       ext (CallPatchControlPlane cp)
         (k_PatchControlPlane (env_kube E) (scp_patchHelper sc) scp_ownedConditions cp))"

definition scp_Close ::
  "'w env \<Rightarrow> ManagedControlPlaneScope \<Rightarrow> ((CCEManagedControlPlane, 'w) st, unit) go" where
  "scp_Close E sc = scp_PatchObject E sc"

definition scp_InfraClusterID :: "CCEManagedControlPlane \<Rightarrow> string" where
  "scp_InfraClusterID cp =
     (case lookup_label (om_Labels (cp_Meta cp)) InfraClusterIDLabel of Some i \<Rightarrow> i | None \<Rightarrow> [])"

definition scp_SetInfraClusterID :: "string \<Rightarrow> CCEManagedControlPlane \<Rightarrow> CCEManagedControlPlane" where
  "scp_SetInfraClusterID clusterID cp =
     (let lbs = (case om_Labels (cp_Meta cp) of None \<Rightarrow> Map.empty | Some m \<Rightarrow> m)
      in cp\<lparr>cp_Meta := (cp_Meta cp)\<lparr>om_Labels := Some (lbs(InfraClusterIDLabel \<mapsto> clusterID))\<rparr>\<rparr>)"

definition scp_Name :: "ManagedControlPlaneScope \<Rightarrow> string" where
  "scp_Name sc = om_Name (cl_Meta (scp_Cluster sc))"

definition scp_Namespace :: "ManagedControlPlaneScope \<Rightarrow> string" where
  "scp_Namespace sc = om_Namespace (cl_Meta (scp_Cluster sc))"

definition scp_InfraClusterName :: "CCEManagedControlPlane \<Rightarrow> string" where
  "scp_InfraClusterName cp = om_Name (cp_Meta cp)"

definition scp_Region :: "CCEManagedControlPlane \<Rightarrow> string" where
  "scp_Region cp = cps_Region (cp_Spec cp)"

definition scp_Project :: "CCEManagedControlPlane \<Rightarrow> string" where
  "scp_Project cp = (case cps_Project (cp_Spec cp) of None \<Rightarrow> ''0'' | Some p \<Rightarrow> p)"

section \<open>ManagedMachinePoolScope\<close>

record ManagedMachinePoolScopeParams =
  mpp_Cluster :: "Cluster option"
  mpp_ControlPlane :: "CCEManagedControlPlane option"
  mpp_ManagedMachinePool :: "CCEManagedMachinePool option"
  mpp_MachinePool :: "MachinePool option"
  mpp_ControllerName :: string

record ManagedMachinePoolScope =
  smp_patchHelper :: CCEManagedMachinePool
  smp_capiMachinePoolPatchHelper :: MachinePool
  smp_Cluster :: "Cluster option"
  smp_ControlPlane :: CCEManagedControlPlane
  smp_MachinePool :: MachinePool
  smp_controllerName :: string

definition NewManagedMachinePoolScope ::
  "lib \<Rightarrow> ManagedMachinePoolScopeParams \<Rightarrow> go_error + ManagedMachinePoolScope" where
  "NewManagedMachinePoolScope L p =
     (case (mpp_ControlPlane p, mpp_MachinePool p, mpp_ManagedMachinePool p) of
        (None, _, _) \<Rightarrow> Inl (ErrorString ''failed to generate new scope from nil CCEManagedMachinePool'')
      | (Some _, None, _) \<Rightarrow> Inl (ErrorString ''failed to generate new scope from nil MachinePool'')
      | (Some _, Some _, None) \<Rightarrow>
          Inl (ErrorString ''failed to generate new scope from nil ManagedMachinePool'')
      | (Some cp, Some pool, Some mp) \<Rightarrow>
          (case lib_NewHelperMachinePool L mp of
             Some e \<Rightarrow> Inl (Wrapped ''failed to init CCEManagedMachinePool patch helper'' e)
           | None \<Rightarrow>
               (case lib_NewHelperCAPIPool L pool of
                  Some e \<Rightarrow> Inl (Wrapped ''failed to init MachinePool patch helper'' e)
                | None \<Rightarrow>
                    Inr \<lparr>smp_patchHelper = mp, smp_capiMachinePoolPatchHelper = pool,
                         smp_Cluster = mpp_Cluster p, smp_ControlPlane = cp, smp_MachinePool = pool,
                         smp_controllerName = mpp_ControllerName p\<rparr>)))"

definition smp_PatchObject ::
  "'w env \<Rightarrow> ManagedMachinePoolScope \<Rightarrow> ((CCEManagedMachinePool, 'w) st, unit) go" where
  "smp_PatchObject E sc =
     andThen get_obj (\<lambda>mp.
       ext (CallPatchMachinePool mp)
         (k_PatchMachinePool (env_kube E) (smp_patchHelper sc) [CCENodepoolReadyCondition] mp))"

definition smp_Close ::
  "'w env \<Rightarrow> ManagedMachinePoolScope \<Rightarrow> ((CCEManagedMachinePool, 'w) st, unit) go" where
  "smp_Close E sc = smp_PatchObject E sc"

definition smp_Name :: "CCEManagedMachinePool \<Rightarrow> string" where
  "smp_Name mp = om_Name (mp_Meta mp)"

definition smp_Namespace :: "CCEManagedMachinePool \<Rightarrow> string" where
  "smp_Namespace mp = om_Namespace (mp_Meta mp)"

definition smp_InfraMachinePoolID :: "CCEManagedMachinePool \<Rightarrow> string" where
  "smp_InfraMachinePoolID mp =
     (case lookup_label (om_Labels (mp_Meta mp)) InfraMachinePoolIDLabel of Some i \<Rightarrow> i | None \<Rightarrow> [])"

definition smp_SetInfraMachinePoolID :: "string \<Rightarrow> CCEManagedMachinePool \<Rightarrow> CCEManagedMachinePool" where
  "smp_SetInfraMachinePoolID nodepoolID mp =
     (let lbs = (case om_Labels (mp_Meta mp) of None \<Rightarrow> Map.empty | Some m \<Rightarrow> m)
      in mp\<lparr>mp_Meta := (mp_Meta mp)\<lparr>om_Labels := Some (lbs(InfraMachinePoolIDLabel \<mapsto> nodepoolID))\<rparr>\<rparr>)"

definition smp_NodepoolReadyFalse ::
  "'w env \<Rightarrow> ManagedMachinePoolScope \<Rightarrow> string \<Rightarrow> string \<Rightarrow>
   ((CCEManagedMachinePool, 'w) st, unit) go" where
  "smp_NodepoolReadyFalse E sc reason err =
     (let severity = (if err = [] then SeverityInfo else SeverityWarning)
      in andThen (upd_obj (mp_MarkFalse (env_lib E) CCENodepoolReadyCondition reason severity err)) (\<lambda>_.
         wrapErr ''failed to mark nodepool not ready'' (smp_PatchObject E sc)))"

section \<open>The infrastructure ID label as an interface\<close>

text \<open>
  Both services find their cloud resource through an ID in a label of the reconciled object. What
  they rely on: the getter reads one label and gives the empty string without it; the setter
  writes that label and nothing else.
\<close>

locale infra_id =
  fixes key :: string
    and meta :: "'o \<Rightarrow> ObjectMeta"
    and getID :: "'o \<Rightarrow> string"
    and setID :: "string \<Rightarrow> 'o \<Rightarrow> 'o"
  assumes getID_label:
      "getID x = (case lookup_label (om_Labels (meta x)) key of Some i \<Rightarrow> i | None \<Rightarrow> [])"
    and setID_label: "lookup_label (om_Labels (meta (setID i x))) = (lookup_label (om_Labels (meta x)))(key \<mapsto> i)"
    and setID_meta: "om_Labels_update (\<lambda>_. None) (meta (setID i x)) = om_Labels_update (\<lambda>_. None) (meta x)"
begin

lemma getID_setID: "getID (setID i x) = i"
  by (simp add: getID_label setID_label)

lemma setID_other_label:
  "k \<noteq> key \<Longrightarrow> lookup_label (om_Labels (meta (setID i x))) k = lookup_label (om_Labels (meta x)) k"
  by (simp add: setID_label)

lemma setID_identity:
  "om_Name (meta (setID i x)) = om_Name (meta x)"
  "om_Namespace (meta (setID i x)) = om_Namespace (meta x)"
  "om_Finalizers (meta (setID i x)) = om_Finalizers (meta x)"
  "om_DeletionTimestamp (meta (setID i x)) = om_DeletionTimestamp (meta x)"
  "om_OwnerReferences (meta (setID i x)) = om_OwnerReferences (meta x)"
  using arg_cong[OF setID_meta[of i x], of om_Name] arg_cong[OF setID_meta[of i x], of om_Namespace]
    arg_cong[OF setID_meta[of i x], of om_Finalizers] arg_cong[OF setID_meta[of i x], of om_DeletionTimestamp]
    arg_cong[OF setID_meta[of i x], of om_OwnerReferences]
  by simp_all

lemma getID_empty: "getID x = [] \<longleftrightarrow> lookup_label (om_Labels (meta x)) key \<in> {None, Some []}"
  by (auto simp: getID_label split: option.splits)

end

interpretation cluster_id: infra_id InfraClusterIDLabel cp_Meta scp_InfraClusterID scp_SetInfraClusterID
  by unfold_locales
    (simp_all add: scp_InfraClusterID_def scp_SetInfraClusterID_def Let_def fun_eq_iff split: option.split)

interpretation pool_id:
  infra_id InfraMachinePoolIDLabel mp_Meta smp_InfraMachinePoolID smp_SetInfraMachinePoolID
  by unfold_locales
    (simp_all add: smp_InfraMachinePoolID_def smp_SetInfraMachinePoolID_def Let_def fun_eq_iff split: option.split)

lemma scp_InfraClusterID_eq: "scp_InfraClusterID cp = cp_InfraClusterID cp"
  by (simp add: scp_InfraClusterID_def cp_InfraClusterID_def)

lemma smp_InfraMachinePoolID_eq: "smp_InfraMachinePoolID mp = mp_InfraMachinePoolID mp"
  by (simp add: smp_InfraMachinePoolID_def mp_InfraMachinePoolID_def)

lemma scp_SetInfraClusterID_frame [simp]:
  "cp_Spec (scp_SetInfraClusterID i cp) = cp_Spec cp"
  "cp_Status (scp_SetInfraClusterID i cp) = cp_Status cp"
  by (simp_all add: scp_SetInfraClusterID_def Let_def)

lemma smp_SetInfraMachinePoolID_frame [simp]:
  "mp_Spec (smp_SetInfraMachinePoolID i mp) = mp_Spec mp"
  "mp_Status (smp_SetInfraMachinePoolID i mp) = mp_Status mp"
  by (simp_all add: smp_SetInfraMachinePoolID_def Let_def)

lemma scp_PatchObject_apply [go_simps]:
  "scp_PatchObject E sc s =
     (case k_PatchControlPlane (env_kube E) (scp_patchHelper sc) scp_ownedConditions (obj s) (world s)
      of (r, w) \<Rightarrow> (r, s\<lparr>world := w, calls := calls s @ [CallPatchControlPlane (obj s)]\<rparr>))"
  by (simp add: scp_PatchObject_def go_simps)

lemma smp_PatchObject_apply [go_simps]:
  "smp_PatchObject E sc s =
     (case k_PatchMachinePool (env_kube E) (smp_patchHelper sc) [CCENodepoolReadyCondition] (obj s) (world s)
      of (r, w) \<Rightarrow> (r, s\<lparr>world := w, calls := calls s @ [CallPatchMachinePool (obj s)]\<rparr>))"
  by (simp add: smp_PatchObject_def go_simps)

end
