(* ===== verification/Cce_Service.thy ===== *)
theory Cce_Service
  imports Scope
begin

text \<open>
  \<open>pkg/cloud/services/cce/service.go\<close> and \<open>pkg/util/strings\<close>: the two service constructors, the
  polling loop \<open>waitUntil\<close>, \<open>parseURL\<close>, and the random resource names.
\<close>

section \<open>Constructors\<close>

record 'w Service =
  sv_scope :: ManagedControlPlaneScope
  sv_CCEClient :: "'w CceClient"
  sv_EIPClient :: "'w EipClient"
  sv_VPCClient :: "'w VpcClient"

record 'w NodepoolService =
  nsv_scope :: ManagedMachinePoolScope
  nsv_CCEClient :: "'w CceClient"

definition from_outcome :: "'a outcome \<Rightarrow> ('s, 'a) go" where
  "from_outcome r = (\<lambda>s. (r, s))"

lemma from_outcome_apply [go_simps]: "from_outcome r s = (r, s)"
  by (simp add: from_outcome_def)

definition secret_field :: "Secret \<Rightarrow> string \<Rightarrow> string" where
  "secret_field sec k = (case se_Data sec k of None \<Rightarrow> [] | Some v \<Rightarrow> v)"

definition NewService ::
  "'w env \<Rightarrow> ManagedControlPlaneScope \<Rightarrow> ('w Service \<Rightarrow> 'w Service) list \<Rightarrow>
   ((CCEManagedControlPlane, 'w) st, 'w Service) go" where
  "NewService E sc opts =
     andThen get_obj (\<lambda>cp.
     andThen (deref (cps_IdentityRef (cp_Spec cp))) (\<lambda>idref.
     andThen (ext (CallRead ''Secret'') (k_GetSecret (env_kube E)
               \<lparr>nn_Namespace = om_Namespace (cp_Meta cp), nn_Name = or_Name idref\<rparr>)) (\<lambda>sec.
       let auth = \<lparr>cr_Ak = secret_field sec ''accessKey'', cr_Sk = secret_field sec ''secretKey''\<rparr> in
     andThen (from_outcome (env_NewCceClient E auth (scp_Region cp))) (\<lambda>cceClient.
     andThen (from_outcome (env_NewEipClient E auth (scp_Region cp))) (\<lambda>eipClient.
     andThen (from_outcome (env_NewVpcClient E auth (scp_Region cp))) (\<lambda>vpcClient.
       ret (fold (\<lambda>opt s. opt s) opts
              \<lparr>sv_scope = sc, sv_CCEClient = cceClient, sv_EIPClient = eipClient,
               sv_VPCClient = vpcClient\<rparr>)))))))"

definition NewNodepoolService ::
  "'w env \<Rightarrow> ManagedMachinePoolScope \<Rightarrow> ((CCEManagedMachinePool, 'w) st, 'w NodepoolService) go" where
  "NewNodepoolService E sc =
     andThen (deref (cps_IdentityRef (cp_Spec (smp_ControlPlane sc)))) (\<lambda>idref.
     andThen (ext (CallRead ''Secret'') (k_GetSecret (env_kube E)
               \<lparr>nn_Namespace = om_Namespace (cp_Meta (smp_ControlPlane sc)), nn_Name = or_Name idref\<rparr>)) (\<lambda>sec.
       let auth = \<lparr>cr_Ak = secret_field sec ''accessKey'', cr_Sk = secret_field sec ''secretKey''\<rparr> in
     andThen (from_outcome (env_NewCceClient E auth (cps_Region (cp_Spec (smp_ControlPlane sc))))) (\<lambda>cceClient.
       ret \<lparr>nsv_scope = sc, nsv_CCEClient = cceClient\<rparr>)))"

section \<open>Missing resources\<close>

text \<open>
  \<open>not_found_404\<close>: the type assertion to \<open>*sdkerr.ServiceResponseError\<close> succeeds with status 404.
\<close>

definition not_found_404 :: "go_error \<Rightarrow> bool" where
  "not_found_404 e \<longleftrightarrow> (case e of ServiceResponseError status code txt \<Rightarrow> status = 404 | _ \<Rightarrow> False)"

lemma not_found_404_simps [simp]:
  "not_found_404 (ServiceResponseError status code txt) \<longleftrightarrow> status = 404"
  "\<not> not_found_404 (ErrorString m)"
  "\<not> not_found_404 (Wrapped m e)"
  "\<not> not_found_404 (ForeignError k m)"
  by (simp_all add: not_found_404_def)

section \<open>The polling loop\<close>

text \<open>\<open>time.Duration\<close> in nanoseconds.\<close>

definition Second :: int where
  "Second = 1000000000"

text \<open>The \<open>for\<close> loop with the iterations that are left.\<close>

primrec waitLoop :: "'w env \<Rightarrow> (('o, 'w) st, bool) go \<Rightarrow> int \<Rightarrow> nat \<Rightarrow> (('o, 'w) st, unit) go" where
  "waitLoop E condition interval 0 = fail (ErrorString ''failed to wait'')"
| "waitLoop E condition interval (Suc left) =
     andThen condition (\<lambda>ok.
       if ok then ret ()
       else andThen (sleep E interval) (\<lambda>_. waitLoop E condition interval left))"

definition waitUntil :: "'w env \<Rightarrow> (('o, 'w) st, bool) go \<Rightarrow> int \<Rightarrow> int \<Rightarrow> (('o, 'w) st, unit) go" where
  "waitUntil E condition interval maxRetries = waitLoop E condition interval (nat maxRetries)"

text \<open>
  What the loop is meant to do: \<open>undecided k s\<close> is the state after \<open>k\<close> polls that all answered
  false, each followed by a sleep.
\<close>

primrec undecided ::
  "'w env \<Rightarrow> (('o, 'w) st, bool) go \<Rightarrow> int \<Rightarrow> nat \<Rightarrow> ('o, 'w) st \<Rightarrow> ('o, 'w) st option" where
  "undecided E c iv 0 s = Some s"
| "undecided E c iv (Suc k) s =
     (case undecided E c iv k s of
        None \<Rightarrow> None
      | Some u \<Rightarrow> (case c u of (Ret False, v) \<Rightarrow> Some (snd (sleep E iv v)) | _ \<Rightarrow> None))"

definition verdict :: "bool outcome \<Rightarrow> unit outcome option" where
  "verdict r = (case r of Ret True \<Rightarrow> Some (Ret ()) | Ret False \<Rightarrow> None
                | Err e \<Rightarrow> Some (Err e) | Panic \<Rightarrow> Some Panic)"

lemma undecided_Suc_first:
  "undecided E c iv (Suc k) s =
     (case c s of (Ret False, v) \<Rightarrow> undecided E c iv k (snd (sleep E iv v)) | _ \<Rightarrow> None)"
  by (induction k arbitrary: s)
    (auto split: option.splits prod.splits outcome.splits bool.splits)

lemma waitLoop_step:
  "waitLoop E c iv (Suc n) s =
     (case c s of (r, v) \<Rightarrow>
        (case verdict r of Some q \<Rightarrow> (q, v) | None \<Rightarrow> waitLoop E c iv n (snd (sleep E iv v))))"
  by (auto simp: go_simps verdict_def sleep_def split: prod.splits outcome.splits bool.splits)

lemma waitLoop_decided:
  assumes "k < n" and "undecided E c iv k s = Some u" and "c u = (r, v)" and "verdict r = Some q"
  shows "waitLoop E c iv n s = (q, v)"
  using assms
proof (induction n arbitrary: k s)
  case 0
  then show ?case by simp
next
  case (Suc n)
  show ?case
  proof (cases k)
    case 0
    with Suc.prems show ?thesis by (simp add: waitLoop_step del: waitLoop.simps)
  next
    case (Suc j)
    with Suc.prems obtain w where w: "c s = (Ret False, w)"
      "undecided E c iv j (snd (sleep E iv w)) = Some u"
      by (auto simp: undecided_Suc_first simp del: undecided.simps
               split: prod.splits outcome.splits bool.splits)
    with Suc.IH[of j "snd (sleep E iv w)"] Suc.prems Suc show ?thesis
      by (simp add: waitLoop_step verdict_def del: waitLoop.simps)
  qed
qed

lemma waitLoop_exhausted:
  "undecided E c iv n s = Some u \<Longrightarrow> waitLoop E c iv n s = (Err (ErrorString ''failed to wait''), u)"
proof (induction n arbitrary: s)
  case 0
  then show ?case by (simp add: go_simps)
next
  case (Suc n)
  then obtain w where "c s = (Ret False, w)" "undecided E c iv n (snd (sleep E iv w)) = Some u"
    by (auto simp: undecided_Suc_first simp del: undecided.simps
             split: prod.splits outcome.splits bool.splits)
  with Suc.IH show ?case by (simp add: waitLoop_step verdict_def del: waitLoop.simps)
qed

text \<open>Every run falls under one of the two lemmas above: the loop is decided within \<open>n\<close> polls.\<close>

lemma undecided_or_decided:
  "(\<exists>u. undecided E c iv n s = Some u) \<or>
   (\<exists>k<n. \<exists>u r v q. undecided E c iv k s = Some u \<and> c u = (r, v) \<and> verdict r = Some q)"
proof (induction n)
  case 0
  then show ?case by simp
next
  case (Suc n)
  then consider (all) u where "undecided E c iv n s = Some u"
    | (dec) k u r v q where "k < n" "undecided E c iv k s = Some u" "c u = (r, v)" "verdict r = Some q"
    by blast
  then show ?case
  proof cases
    case all
    show ?thesis
    proof (cases "verdict (fst (c u))")
      case None
      then have "undecided E c iv (Suc n) s = Some (snd (sleep E iv (snd (c u))))"
        using all by (cases "c u") (auto simp: verdict_def split: outcome.splits bool.splits)
      then show ?thesis by blast
    next
      case (Some q)
      with all show ?thesis by (metis lessI prod.collapse)
    qed
  next
    case dec
    then show ?thesis by (meson less_SucI)
  qed
qed

lemma waitLoop_success:
  assumes "waitLoop E c iv n s = (Ret (), t)"
  obtains k u where "k < n" "undecided E c iv k s = Some u" "c u = (Ret True, t)"
proof -
  have "undecided E c iv n s = None"
    using assms waitLoop_exhausted[of E c iv n s] by (cases "undecided E c iv n s") auto
  then obtain k u r v q where k: "k < n" "undecided E c iv k s = Some u" "c u = (r, v)" "verdict r = Some q"
    using undecided_or_decided[of E c iv n s] by auto
  with waitLoop_decided[OF k] assms have "q = Ret ()" "v = t" by simp_all
  with k that show thesis
    by (auto simp: verdict_def split: outcome.splits bool.splits)
qed

text \<open>What every poll preserves, and what the clock preserves, the loop preserves.\<close>

lemma issues_waitLoop:
  "steps_in (issues A) c \<Longrightarrow> A (CallSleep iv) \<Longrightarrow> steps_in (issues A) (waitLoop E c iv n)"
  by (induction n) (auto intro!: issues_rules simp: sleep_def)

lemma keeps_waitLoop: "steps_in (keeps f) c \<Longrightarrow> steps_in (keeps f) (waitLoop E c iv n)"
  by (induction n) (auto intro!: keeps_rules simp: sleep_def)

lemma issues_waitUntil:
  "steps_in (issues A) c \<Longrightarrow> A (CallSleep iv) \<Longrightarrow> steps_in (issues A) (waitUntil E c iv m)"
  by (simp add: waitUntil_def issues_waitLoop)

lemma keeps_waitUntil: "steps_in (keeps f) c \<Longrightarrow> steps_in (keeps f) (waitUntil E c iv m)"
  by (simp add: waitUntil_def keeps_waitLoop)

section \<open>parseURL\<close>

definition parseURL :: "string \<Rightarrow> go_error + string \<times> int" where
  "parseURL address =
     (case url_Parse address of
        Inl e \<Rightarrow> Inl (Wrapped ''failed to pase url'' e)
      | Inr u \<Rightarrow>
          (case Atoi (url_Port u) of
             Inl e \<Rightarrow> Inl (Wrapped ''String to int conversion error'' e)
           | Inr port \<Rightarrow> Inr (url_Hostname u, port)))"

text \<open>Go's conversion \<open>int32(port)\<close> keeps the low 32 bits.\<close>

definition to_int32 :: "int \<Rightarrow> int32" where
  "to_int32 n = word_of_int n"

section \<open>Resource names\<close>

definition GenerateName :: "'w env \<Rightarrow> string \<Rightarrow> (('o, 'w) st, string) go" where
  "GenerateName E baseName =
     andThen (ext (CallRand 5) (\<lambda>w. case k_RandString (env_kube E) 5 w of (r, w') \<Rightarrow> (Ret r, w')))
       (\<lambda>randomString. ret (baseName @ randomString))"

lemma GenerateName_apply [go_simps]:
  "GenerateName E b s =
     (case k_RandString (env_kube E) 5 (world s) of (r, w) \<Rightarrow>
        (Ret (b @ r), s\<lparr>world := w, calls := calls s @ [CallRand 5]\<rparr>))"
  by (simp add: GenerateName_def go_simps split: prod.split)

end
