(* ===== verification/Controller_Base.thy ===== *)
theory Controller_Base
  imports Cce_Service
begin

text \<open>
  What the three reconcilers of \<open>internal/controller\<close> share: the result of a reconcile, the deferred
  closing of a scope, the objects a watch hands to a mapping function, and the finalizer steps.
\<close>

record ctrl_Result =
  Requeue :: bool
  RequeueAfter :: int

definition Result0 :: ctrl_Result where
  "Result0 = \<lparr>Requeue = False, RequeueAfter = 0\<rparr>"

text \<open>A reconcile returns a result and an error, or panics.\<close>

type_synonym reconcile_return = "ctrl_Result \<times> go_error option"

text \<open>
  \<open>defer func() { if err := close(); err != nil && reterr == nil { reterr = err } }()\<close> around a body
  whose error returns all carry the zero result. The deferred call also runs while the body's
  panic unwinds, and the panic goes on after it.
\<close>

definition with_close ::
  "('s, unit) go \<Rightarrow> ('s, ctrl_Result) go \<Rightarrow> ('s, reconcile_return) go" where
  "with_close close body = (\<lambda>s.
     case body s of (r, t) \<Rightarrow>
       (case close t of (c, u) \<Rightarrow>
          (case r of
             Panic \<Rightarrow> (Panic, u)
           | Err err \<Rightarrow> (case c of Panic \<Rightarrow> (Panic, u) | _ \<Rightarrow> (Ret (Result0, Some err), u))
           | Ret res \<Rightarrow>
               (case c of Panic \<Rightarrow> (Panic, u) | Err e \<Rightarrow> (Ret (res, Some e), u)
                | Ret _ \<Rightarrow> (Ret (res, None), u)))))"

lemma with_close_state: "snd (with_close close body s) = snd (close (snd (body s)))"
  by (simp add: with_close_def split: prod.split outcome.split)

lemma with_close_clean:
  "with_close close body s = (Ret (res, None), u) \<longleftrightarrow>
   (\<exists>t. body s = (Ret res, t) \<and> close t = (Ret (), u))"
  by (auto simp: with_close_def split: prod.splits outcome.splits)

lemma with_close_error:
  "with_close close body s = (Ret (res, Some e), u) \<Longrightarrow>
   (\<exists>t. body s = (Err e, t) \<and> res = Result0) \<or> (\<exists>t. body s = (Ret res, t) \<and> close t = (Err e, u))"
  by (auto simp: with_close_def split: prod.splits outcome.splits)

lemma with_close_body_error:
  "body s = (Err e, t) \<Longrightarrow> fst (close t) \<noteq> Panic \<Longrightarrow>
   with_close close body s = (Ret (Result0, Some e), snd (close t))"
  by (auto simp: with_close_def split: prod.splits outcome.splits)

lemma issues_with_close:
  assumes "steps_in (issues A) close" and "steps_in (issues A) body"
  shows "steps_in (issues A) (with_close close body)"
  unfolding steps_in_def with_close_state
proof
  fix s
  show "issues A s (snd (close (snd (body s))))"
    using assms by (meson issues.frame_trans steps_in_def)
qed

section \<open>Objects handed to mapping functions\<close>

datatype client_object =
    ObjControlPlane CCEManagedControlPlane
  | ObjManagedCluster CCEManagedCluster
  | ObjMachinePool MachinePool
  | ObjOther

text \<open>A type assertion \<open>o.(*T)\<close>: nil when it fails.\<close>

fun as_ControlPlane :: "client_object \<Rightarrow> CCEManagedControlPlane option" where
  "as_ControlPlane (ObjControlPlane cp) = Some cp"
| "as_ControlPlane _ = None"

fun as_ManagedCluster :: "client_object \<Rightarrow> CCEManagedCluster option" where
  "as_ManagedCluster (ObjManagedCluster mc) = Some mc"
| "as_ManagedCluster _ = None"

fun as_MachinePool :: "client_object \<Rightarrow> MachinePool option" where
  "as_MachinePool (ObjMachinePool m) = Some m"
| "as_MachinePool _ = None"

section \<open>Finalizers\<close>

definition cp_Finalizers :: "CCEManagedControlPlane \<Rightarrow> string list" where
  "cp_Finalizers cp = om_Finalizers (cp_Meta cp)"

definition set_cp_Finalizers :: "string list \<Rightarrow> CCEManagedControlPlane \<Rightarrow> CCEManagedControlPlane" where
  "set_cp_Finalizers fs = cp_Meta_update (om_Finalizers_update (\<lambda>_. fs))"

definition mp_Finalizers :: "CCEManagedMachinePool \<Rightarrow> string list" where
  "mp_Finalizers mp = om_Finalizers (mp_Meta mp)"

definition set_mp_Finalizers :: "string list \<Rightarrow> CCEManagedMachinePool \<Rightarrow> CCEManagedMachinePool" where
  "set_mp_Finalizers fs = mp_Meta_update (om_Finalizers_update (\<lambda>_. fs))"

lemma finalizer_setters [simp]:
  "cp_Finalizers (set_cp_Finalizers fs cp) = fs"
  "mp_Finalizers (set_mp_Finalizers fs mp) = fs"
  "cp_Spec (set_cp_Finalizers fs cp) = cp_Spec cp"
  "cp_Status (set_cp_Finalizers fs cp) = cp_Status cp"
  "mp_Spec (set_mp_Finalizers fs mp) = mp_Spec mp"
  "mp_Status (set_mp_Finalizers fs mp) = mp_Status mp"
  by (simp_all add: cp_Finalizers_def mp_Finalizers_def set_cp_Finalizers_def set_mp_Finalizers_def)

text \<open>
  \<open>if controllerutil.AddFinalizer(o, f) { if err := PatchObject(); err != nil { return err } }\<close> for an
  object with finalizers \<open>fins\<close>.
\<close>

definition ensure_finalizer ::
  "lib \<Rightarrow> string \<Rightarrow> ('o \<Rightarrow> string list) \<Rightarrow> (string list \<Rightarrow> 'o \<Rightarrow> 'o) \<Rightarrow> (('o, 'w) st, unit) go \<Rightarrow>
   (('o, 'w) st, unit) go" where
  "ensure_finalizer L f fins set_fins patch =
     andThen get_obj (\<lambda>x.
       case lib_AddFinalizer L f (fins x) of (fs, updated) \<Rightarrow>
         andThen (upd_obj (set_fins fs)) (\<lambda>_. if updated then patch else ret ()))"

text \<open>
  The interface of an object with finalizers: the getter reads what the setter wrote.
\<close>

locale finalizers =
  fixes fins :: "'o \<Rightarrow> string list"
    and set_fins :: "string list \<Rightarrow> 'o \<Rightarrow> 'o"
  assumes fins_set: "fins (set_fins fs x) = fs"
    and set_fins_id: "set_fins (fins x) x = x"
begin

lemma ensure_present:
  assumes "finalizers_documented L" and "f \<in> set (fins (obj s))"
  shows "ensure_finalizer L f fins set_fins patch s = (Ret (), s)"
  using assms by (simp add: ensure_finalizer_def go_simps finalizers_documentedD set_fins_id)

lemma ensure_absent:
  assumes "finalizers_documented L" and "f \<notin> set (fins (obj s))"
  shows "ensure_finalizer L f fins set_fins patch s
         = patch (s\<lparr>obj := set_fins (fins (obj s) @ [f]) (obj s)\<rparr>)"
  using assms by (simp add: ensure_finalizer_def go_simps finalizers_documentedD)

lemma ensure_state:
  assumes "finalizers_documented L"
    and "ensure_finalizer L f fins set_fins patch s = (r, t)"
    and "steps_in (keeps id) patch"
  shows "f \<in> set (fins (obj t)) \<and> set (fins (obj s)) \<subseteq> set (fins (obj t))"
proof (cases "f \<in> set (fins (obj s))")
  case True
  with assms(1,2) show ?thesis by (auto simp: ensure_present)
next
  case False
  with assms(1,2) have "patch (s\<lparr>obj := set_fins (fins (obj s) @ [f]) (obj s)\<rparr>) = (r, t)"
    by (simp add: ensure_absent)
  from steps_inD[OF assms(3) this] show ?thesis by (auto simp: keeps_def fins_set)
qed

end

interpretation cp_fin: finalizers cp_Finalizers set_cp_Finalizers
  by unfold_locales (simp_all add: cp_Finalizers_def set_cp_Finalizers_def)

interpretation mp_fin: finalizers mp_Finalizers set_mp_Finalizers
  by unfold_locales (simp_all add: mp_Finalizers_def set_mp_Finalizers_def)

end
