(* ===== verification/Demo_Env.thy ===== *)
theory Demo_Env
  imports Controller_Base "HOL-Library.Code_Target_Numeral"
begin

text \<open>
  Concrete providers, at which the properties with hypotheses are instantiated. The outside world
  is a clock that counts sleeps. Conditions are kept in a list without duplicates, finalizers
  behave as controller-runtime documents them, a kubeconfig file is written as its first
  authentication entry, and the cloud answers each request with a fixed response.
\<close>

section \<open>Library\<close>

definition demo_condition :: "string \<Rightarrow> ConditionStatus \<Rightarrow> ConditionSeverity \<Rightarrow> string \<Rightarrow> string \<Rightarrow> Condition" where
  "demo_condition t st sev r m =
     \<lparr>co_Type = t, co_Status = st, co_Severity = sev, co_Reason = r, co_Message = m\<rparr>"

definition demo_set :: "Condition \<Rightarrow> Condition list \<Rightarrow> Condition list" where
  "demo_set c cs = c # filter (\<lambda>d. co_Type d \<noteq> co_Type c) cs"

definition demo_enums :: SdkEnums where
  "demo_enums =
     \<lparr>en_VPC_ROUTER = ''vpc-router'', en_OVERLAY_L2 = ''overlay_l2'',
      en_NP_SYNCHRONIZING = ''Synchronizing'', en_NP_SYNCHRONIZED = ''Synchronized'',
      en_NP_SOLD_OUT = ''SoldOut'', en_NP_DELETING = ''Deleting'', en_NP_ERROR = ''Error'',
      en_NODEPOOL_VM = ''vm'', en_NO_SCHEDULE = ''NoSchedule'',
      en_PREFER_NO_SCHEDULE = ''PreferNoSchedule'', en_NO_EXECUTE = ''NoExecute'',
      en_DOCKER = ''docker'', en_CONTAINERD = ''containerd'', en_EIP_TRAFFIC = ''traffic'',
      en_EIP_PER = ''PER'', en_EIP_BIND = ''bind'', en_phase_text = (\<lambda>p. ''{'' @ p @ ''}'')\<rparr>"

definition demo_lib :: lib where
  "demo_lib =
     \<lparr>lib_MarkTrue = (\<lambda>t. demo_set (demo_condition t StatusTrue SeverityNone [] [])),
      lib_MarkFalse = (\<lambda>t r v m. demo_set (demo_condition t StatusFalse v r m)),
      lib_Has = (\<lambda>t. list_ex (\<lambda>c. co_Type c = t)),
      lib_IsTrue = (\<lambda>t. list_ex (\<lambda>c. co_Type c = t \<and> co_Status c = StatusTrue)),
      lib_SetSummary = (\<lambda>ts cs. cs),
      lib_AddFinalizer = (\<lambda>f fs. if f \<in> set fs then (fs, False) else (fs @ [f], True)),
      lib_RemoveFinalizer = (\<lambda>f. filter (\<lambda>g. g \<noteq> f)),
      lib_IsPaused = (\<lambda>_ _. False),
      lib_IsNotFound = (\<lambda>e. case e of ForeignError k _ \<Rightarrow> k = ''NotFound'' | _ \<Rightarrow> False),
      lib_NewHelperControlPlane = (\<lambda>_. None),
      lib_NewHelperMachinePool = (\<lambda>_. None),
      lib_NewHelperCAPIPool = (\<lambda>_. None),
      lib_NewHelperManagedCluster = (\<lambda>_. None),
      lib_APIEndpoint_String = Host,
      lib_APIEndpoint_IsZero = (\<lambda>ep. Host ep = [] \<and> Port ep = 0),
      lib_NetworkRanges_String = (\<lambda>r. concat (CIDRBlocks r)),
      lib_NewControllerRef = (\<lambda>m g v k. \<lparr>ow_APIVersion = g @ ''/'' @ v, ow_Kind = k, ow_Name = om_Name m\<rparr>),
      lib_clientcmd_api_Version = ''v1'',
      lib_GenerateSecretWithOwner = (\<lambda>n out r.
        \<lparr>se_Name = nn_Name n @ ''-kubeconfig'', se_Namespace = nn_Namespace n,
         se_Data = [KubeconfigDataName \<mapsto> out], se_Owner = Some r\<rparr>),
      lib_clientcmd_Write = (\<lambda>c. Inr (cfg_CurrentContext c)),
      lib_clientcmd_Load = (\<lambda>d. Inl (ErrorString d)),
      lib_ParseGroupVersion = (\<lambda>v. Inr (takeWhile (\<lambda>c. c \<noteq> CHR ''/'') v)),
      lib_GroupKind = (\<lambda>r. (takeWhile (\<lambda>c. c \<noteq> CHR ''/'') (or_APIVersion r), or_Kind r)),
      lib_enums = demo_enums\<rparr>"

lemma demo_conditions: "conditions_documented demo_lib"
  unfolding conditions_documented_def demo_lib_def lib.simps demo_set_def demo_condition_def
  by (auto simp: list_ex_iff)

lemma demo_finalizers: "finalizers_documented demo_lib"
  unfolding finalizers_documented_def demo_lib_def lib.simps by simp

lemma demo_phases: "phases_documented demo_enums"
  by (simp add: phases_documented_def demo_enums_def)

section \<open>Kubernetes objects\<close>

definition demo_meta :: ObjectMeta where
  "demo_meta =
     \<lparr>om_Name = ''dev'', om_Namespace = ''ns'', om_Labels = None, om_Annotations = None,
      om_OwnerReferences = [], om_Finalizers = [], om_DeletionTimestamp = None\<rparr>"

definition demo_ref :: "string \<Rightarrow> ObjectReference" where
  "demo_ref kind =
     \<lparr>or_APIVersion = ''infrastructure.cluster.x-k8s.io/v1beta1'', or_Kind = kind,
      or_Namespace = ''ns'', or_Name = ''dev''\<rparr>"

definition demo_cluster :: Cluster where
  "demo_cluster =
     \<lparr>cl_Meta = demo_meta,
      cl_ClusterNetwork = Some \<lparr>cn_Services = None, cn_Pods = None\<rparr>,
      cl_ControlPlaneRef = Some (demo_ref ''CCEManagedControlPlane''),
      cl_InfrastructureRef = Some (demo_ref ''CCEManagedCluster''),
      cl_InfrastructureReady = True\<rparr>"

definition demo_cp :: CCEManagedControlPlane where
  "demo_cp =
     \<lparr>cp_Meta = demo_meta,
      cp_Spec =
        \<lparr>cps_IdentityRef = Some (demo_ref ''Secret''), cps_Project = None,
         cps_Region = ''ap-southeast-1'', cps_Version = Some ''v1.25'', cps_Flavor = None,
         cps_NetworkSpec = \<lparr>ns_Mode = None, ns_VPC = \<lparr>VPC_ID = []\<rparr>, ns_Subnet = \<lparr>Subnet_ID = []\<rparr>\<rparr>,
         cps_EndpointAccess = Some \<lparr>ea_Public = None\<rparr>,
         cps_ControlPlaneEndpoint = \<lparr>Host = [], Port = 0\<rparr>\<rparr>,
      cp_Status =
        \<lparr>cpst_Network = \<lparr>nst_EIP = \<lparr>EIP_ID = []\<rparr>\<rparr>, cpst_ExternalManagedControlPlane = None,
         cpst_Initialized = False, cpst_Ready = False, cpst_FailureMessage = None,
         cpst_Conditions = []\<rparr>\<rparr>"

definition demo_mp :: CCEManagedMachinePool where
  "demo_mp =
     \<lparr>mp_Meta = demo_meta,
      mp_Spec =
        \<lparr>mps_Replicas = Some 2, mps_Flavor = None, mps_Runtime = None, mps_SSHKeyName = None,
         mps_RootVolume = Some \<lparr>vo_Size = 50, vo_Volumetype = ''SAS''\<rparr>, mps_DataVolumes = [],
         mps_Labels = None, mps_Taints = None, mps_Subnet = Some \<lparr>Subnet_ID = ''sub-1''\<rparr>,
         mps_ProviderIDList = []\<rparr>,
      mp_Status =
        \<lparr>mpst_Ready = False, mpst_Replicas = 0, mpst_FailureReason = None,
         mpst_FailureMessage = None, mpst_Conditions = []\<rparr>\<rparr>"

definition demo_mc :: CCEManagedCluster where
  "demo_mc =
     \<lparr>mc_Meta = demo_meta, mc_Spec = \<lparr>mcs_ControlPlaneEndpoint = \<lparr>Host = [], Port = 0\<rparr>\<rparr>,
      mc_Status = \<lparr>mcst_Ready = False, mcst_FailureDomains = None\<rparr>\<rparr>"

definition demo_pool :: MachinePool where
  "demo_pool = \<lparr>mpo_Meta = demo_meta, mpo_InfrastructureRef = demo_ref ''CCEManagedMachinePool''\<rparr>"

definition demo_secret :: Secret where
  "demo_secret = \<lparr>se_Name = ''dev'', se_Namespace = ''ns'', se_Data = Map.empty, se_Owner = None\<rparr>"

definition demo_kube :: "nat kube" where
  "demo_kube =
     \<lparr>k_GetControlPlane = (\<lambda>_. ret demo_cp), k_GetManagedCluster = (\<lambda>_. ret demo_mc),
      k_GetManagedMachinePool = (\<lambda>_. ret demo_mp), k_GetMachinePool = (\<lambda>_. ret demo_pool),
      k_GetSecret = (\<lambda>_. ret demo_secret),
      k_GetKubeconfigSecret = (\<lambda>_. fail (ForeignError ''NotFound'' ''no secret'')),
      k_GetOwnerCluster = (\<lambda>_. ret (Some demo_cluster)),
      k_GetClusterFromMetadata = (\<lambda>_. ret demo_cluster),
      k_ListManagedMachinePools = (\<lambda>_ _. ret []), k_ListMachinePools = (\<lambda>_ _. ret [demo_pool]),
      k_CreateSecret = (\<lambda>_. ret ()), k_UpdateSecret = (\<lambda>_. ret ()),
      k_PatchControlPlane = (\<lambda>_ _ _. ret ()), k_PatchMachinePool = (\<lambda>_ _ _. ret ()),
      k_PatchManagedCluster = (\<lambda>_ _. ret ()),
      k_Eventf = (\<lambda>_ _ w. w), k_Sleep = (\<lambda>_ w. Suc w), k_RandString = (\<lambda>n w. (''abcde'', w))\<rparr>"

section \<open>Cloud\<close>

definition demo_status :: "string \<Rightarrow> ClusterStatus" where
  "demo_status phase =
     \<lparr>cs_Phase = Some phase, cs_Reason = Some ''r'', cs_Message = Some ''m'',
      cs_Endpoints = Some [\<lparr>ep_Url = Some ''https://1.2.3.4:5443'', ep_Type = Some ''Internal''\<rparr>]\<rparr>"

definition demo_np_status :: "string \<Rightarrow> NodePoolStatus" where
  "demo_np_status phase = \<lparr>nps_Phase = Some phase, nps_CurrentNode = Some 2\<rparr>"

definition demo_np_response :: "string \<Rightarrow> NodePoolResponse" where
  "demo_np_response phase =
     \<lparr>npr_Kind = Some ''NodePool'', npr_ApiVersion = Some ''v3'',
      npr_Metadata = Some \<lparr>npm_Name = ''dev'', npm_Uid = Some ''np-1''\<rparr>, npr_Spec = None,
      npr_Status = Some (demo_np_status phase)\<rparr>"

text \<open>A cluster is being created for two sleeps and then available; a node pool exists at once.\<close>

definition demo_cce :: "nat CceClient" where
  "demo_cce =
     \<lparr>ShowCluster = (\<lambda>_ w. (Ret \<lparr>sc_Status = Some (demo_status (if w < 2 then ''Creating'' else ''Available''))\<rparr>, w)),
      CreateCluster = (\<lambda>_. ret \<lparr>ccr_Metadata = Some \<lparr>cm_Uid = Some ''cce-1''\<rparr>,
                                ccr_Status = Some (demo_status ''Creating'')\<rparr>),
      DeleteCluster = (\<lambda>_. ret ()),
      ShowClusterEndpoints = (\<lambda>_. ret \<lparr>sce_Status = Some \<lparr>ces_PublicEndpoint = None\<rparr>\<rparr>),
      UpdateClusterEip = (\<lambda>_. ret ()),
      CreateKubernetesClusterCert = (\<lambda>_. ret \<lparr>ctr_Users = Some [\<lparr>us_User = Some
         \<lparr>cu_ClientCertificateData = Some ''aGk='', cu_ClientKeyData = Some ''aGk=''\<rparr>\<rparr>]\<rparr>),
      ShowNodePool = (\<lambda>_ _. ret (demo_np_response [])),
      CreateNodePool = (\<lambda>_. ret (demo_np_response [])),
      DeleteNodePool = (\<lambda>_ _. ret ()),
      ListNodes = (\<lambda>_. ret \<lparr>ln_Items = Some
         [\<lparr>no_Metadata = Some \<lparr>nm_Uid = Some ''n1'', nm_Annotations = [(''kubernetes.io/node-pool.id'', ''np-1'')]\<rparr>,
           no_Az = Some ''az1''\<rparr>,
          \<lparr>no_Metadata = Some \<lparr>nm_Uid = Some ''n2'', nm_Annotations = []\<rparr>, no_Az = Some ''az1''\<rparr>]\<rparr>)\<rparr>"

definition demo_vpc :: "nat VpcClient" where
  "demo_vpc =
     \<lparr>CreateVpc = (\<lambda>_. ret \<lparr>cvr_Vpc = Some ''vpc-1''\<rparr>),
      CreateSubnet = (\<lambda>_. ret \<lparr>cnr_Subnet = Some ''sub-1''\<rparr>),
      ListSubnets = (\<lambda>_. ret \<lparr>lsr_Subnets = Some [''sub-0'']\<rparr>)\<rparr>"

definition demo_eip :: "nat EipClient" where
  "demo_eip = \<lparr>CreatePublicip = (\<lambda>_. ret \<lparr>pr_Publicip = Some \<lparr>pi_Id = Some ''eip-1''\<rparr>\<rparr>)\<rparr>"

definition demo_env :: "nat env" where
  "demo_env =
     \<lparr>env_lib = demo_lib, env_kube = demo_kube, env_NewCceClient = (\<lambda>_ _. Ret demo_cce),
      env_NewEipClient = (\<lambda>_ _. Ret demo_eip), env_NewVpcClient = (\<lambda>_ _. Ret demo_vpc)\<rparr>"

definition demo_scope :: ManagedControlPlaneScope where
  "demo_scope = \<lparr>scp_patchHelper = demo_cp, scp_Cluster = demo_cluster, scp_controllerName = ''c''\<rparr>"

definition demo_service :: "nat Service" where
  "demo_service =
     \<lparr>sv_scope = demo_scope, sv_CCEClient = demo_cce, sv_EIPClient = demo_eip, sv_VPCClient = demo_vpc\<rparr>"

definition demo_pool_scope :: ManagedMachinePoolScope where
  "demo_pool_scope =
     \<lparr>smp_patchHelper = demo_mp, smp_capiMachinePoolPatchHelper = demo_pool,
      smp_Cluster = Some demo_cluster, smp_ControlPlane = demo_cp, smp_MachinePool = demo_pool,
      smp_controllerName = ''m''\<rparr>"

definition demo_np_service :: "nat NodepoolService" where
  "demo_np_service = \<lparr>nsv_scope = demo_pool_scope, nsv_CCEClient = demo_cce\<rparr>"

definition start :: "'o \<Rightarrow> ('o, nat) st" where
  "start x = \<lparr>obj = x, world = 0, calls = []\<rparr>"

text \<open>How a run ends, once its outcome has been evaluated.\<close>

lemma ended:
  assumes "fst run = x"
  obtains t where "run = (x, t)"
  using assms by (metis prod.collapse)

lemma ended_Err:
  fixes run :: "unit outcome \<times> 's"
  assumes "fst run \<notin> {Ret (), Panic}"
  obtains e t where "run = (Err e, t)"
  using assms by (cases "fst run") (auto simp: prod_eq_iff)

lemmas demo_simps =
  demo_condition_def demo_set_def demo_enums_def demo_lib_def demo_meta_def demo_ref_def
  demo_cluster_def demo_cp_def demo_mp_def demo_mc_def demo_pool_def demo_secret_def demo_kube_def
  demo_status_def demo_np_status_def demo_np_response_def demo_cce_def demo_vpc_def demo_eip_def
  demo_env_def demo_scope_def demo_service_def demo_pool_scope_def demo_np_service_def start_def

end
