(* ===== verification/Call_Costs.thy ===== *)
theory Call_Costs
  imports Cce_Service
begin

text \<open>
  Counting calls. \<open>costs w n m\<close>: whatever state it starts from and however it ends, a run of \<open>m\<close>
  adds calls to the trace whose weights \<open>w\<close> sum up to \<open>n\<close> at most. With weight 1 for a kind of
  call it bounds how often that call is issued, with the length of a sleep as the weight of a
  sleep it bounds how long a reconcile blocks.
\<close>

definition costs :: "(call \<Rightarrow> nat) \<Rightarrow> nat \<Rightarrow> (('o, 'w) st, 'a) go \<Rightarrow> bool" where
  "costs w n m \<longleftrightarrow> (\<forall>s. \<exists>cs. calls (snd (m s)) = calls s @ cs \<and> sum_list (map w cs) \<le> n)"

abbreviation free :: "(call \<Rightarrow> nat) \<Rightarrow> (('o, 'w) st, 'a) go \<Rightarrow> bool" where
  "free w m \<equiv> steps_in (issues (\<lambda>c. w c = 0)) m"

lemma costsD:
  assumes "costs w n m" and "m s = (r, t)"
  obtains cs where "calls t = calls s @ cs" "sum_list (map w cs) \<le> n"
  using assms unfolding costs_def by (metis snd_conv)

lemma costsI:
  "(\<And>s r t. m s = (r, t) \<Longrightarrow> \<exists>cs. calls t = calls s @ cs \<and> sum_list (map w cs) \<le> n) \<Longrightarrow> costs w n m"
  unfolding costs_def by (metis prod.collapse)

lemma sum_list_zero: "\<forall>c\<in>set cs. w c = 0 \<Longrightarrow> sum_list (map w cs) = (0::nat)"
  by (induction cs) auto

lemma costs_free: "free w m \<Longrightarrow> costs w n m"
  by (rule costsI) (drule (1) steps_inD, auto simp: issues_def list_all_iff sum_list_zero)

lemma costs_mono: "costs w a m \<Longrightarrow> a \<le> b \<Longrightarrow> costs w b m"
  unfolding costs_def by (meson le_trans)

lemma costs_ext: "w c \<le> n \<Longrightarrow> costs w n (ext c f)"
  by (rule costsI) (auto simp: go_simps split: prod.splits)

lemma costs_andThen:
  assumes m: "costs w a m" and f: "\<And>x. costs w b (f x)"
  shows "costs w (a + b) (andThen m f)"
proof (rule costsI)
  fix s r t assume run: "andThen m f s = (r, t)"
  obtain q u where q: "m s = (q, u)" by fastforce
  obtain cs where cs: "calls u = calls s @ cs" "sum_list (map w cs) \<le> a"
    using costsD[OF m q] by blast
  show "\<exists>cs. calls t = calls s @ cs \<and> sum_list (map w cs) \<le> a + b"
  proof (cases q)
    case (Ret x)
    with run q have "f x u = (r, t)" by (simp add: go_simps)
    then obtain ds where "calls t = calls u @ ds" "sum_list (map w ds) \<le> b"
      using costsD[OF f] by blast
    with cs show ?thesis by (intro exI[of _ "cs @ ds"]) simp
  qed (use run q cs in \<open>auto simp: go_simps\<close>)
qed

lemma costs_then_free: "costs w n m \<Longrightarrow> (\<And>x. free w (f x)) \<Longrightarrow> costs w n (andThen m f)"
  using costs_andThen[of w n m 0 f] by (simp add: costs_free)

lemma costs_free_then: "free w m \<Longrightarrow> (\<And>x. costs w n (f x)) \<Longrightarrow> costs w n (andThen m f)"
  using costs_andThen[of w 0 m n f] by (simp add: costs_free)

lemma costs_onErr_free:
  assumes m: "costs w n m" and h: "\<And>e. free w (h e)"
  shows "costs w n (onErr m h)"
proof (rule costsI)
  fix s r t assume run: "onErr m h s = (r, t)"
  obtain q u where q: "m s = (q, u)" by fastforce
  obtain cs where cs: "calls u = calls s @ cs" "sum_list (map w cs) \<le> n"
    using costsD[OF m q] by blast
  show "\<exists>cs. calls t = calls s @ cs \<and> sum_list (map w cs) \<le> n"
  proof (cases q)
    case (Err e)
    with run q have "h e u = (r, t)" by (simp add: go_simps)
    then obtain ds where "calls t = calls u @ ds" "sum_list (map w ds) \<le> 0"
      using costsD[OF costs_free[OF h]] by blast
    then have "calls t = calls s @ (cs @ ds)" "sum_list (map w (cs @ ds)) \<le> n"
      using cs by (simp_all del: sum_list_eq_0_iff)
    then show ?thesis by blast
  qed (use run q cs in \<open>auto simp: go_simps\<close>)
qed

lemma costs_wrapErr: "costs w n m \<Longrightarrow> costs w n (wrapErr msg m)"
  unfolding wrapErr_def by (rule costs_onErr_free) (auto intro: issues_rules)

lemma costs_attempt:
  assumes "costs w n m"
  shows "costs w n (attempt m)"
proof (rule costsI)
  fix s r t assume run: "attempt m s = (r, t)"
  obtain q u where q: "m s = (q, u)" by fastforce
  with run have "t = u" by (auto simp: go_simps split: outcome.splits)
  then show "\<exists>cs. calls t = calls s @ cs \<and> sum_list (map w cs) \<le> n"
    using costsD[OF assms q] by blast
qed

lemma costs_if: "(b \<Longrightarrow> costs w n m) \<Longrightarrow> (\<not> b \<Longrightarrow> costs w n k) \<Longrightarrow> costs w n (if b then m else k)"
  by simp

lemma costs_case_option:
  "(x = None \<Longrightarrow> costs w n m) \<Longrightarrow> (\<And>y. x = Some y \<Longrightarrow> costs w n (f y)) \<Longrightarrow>
   costs w n (case x of None \<Rightarrow> m | Some y \<Rightarrow> f y)"
  by (simp split: option.split)

lemma costs_case_prod:
  "(\<And>a b. x = (a, b) \<Longrightarrow> costs w n (f a b)) \<Longrightarrow> costs w n (case x of (a, b) \<Rightarrow> f a b)"
  by (simp split: prod.split)

lemma costs_case_sum:
  "(\<And>e. x = Inl e \<Longrightarrow> costs w n (g e)) \<Longrightarrow> (\<And>y. x = Inr y \<Longrightarrow> costs w n (f y)) \<Longrightarrow>
   costs w n (case x of Inl e \<Rightarrow> g e | Inr y \<Rightarrow> f y)"
  by (simp split: sum.split)

lemma costs_waitLoop:
  assumes "free w c"
  shows "costs w (n * w (CallSleep iv)) (waitLoop E c iv n)"
proof (induction n)
  case 0
  show ?case by (auto intro!: costs_free issues_rules)
next
  case (Suc n)
  have "costs w (w (CallSleep iv) + n * w (CallSleep iv))
          (andThen (sleep E iv) (\<lambda>_. waitLoop E c iv n))"
    by (rule costs_andThen) (simp_all add: sleep_def ext_upd_def costs_ext Suc)
  with assms show ?case
    by (auto intro!: costs_free_then costs_if costs_free[OF issues.in_ret])
qed

lemma costs_waitUntil:
  "free w c \<Longrightarrow> nat m * w (CallSleep iv) \<le> n \<Longrightarrow> costs w n (waitUntil E c iv m)"
  unfolding waitUntil_def by (rule costs_mono[OF costs_waitLoop])

section \<open>Weights\<close>

fun sleep_time :: "call \<Rightarrow> nat" where
  "sleep_time (CallSleep d) = nat d"
| "sleep_time _ = 0"

fun cluster_creation :: "call \<Rightarrow> nat" where
  "cluster_creation (CallCreateCluster q) = 1"
| "cluster_creation _ = 0"

fun pool_creation :: "call \<Rightarrow> nat" where
  "pool_creation (CallCreateNodePool q) = 1"
| "pool_creation _ = 0"

fun eip_creation :: "call \<Rightarrow> nat" where
  "eip_creation (CallCreatePublicip q) = 1"
| "eip_creation _ = 0"

definition slept :: "call list \<Rightarrow> nat" where
  "slept cs = sum_list (map sleep_time cs)"

definition created_clusters :: "call list \<Rightarrow> nat" where
  "created_clusters cs = sum_list (map cluster_creation cs)"

definition created_pools :: "call list \<Rightarrow> nat" where
  "created_pools cs = sum_list (map pool_creation cs)"

definition created_eips :: "call list \<Rightarrow> nat" where
  "created_eips cs = sum_list (map eip_creation cs)"

text \<open>The calls a run added to the trace.\<close>

definition new_calls :: "('o, 'w) st \<Rightarrow> ('o, 'w) st \<Rightarrow> call list" where
  "new_calls s t = drop (length (calls s)) (calls t)"

lemma new_calls_append [simp]: "calls t = calls s @ cs \<Longrightarrow> new_calls s t = cs"
  by (simp add: new_calls_def)

lemma new_calls_self [simp]: "new_calls s s = []"
  by (simp add: new_calls_def)

lemma issues_new_calls: "issues A s t \<Longrightarrow> list_all A (new_calls s t)"
  by (auto simp: issues_def)

lemma issues_calls: "issues A s t \<Longrightarrow> calls t = calls s @ new_calls s t"
  by (auto simp: issues_def)

lemma costs_new_calls:
  assumes "costs w n m" and "m s = (r, t)"
  shows "sum_list (map w (new_calls s t)) \<le> n"
  by (rule costsD[OF assms]) simp

lemma new_calls_trans:
  "issues A s t \<Longrightarrow> issues B t u \<Longrightarrow> new_calls s u = new_calls s t @ new_calls t u"
  by (auto simp: issues_def new_calls_def)

text \<open>The calls that create a resource in the cloud.\<close>

definition cloud_creation :: "call \<Rightarrow> bool" where
  "cloud_creation c \<longleftrightarrow>
     (case c of CallCreateVpc _ \<Rightarrow> True | CallCreateSubnet _ \<Rightarrow> True | CallCreateCluster _ \<Rightarrow> True
      | CallCreatePublicip _ \<Rightarrow> True | CallCreateNodePool _ \<Rightarrow> True | _ \<Rightarrow> False)"

lemma cloud_creation_simps [simp]:
  "cloud_creation (CallCreateVpc v)" "cloud_creation (CallCreateSubnet q)"
  "cloud_creation (CallCreateCluster cq)" "cloud_creation (CallCreatePublicip pq)"
  "cloud_creation (CallCreateNodePool nq)"
  "\<not> cloud_creation (CallShowCluster i)" "\<not> cloud_creation (CallDeleteCluster i)"
  "\<not> cloud_creation (CallShowClusterEndpoints i)" "\<not> cloud_creation (CallUpdateClusterEip u)"
  "\<not> cloud_creation (CallCreateCert ct)" "\<not> cloud_creation (CallShowNodePool i j)"
  "\<not> cloud_creation (CallDeleteNodePool i j)" "\<not> cloud_creation (CallListNodes i)"
  "\<not> cloud_creation (CallListSubnets i)" "\<not> cloud_creation (CallPatchControlPlane cp)"
  "\<not> cloud_creation (CallPatchMachinePool mp)" "\<not> cloud_creation (CallPatchManagedCluster mc)"
  "\<not> cloud_creation (CallCreateSecret se)" "\<not> cloud_creation (CallUpdateSecret se)"
  "\<not> cloud_creation (CallRead r)" "\<not> cloud_creation (CallEvent a b)"
  "\<not> cloud_creation (CallSleep d)" "\<not> cloud_creation (CallRand n)"
  by (simp_all add: cloud_creation_def)

definition creations :: "('o, 'w) st \<Rightarrow> ('o, 'w) st \<Rightarrow> call list" where
  "creations s t = filter cloud_creation (new_calls s t)"

lemma creations_trans:
  "issues A s t \<Longrightarrow> issues B t u \<Longrightarrow> creations s u = creations s t @ creations t u"
  by (simp add: creations_def new_calls_trans)

lemma creations_none: "issues (\<lambda>c. \<not> cloud_creation c) s t \<Longrightarrow> creations s t = []"
  by (auto simp: creations_def issues_def list_all_iff filter_empty_conv)

lemma issues_all: "steps_in (issues A) m \<Longrightarrow> m s = (r, t) \<Longrightarrow> issues (\<lambda>_. True) s t"
  by (auto simp: issues_def list_all_iff dest!: steps_inD)

lemma creations_obj [simp]:
  "creations (s\<lparr>obj := x\<rparr>) t = creations s t"
  "creations s (t\<lparr>obj := x\<rparr>) = creations s t"
  by (simp_all add: creations_def new_calls_def)

lemma issues_obj [simp]:
  "issues A (s\<lparr>obj := x\<rparr>) t = issues A s t"
  "issues A s (t\<lparr>obj := x\<rparr>) = issues A s t"
  by (simp_all add: issues_def)

text \<open>The steps that always return; with them an inverted run simplifies to its final state.\<close>

lemmas run_simps = ret_apply gets_apply get_obj_apply upd_obj_apply modify_apply Eventf_apply

section \<open>Where a call comes from\<close>

text \<open>
  When \<open>m\<close> issues no call of a kind, a call of that kind in a run of \<open>andThen m f\<close> was issued by \<open>f\<close>:
  \<open>m\<close> has returned a value before it.
\<close>

lemma late_call:
  assumes run: "andThen m f s = (r, t)"
    and c: "A c" "c \<in> set (new_calls s t)"
    and m: "steps_in (issues (\<lambda>c. \<not> A c)) m"
    and f: "\<And>x. steps_in (issues (\<lambda>_. True)) (f x)"
  obtains x u where "m s = (Ret x, u)" "f x u = (r, t)" "c \<in> set (new_calls u t)"
proof -
  obtain q u where q: "m s = (q, u)" by fastforce
  have su: "issues (\<lambda>c. \<not> A c) s u" by (rule steps_inD[OF m q])
  then have no: "c \<notin> set (new_calls s u)"
    using c(1) issues_new_calls[OF su] by (auto simp: list_all_iff)
  show thesis
  proof (cases q)
    case (Ret x)
    with run q have fx: "f x u = (r, t)" by (simp add: go_simps)
    have "c \<in> set (new_calls u t)"
      using c(2) no unfolding new_calls_trans[OF su steps_inD[OF f fx]] by simp
    with q Ret fx that show thesis by simp
  qed (use run q c no in \<open>auto simp: go_simps\<close>)
qed

section \<open>Guarded calls\<close>

text \<open>
  \<open>guarded A P m\<close>: a run of \<open>m\<close> that issues a call of kind \<open>A\<close> ends in an object with property \<open>P\<close>,
  however it ends. The rules find the point where \<open>P\<close> is tested or established.
\<close>

definition guarded :: "(call \<Rightarrow> bool) \<Rightarrow> ('o \<Rightarrow> bool) \<Rightarrow> (('o, 'w) st, 'a) go \<Rightarrow> bool" where
  "guarded A P m \<longleftrightarrow> (\<forall>s r t. m s = (r, t) \<longrightarrow> (\<exists>c\<in>set (new_calls s t). A c) \<longrightarrow> P (obj t))"

lemma guardedI:
  "(\<And>s r t c. m s = (r, t) \<Longrightarrow> c \<in> set (new_calls s t) \<Longrightarrow> A c \<Longrightarrow> P (obj t)) \<Longrightarrow> guarded A P m"
  by (auto simp: guarded_def)

lemma guardedD: "guarded A P m \<Longrightarrow> m s = (r, t) \<Longrightarrow> c \<in> set (new_calls s t) \<Longrightarrow> A c \<Longrightarrow> P (obj t)"
  by (auto simp: guarded_def)

lemma guarded_none: "steps_in (issues (\<lambda>c. \<not> A c)) m \<Longrightarrow> guarded A P m"
  by (rule guardedI) (auto dest!: steps_inD issues_new_calls simp: list_all_iff)

lemma guarded_andThen:
  assumes "steps_in (issues (\<lambda>c. \<not> A c)) m" and "\<And>x. steps_in (issues (\<lambda>_. True)) (f x)"
    and "\<And>x. guarded A P (f x)"
  shows "guarded A P (andThen m f)"
proof (rule guardedI)
  fix s r t c assume run: "andThen m f s = (r, t)" and c: "c \<in> set (new_calls s t)" "A c"
  obtain x u where "f x u = (r, t)" "c \<in> set (new_calls u t)"
    by (rule late_call[OF run c(2) c(1) assms(1,2)])
  then show "P (obj t)" by (rule guardedD[OF assms(3)]) (rule c(2))
qed

lemma guarded_test:
  assumes "steps_in (issues (\<lambda>c. \<not> A c)) n" and "steps_in (keeps P) m"
  shows "guarded A P (andThen (gets (\<lambda>s. P (obj s))) (\<lambda>b. if \<not> b then n else m))"
proof (rule guardedI)
  fix s r t c
  assume run: "andThen (gets (\<lambda>s. P (obj s))) (\<lambda>b. if \<not> b then n else m) s = (r, t)"
    and c: "c \<in> set (new_calls s t)" "A c"
  show "P (obj t)"
  proof (cases "P (obj s)")
    case True
    with run have "m s = (r, t)" by (simp add: go_simps)
    with True steps_inD[OF assms(2) this] show ?thesis by (simp add: keeps_def)
  next
    case False
    with run have "n s = (r, t)" by (simp add: go_simps)
    with c show ?thesis using guardedD[OF guarded_none[OF assms(1)]] by blast
  qed
qed

lemma guarded_established:
  assumes "steps_in (issues (\<lambda>c. \<not> A c)) m" and "\<And>x. steps_in (issues (\<lambda>_. True)) (f x)"
    and "\<And>s x u. m s = (Ret x, u) \<Longrightarrow> P (obj u)" and "\<And>x. steps_in (keeps P) (f x)"
  shows "guarded A P (andThen m f)"
proof (rule guardedI)
  fix s r t c assume run: "andThen m f s = (r, t)" and c: "c \<in> set (new_calls s t)" "A c"
  obtain x u where "m s = (Ret x, u)" "f x u = (r, t)"
    by (rule late_call[OF run c(2) c(1) assms(1,2)])
  with assms(3)[of s x u] steps_inD[OF assms(4)[of x]] show "P (obj t)"
    by (simp add: keeps_def)
qed

lemma growsI: "steps_in (issues A) m \<Longrightarrow> steps_in (issues (\<lambda>_. True)) m"
  by (erule issues_mono) simp

end
