(* ===== verification/Service_Props.thy ===== *)
theory Service_Props
  imports Demo_Env Call_Costs
begin

text \<open>
  Properties of \<open>service.go\<close>: what the polling loop computes, and what \<open>parseURL\<close> makes of the
  endpoints a cluster reports. The lemmas of the first section are about the decimal notation of
  ports and about the characters of host names.
\<close>

section \<open>Ports and host names\<close>

fun itoa :: "nat \<Rightarrow> string" where
  "itoa n = (if n < 10 then [chr (48 + n)] else itoa (n div 10) @ [chr (48 + n mod 10)])"

declare itoa.simps [simp del]

lemma byte_digit: "d < 10 \<Longrightarrow> byte (chr (48 + d)) = 48 + d"
  by (simp add: byte_chr)

lemma digit_isDigit: "d < 10 \<Longrightarrow> isDigit (chr (48 + d))"
  by (simp add: isDigit_def byte_digit)

lemma itoa_not_empty [simp]: "itoa n \<noteq> []"
  by (subst itoa.simps) simp

lemma itoa_digits: "list_all isDigit (itoa n)"
proof (induction n rule: itoa.induct)
  case (1 n)
  show ?case
  proof (cases "n < 10")
    case True
    then show ?thesis by (subst itoa.simps) (simp add: digit_isDigit)
  next
    case False
    have "isDigit (chr (48 + n mod 10))" by (simp add: digit_isDigit)
    with False 1 show ?thesis by (subst itoa.simps) simp
  qed
qed

lemma decimal_append: "decimal a (xs @ ys) = decimal (decimal a xs) ys"
  by (induction xs arbitrary: a) simp_all

lemma decimal_itoa: "decimal 0 (itoa n) = n"
proof (induction n rule: itoa.induct)
  case (1 n)
  show ?case
  proof (cases "n < 10")
    case True
    then show ?thesis by (subst itoa.simps) (simp add: byte_digit)
  next
    case False
    have "n mod 10 < 10" by simp
    with False 1 show ?thesis by (subst itoa.simps) (simp add: decimal_append byte_digit)
  qed
qed

lemma digit_not_sign: "isDigit c \<Longrightarrow> c \<noteq> CHR ''-'' \<and> c \<noteq> CHR ''+''"
  by (auto simp: isDigit_def byte_def)

lemma Atoi_digits:
  assumes "list_all isDigit ds" and "ds \<noteq> []"
  shows "Atoi ds = (if decimal 0 ds < 2 ^ 63 then Inr (int (decimal 0 ds))
                    else Inl (Atoi_error ds ''value out of range''))"
proof -
  obtain c cs where ds: "ds = c # cs"
    using assms(2) by (cases ds) auto
  with assms digit_not_sign[of c] have "c \<noteq> CHR ''-''" "c \<noteq> CHR ''+''"
    by auto
  with assms ds show ?thesis
    by (simp add: Atoi_def Let_def)
qed

text \<open>The characters of a registered name or an IPv4 address.\<close>

definition host_char :: "char \<Rightarrow> bool" where
  "host_char c \<longleftrightarrow> isAlpha c \<or> isDigit c \<or> c = CHR ''.'' \<or> c = CHR ''-''"

definition authority_char :: "char \<Rightarrow> bool" where
  "authority_char c \<longleftrightarrow> host_char c \<or> c = CHR '':''"

lemma authority_char_byte:
  "authority_char c \<Longrightarrow> byte c \<in> {45, 46} \<union> {48..58} \<union> {65..90} \<union> {97..122}"
  by (auto simp: authority_char_def host_char_def isAlpha_def isDigit_def byte_def)

lemma authority_char_not:
  "authority_char c \<Longrightarrow>
   c \<noteq> CHR ''#'' \<and> c \<noteq> CHR ''?'' \<and> c \<noteq> CHR ''/'' \<and> c \<noteq> CHR ''@'' \<and> c \<noteq> CHR ''['' \<and> c \<noteq> CHR ''%'' \<and> c \<noteq> CHR ''*''"
  by (auto simp: authority_char_def host_char_def isAlpha_def isDigit_def byte_def)

lemma authority_set: "list_all authority_char a \<Longrightarrow> c \<in> set a \<Longrightarrow> authority_char c"
  by (simp add: list_all_iff)

lemma authority_char_escape: "authority_char c \<Longrightarrow> \<not> shouldEscapeHost c"
  by (auto simp: shouldEscapeHost_def authority_char_def host_char_def)

lemma unescape_plain: "list_all authority_char h \<Longrightarrow> unescape EncHost h = Some h"
  by (induction h) (auto simp: authority_char_not authority_char_escape)

lemma list_all_takeWhile: "list_all P xs \<Longrightarrow> (\<And>x. P x \<Longrightarrow> Q x) \<Longrightarrow> takeWhile Q xs = xs"
  by (simp add: takeWhile_eq_all_conv list_all_iff)

lemma host_char_not_colon: "host_char c \<Longrightarrow> c \<noteq> CHR '':''"
  by (auto simp: host_char_def isAlpha_def isDigit_def byte_def)

lemma digit_char: "isDigit c \<Longrightarrow> host_char c"
  by (simp add: host_char_def)

lemma cutLast_port:
  assumes "list_all isDigit p"
  shows "cutLast (CHR '':'') (h @ CHR '':'' # p) = Some (h, CHR '':'' # p)"
proof -
  have "takeWhile (\<lambda>x. x \<noteq> CHR '':'') (rev p @ CHR '':'' # rev h) = rev p"
    using assms
    by (subst takeWhile_append2)
      (auto simp: list_all_iff dest!: digit_char host_char_not_colon)
  then show ?thesis by (simp add: cutLast_def Let_def)
qed

lemma host_not_bracket: "list_all authority_char h \<Longrightarrow> \<not> prefix ''['' h"
  by (cases h) (auto dest: authority_char_not)

lemma authority_of:
  assumes "list_all host_char h" and "list_all isDigit p"
  shows "list_all authority_char (h @ CHR '':'' # p)"
  using assms by (auto simp: list_all_iff authority_char_def digit_char)

lemma parseAuthority_port:
  assumes h: "list_all host_char h" and p: "list_all isDigit p"
  shows "parseAuthority (h @ CHR '':'' # p) = Some (h @ CHR '':'' # p)"
proof -
  let ?a = "h @ CHR '':'' # p"
  have a: "list_all authority_char ?a" by (rule authority_of[OF h p])
  have "CHR ''@'' \<notin> set ?a"
    using authority_set[OF a] authority_char_not by blast
  then have "cutLast (CHR ''@'') ?a = None" by (simp add: cutLast_def)
  moreover have "parseHost ?a = Some ?a"
    using host_not_bracket[OF a] cutLast_port[OF p, of h] unescape_plain[OF a] p
    by (simp add: parseHost_def validOptionalPort_def)
  ultimately show ?thesis by (simp add: parseAuthority_def)
qed

lemma splitHostPort_port:
  assumes h: "list_all host_char h" and p: "list_all isDigit p"
  shows "splitHostPort (h @ CHR '':'' # p) = (h, p)"
proof -
  have "list_all authority_char h" using h by (auto simp: list_all_iff authority_char_def)
  then show ?thesis
    using cutLast_port[OF p, of h] p host_not_bracket[of h]
    by (simp add: splitHostPort_def validOptionalPort_def)
qed

lemma url_Parse_https:
  assumes a: "list_all authority_char a" and auth: "parseAuthority a = Some host"
  shows "url_Parse (''https://'' @ a) = Inr host"
proof -
  have frag: "takeWhile (\<lambda>c. c \<noteq> CHR ''#'') a = a"
    and query: "takeWhile (\<lambda>c. c \<noteq> CHR ''?'') a = a"
    and path: "takeWhile (\<lambda>c. c \<noteq> CHR ''/'') a = a"
    by (rule list_all_takeWhile[OF a]; simp add: authority_char_not)+
  have path': "dropWhile (\<lambda>c. c \<noteq> CHR ''/'') a = []"
    using path by (simp add: dropWhile_eq_Nil_conv takeWhile_eq_all_conv)
  have printable: "\<not> list_ex (\<lambda>c. byte c < 32 \<or> byte c = 127) a"
  proof -
    have "\<not> (byte c < 32 \<or> byte c = 127)" if "c \<in> set a" for c
      using authority_char_byte[OF authority_set[OF a that]] by auto
    then show ?thesis by (simp add: list_ex_iff)
  qed
  have alpha: "isAlpha (CHR ''h'')" "isAlpha (CHR ''t'')" "isAlpha (CHR ''p'')" "isAlpha (CHR ''s'')"
    "\<not> isAlpha (CHR '':'')" "\<not> isDigit (CHR '':'')"
    by (simp_all add: isAlpha_def isDigit_def byte_def)
  have scheme: "schemeAt raw [] (''https://'' @ a) = Some (''https'', ''//'' @ a)" for raw
    by (simp add: alpha)
  have ctrl: "\<not> list_ex (\<lambda>c. byte c < 32 \<or> byte c = 127) ''https://''"
    by (simp add: byte_def)
  have drop2: "drop 2 (x # y # zs) = zs" for x y and zs :: string
    by (simp add: numeral_2_eq_2)
  have "parseNoFragment (''https://'' @ a) = Some host"
    unfolding parseNoFragment_def scheme
    using printable ctrl query path path' auth
    by (simp add: setPath_def drop2 del: takeWhile_eq_all_conv dropWhile_eq_Nil_conv)
  then show ?thesis
    using frag by (simp add: url_Parse_def del: takeWhile_eq_all_conv)
qed

section \<open>Endpoints\<close>

lemma parseURL_https:
  assumes "list_all host_char host" and "port < 2 ^ 63"
  shows "parseURL (''https://'' @ host @ CHR '':'' # itoa port) = Inr (host, int port)"
proof -
  let ?a = "host @ CHR '':'' # itoa port"
  have "url_Parse (''https://'' @ ?a) = Inr ?a"
    by (rule url_Parse_https[OF authority_of parseAuthority_port]) (simp_all add: assms itoa_digits)
  then show ?thesis
    using splitHostPort_port[OF assms(1) itoa_digits, of port] assms(2) Atoi_digits[OF itoa_digits, of port]
    by (simp add: parseURL_def url_Hostname_def url_Port_def decimal_itoa)
qed

text \<open>
  C34. \<open>parseURL\<close> reads back the host and the port of an endpoint of the form
  \<open>https://host:port\<close>, for every host of letters, digits, dots and hyphens and every port that fits
  Go's \<open>int\<close>.
\<close>

theorem parseURL_roundtrip:
  assumes "list_all host_char host" and "port < 2 ^ 63"
  shows "parseURL (''https://'' @ host @ CHR '':'' # itoa port) = Inr (host, int port)"
  by (rule parseURL_https[OF assms])

lemma parseURL_roundtrip_witness:
  "parseURL (''https://'' @ ''10.0.0.7'' @ CHR '':'' # itoa 5443) = Inr (''10.0.0.7'', 5443)"
  using parseURL_roundtrip[of "''10.0.0.7''" 5443]
  by (simp add: host_char_def isDigit_def isAlpha_def byte_def)

lemma splitHostPort_digits:
  "snd (splitHostPort hp) = [] \<or> list_all isDigit (snd (splitHostPort hp))"
  by (auto simp: splitHostPort_def validOptionalPort_def Let_def split: option.splits list.splits)

text \<open>
  The port that \<open>parseURL\<close> returns is never negative and below \<open>2 ^ 63\<close>, and the endpoint
  records it modulo \<open>2 ^ 32\<close>: a port that is no 16 bit number is neither rejected nor reported.
\<close>

lemma parseURL_port_wraps:
  assumes "parseURL address = Inr (host, port)"
  shows "0 \<le> port \<and> port < 2 ^ 63 \<and> uint (to_int32 port) = port mod 2 ^ 32"
proof -
  obtain u where u: "Atoi (url_Port u) = Inr port"
    using assms by (auto simp: parseURL_def split: sum.splits)
  moreover have "Atoi [] = Inl (Atoi_error [] ''invalid syntax'')"
    by (simp add: Atoi_def)
  ultimately have "list_all isDigit (url_Port u)" and "url_Port u \<noteq> []"
    using splitHostPort_digits[of u] by (auto simp: url_Port_def)
  from Atoi_digits[OF this] u have "port = int (decimal 0 (url_Port u))" "port < 2 ^ 63"
    by (auto split: if_splits)
  moreover have "uint (to_int32 n) = n mod 2 ^ 32" for n
    by (simp add: to_int32_def uint_word_of_int take_bit_eq_mod)
  ultimately show ?thesis by simp
qed

lemma parseURL_port_wraps_witness:
  "parseURL ''https://h:4294967739'' = Inr (''h'', 4294967739) \<and> uint (to_int32 4294967739) = 443"
proof -
  have "parseURL ''https://h:4294967739'' = Inr (''h'', 4294967739)"
    using parseURL_https[of "''h''" 4294967739]
    by (simp add: host_char_def isAlpha_def byte_def itoa.simps[of n for n] chr_def char_of_def bit_Suc_0_iff)
  from this parseURL_port_wraps[OF this] show ?thesis by simp
qed

section \<open>The polling loop\<close>

text \<open>
  C33. \<open>waitUntil\<close> always returns, and what it returns is determined by the first poll that is not
  a plain "no": its success, its error or its panic, in the state the poll left; \<open>failed to wait\<close>
  after \<open>maxRetries\<close> polls that all said no, each followed by a sleep. One of the two happens.
\<close>

theorem waitUntil_spec:
  "(\<forall>k u r v q. k < nat maxRetries \<longrightarrow> undecided E c iv k s = Some u \<longrightarrow> c u = (r, v) \<longrightarrow>
      verdict r = Some q \<longrightarrow> waitUntil E c iv maxRetries s = (q, v)) \<and>
   (\<forall>u. undecided E c iv (nat maxRetries) s = Some u \<longrightarrow>
      waitUntil E c iv maxRetries s = (Err (ErrorString ''failed to wait''), u)) \<and>
   ((\<exists>u. undecided E c iv (nat maxRetries) s = Some u) \<or>
    (\<exists>k<nat maxRetries. \<exists>u r v q. undecided E c iv k s = Some u \<and> c u = (r, v) \<and> verdict r = Some q))"
  unfolding waitUntil_def
  by (intro conjI allI impI undecided_or_decided) (erule (3) waitLoop_decided, erule waitLoop_exhausted)

lemma waitUntil_spec_witness:
  "waitUntil demo_env (\<lambda>s. (Ret (2 \<le> world s), s)) 7 40 (start ())
     = (Ret (), \<lparr>obj = (), world = 2, calls = [CallSleep 7, CallSleep 7]\<rparr>) \<and>
   waitUntil demo_env (\<lambda>s. (Ret (2 \<le> world s), s)) 7 1 (start ())
     = (Err (ErrorString ''failed to wait''), \<lparr>obj = (), world = 1, calls = [CallSleep 7]\<rparr>)"
proof -
  let ?c = "\<lambda>s :: (unit, nat) st. (Ret (2 \<le> world s), s)"
  let ?u = "\<lparr>obj = (), world = 2, calls = [CallSleep 7, CallSleep 7]\<rparr> :: (unit, nat) st"
  have "undecided demo_env ?c 7 2 (start ()) = Some ?u"
    by (simp add: numeral_2_eq_2 sleep_apply demo_env_def demo_kube_def start_def)
  moreover have "?c ?u = (Ret True, ?u)" and "verdict (Ret True) = Some (Ret ())"
    by (simp_all add: verdict_def)
  moreover have "undecided demo_env ?c 7 (nat 1) (start ())
      = Some \<lparr>obj = (), world = 1, calls = [CallSleep 7]\<rparr>"
    by (simp add: sleep_apply demo_env_def demo_kube_def start_def)
  moreover have "2 < nat 40" by simp
  ultimately show ?thesis
    using waitUntil_spec[where E = demo_env and c = ?c and iv = 7 and s = "start ()" and maxRetries = 40]
      waitUntil_spec[where E = demo_env and c = ?c and iv = 7 and s = "start ()" and maxRetries = 1]
    by blast
qed

end
