(* ===== verification/Network.thy ===== *)
theory Network
  imports Cce_Service
begin

text \<open>
  \<open>network.go\<close>, \<open>vpc.go\<close> and \<open>subnets.go\<close> of the control plane service: the VPC and the subnet a
  cluster lives in are created when the spec names none, and their IDs are written back to the
  spec. Two conditions report on them.
\<close>

section \<open>Writing the IDs\<close>

definition set_VPC_ID :: "string \<Rightarrow> CCEManagedControlPlane \<Rightarrow> CCEManagedControlPlane" where
  "set_VPC_ID i = cp_Spec_update (cps_NetworkSpec_update (ns_VPC_update (VPC_ID_update (\<lambda>_. i))))"

definition set_Subnet_ID :: "string \<Rightarrow> CCEManagedControlPlane \<Rightarrow> CCEManagedControlPlane" where
  "set_Subnet_ID i = cp_Spec_update (cps_NetworkSpec_update (ns_Subnet_update (Subnet_ID_update (\<lambda>_. i))))"

definition vpc_id_of :: "CCEManagedControlPlane \<Rightarrow> string" where
  "vpc_id_of cp = VPC_ID (ns_VPC (cps_NetworkSpec (cp_Spec cp)))"

definition subnet_id_of :: "CCEManagedControlPlane \<Rightarrow> string" where
  "subnet_id_of cp = Subnet_ID (ns_Subnet (cps_NetworkSpec (cp_Spec cp)))"

lemma network_ids [simp]:
  "vpc_id_of (set_VPC_ID i cp) = i"
  "subnet_id_of (set_VPC_ID i cp) = subnet_id_of cp"
  "subnet_id_of (set_Subnet_ID i cp) = i"
  "vpc_id_of (set_Subnet_ID i cp) = vpc_id_of cp"
  "vpc_id_of (cp_MarkTrue L t cp) = vpc_id_of cp"
  "subnet_id_of (cp_MarkTrue L t cp) = subnet_id_of cp"
  "vpc_id_of (cp_MarkFalse L t r v m cp) = vpc_id_of cp"
  "subnet_id_of (cp_MarkFalse L t r v m cp) = subnet_id_of cp"
  by (simp_all add: vpc_id_of_def subnet_id_of_def set_VPC_ID_def set_Subnet_ID_def)

lemma network_ids_frame [simp]:
  "cp_Meta (set_VPC_ID i cp) = cp_Meta cp"
  "cp_Status (set_VPC_ID i cp) = cp_Status cp"
  "cp_Meta (set_Subnet_ID i cp) = cp_Meta cp"
  "cp_Status (set_Subnet_ID i cp) = cp_Status cp"
  by (simp_all add: set_VPC_ID_def set_Subnet_ID_def)

section \<open>vpc.go\<close>

definition defaultVPCCidr :: string where
  "defaultVPCCidr = ''192.168.0.0/16''"

definition createVPC :: "'w env \<Rightarrow> 'w Service \<Rightarrow> ((CCEManagedControlPlane, 'w) st, VPC) go" where
  "createVPC E S =
     andThen (GenerateName E (''vpc-'' @ scp_Name (sv_scope S) @ ''-'')) (\<lambda>nameVpc.
     andThen (gets (\<lambda>s. scp_Project (obj s))) (\<lambda>enterpriseProjectId.
       let request = \<lparr>cv_Name = nameVpc, cv_Cidr = defaultVPCCidr,
                      cv_EnterpriseProjectId = enterpriseProjectId, cv_Tags = [''self-built*true'']\<rparr> in
     andThen (wrapErr ''failed to create vpc''
               (ext (CallCreateVpc request) (CreateVpc (sv_VPCClient S) request))) (\<lambda>response.
     andThen (deref (cvr_Vpc response)) (\<lambda>i.
       ret \<lparr>VPC_ID = i\<rparr>))))"

definition reconcileVPC :: "'w env \<Rightarrow> 'w Service \<Rightarrow> ((CCEManagedControlPlane, 'w) st, unit) go" where
  "reconcileVPC E S =
     andThen get_obj (\<lambda>cp.
       if vpc_id_of cp \<noteq> [] then ret ()
       else
         andThen (if \<not> cp_Has (env_lib E) VpcReadyCondition cp
                  then andThen (upd_obj (cp_MarkFalse (env_lib E) VpcReadyCondition
                                          VpcCreationStartedReason SeverityInfo [])) (\<lambda>_.
                       wrapErr ''failed to patch conditions'' (scp_PatchObject E (sv_scope S)))
                  else ret ()) (\<lambda>_.
         andThen (wrapErr ''failed to create new vpc'' (createVPC E S)) (\<lambda>vpc.
           upd_obj (set_VPC_ID (VPC_ID vpc)))))"

section \<open>subnets.go\<close>

definition defaultSubnetCidr :: string where
  "defaultSubnetCidr = ''192.168.0.0/24''"

definition defaultSubnetIP :: string where
  "defaultSubnetIP = ''192.168.0.1''"

definition listSubnets ::
  "'w Service \<Rightarrow> string \<Rightarrow> ((CCEManagedControlPlane, 'w) st, ListSubnetsResponse) go" where
  "listSubnets S vpcId =
     wrapErr ''failed to list subnets'' (ext (CallListSubnets vpcId) (ListSubnets (sv_VPCClient S) vpcId))"

text \<open>
  \<open>subnet_conflict e\<close>: the type assertion to \<open>*sdkerr.ServiceResponseError\<close> succeeds and the error
  code says that the subnet already exists in the VPC.
\<close>

definition subnet_conflict :: "go_error \<Rightarrow> bool" where
  "subnet_conflict e \<longleftrightarrow>
     (case e of ServiceResponseError status code txt \<Rightarrow> code = ''VPC.0204'' | _ \<Rightarrow> False)"

definition createSubnet :: "'w env \<Rightarrow> 'w Service \<Rightarrow> ((CCEManagedControlPlane, 'w) st, Subnet) go" where
  "createSubnet E S =
     andThen (GenerateName E (''subnet-'' @ scp_Name (sv_scope S) @ ''-'')) (\<lambda>nameSubnet.
     andThen (gets (\<lambda>s. vpc_id_of (obj s))) (\<lambda>vpcId.
       let request = \<lparr>cn_Name = nameSubnet, cn_Cidr = defaultSubnetCidr, cn_VpcId = vpcId,
                      cn_GatewayIp = defaultSubnetIP, cn_Tags = [''self-built*true'']\<rparr> in
     andThen (attempt (ext (CallCreateSubnet request) (CreateSubnet (sv_VPCClient S) request))) (\<lambda>r.
       case r of
         Inl e \<Rightarrow>
           if subnet_conflict e then
             andThen (listSubnets S vpcId) (\<lambda>resp.
             andThen (deref (lsr_Subnets resp)) (\<lambda>subnets.
               case subnets of [] \<Rightarrow> panic | found # _ \<Rightarrow> ret \<lparr>Subnet_ID = found\<rparr>))
           else fail (Wrapped ''failed to create subnet'' e)
       | Inr response \<Rightarrow>
           andThen (deref (cnr_Subnet response)) (\<lambda>i. ret \<lparr>Subnet_ID = i\<rparr>))))"

definition reconcileSubnets :: "'w env \<Rightarrow> 'w Service \<Rightarrow> ((CCEManagedControlPlane, 'w) st, unit) go" where
  "reconcileSubnets E S =
     andThen get_obj (\<lambda>cp.
       if subnet_id_of cp \<noteq> [] then ret ()
       else
         andThen (if \<not> cp_Has (env_lib E) VpcReadyCondition cp
                  then andThen (upd_obj (cp_MarkFalse (env_lib E) SubnetsReadyCondition
                                          SubnetsReconciliationFailedReason SeverityInfo [])) (\<lambda>_.
                       wrapErr ''failed to patch conditions'' (scp_PatchObject E (sv_scope S)))
                  else ret ()) (\<lambda>_.
         andThen (wrapErr ''failed to create new subnet'' (createSubnet E S)) (\<lambda>subnet.
           upd_obj (set_Subnet_ID (Subnet_ID subnet)))))"

section \<open>network.go\<close>

text \<open>
  \<open>if err := m; err != nil { conditions.MarkFalse(..., err.Error()); return err }\<close> followed by
  \<open>conditions.MarkTrue\<close>.
\<close>

definition report_network_step ::
  "'w env \<Rightarrow> string \<Rightarrow> string \<Rightarrow> ((CCEManagedControlPlane, 'w) st, unit) go \<Rightarrow>
   ((CCEManagedControlPlane, 'w) st, unit) go" where
  "report_network_step E cond reason m =
     andThen (onErr m (\<lambda>e.
                andThen (upd_obj (\<lambda>cp. cp_MarkFalse (env_lib E) cond reason
                                         (ErrorConditionAfterInit (env_lib E) cp) (Error e) cp)) (\<lambda>_.
                fail e))) (\<lambda>_.
       upd_obj (cp_MarkTrue (env_lib E) cond))"

definition ReconcileNetwork :: "'w env \<Rightarrow> 'w Service \<Rightarrow> ((CCEManagedControlPlane, 'w) st, unit) go" where
  "ReconcileNetwork E S =
     andThen (report_network_step E VpcReadyCondition VpcReconciliationFailedReason (reconcileVPC E S)) (\<lambda>_.
       report_network_step E SubnetsReadyCondition SubnetsReconciliationFailedReason (reconcileSubnets E S))"

definition DeleteNetwork :: "((CCEManagedControlPlane, 'w) st, unit) go" where
  "DeleteNetwork = ret ()"

section \<open>What the network steps do\<close>

text \<open>The calls each may issue: nothing of the cluster, the node pools or the EIP.\<close>

definition network_call :: "call \<Rightarrow> bool" where
  "network_call c \<longleftrightarrow>
     (case c of CallRand _ \<Rightarrow> True | CallCreateVpc _ \<Rightarrow> True | CallCreateSubnet _ \<Rightarrow> True
      | CallListSubnets _ \<Rightarrow> True | CallPatchControlPlane _ \<Rightarrow> True | _ \<Rightarrow> False)"

lemma network_call_simps [simp]:
  "network_call (CallRand n)" "network_call (CallCreateVpc v)" "network_call (CallCreateSubnet q)"
  "network_call (CallListSubnets i)" "network_call (CallPatchControlPlane p)"
  by (simp_all add: network_call_def)

lemma issues_GenerateName: "A (CallRand 5) \<Longrightarrow> steps_in (issues A) (GenerateName E b)"
  by (auto simp: GenerateName_def intro!: issues_rules)

lemma issues_scp_PatchObject:
  "(\<And>p. A (CallPatchControlPlane p)) \<Longrightarrow> steps_in (issues A) (scp_PatchObject E sc)"
  by (auto simp: scp_PatchObject_def intro!: issues_rules)

lemma issues_ReconcileNetwork: "steps_in (issues network_call) (ReconcileNetwork E S)"
  unfolding ReconcileNetwork_def report_network_step_def reconcileVPC_def reconcileSubnets_def
    createVPC_def createSubnet_def listSubnets_def Let_def
  by (intro issues_rules issues_GenerateName issues_scp_PatchObject network_call_simps)

lemma keeps_GenerateName: "steps_in (keeps f) (GenerateName E b)"
  by (auto simp: GenerateName_def intro!: keeps_rules)

lemma keeps_scp_PatchObject: "steps_in (keeps f) (scp_PatchObject E sc)"
  by (auto simp: scp_PatchObject_def intro!: keeps_rules)

end
