(* ===== verification/Network_Props.thy ===== *)
theory Network_Props
  imports Network Demo_Env Call_Costs
begin

text \<open>
  Properties of the network steps (\<open>network.go\<close>, \<open>vpc.go\<close>, \<open>subnets.go\<close>): what is created and where,
  what is left alone, what the conditions say when a step fails, and two places where the code
  does less than it means to.
\<close>

section \<open>The two steps\<close>

text \<open>
  \<open>vpc_answer\<close> and \<open>subnet_answer\<close>: the cloud answered a request with that ID; for a subnet that exists
  already, the ID is the first it lists in the VPC.
\<close>

definition vpc_answer :: "'w Service \<Rightarrow> CreateVpcRequest \<Rightarrow> string \<Rightarrow> bool" where
  "vpc_answer S q i \<longleftrightarrow> (\<exists>w r v. CreateVpc (sv_VPCClient S) q w = (Ret r, v) \<and> cvr_Vpc r = Some i)"

definition subnet_answer :: "'w Service \<Rightarrow> CreateSubnetRequest \<Rightarrow> string \<Rightarrow> bool" where
  "subnet_answer S q i \<longleftrightarrow>
     (\<exists>w r v. CreateSubnet (sv_VPCClient S) q w = (Ret r, v) \<and> cnr_Subnet r = Some i) \<or>
     (\<exists>w e v r u is. CreateSubnet (sv_VPCClient S) q w = (Err e, v) \<and> subnet_conflict e \<and>
        ListSubnets (sv_VPCClient S) (cn_VpcId q) v = (Ret r, u) \<and> lsr_Subnets r = Some (i # is))"

lemma vpc_answerI: "CreateVpc (sv_VPCClient S) q w = (Ret r, v) \<Longrightarrow> cvr_Vpc r = Some i \<Longrightarrow> vpc_answer S q i"
  unfolding vpc_answer_def by blast

lemma subnet_answerI:
  "CreateSubnet (sv_VPCClient S) q w = (Ret r, v) \<Longrightarrow> cnr_Subnet r = Some i \<Longrightarrow> subnet_answer S q i"
  "CreateSubnet (sv_VPCClient S) q w = (Err e, v) \<Longrightarrow> subnet_conflict e \<Longrightarrow>
   ListSubnets (sv_VPCClient S) (cn_VpcId q) v = (Ret l, u) \<Longrightarrow> lsr_Subnets l = Some (i # is) \<Longrightarrow> subnet_answer S q i"
  unfolding subnet_answer_def by blast+

lemma createVPC_Ret:
  assumes "createVPC E S s = (Ret x, t)"
  obtains q where "calls t = calls s @ [CallRand 5, CallCreateVpc q]" "obj t = obj s" "vpc_answer S q (VPC_ID x)"
  using assms
  by (auto simp: createVPC_def go_simps Let_def split: prod.splits outcome.splits option.splits)
    (blast intro: vpc_answerI)

lemma keeps_createVPC: "steps_in (keeps id) (createVPC E S)"
  unfolding createVPC_def Let_def by (intro keeps_rules keeps_GenerateName)

lemma keeps_createSubnet: "steps_in (keeps id) (createSubnet E S)"
  unfolding createSubnet_def listSubnets_def Let_def by (intro keeps_rules keeps_GenerateName)

lemma reconcileVPC_present: "vpc_id_of (obj s) \<noteq> [] \<Longrightarrow> reconcileVPC E S s = (Ret (), s)"
  by (simp add: reconcileVPC_def go_simps)

lemma reconcileSubnets_present: "subnet_id_of (obj s) \<noteq> [] \<Longrightarrow> reconcileSubnets E S s = (Ret (), s)"
  by (simp add: reconcileSubnets_def go_simps)

lemma reconcileVPC_Ret:
  assumes "reconcileVPC E S s = (Ret (), t)" and "vpc_id_of (obj s) = []"
  obtains q where "creations s t = [CallCreateVpc q]" "subnet_id_of (obj t) = subnet_id_of (obj s)"
    "vpc_answer S q (vpc_id_of (obj t))"
    "cp_Status (obj t) = cp_Status (obj s) \<or>
     cp_Status (obj t) = cp_Status (cp_MarkFalse (env_lib E) VpcReadyCondition VpcCreationStartedReason SeverityInfo [] (obj s))"
  using assms
  by (auto simp: reconcileVPC_def go_simps creations_def new_calls_def
           split: prod.splits outcome.splits if_splits elim!: createVPC_Ret)

lemma createSubnet_Ret:
  assumes "createSubnet E S s = (Ret v, t)"
  obtains q where "creations s t = [CallCreateSubnet q]" "cn_VpcId q = vpc_id_of (obj s)" "obj t = obj s"
    "subnet_answer S q (Subnet_ID v)"
  using assms
  by (auto simp: createSubnet_def listSubnets_def go_simps Let_def creations_def new_calls_def
           split: prod.splits outcome.splits option.splits list.splits if_splits sum.splits)
    (auto dest: subnet_answerI)

lemma reconcileSubnets_Ret:
  assumes "reconcileSubnets E S s = (Ret (), t)" and "subnet_id_of (obj s) = []"
    and "cp_Has (env_lib E) VpcReadyCondition (obj s)"
  obtains q where "creations s t = [CallCreateSubnet q]" "cn_VpcId q = vpc_id_of (obj s)"
    "vpc_id_of (obj t) = vpc_id_of (obj s)" "cp_Status (obj t) = cp_Status (obj s)" "subnet_answer S q (subnet_id_of (obj t))"
proof -
  from assms obtain v u where "createSubnet E S s = (Ret v, u)" "t = u\<lparr>obj := set_Subnet_ID (Subnet_ID v) (obj u)\<rparr>"
    by (auto simp: reconcileSubnets_def go_simps split: prod.splits outcome.splits)
  with that show thesis
    by (auto simp: creations_def new_calls_def elim!: createSubnet_Ret)
qed

lemma report_network_step_Ret:
  "report_network_step E cond reason m s = (Ret (), t) \<longleftrightarrow>
   (\<exists>u. m s = (Ret (), u) \<and> t = u\<lparr>obj := cp_MarkTrue (env_lib E) cond (obj u)\<rparr>)"
  by (auto simp: report_network_step_def go_simps split: prod.splits outcome.splits)

lemma report_network_step_Err:
  "report_network_step E cond reason m s = (Err e, t) \<longleftrightarrow>
   (\<exists>u. m s = (Err e, u) \<and>
      t = u\<lparr>obj := cp_MarkFalse (env_lib E) cond reason
                     (ErrorConditionAfterInit (env_lib E) (obj u)) (Error e) (obj u)\<rparr>)"
  by (auto simp: report_network_step_def go_simps split: prod.splits outcome.splits)

lemma report_network_step_calls:
  "report_network_step E cond reason m s = (r, t) \<Longrightarrow> m s = (q, v) \<Longrightarrow> calls t = calls v"
  by (cases q) (auto simp: report_network_step_def go_simps)

lemma ReconcileNetwork_present:
  "vpc_id_of (obj s) \<noteq> [] \<Longrightarrow>
   ReconcileNetwork E S s =
     report_network_step E SubnetsReadyCondition SubnetsReconciliationFailedReason (reconcileSubnets E S)
       (s\<lparr>obj := cp_MarkTrue (env_lib E) VpcReadyCondition (obj s)\<rparr>)"
  unfolding ReconcileNetwork_def
  by (rule andThen_run) (simp add: report_network_step_Ret reconcileVPC_present)

lemma ReconcileNetwork_RetE:
  assumes "ReconcileNetwork E S s = (Ret (), t)"
  obtains u v where "reconcileVPC E S s = (Ret (), u)"
    "reconcileSubnets E S (u\<lparr>obj := cp_MarkTrue (env_lib E) VpcReadyCondition (obj u)\<rparr>) = (Ret (), v)"
    "t = v\<lparr>obj := cp_MarkTrue (env_lib E) SubnetsReadyCondition (obj v)\<rparr>"
  using assms unfolding ReconcileNetwork_def
  by (elim andThen_RetE) (auto simp: report_network_step_Ret)

lemma issues_reconcileVPC: "steps_in (issues network_call) (reconcileVPC E S)"
  unfolding reconcileVPC_def createVPC_def Let_def
  by (intro issues_rules issues_GenerateName issues_scp_PatchObject network_call_simps)

lemma issues_reconcileSubnets: "steps_in (issues network_call) (reconcileSubnets E S)"
  unfolding reconcileSubnets_def createSubnet_def listSubnets_def Let_def
  by (intro issues_rules issues_GenerateName issues_scp_PatchObject network_call_simps)

lemma condition_types_differ [simp]:
  "VpcReadyCondition \<noteq> SubnetsReadyCondition" "SubnetsReadyCondition \<noteq> VpcReadyCondition"
  by (simp_all add: condition_types)

section \<open>What the network reconcile creates\<close>

text \<open>
  C25. A successful network reconcile creates a VPC exactly when the spec names none, a subnet
  exactly when the spec names none, in this order and in the VPC the spec names afterwards; it
  keeps an ID that is already there and writes back the ID the cloud answered a creation with, and both
  readiness conditions end up true.
\<close>

theorem ReconcileNetwork_success:
  assumes "conditions_documented (env_lib E)" and "ReconcileNetwork E S s = (Ret (), t)"
  shows "\<exists>v q. creations s t =
             (if vpc_id_of (obj s) = [] then [CallCreateVpc v] else []) @
             (if subnet_id_of (obj s) = [] then [CallCreateSubnet q] else []) \<and>
           cn_VpcId q = vpc_id_of (obj t) \<and>
           (vpc_id_of (obj s) \<noteq> [] \<longrightarrow> vpc_id_of (obj t) = vpc_id_of (obj s)) \<and>
           (subnet_id_of (obj s) \<noteq> [] \<longrightarrow> subnet_id_of (obj t) = subnet_id_of (obj s)) \<and>
           (vpc_id_of (obj s) = [] \<longrightarrow> vpc_answer S v (vpc_id_of (obj t))) \<and>
           (subnet_id_of (obj s) = [] \<longrightarrow> subnet_answer S q (subnet_id_of (obj t))) \<and>
           cp_IsTrue (env_lib E) VpcReadyCondition (obj t) \<and>
           cp_IsTrue (env_lib E) SubnetsReadyCondition (obj t)"
proof -
  obtain u v where vpc: "reconcileVPC E S s = (Ret (), u)"
    and sub: "reconcileSubnets E S (u\<lparr>obj := cp_MarkTrue (env_lib E) VpcReadyCondition (obj u)\<rparr>) = (Ret (), v)"
    and t: "t = v\<lparr>obj := cp_MarkTrue (env_lib E) SubnetsReadyCondition (obj v)\<rparr>"
    using assms(2) by (rule ReconcileNetwork_RetE)
  have one: "creations s t = creations s u @ creations u v"
    using creations_trans[OF steps_inD[OF issues_reconcileVPC vpc], of network_call v]
      steps_inD[OF issues_reconcileSubnets sub] t by simp
  have A: "\<exists>w. creations s u = (if vpc_id_of (obj s) = [] then [CallCreateVpc w] else [])
      \<and> subnet_id_of (obj u) = subnet_id_of (obj s)
      \<and> (vpc_id_of (obj s) \<noteq> [] \<longrightarrow> u = s)
      \<and> (vpc_id_of (obj s) = [] \<longrightarrow> vpc_answer S w (vpc_id_of (obj u)))"
    using vpc reconcileVPC_present[of s E S]
    by (cases "vpc_id_of (obj s) = []") (auto elim: reconcileVPC_Ret simp: creations_def)
  have has: "cp_Has (env_lib E) VpcReadyCondition (cp_MarkTrue (env_lib E) VpcReadyCondition (obj u))"
    by (simp add: cp_Has_MarkTrue[OF assms(1)])
  have B: "\<exists>q. creations u v = (if subnet_id_of (obj u) = [] then [CallCreateSubnet q] else [])
      \<and> cn_VpcId q = vpc_id_of (obj v) \<and> vpc_id_of (obj v) = vpc_id_of (obj u)
      \<and> (subnet_id_of (obj u) \<noteq> [] \<longrightarrow> subnet_id_of (obj v) = subnet_id_of (obj u))
      \<and> (subnet_id_of (obj u) = [] \<longrightarrow> subnet_answer S q (subnet_id_of (obj v)))
      \<and> cp_Status (obj v) = cp_Status (cp_MarkTrue (env_lib E) VpcReadyCondition (obj u))"
  proof (cases "subnet_id_of (obj u) = []")
    case True
    with reconcileSubnets_Ret[OF sub] has show ?thesis by (simp, metis)
  next
    case False
    with sub have "v = u\<lparr>obj := cp_MarkTrue (env_lib E) VpcReadyCondition (obj u)\<rparr>"
      by (simp add: reconcileSubnets_present)
    with False show ?thesis
      by (intro exI[of _ "\<lparr>cn_Name = [], cn_Cidr = [], cn_VpcId = vpc_id_of (obj v), cn_GatewayIp = [], cn_Tags = []\<rparr>"])
        (simp add: creations_def)
  qed
  have "cp_IsTrue (env_lib E) VpcReadyCondition (obj v)"
    using B cp_IsTrue_MarkTrue[OF assms(1), of VpcReadyCondition VpcReadyCondition "obj u"]
    by (auto simp: cp_IsTrue_def cp_GetConditions_def)
  then have C: "cp_IsTrue (env_lib E) VpcReadyCondition (obj t)" "cp_IsTrue (env_lib E) SubnetsReadyCondition (obj t)"
    using t by (simp_all add: cp_IsTrue_MarkTrue[OF assms(1)])
  have ids: "vpc_id_of (obj t) = vpc_id_of (obj v)" "subnet_id_of (obj t) = subnet_id_of (obj v)"
    using t by simp_all
  from A B C ids one show ?thesis by (elim exE) auto
qed

lemma demo_network_run: "fst (ReconcileNetwork demo_env demo_service (start demo_cp)) = Ret ()"
  by code_simp

lemma ReconcileNetwork_success_witness:
  "\<exists>t v q. ReconcileNetwork demo_env demo_service (start demo_cp) = (Ret (), t) \<and>
     creations (start demo_cp) t = [CallCreateVpc v, CallCreateSubnet q] \<and> cn_VpcId q = vpc_id_of (obj t)"
proof -
  obtain t where t: "ReconcileNetwork demo_env demo_service (start demo_cp) = (Ret (), t)"
    by (rule ended[OF demo_network_run])
  have "conditions_documented (env_lib demo_env)"
    by (simp add: demo_env_def demo_conditions)
  from ReconcileNetwork_success[OF this t] t show ?thesis
    by (auto simp: vpc_id_of_def subnet_id_of_def start_def demo_cp_def)
qed

text \<open>
  When the spec names a VPC and a subnet, a network reconcile issues no call at all: it only
  sets the two conditions.
\<close>

lemma ReconcileNetwork_idle:
  assumes "vpc_id_of (obj s) \<noteq> []" and "subnet_id_of (obj s) \<noteq> []"
  shows "ReconcileNetwork E S s =
    (Ret (), s\<lparr>obj := cp_MarkTrue (env_lib E) SubnetsReadyCondition
                       (cp_MarkTrue (env_lib E) VpcReadyCondition (obj s))\<rparr>)"
  using assms reconcileVPC_present[of s E S]
    reconcileSubnets_present[of "s\<lparr>obj := cp_MarkTrue (env_lib E) VpcReadyCondition (obj s)\<rparr>" E S]
  by (simp add: ReconcileNetwork_def report_network_step_def go_simps)

lemma ReconcileNetwork_idle_witness:
  "fst (ReconcileNetwork demo_env demo_service (start (set_VPC_ID ''v'' (set_Subnet_ID ''u'' demo_cp)))) = Ret ()"
  by (subst ReconcileNetwork_idle) (simp_all add: start_def)

section \<open>Failures\<close>

text \<open>
  C26. A network reconcile that fails says so in the object: the last condition written is the one
  of the failing step, with its reason, the error's text and the severity that
  \<open>ErrorConditionAfterInit\<close> gives. When the VPC failed no subnet has been requested; when the
  subnet failed the VPC condition is true.
\<close>

theorem ReconcileNetwork_failure:
  assumes "conditions_documented (env_lib E)" and "ReconcileNetwork E S s = (Err e, t)"
  shows "(\<exists>x. obj t = cp_MarkFalse (env_lib E) VpcReadyCondition VpcReconciliationFailedReason
                 (ErrorConditionAfterInit (env_lib E) x) (Error e) x \<and>
              \<not> cp_IsTrue (env_lib E) VpcReadyCondition (obj t) \<and>
              vpc_id_of (obj s) = [] \<and> (\<forall>q. CallCreateSubnet q \<notin> set (new_calls s t))) \<or>
         (\<exists>x. obj t = cp_MarkFalse (env_lib E) SubnetsReadyCondition SubnetsReconciliationFailedReason
                 (ErrorConditionAfterInit (env_lib E) x) (Error e) x \<and>
              \<not> cp_IsTrue (env_lib E) SubnetsReadyCondition (obj t) \<and>
              cp_IsTrue (env_lib E) VpcReadyCondition (obj t) \<and> subnet_id_of (obj t) = [])"
proof (cases "\<exists>u. reconcileVPC E S s = (Err e, u)")
  case True
  then obtain u where u: "reconcileVPC E S s = (Err e, u)" by blast
  have new: "new_calls s t = new_calls s u" and objt: "obj t = cp_MarkFalse (env_lib E) VpcReadyCondition
      VpcReconciliationFailedReason (ErrorConditionAfterInit (env_lib E) (obj u)) (Error e) (obj u)"
    using u assms(2)
    by (auto simp: ReconcileNetwork_def report_network_step_def go_simps new_calls_def)
  have "steps_in (issues (\<lambda>c. \<forall>q. c \<noteq> CallCreateSubnet q)) (reconcileVPC E S)"
    unfolding reconcileVPC_def createVPC_def Let_def
    by (intro issues_rules issues_GenerateName issues_scp_PatchObject) simp_all
  from issues_new_calls[OF steps_inD[OF this u]] have "\<forall>q. CallCreateSubnet q \<notin> set (new_calls s t)"
    using new by (auto simp: list_all_iff)
  moreover have "vpc_id_of (obj s) = []"
    using reconcileVPC_present[of s E S] u by fastforce
  ultimately show ?thesis
    using objt cp_IsTrue_MarkFalse[OF assms(1)] by auto
next
  case False
  then obtain u v where vpc: "reconcileVPC E S s = (Ret (), u)"
    and sub: "reconcileSubnets E S (u\<lparr>obj := cp_MarkTrue (env_lib E) VpcReadyCondition (obj u)\<rparr>) = (Err e, v)"
    and t: "t = v\<lparr>obj := cp_MarkFalse (env_lib E) SubnetsReadyCondition SubnetsReconciliationFailedReason
                    (ErrorConditionAfterInit (env_lib E) (obj v)) (Error e) (obj v)\<rparr>"
    using assms(2) unfolding ReconcileNetwork_def
    by (elim andThen_ErrE) (auto simp: report_network_step_Err report_network_step_Ret)
  have id: "subnet_id_of (obj u) = []"
    using reconcileSubnets_present[of "u\<lparr>obj := cp_MarkTrue (env_lib E) VpcReadyCondition (obj u)\<rparr>" E S] sub
    by fastforce
  have has: "cp_Has (env_lib E) VpcReadyCondition (cp_MarkTrue (env_lib E) VpcReadyCondition (obj u))"
    by (simp add: cp_Has_MarkTrue[OF assms(1)])
  have "obj v = cp_MarkTrue (env_lib E) VpcReadyCondition (obj u)"
    using sub id has
    by (auto simp: reconcileSubnets_def go_simps keeps_def split: prod.splits outcome.splits
             dest!: steps_inD[OF keeps_createSubnet])
  then show ?thesis
    using t id by (auto simp: cp_IsTrue_MarkFalse[OF assms(1)] cp_IsTrue_MarkTrue[OF assms(1)])
qed

definition demo_no_vpc :: "nat Service" where
  "demo_no_vpc = demo_service\<lparr>sv_VPCClient := demo_vpc\<lparr>CreateVpc := (\<lambda>_. fail (ErrorString ''quota''))\<rparr>\<rparr>"

lemma demo_no_vpc_run:
  "fst (ReconcileNetwork demo_env demo_no_vpc (start demo_cp))
     = Err (Wrapped ''failed to create new vpc'' (Wrapped ''failed to create vpc'' (ErrorString ''quota'')))"
  by code_simp

lemma ReconcileNetwork_failure_witness:
  "\<exists>e t. ReconcileNetwork demo_env demo_no_vpc (start demo_cp) = (Err e, t) \<and>
     (\<not> cp_IsTrue demo_lib VpcReadyCondition (obj t) \<or> \<not> cp_IsTrue demo_lib SubnetsReadyCondition (obj t))"
proof -
  obtain e t where t: "ReconcileNetwork demo_env demo_no_vpc (start demo_cp) = (Err e, t)"
    by (rule ended[OF demo_no_vpc_run])
  have E: "env_lib demo_env = demo_lib"
    by (simp add: demo_env_def)
  from ReconcileNetwork_failure[OF _ t] t show ?thesis
    by (auto simp: E demo_conditions)
qed

text \<open>
  \<open>reconcileSubnets\<close> means to patch a first \<open>SubnetsReady\<close> condition before it creates a subnet,
  but it asks whether the object has the \<open>VpcReady\<close> condition, which \<open>ReconcileNetwork\<close> has just
  set. With the VPC named in the spec, no run of \<open>ReconcileNetwork\<close> patches the object.
\<close>

lemma subnets_progress_never_patched:
  assumes "conditions_documented (env_lib E)" and "vpc_id_of (obj s) \<noteq> []"
    and "ReconcileNetwork E S s = (r, t)"
  shows "CallPatchControlPlane p \<notin> set (new_calls s t)"
proof -
  let ?u = "s\<lparr>obj := cp_MarkTrue (env_lib E) VpcReadyCondition (obj s)\<rparr>"
  obtain q v where sub: "reconcileSubnets E S ?u = (q, v)" by fastforce
  have "new_calls s t = new_calls s v"
    using assms(3) sub unfolding ReconcileNetwork_present[OF assms(2)] new_calls_def
    by (simp add: report_network_step_calls)
  moreover have "list_all (\<lambda>c. \<forall>p. c \<noteq> CallPatchControlPlane p) (new_calls s v)"
  proof (cases "subnet_id_of (obj s) = []")
    case True
    have "steps_in (issues (\<lambda>c. \<forall>p. c \<noteq> CallPatchControlPlane p)) (createSubnet E S)"
      unfolding createSubnet_def listSubnets_def Let_def by (intro issues_rules issues_GenerateName) simp_all
    moreover obtain x w where "createSubnet E S ?u = (x, w)" by fastforce
    ultimately have "issues (\<lambda>c. \<forall>p. c \<noteq> CallPatchControlPlane p) ?u w" "calls v = calls w"
      using sub True
      by (auto simp: reconcileSubnets_def go_simps cp_Has_MarkTrue[OF assms(1)]
               split: outcome.splits dest!: steps_inD)
    then show ?thesis by (auto simp: issues_def new_calls_def)
  next
    case False
    with sub show ?thesis by (auto simp: reconcileSubnets_present)
  qed
  ultimately show ?thesis by (auto simp: list_all_iff)
qed

lemma subnets_progress_never_patched_witness:
  "\<exists>t. ReconcileNetwork demo_env demo_service (start (set_VPC_ID ''v'' demo_cp)) = (Ret (), t) \<and>
     \<not> cp_Has demo_lib SubnetsReadyCondition (set_VPC_ID ''v'' demo_cp) \<and>
     CallPatchControlPlane (obj t) \<notin> set (new_calls (start (set_VPC_ID ''v'' demo_cp)) t)"
proof -
  have "fst (ReconcileNetwork demo_env demo_service (start (set_VPC_ID ''v'' demo_cp))) = Ret ()"
    by code_simp
  then obtain t where t: "ReconcileNetwork demo_env demo_service (start (set_VPC_ID ''v'' demo_cp)) = (Ret (), t)"
    by (rule ended)
  have E: "conditions_documented (env_lib demo_env)"
    by (simp add: demo_env_def demo_conditions)
  have v: "vpc_id_of (obj (start (set_VPC_ID ''v'' demo_cp))) \<noteq> []"
    by (simp add: start_def)
  have "\<not> cp_Has demo_lib SubnetsReadyCondition (set_VPC_ID ''v'' demo_cp)"
    by code_simp
  with subnets_progress_never_patched[OF E v t] t show ?thesis by blast
qed

text \<open>
  When the cloud answers that the subnet exists or conflicts, \<open>createSubnet\<close> adopts the first
  subnet listed for the VPC, whatever its address range, and panics when the list is empty.
\<close>

lemma createSubnet_conflict:
  assumes "\<And>q w. CreateSubnet (sv_VPCClient S) q w = (Err (ServiceResponseError st ''VPC.0204'' txt), w)"
    and "\<And>i w. ListSubnets (sv_VPCClient S) i w = (Ret \<lparr>lsr_Subnets = Some subnets\<rparr>, w)"
  shows "fst (createSubnet E S s) = (case subnets of [] \<Rightarrow> Panic | found # _ \<Rightarrow> Ret \<lparr>Subnet_ID = found\<rparr>)"
  by (simp add: createSubnet_def listSubnets_def go_simps Let_def assms subnet_conflict_def
      split: prod.split list.split)

definition demo_conflict :: "string list \<Rightarrow> nat Service" where
  "demo_conflict subnets = demo_service\<lparr>sv_VPCClient :=
     demo_vpc\<lparr>CreateSubnet := (\<lambda>_. fail (ServiceResponseError 409 ''VPC.0204'' ''conflict'')),
              ListSubnets := (\<lambda>_. ret \<lparr>lsr_Subnets = Some subnets\<rparr>)\<rparr>\<rparr>"

lemma createSubnet_conflict_witness:
  "fst (createSubnet demo_env (demo_conflict [''other'', ''mine'']) (start demo_cp)) = Ret \<lparr>Subnet_ID = ''other''\<rparr> \<and>
   fst (createSubnet demo_env (demo_conflict []) (start demo_cp)) = Panic"
  using createSubnet_conflict[of "demo_conflict [''other'', ''mine'']" 409 "''conflict''" "[''other'', ''mine'']" demo_env "start demo_cp"]
    createSubnet_conflict[of "demo_conflict []" 409 "''conflict''" "[]" demo_env "start demo_cp"]
  by (simp add: demo_conflict_def go_simps)

end
