(* ===== verification/Eip.thy ===== *)
theory Eip
  imports Cce_Service
begin

text \<open>
  \<open>eip.go\<close> of the control plane service: a cluster without a public endpoint gets an elastic IP,
  which is created, recorded in the status and bound to the cluster's master.
\<close>

definition defaultEIPType :: string where
  "defaultEIPType = ''5_bgp''"

text \<open>\<open>ControlPlane.Status.Network = NetworkStatus{EIP: EIP{ID: id}}\<close>.\<close>

definition set_EIP_status :: "string \<Rightarrow> CCEManagedControlPlane \<Rightarrow> CCEManagedControlPlane" where
  "set_EIP_status i = cp_Status_update (cpst_Network_update (\<lambda>_. \<lparr>nst_EIP = \<lparr>EIP_ID = i\<rparr>\<rparr>))"

lemma set_EIP_status_frame [simp]:
  "cp_Meta (set_EIP_status i cp) = cp_Meta cp"
  "cp_Spec (set_EIP_status i cp) = cp_Spec cp"
  "cpst_Network (cp_Status (set_EIP_status i cp)) = \<lparr>nst_EIP = \<lparr>EIP_ID = i\<rparr>\<rparr>"
  "cpst_Ready (cp_Status (set_EIP_status i cp)) = cpst_Ready (cp_Status cp)"
  by (simp_all add: set_EIP_status_def)

definition eip_request :: "SdkEnums \<Rightarrow> CCEManagedControlPlane \<Rightarrow> CreatePublicipRequest" where
  "eip_request en cp =
     \<lparr>pq_Type = defaultEIPType, pq_ChargeMode = en_EIP_TRAFFIC en,
      pq_BandwidthName = scp_InfraClusterName cp, pq_ShareType = en_EIP_PER en,
      pq_Size = 100, pq_EnterpriseProjectId = scp_Project cp\<rparr>"

definition reconcileEIP :: "'w env \<Rightarrow> 'w Service \<Rightarrow> ((CCEManagedControlPlane, 'w) st, unit) go" where
  "reconcileEIP E S =
     andThen (gets (\<lambda>s. scp_InfraClusterID (obj s))) (\<lambda>clusterId.
     andThen (wrapErr ''failed to show cluster endpoint''
               (ext (CallShowClusterEndpoints clusterId)
                 (ShowClusterEndpoints (sv_CCEClient S) clusterId))) (\<lambda>epRes.
     andThen (deref (sce_Status epRes)) (\<lambda>status.
       if (case ces_PublicEndpoint status of None \<Rightarrow> False | Some p \<Rightarrow> p \<noteq> []) then ret ()
       else
         andThen (gets (\<lambda>s. eip_request (lib_enums (env_lib E)) (obj s))) (\<lambda>eipReq.
         andThen (wrapErr ''failed to create EIP''
                   (ext (CallCreatePublicip eipReq) (CreatePublicip (sv_EIPClient S) eipReq))) (\<lambda>eipRes.
         andThen (deref (pr_Publicip eipRes)) (\<lambda>publicip.
         andThen (upd_obj (set_EIP_status (case pi_Id publicip of None \<Rightarrow> [] | Some i \<Rightarrow> i))) (\<lambda>_.
           let bindEIPReq = \<lparr>ue_ClusterId = clusterId,
                             ue_Action = en_EIP_BIND (lib_enums (env_lib E)),
                             ue_Id = pi_Id publicip\<rparr> in
           wrapErr ''failed to bind EIP''
             (ext (CallUpdateClusterEip bindEIPReq) (UpdateClusterEip (sv_CCEClient S) bindEIPReq)))))))))"

definition eip_call :: "call \<Rightarrow> bool" where
  "eip_call c \<longleftrightarrow>
     (case c of CallShowClusterEndpoints _ \<Rightarrow> True | CallCreatePublicip _ \<Rightarrow> True
      | CallUpdateClusterEip _ \<Rightarrow> True | _ \<Rightarrow> False)"

lemma eip_call_simps [simp]:
  "eip_call (CallShowClusterEndpoints i)" "eip_call (CallCreatePublicip q)" "eip_call (CallUpdateClusterEip u)"
  by (simp_all add: eip_call_def)

lemma issues_reconcileEIP: "steps_in (issues eip_call) (reconcileEIP E S)"
  unfolding reconcileEIP_def Let_def
  by (intro issues_rules eip_call_simps)

end
