(* ===== verification/Kubeconfig.thy ===== *)
theory Kubeconfig
  imports Cce_Service
begin

text \<open>
  \<open>config.go\<close> of the control plane service: the kubeconfig secret that Cluster API uses to reach
  the workload cluster is created once and its client certificate renewed on every reconcile.
\<close>

section \<open>Certificates\<close>

definition decode_field :: "string \<Rightarrow> string \<Rightarrow> ('s, string) go" where
  "decode_field msg data =
     (case base64_DecodeString data of Inl e \<Rightarrow> fail (Wrapped msg e) | Inr bs \<Rightarrow> ret bs)"

definition generateClientData ::
  "'w Service \<Rightarrow> ((CCEManagedControlPlane, 'w) st, string \<times> string) go" where
  "generateClientData S =
     andThen (gets (\<lambda>s. \<lparr>ct_ClusterId = scp_InfraClusterID (obj s), ct_Duration = 10 * 365\<rparr>)) (\<lambda>certReq.
     andThen (wrapErr ''failed to create CCE cluster cert''
               (ext (CallCreateCert certReq)
                 (CreateKubernetesClusterCert (sv_CCEClient S) certReq))) (\<lambda>certResp.
     andThen (deref (ctr_Users certResp)) (\<lambda>users.
     andThen (deref (case users of [] \<Rightarrow> None | u # _ \<Rightarrow> us_User u)) (\<lambda>user.
     andThen (deref (cu_ClientCertificateData user)) (\<lambda>clientCertificateData.
     andThen (decode_field ''decoding cluster client cert'' clientCertificateData) (\<lambda>certData.
     andThen (deref (cu_ClientKeyData user)) (\<lambda>clientKeyData.
     andThen (decode_field ''decoding cluster client key'' clientKeyData) (\<lambda>keyData.
       ret (certData, keyData)))))))))"

section \<open>Building the kubeconfig\<close>

definition getKubeConfigUserName :: "string \<Rightarrow> bool \<Rightarrow> string" where
  "getKubeConfigUserName clusterName isUser =
     (if isUser then clusterName @ ''-user'' else clusterName @ ''-capi-admin'')"

definition createBaseKubeConfig ::
  "'w env \<Rightarrow> 'w Service \<Rightarrow> string \<Rightarrow> ((CCEManagedControlPlane, 'w) st, Config) go" where
  "createBaseKubeConfig E S userName =
     andThen (gets (\<lambda>s. scp_InfraClusterName (obj s))) (\<lambda>clusterName.
       let contextName = userName @ ''@'' @ clusterName in
     andThen (generateClientData S) (\<lambda>(clientCertificateData, clientKeyData).
     andThen (gets (\<lambda>s. cps_ControlPlaneEndpoint (cp_Spec (obj s)))) (\<lambda>endpoint.
       ret \<lparr>cfg_APIVersion = lib_clientcmd_api_Version (env_lib E),
            cfg_Clusters = [clusterName \<mapsto>
              \<lparr>cc_Server = ''https://'' @ lib_APIEndpoint_String (env_lib E) endpoint,
               cc_InsecureSkipTLSVerify = True\<rparr>],
            cfg_Contexts = [contextName \<mapsto> \<lparr>cx_Cluster = clusterName, cx_AuthInfo = userName\<rparr>],
            cfg_CurrentContext = contextName,
            cfg_AuthInfos = [userName \<mapsto>
              \<lparr>ClientCertificateData = clientCertificateData, ClientKeyData = clientKeyData\<rparr>]\<rparr>)))"

definition from_sum :: "go_error + 'a \<Rightarrow> ('s, 'a) go" where
  "from_sum r = (case r of Inl e \<Rightarrow> fail e | Inr x \<Rightarrow> ret x)"

lemma from_sum_apply [go_simps]:
  "from_sum r s = (case r of Inl e \<Rightarrow> (Err e, s) | Inr x \<Rightarrow> (Ret x, s))"
  by (simp add: from_sum_def go_simps split: sum.split)

definition createCAPIKubeconfigSecret ::
  "'w env \<Rightarrow> 'w Service \<Rightarrow> NamespacedName \<Rightarrow> ((CCEManagedControlPlane, 'w) st, unit) go" where
  "createCAPIKubeconfigSecret E S clusterRef =
     andThen get_obj (\<lambda>cp.
       let controllerOwnerRef = lib_NewControllerRef (env_lib E) (cp_Meta cp)
             GroupVersion_Group GroupVersion_Version ''CCEManagedControlPlane'';
           userName = getKubeConfigUserName (scp_InfraClusterName cp) False in
     andThen (wrapErr ''creating base kubeconfig'' (createBaseKubeConfig E S userName)) (\<lambda>cfg.
     andThen (wrapErr ''failed to serialize config to yaml''
               (from_sum (lib_clientcmd_Write (env_lib E) cfg))) (\<lambda>out.
       let kubeconfigSecret = lib_GenerateSecretWithOwner (env_lib E) clusterRef out controllerOwnerRef in
     andThen (wrapErr ''failed to create kubeconfig secret''
               (ext (CallCreateSecret kubeconfigSecret)
                 (k_CreateSecret (env_kube E) kubeconfigSecret))) (\<lambda>_.
       Eventf E ''SucessfulCreateKubeconfig''
         (''Created kubeconfig for cluster '' @ quoted (scp_InfraClusterName cp))))))"

text \<open>Writing through \<open>config.AuthInfos[userName]\<close> panics when that entry is missing.\<close>

definition updateCAPIKubeconfigSecret ::
  "'w env \<Rightarrow> 'w Service \<Rightarrow> Secret \<Rightarrow> ((CCEManagedControlPlane, 'w) st, unit) go" where
  "updateCAPIKubeconfigSecret E S configSecret =
     andThen (case se_Data configSecret KubeconfigDataName of
                None \<Rightarrow> fail (ErrorString (''missing key '' @ quoted KubeconfigDataName @ '' in secret data''))
              | Some d \<Rightarrow> ret d) (\<lambda>data.
     andThen (wrapErr ''failed to convert kubeconfig Secret into a clientcmdapi.Config''
               (from_sum (lib_clientcmd_Load (env_lib E) data))) (\<lambda>config.
     andThen (generateClientData S) (\<lambda>(clientCertificateData, clientKeyData).
     andThen (gets (\<lambda>s. getKubeConfigUserName (scp_InfraClusterName (obj s)) False)) (\<lambda>userName.
     andThen (deref (cfg_AuthInfos config userName)) (\<lambda>info.
       let config' = config\<lparr>cfg_AuthInfos := (cfg_AuthInfos config)(userName \<mapsto>
             info\<lparr>ClientCertificateData := clientCertificateData, ClientKeyData := clientKeyData\<rparr>)\<rparr> in
     andThen (wrapErr ''failed to serialize config to yaml''
               (from_sum (lib_clientcmd_Write (env_lib E) config'))) (\<lambda>out.
       let configSecret' = configSecret\<lparr>se_Data := (se_Data configSecret)(KubeconfigDataName \<mapsto> out)\<rparr> in
       wrapErr ''updating kubeconfig secret''
         (ext (CallUpdateSecret configSecret') (k_UpdateSecret (env_kube E) configSecret'))))))))"

section \<open>reconcileKubeconfig\<close>

text \<open>
  Both failure branches format the variable \<open>err\<close> of the lookup, not the error of the creation or of
  the update: in the first it is the not-found error, in the second it is nil, which
  \<open>fmt.Errorf\<close> prints as \<open>%!w(<nil>)\<close>.
\<close>

definition set_Initialized :: "CCEManagedControlPlane \<Rightarrow> CCEManagedControlPlane" where
  "set_Initialized = cp_Status_update (cpst_Initialized_update (\<lambda>_. True))"

lemma set_Initialized_frame [simp]:
  "cp_Meta (set_Initialized cp) = cp_Meta cp"
  "cp_Spec (set_Initialized cp) = cp_Spec cp"
  "cpst_Initialized (cp_Status (set_Initialized cp))"
  "cpst_Ready (cp_Status (set_Initialized cp)) = cpst_Ready (cp_Status cp)"
  "cp_GetConditions (set_Initialized cp) = cp_GetConditions cp"
  by (simp_all add: set_Initialized_def cp_GetConditions_def)

definition reconcileKubeconfig :: "'w env \<Rightarrow> 'w Service \<Rightarrow> ((CCEManagedControlPlane, 'w) st, unit) go" where
  "reconcileKubeconfig E S =
     (let clusterRef = \<lparr>nn_Namespace = om_Namespace (cl_Meta (scp_Cluster (sv_scope S))),
                        nn_Name = om_Name (cl_Meta (scp_Cluster (sv_scope S)))\<rparr> in
      andThen (attempt (ext (CallRead ''KubeconfigSecret'') (k_GetKubeconfigSecret (env_kube E) clusterRef))) (\<lambda>r.
      andThen (case r of
                 Inl err \<Rightarrow>
                   if \<not> lib_IsNotFound (env_lib E) err
                   then fail (Wrapped ''failed to get kubeconfig secret'' err)
                   else onErr (createCAPIKubeconfigSecret E S clusterRef) (\<lambda>createErr.
                          fail (Wrapped ''creating kubeconfig secret'' err))
               | Inr configSecret \<Rightarrow>
                   onErr (updateCAPIKubeconfigSecret E S configSecret) (\<lambda>updateErr.
                     fail (ErrorString ''updating kubeconfig secret: %!w(<nil>)''))) (\<lambda>_.
        upd_obj set_Initialized)))"

definition kubeconfig_call :: "call \<Rightarrow> bool" where
  "kubeconfig_call c \<longleftrightarrow>
     (case c of CallRead _ \<Rightarrow> True | CallCreateCert _ \<Rightarrow> True | CallCreateSecret _ \<Rightarrow> True
      | CallUpdateSecret _ \<Rightarrow> True | CallEvent _ _ \<Rightarrow> True | _ \<Rightarrow> False)"

lemma kubeconfig_call_simps [simp]:
  "kubeconfig_call (CallRead x)" "kubeconfig_call (CallCreateCert q)"
  "kubeconfig_call (CallCreateSecret se)" "kubeconfig_call (CallUpdateSecret se)"
  "kubeconfig_call (CallEvent a b)"
  by (simp_all add: kubeconfig_call_def)

lemma issues_from_sum: "steps_in (issues A) (from_sum r)"
  by (auto simp: from_sum_def intro!: issues_rules)

lemma issues_decode_field: "steps_in (issues A) (decode_field m d)"
  by (auto simp: decode_field_def intro!: issues_rules)

lemma keeps_from_sum: "steps_in (keeps f) (from_sum r)"
  by (auto simp: from_sum_def intro!: keeps_rules)

lemma keeps_decode_field: "steps_in (keeps f) (decode_field m d)"
  by (auto simp: decode_field_def intro!: keeps_rules)

lemma issues_reconcileKubeconfig: "steps_in (issues kubeconfig_call) (reconcileKubeconfig E S)"
  unfolding reconcileKubeconfig_def createCAPIKubeconfigSecret_def updateCAPIKubeconfigSecret_def
    createBaseKubeConfig_def generateClientData_def Let_def
  by (intro issues_rules issues_Eventf issues_from_sum issues_decode_field kubeconfig_call_simps)

end
