(* ===== verification/Access_Props.thy ===== *)
theory Access_Props
  imports Eip Kubeconfig Demo_Env Call_Costs
begin

text \<open>
  Properties of \<open>eip.go\<close> and \<open>config.go\<close>: the elastic IP that is created and bound, the kubeconfig
  secret that is created or renewed, and the errors they report.
\<close>

section \<open>The elastic IP\<close>

text \<open>
  C27. A successful \<open>reconcileEIP\<close> has looked the cluster's endpoints up. If there is a public one it
  has done nothing else; otherwise it has issued exactly two more calls, the creation of an address
  and the binding of the address the cloud answered with to the same cluster, both accepted, and
  recorded the ID of that address in the status.
\<close>

theorem reconcileEIP_success:
  assumes "reconcileEIP E S s = (Ret (), t)"
  shows "\<exists>resp status w.
    ShowClusterEndpoints (sv_CCEClient S) (scp_InfraClusterID (obj s)) (world s) = (Ret resp, w) \<and>
    sce_Status resp = Some status \<and>
    (if ces_PublicEndpoint status \<in> {None, Some []}
     then (\<exists>created address v bind.
           CreatePublicip (sv_EIPClient S) (eip_request (lib_enums (env_lib E)) (obj s)) w = (Ret created, v) \<and>
           pr_Publicip created = Some address \<and>
           bind = \<lparr>ue_ClusterId = scp_InfraClusterID (obj s), ue_Action = en_EIP_BIND (lib_enums (env_lib E)),
                   ue_Id = pi_Id address\<rparr> \<and>
           UpdateClusterEip (sv_CCEClient S) bind v = (Ret (), world t) \<and>
           new_calls s t = [CallShowClusterEndpoints (scp_InfraClusterID (obj s)),
              CallCreatePublicip (eip_request (lib_enums (env_lib E)) (obj s)), CallUpdateClusterEip bind] \<and>
           obj t = set_EIP_status (case pi_Id address of None \<Rightarrow> [] | Some x \<Rightarrow> x) (obj s))
     else new_calls s t = [CallShowClusterEndpoints (scp_InfraClusterID (obj s))] \<and> obj t = obj s)"
proof -
  from assms obtain resp status w where
    show_: "ShowClusterEndpoints (sv_CCEClient S) (scp_InfraClusterID (obj s)) (world s) = (Ret resp, w)"
    and st: "sce_Status resp = Some status"
    unfolding reconcileEIP_def by (elim andThen_RetE) (auto simp: gets_apply)
  show ?thesis
  proof (cases "ces_PublicEndpoint status \<in> {None, Some []}")
    case True
    then have none: "(case ces_PublicEndpoint status of None \<Rightarrow> False | Some p \<Rightarrow> p \<noteq> []) = False" by auto
    let ?i = "scp_InfraClusterID (obj s)" and ?q = "eip_request (lib_enums (env_lib E)) (obj s)"
    obtain r v where r: "CreatePublicip (sv_EIPClient S) ?q w = (r, v)" by fastforce
    then obtain created where created: "r = Ret created"
      using assms show_ st none by (cases r) (simp_all add: reconcileEIP_def go_simps)
    obtain address where address: "pr_Publicip created = Some address"
      using assms show_ st none r created by (cases "pr_Publicip created") (simp_all add: reconcileEIP_def go_simps)
    let ?bind = "\<lparr>ue_ClusterId = ?i, ue_Action = en_EIP_BIND (lib_enums (env_lib E)), ue_Id = pi_Id address\<rparr>"
    let ?u = "s\<lparr>world := v, calls := calls s @ [CallShowClusterEndpoints ?i, CallCreatePublicip ?q],
      obj := set_EIP_status (case pi_Id address of None \<Rightarrow> [] | Some x \<Rightarrow> x) (obj s)\<rparr>"
    have "reconcileEIP E S s = wrapErr ''failed to bind EIP''
        (ext (CallUpdateClusterEip ?bind) (UpdateClusterEip (sv_CCEClient S) ?bind)) ?u"
      using show_ st none r created address by (simp add: reconcileEIP_def go_simps Let_def)
    with assms have bound: "UpdateClusterEip (sv_CCEClient S) ?bind v = (Ret (), world t) \<and>
        t = ?u\<lparr>world := world t, calls := calls ?u @ [CallUpdateClusterEip ?bind]\<rparr>"
      by (auto simp: wrapErr_apply split: prod.splits outcome.splits)
    then have "obj t = obj ?u" "new_calls s t = [CallShowClusterEndpoints ?i, CallCreatePublicip ?q, CallUpdateClusterEip ?bind]"
      by (cases t, simp, cases t, simp add: new_calls_def)
    with show_ st True r created address bound show ?thesis
      by simp
  next
    case False
    then have "case ces_PublicEndpoint status of None \<Rightarrow> False | Some p \<Rightarrow> p \<noteq> []"
      by (auto split: option.splits)
    with assms show_ st have "new_calls s t = [CallShowClusterEndpoints (scp_InfraClusterID (obj s))] \<and> obj t = obj s"
      by (auto simp: reconcileEIP_def go_simps new_calls_def)
    with show_ st False show ?thesis by auto
  qed
qed

definition demo_ready_cp :: CCEManagedControlPlane where
  "demo_ready_cp = scp_SetInfraClusterID ''cce-1'' demo_cp"

lemma reconcileEIP_success_witness:
  "\<exists>t i. reconcileEIP demo_env demo_service (start demo_ready_cp) = (Ret (), t) \<and>
     obj t = set_EIP_status i demo_ready_cp \<and> length (new_calls (start demo_ready_cp) t) = 3"
proof -
  have "fst (reconcileEIP demo_env demo_service (start demo_ready_cp)) = Ret ()"
    by code_simp
  then obtain t where t: "reconcileEIP demo_env demo_service (start demo_ready_cp) = (Ret (), t)"
    by (rule ended)
  have "ShowClusterEndpoints (sv_CCEClient demo_service) i w = (Ret \<lparr>sce_Status = Some \<lparr>ces_PublicEndpoint = None\<rparr>\<rparr>, w)" for i w
    by (simp add: demo_service_def demo_cce_def go_simps)
  with reconcileEIP_success[OF t] obtain i where "length (new_calls (start demo_ready_cp) t) = 3"
    "obj t = set_EIP_status i demo_ready_cp"
    by (auto simp: start_def)
  with t show ?thesis by blast
qed

lemma EIP_status_invisible [simp]:
  "scp_InfraClusterID (set_EIP_status i cp) = scp_InfraClusterID cp"
  "eip_request en (set_EIP_status i cp) = eip_request en cp"
  "set_EIP_status i (set_EIP_status j cp) = set_EIP_status i cp"
  by (simp_all add: scp_InfraClusterID_def eip_request_def scp_InfraClusterName_def scp_Project_def set_EIP_status_def)

text \<open>
  The address recorded in the status is never read: \<open>reconcileEIP\<close> behaves alike whatever the
  status says. When binding fails, the next reconcile therefore creates another address and the
  recorded one is overwritten.
\<close>

lemma recorded_EIP_not_consulted:
  "fst (reconcileEIP E S (s\<lparr>obj := set_EIP_status i (obj s)\<rparr>)) = fst (reconcileEIP E S s) \<and>
   calls (snd (reconcileEIP E S (s\<lparr>obj := set_EIP_status i (obj s)\<rparr>))) = calls (snd (reconcileEIP E S s)) \<and>
   world (snd (reconcileEIP E S (s\<lparr>obj := set_EIP_status i (obj s)\<rparr>))) = world (snd (reconcileEIP E S s))"
proof -
  let ?id = "scp_InfraClusterID (obj s)" and ?q = "eip_request (lib_enums (env_lib E)) (obj s)"
  obtain r w where r: "ShowClusterEndpoints (sv_CCEClient S) ?id (world s) = (r, w)" by fastforce
  obtain r' w' where r': "CreatePublicip (sv_EIPClient S) ?q w = (r', w')" by fastforce
  show ?thesis
    using r r'
    by (cases r; cases r') (auto simp: reconcileEIP_def go_simps Let_def split: prod.split option.split outcome.split)
qed

section \<open>The kubeconfig secret\<close>

text \<open>A kubeconfig file is usable when its current context names an entry that exists.\<close>

definition usable :: "Config \<Rightarrow> bool" where
  "usable c \<longleftrightarrow>
     (case cfg_Contexts c (cfg_CurrentContext c) of
        None \<Rightarrow> False
      | Some cx \<Rightarrow> cfg_Clusters c (cx_Cluster cx) \<noteq> None \<and> cfg_AuthInfos c (cx_AuthInfo cx) \<noteq> None)"

lemma generateClientData_Ret:
  assumes "generateClientData S s = (Ret (cert, key), t)"
  shows "obj t = obj s"
    "new_calls s t = [CallCreateCert \<lparr>ct_ClusterId = scp_InfraClusterID (obj s), ct_Duration = 10 * 365\<rparr>]"
  using assms
  by (auto simp: generateClientData_def decode_field_def go_simps new_calls_def
           split: prod.splits outcome.splits option.splits sum.splits list.splits)

lemma createBaseKubeConfig_Ret:
  assumes "createBaseKubeConfig E S u s = (Ret cfg, t)"
  shows "usable cfg \<and> obj t = obj s \<and>
    cfg_Clusters cfg (scp_InfraClusterName (obj s))
      = Some \<lparr>cc_Server = ''https://'' @ lib_APIEndpoint_String (env_lib E) (cps_ControlPlaneEndpoint (cp_Spec (obj s))),
              cc_InsecureSkipTLSVerify = True\<rparr> \<and>
    (\<exists>cert key. generateClientData S s = (Ret (cert, key), t) \<and>
       cfg_AuthInfos cfg u = Some \<lparr>ClientCertificateData = cert, ClientKeyData = key\<rparr>)"
proof -
  from assms obtain cert key where gen: "generateClientData S s = (Ret (cert, key), t)"
    unfolding createBaseKubeConfig_def Let_def by (elim andThen_RetE) (auto simp: go_simps)
  with assms generateClientData_Ret(1)[OF gen] show ?thesis
    by (auto simp: createBaseKubeConfig_def Let_def go_simps usable_def)
qed

section \<open>Certificates\<close>

lemma alphabet_list:
  "list_all (\<lambda>v. base64_value (base64_alphabet ! v) = Some v \<and> base64_alphabet ! v \<noteq> CHR ''='' \<and>
     byte (base64_alphabet ! v) \<noteq> 10 \<and> byte (base64_alphabet ! v) \<noteq> 13) [0..<64]"
  by (simp add: base64_alphabet_def base64_value_def byte_def isDigit_def upt_conv_Cons)

lemma alphabet [simp]:
  assumes "v < 64"
  shows "base64_value (base64_alphabet ! v) = Some v" "base64_alphabet ! v \<noteq> CHR ''=''"
    "byte (base64_alphabet ! v) \<noteq> 10" "byte (base64_alphabet ! v) \<noteq> 13"
  using alphabet_list assms by (simp_all add: list_all_iff)

lemma div_chain:
  fixes v :: nat
  shows "v div 4096 = v div 64 div 64" "v div 262144 = v div 64 div 64 div 64" "v div 65536 = v div 256 div 256"
  by (simp_all flip: div_mult2_eq)

lemma sextets:
  fixes v :: nat
  shows "((v div 262144 * 64 + v div 4096 mod 64) * 64 + v div 64 mod 64) * 64 + v mod 64 = v"
    "(v div 4096 * 64 + v div 64 mod 64) * 64 + v mod 64 = v"
    "v div 64 * 64 + v mod 64 = v"
  unfolding div_chain by simp_all

lemma octet:
  fixes a z :: nat
  assumes "z < 256"
  shows "(a * 256 + z) div 256 = a" "(a * 256 + z) mod 256 = z"
  using assms by simp_all

lemma byte_pad [simp]: "byte (CHR ''='') = 61"
  by (simp add: byte_def)

lemma quantum_bounds:
  "byte x * 16 div 64 < 64"
  "(byte x * 256 + byte y) * 4 div 4096 < 64"
  "((byte x * 256 + byte y) * 256 + byte z) div 262144 < 64"
proof -
  have b: "byte x < 256" "byte y < 256" "byte z < 256" by (rule byte_less)+
  show "byte x * 16 div 64 < 64"
    by (rule less_mult_imp_div_less) (use b in linarith)
  show "(byte x * 256 + byte y) * 4 div 4096 < 64"
    by (rule less_mult_imp_div_less) (use b in simp)
  show "((byte x * 256 + byte y) * 256 + byte z) div 262144 < 64"
    by (rule less_mult_imp_div_less) (use b in simp)
qed

lemma base64_no_breaks: "filter (\<lambda>c. byte c \<noteq> 10 \<and> byte c \<noteq> 13) (base64_EncodeToString bs) = base64_EncodeToString bs"
proof (induction bs rule: base64_EncodeToString.induct)
  case (2 x)
  define v where "v = byte x * 16"
  have "v div 64 < 64" unfolding v_def by (rule quantum_bounds)
  then show ?case unfolding base64_EncodeToString.simps Let_def v_def[symmetric] by simp
next
  case (3 x y)
  define v where "v = (byte x * 256 + byte y) * 4"
  have "v div 4096 < 64" unfolding v_def by (rule quantum_bounds)
  then show ?case unfolding base64_EncodeToString.simps Let_def v_def[symmetric] by simp
next
  case (4 x y z rest)
  define v where "v = (byte x * 256 + byte y) * 256 + byte z"
  have "v div 262144 < 64" unfolding v_def by (rule quantum_bounds)
  with 4 show ?case unfolding base64_EncodeToString.simps Let_def v_def[symmetric] by simp
qed simp

lemma base64_quanta_encode: "base64_quanta (base64_EncodeToString bs) = Some bs"
proof (induction bs rule: base64_EncodeToString.induct)
  case (2 x)
  define v where "v = byte x * 16"
  have "v div 64 < 64" unfolding v_def by (rule quantum_bounds)
  moreover have "(v div 64 * 64 + v mod 64) div 16 = byte x"
    unfolding sextets v_def by simp
  ultimately show ?case unfolding base64_EncodeToString.simps Let_def v_def[symmetric] by simp
next
  case (3 x y)
  define v where "v = (byte x * 256 + byte y) * 4"
  have "v div 4096 < 64" unfolding v_def by (rule quantum_bounds)
  moreover have "v div 4 div 256 = byte x" "v div 4 mod 256 = byte y"
    using octet[OF byte_less, of "byte x" y] by (simp_all only: v_def nonzero_mult_div_cancel_right zero_neq_numeral[symmetric] not_False_eq_True)
  moreover have "v div 4096 * 64 + v div 64 mod 64 = v div 64"
    unfolding div_chain by simp
  moreover have "v div 64 div 16 = v div 4 div 256"
    by (simp flip: div_mult2_eq)
  moreover have "v div 4096 * 4096 + v div 64 mod 64 * 64 + v mod 64 = v"
    using sextets(2)[of v] by simp
  ultimately show ?case unfolding base64_EncodeToString.simps Let_def v_def[symmetric] by simp
next
  case (4 x y z rest)
  define v where "v = (byte x * 256 + byte y) * 256 + byte z"
  have "v div 262144 < 64" unfolding v_def by (rule quantum_bounds)
  moreover have "v div 256 = byte x * 256 + byte y" "v mod 256 = byte z"
    unfolding v_def by (simp_all only: octet byte_less)
  moreover from this have "v div 65536 = byte x" "v div 256 mod 256 = byte y"
    unfolding div_chain by (simp_all only: octet byte_less)
  ultimately show ?case
    unfolding base64_EncodeToString.simps Let_def v_def[symmetric] using 4 sextets(1)[of v] by simp
qed simp

lemma base64_roundtrip: "base64_DecodeString (base64_EncodeToString bs) = Inr bs"
  by (simp add: base64_DecodeString_def base64_no_breaks base64_quanta_encode)

text \<open>
  C28. When the cloud answers with the base64 text of a certificate and of a key in its first user,
  \<open>generateClientData\<close> returns exactly that certificate and that key, having asked for one
  certificate of ten years for the cluster in the label.
\<close>

theorem generateClientData_roundtrip:
  assumes "CreateKubernetesClusterCert (sv_CCEClient S)
      \<lparr>ct_ClusterId = scp_InfraClusterID (obj s), ct_Duration = 10 * 365\<rparr> (world s)
    = (Ret \<lparr>ctr_Users = Some (\<lparr>us_User = Some \<lparr>cu_ClientCertificateData = Some (base64_EncodeToString cert),
                                           cu_ClientKeyData = Some (base64_EncodeToString key)\<rparr>\<rparr> # others)\<rparr>, w)"
  shows "generateClientData S s =
    (Ret (cert, key), s\<lparr>world := w, calls := calls s @
       [CallCreateCert \<lparr>ct_ClusterId = scp_InfraClusterID (obj s), ct_Duration = 10 * 365\<rparr>]\<rparr>)"
  using assms by (simp add: generateClientData_def decode_field_def go_simps base64_roundtrip)

lemma generateClientData_roundtrip_witness:
  "fst (generateClientData demo_service (start demo_cp)) = Ret (''hi'', ''hi'')"
proof -
  have enc: "base64_EncodeToString ''hi'' = ''aGk=''"
    by (simp add: base64_alphabet_def byte_def)
  have "CreateKubernetesClusterCert (sv_CCEClient demo_service) q w
      = (Ret \<lparr>ctr_Users = Some (\<lparr>us_User = Some \<lparr>cu_ClientCertificateData = Some (base64_EncodeToString ''hi''),
                                           cu_ClientKeyData = Some (base64_EncodeToString ''hi'')\<rparr>\<rparr> # [])\<rparr>, w)" for q w
    unfolding enc demo_service_def demo_cce_def by (simp add: ret_apply)
  from generateClientData_roundtrip[OF this] show ?thesis by (simp only: fst_conv)
qed

section \<open>What the kubeconfig reconcile does\<close>

definition cluster_ref :: "'w Service \<Rightarrow> NamespacedName" where
  "cluster_ref S = \<lparr>nn_Namespace = om_Namespace (cl_Meta (scp_Cluster (sv_scope S))),
                    nn_Name = om_Name (cl_Meta (scp_Cluster (sv_scope S)))\<rparr>"

text \<open>The state in which the lookup of the secret leaves the reconcile.\<close>

definition looked_up :: "('o, 'w) st \<Rightarrow> 'w \<Rightarrow> ('o, 'w) st" where
  "looked_up s w = s\<lparr>world := w, calls := calls s @ [CallRead ''KubeconfigSecret'']\<rparr>"

lemma looked_up_simps [simp]:
  "obj (looked_up s w) = obj s" "world (looked_up s w) = w"
  "calls (looked_up s w) = calls s @ [CallRead ''KubeconfigSecret'']"
  by (simp_all add: looked_up_def)

lemma reconcileKubeconfig_found:
  assumes "k_GetKubeconfigSecret (env_kube E) (cluster_ref S) (world s) = (Ret sec, w)"
  shows "reconcileKubeconfig E S s =
    (case updateCAPIKubeconfigSecret E S sec (looked_up s w) of
       (Ret _, t) \<Rightarrow> (Ret (), t\<lparr>obj := set_Initialized (obj t)\<rparr>)
     | (Err e, t) \<Rightarrow> (Err (ErrorString ''updating kubeconfig secret: %!w(<nil>)''), t)
     | (Panic, t) \<Rightarrow> (Panic, t))"
  using assms
  by (simp add: reconcileKubeconfig_def Let_def go_simps looked_up_def cluster_ref_def split: prod.split outcome.split)

lemma reconcileKubeconfig_missing:
  assumes "k_GetKubeconfigSecret (env_kube E) (cluster_ref S) (world s) = (Err err, w)"
    and "lib_IsNotFound (env_lib E) err"
  shows "reconcileKubeconfig E S s =
    (case createCAPIKubeconfigSecret E S (cluster_ref S) (looked_up s w) of
       (Ret _, t) \<Rightarrow> (Ret (), t\<lparr>obj := set_Initialized (obj t)\<rparr>)
     | (Err e, t) \<Rightarrow> (Err (Wrapped ''creating kubeconfig secret'' err), t)
     | (Panic, t) \<Rightarrow> (Panic, t))"
  using assms
  by (simp add: reconcileKubeconfig_def Let_def go_simps looked_up_def cluster_ref_def split: prod.split outcome.split)

lemma reconcileKubeconfig_unreadable:
  assumes "k_GetKubeconfigSecret (env_kube E) (cluster_ref S) (world s) = (Err err, w)"
    and "\<not> lib_IsNotFound (env_lib E) err"
  shows "reconcileKubeconfig E S s = (Err (Wrapped ''failed to get kubeconfig secret'' err), looked_up s w)"
  using assms by (simp add: reconcileKubeconfig_def Let_def go_simps looked_up_def cluster_ref_def)

lemma reconcileKubeconfig_panic:
  assumes "k_GetKubeconfigSecret (env_kube E) (cluster_ref S) (world s) = (Panic, w)"
  shows "reconcileKubeconfig E S s = (Panic, looked_up s w)"
  using assms by (simp add: reconcileKubeconfig_def Let_def go_simps looked_up_def cluster_ref_def)

lemma keeps_generateClientData: "steps_in (keeps f) (generateClientData S)"
  unfolding generateClientData_def by (intro keeps_rules keeps_decode_field)

lemma keeps_createCAPIKubeconfigSecret: "steps_in (keeps f) (createCAPIKubeconfigSecret E S ref)"
  unfolding createCAPIKubeconfigSecret_def createBaseKubeConfig_def Let_def
  by (intro keeps_rules keeps_generateClientData keeps_from_sum)

lemma keeps_updateCAPIKubeconfigSecret: "steps_in (keeps f) (updateCAPIKubeconfigSecret E S sec)"
  unfolding updateCAPIKubeconfigSecret_def Let_def
  by (intro keeps_rules keeps_generateClientData keeps_from_sum)

text \<open>
  \<open>Status.Initialized\<close> is set exactly by a kubeconfig reconcile that succeeds; a run that fails
  or panics leaves the whole object as it was.
\<close>

lemma kubeconfig_sets_initialized:
  "obj (snd (reconcileKubeconfig E S s)) =
     (if fst (reconcileKubeconfig E S s) = Ret () then set_Initialized (obj s) else obj s)"
proof -
  obtain r w where r: "k_GetKubeconfigSecret (env_kube E) (cluster_ref S) (world s) = (r, w)" by fastforce
  have c: "obj t = obj s" if "createCAPIKubeconfigSecret E S ref (looked_up s w) = (q, t)" for ref q t
    using steps_inD[OF keeps_createCAPIKubeconfigSecret[of id] that] by (simp add: keeps_def)
  have u: "obj t = obj s" if "updateCAPIKubeconfigSecret E S sec (looked_up s w) = (q, t)" for sec q t
    using steps_inD[OF keeps_updateCAPIKubeconfigSecret[of id] that] by (simp add: keeps_def)
  show ?thesis
  proof (cases r)
    case (Ret sec)
    with r show ?thesis
      by (auto simp: reconcileKubeconfig_found split: prod.splits outcome.splits dest: u)
  next
    case (Err err)
    with r show ?thesis
      by (cases "lib_IsNotFound (env_lib E) err")
        (auto simp: reconcileKubeconfig_missing reconcileKubeconfig_unreadable split: prod.splits outcome.splits dest: c)
  next
    case Panic
    with r show ?thesis by (simp add: reconcileKubeconfig_panic)
  qed
qed

text \<open>
  Which error \<open>reconcileKubeconfig\<close> returns depends on the lookup of the secret only: why the
  secret could not be created or renewed is lost. A failed renewal reads
  \<open>updating kubeconfig secret: %!w(<nil>)\<close>.
\<close>

lemma kubeconfig_error_masked:
  assumes "reconcileKubeconfig E S s = (Err e, t)"
  shows "e = (case fst (k_GetKubeconfigSecret (env_kube E) (cluster_ref S) (world s)) of
      Err err \<Rightarrow> if lib_IsNotFound (env_lib E) err then Wrapped ''creating kubeconfig secret'' err
                 else Wrapped ''failed to get kubeconfig secret'' err
    | _ \<Rightarrow> ErrorString ''updating kubeconfig secret: %!w(<nil>)'')"
proof -
  obtain r w where r: "k_GetKubeconfigSecret (env_kube E) (cluster_ref S) (world s) = (r, w)" by fastforce
  show ?thesis
  proof (cases r)
    case (Ret sec)
    with r assms show ?thesis by (auto simp: reconcileKubeconfig_found split: prod.splits outcome.splits)
  next
    case (Err err)
    with r assms show ?thesis
      by (cases "lib_IsNotFound (env_lib E) err")
        (auto simp: reconcileKubeconfig_missing reconcileKubeconfig_unreadable split: prod.splits outcome.splits)
  next
    case Panic
    with r assms show ?thesis by (simp add: reconcileKubeconfig_panic)
  qed
qed

definition demo_denied :: "nat Service" where
  "demo_denied = demo_service\<lparr>sv_CCEClient :=
     demo_cce\<lparr>CreateKubernetesClusterCert := (\<lambda>_. fail (ErrorString ''denied''))\<rparr>\<rparr>"

lemma kubeconfig_error_masked_witness:
  "\<exists>t. reconcileKubeconfig demo_env demo_denied (start demo_cp)
     = (Err (Wrapped ''creating kubeconfig secret'' (ForeignError ''NotFound'' ''no secret'')), t)"
proof -
  have "fst (reconcileKubeconfig demo_env demo_denied (start demo_cp)) \<notin> {Ret (), Panic}"
    by code_simp
  then obtain e t where t: "reconcileKubeconfig demo_env demo_denied (start demo_cp) = (Err e, t)"
    by (rule ended_Err)
  with kubeconfig_error_masked[OF t] show ?thesis
    by (simp add: demo_env_def demo_kube_def demo_lib_def go_simps)
qed

text \<open>
  C29. A kubeconfig reconcile that finds no secret and succeeds has created one for the cluster,
  owned by the control plane, holding what \<open>clientcmd\<close> writes for a usable configuration: the
  current context exists and names an existing cluster entry and an existing user, the cluster
  entry points to the recorded endpoint, and the user has the certificate and key just issued.
\<close>

theorem kubeconfig_created:
  assumes "k_GetKubeconfigSecret (env_kube E) (cluster_ref S) (world s) = (Err err, w)"
    and "lib_IsNotFound (env_lib E) err" and "reconcileKubeconfig E S s = (Ret (), t)"
  shows "\<exists>cfg out cert key u. usable cfg \<and> lib_clientcmd_Write (env_lib E) cfg = Inr out \<and>
    cfg_Clusters cfg (scp_InfraClusterName (obj s))
      = Some \<lparr>cc_Server = ''https://'' @ lib_APIEndpoint_String (env_lib E) (cps_ControlPlaneEndpoint (cp_Spec (obj s))),
              cc_InsecureSkipTLSVerify = True\<rparr> \<and>
    generateClientData S (looked_up s w) = (Ret (cert, key), u) \<and>
    cfg_AuthInfos cfg (getKubeConfigUserName (scp_InfraClusterName (obj s)) False)
      = Some \<lparr>ClientCertificateData = cert, ClientKeyData = key\<rparr> \<and>
    CallCreateSecret (lib_GenerateSecretWithOwner (env_lib E) (cluster_ref S) out
        (lib_NewControllerRef (env_lib E) (cp_Meta (obj s)) GroupVersion_Group GroupVersion_Version
           ''CCEManagedControlPlane'')) \<in> set (new_calls s t)"
proof -
  let ?user = "getKubeConfigUserName (scp_InfraClusterName (obj s)) False"
  obtain v where v: "createCAPIKubeconfigSecret E S (cluster_ref S) (looked_up s w) = (Ret (), v)"
    "calls t = calls v"
    using assms by (auto simp: reconcileKubeconfig_missing split: prod.splits outcome.splits)
  then obtain cfg u out where base: "createBaseKubeConfig E S ?user (looked_up s w) = (Ret cfg, u)"
    and out: "lib_clientcmd_Write (env_lib E) cfg = Inr out"
    and calls: "calls v = calls u @ [CallCreateSecret (lib_GenerateSecretWithOwner (env_lib E) (cluster_ref S) out
        (lib_NewControllerRef (env_lib E) (cp_Meta (obj s)) GroupVersion_Group GroupVersion_Version
           ''CCEManagedControlPlane'')), CallEvent ''SucessfulCreateKubeconfig''
             (''Created kubeconfig for cluster '' @ quoted (scp_InfraClusterName (obj s)))]"
    unfolding createCAPIKubeconfigSecret_def Let_def
    by (elim andThen_RetE) (auto simp: get_obj_apply from_sum_apply Eventf_apply split: sum.splits elim!: andThen_RetE)
  obtain cert key where gen: "generateClientData S (looked_up s w) = (Ret (cert, key), u)"
    "cfg_AuthInfos cfg ?user = Some \<lparr>ClientCertificateData = cert, ClientKeyData = key\<rparr>"
    and cfg: "usable cfg" "cfg_Clusters cfg (scp_InfraClusterName (obj s))
      = Some \<lparr>cc_Server = ''https://'' @ lib_APIEndpoint_String (env_lib E) (cps_ControlPlaneEndpoint (cp_Spec (obj s))),
              cc_InsecureSkipTLSVerify = True\<rparr>"
    using createBaseKubeConfig_Ret[OF base] by auto
  have "new_calls (looked_up s w) u = [CallCreateCert \<lparr>ct_ClusterId = scp_InfraClusterID (obj s), ct_Duration = 10 * 365\<rparr>]"
    using generateClientData_Ret(2)[OF gen(1)] by simp
  moreover have "issues (\<lambda>_. True) (looked_up s w) u"
    using gen(1) by (auto simp: generateClientData_def decode_field_def go_simps issues_def
        split: prod.splits outcome.splits option.splits sum.splits list.splits)
  ultimately have "length (calls s) \<le> length (calls u)"
    by (auto simp: issues_def)
  with calls v(2) have "CallCreateSecret (lib_GenerateSecretWithOwner (env_lib E) (cluster_ref S) out
        (lib_NewControllerRef (env_lib E) (cp_Meta (obj s)) GroupVersion_Group GroupVersion_Version
           ''CCEManagedControlPlane'')) \<in> set (new_calls s t)"
    by (simp add: new_calls_def)
  with cfg gen out show ?thesis by blast
qed

lemma kubeconfig_created_witness:
  "\<exists>t cfg out. reconcileKubeconfig demo_env demo_service (start demo_ready_cp) = (Ret (), t) \<and>
     usable cfg \<and> lib_clientcmd_Write demo_lib cfg = Inr out"
proof -
  have "fst (reconcileKubeconfig demo_env demo_service (start demo_ready_cp)) = Ret ()"
    by code_simp
  then obtain t where t: "reconcileKubeconfig demo_env demo_service (start demo_ready_cp) = (Ret (), t)"
    by (rule ended)
  have E: "env_lib demo_env = demo_lib"
    by (simp add: demo_env_def)
  have l: "k_GetKubeconfigSecret (env_kube demo_env) ref x = (Err (ForeignError ''NotFound'' ''no secret''), x)" for ref x
    by (simp add: demo_env_def demo_kube_def go_simps)
  have n: "lib_IsNotFound (env_lib demo_env) (ForeignError ''NotFound'' ''no secret'')"
    by (simp add: demo_env_def demo_lib_def)
  from kubeconfig_created[OF l n t] t show ?thesis
    unfolding E by blast
qed

text \<open>
  C30. A kubeconfig reconcile that finds the secret and succeeds has stored the configuration that
  was there with one change: the certificate and key of the management user are those just
  issued. Clusters, contexts and other users are kept.
\<close>

theorem kubeconfig_renewed:
  assumes "k_GetKubeconfigSecret (env_kube E) (cluster_ref S) (world s) = (Ret sec, w)"
    and "reconcileKubeconfig E S s = (Ret (), t)"
  shows "\<exists>data cfg info cert key u out.
    se_Data sec KubeconfigDataName = Some data \<and> lib_clientcmd_Load (env_lib E) data = Inr cfg \<and>
    generateClientData S (looked_up s w) = (Ret (cert, key), u) \<and>
    cfg_AuthInfos cfg (getKubeConfigUserName (scp_InfraClusterName (obj s)) False) = Some info \<and>
    lib_clientcmd_Write (env_lib E) (cfg\<lparr>cfg_AuthInfos := (cfg_AuthInfos cfg)
      (getKubeConfigUserName (scp_InfraClusterName (obj s)) False \<mapsto>
         info\<lparr>ClientCertificateData := cert, ClientKeyData := key\<rparr>)\<rparr>) = Inr out \<and>
    calls t = calls u @ [CallUpdateSecret (sec\<lparr>se_Data := (se_Data sec)(KubeconfigDataName \<mapsto> out)\<rparr>)]"
proof -
  obtain v where v: "updateCAPIKubeconfigSecret E S sec (looked_up s w) = (Ret (), v)" "calls t = calls v"
    using assms by (auto simp: reconcileKubeconfig_found split: prod.splits outcome.splits)
  then obtain data cfg where data: "se_Data sec KubeconfigDataName = Some data"
    and cfg: "lib_clientcmd_Load (env_lib E) data = Inr cfg"
    unfolding updateCAPIKubeconfigSecret_def
    by (elim andThen_RetE) (auto simp: from_sum_apply go_simps split: option.splits sum.splits)
  from v(1) data cfg obtain cert key u where gen: "generateClientData S (looked_up s w) = (Ret (cert, key), u)"
    unfolding updateCAPIKubeconfigSecret_def
    by (elim andThen_RetE) (auto simp: from_sum_apply ret_apply)
  have "obj u = obj s"
    using generateClientData_Ret(1)[OF gen] by simp
  with v data cfg gen show ?thesis
    unfolding updateCAPIKubeconfigSecret_def
    by (auto simp: from_sum_apply ret_apply andThen_run gets_apply Let_def split: sum.splits elim!: andThen_RetE)
qed

definition stored_config :: Config where
  "stored_config =
     \<lparr>cfg_APIVersion = ''v1'', cfg_Clusters = Map.empty, cfg_Contexts = Map.empty, cfg_CurrentContext = ''c'',
      cfg_AuthInfos = [''dev-capi-admin'' \<mapsto> \<lparr>ClientCertificateData = ''old'', ClientKeyData = ''old''\<rparr>]\<rparr>"

definition stored_secret :: Secret where
  "stored_secret = demo_secret\<lparr>se_Data := [KubeconfigDataName \<mapsto> ''file'']\<rparr>"

definition stored_env :: "nat env" where
  "stored_env = demo_env\<lparr>env_lib := demo_lib\<lparr>lib_clientcmd_Load := (\<lambda>_. Inr stored_config)\<rparr>,
                         env_kube := demo_kube\<lparr>k_GetKubeconfigSecret := (\<lambda>_. ret stored_secret)\<rparr>\<rparr>"

lemma kubeconfig_renewed_witness:
  "\<exists>t cs. reconcileKubeconfig stored_env demo_service (start demo_ready_cp) = (Ret (), t) \<and>
     calls t = cs @ [CallUpdateSecret (stored_secret\<lparr>se_Data := (se_Data stored_secret)(KubeconfigDataName \<mapsto> ''c'')\<rparr>)]"
proof -
  have "fst (reconcileKubeconfig stored_env demo_service (start demo_ready_cp)) = Ret ()"
    by code_simp
  then obtain t where t: "reconcileKubeconfig stored_env demo_service (start demo_ready_cp) = (Ret (), t)"
    by (rule ended)
  have l: "k_GetKubeconfigSecret (env_kube stored_env) ref x = (Ret stored_secret, x)" for ref x
    by (simp add: stored_env_def go_simps)
  have d: "lib_clientcmd_Load (env_lib stored_env) data = Inr stored_config" for data
    by (simp add: stored_env_def)
  have o: "lib_clientcmd_Write (env_lib stored_env) cfg = Inr (cfg_CurrentContext cfg)" for cfg
    by (simp add: stored_env_def demo_lib_def)
  from kubeconfig_renewed[OF l t] obtain u :: "(CCEManagedControlPlane, nat) st"
    where "calls t = calls u @ [CallUpdateSecret (stored_secret\<lparr>se_Data := (se_Data stored_secret)(KubeconfigDataName \<mapsto> ''c'')\<rparr>)]"
    by (auto simp: d o stored_config_def)
  with t show ?thesis by blast
qed

end
