(* ===== verification/Cluster_Service.thy ===== *)
theory Cluster_Service
  imports Network Eip Kubeconfig
begin

text \<open>
  \<open>cluster.go\<close> of the control plane service: the CCE cluster is found through its ID or created,
  its phase is mirrored in the status, the reconcile waits while it is being created or upgraded,
  and then the public address, the endpoint and the kubeconfig follow. Deletion requests the
  cluster's removal and waits for it.
\<close>

section \<open>Status setters\<close>

definition set_cp_Ready :: "bool \<Rightarrow> CCEManagedControlPlane \<Rightarrow> CCEManagedControlPlane" where
  "set_cp_Ready b = cp_Status_update (cpst_Ready_update (\<lambda>_. b))"

definition set_cp_FailureMessage :: "string option \<Rightarrow> CCEManagedControlPlane \<Rightarrow> CCEManagedControlPlane" where
  "set_cp_FailureMessage m = cp_Status_update (cpst_FailureMessage_update (\<lambda>_. m))"

definition set_Endpoint :: "APIEndpoint \<Rightarrow> CCEManagedControlPlane \<Rightarrow> CCEManagedControlPlane" where
  "set_Endpoint ep = cp_Spec_update (cps_ControlPlaneEndpoint_update (\<lambda>_. ep))"

definition cp_Ready :: "CCEManagedControlPlane \<Rightarrow> bool" where
  "cp_Ready cp = cpst_Ready (cp_Status cp)"

lemma cp_setters_frame [simp]:
  "cp_Meta (set_cp_Ready b cp) = cp_Meta cp"
  "cp_Spec (set_cp_Ready b cp) = cp_Spec cp"
  "cp_Meta (set_cp_FailureMessage m cp) = cp_Meta cp"
  "cp_Spec (set_cp_FailureMessage m cp) = cp_Spec cp"
  "cp_Meta (set_Endpoint ep cp) = cp_Meta cp"
  "cp_Status (set_Endpoint ep cp) = cp_Status cp"
  "cp_GetConditions (set_cp_Ready b cp) = cp_GetConditions cp"
  "cp_GetConditions (set_cp_FailureMessage m cp) = cp_GetConditions cp"
  by (simp_all add: set_cp_Ready_def set_cp_FailureMessage_def set_Endpoint_def cp_GetConditions_def)

lemma cp_Ready_simps [simp]:
  "cp_Ready (set_cp_Ready b cp) = b"
  "cp_Ready (set_cp_FailureMessage m cp) = cp_Ready cp"
  "cp_Ready (set_Endpoint ep cp) = cp_Ready cp"
  "cp_Ready (cp_MarkTrue L t cp) = cp_Ready cp"
  "cp_Ready (cp_MarkFalse L t r v msg cp) = cp_Ready cp"
  "cp_Ready (set_EIP_status i cp) = cp_Ready cp"
  "cp_Ready (set_Initialized cp) = cp_Ready cp"
  "cp_Ready (scp_SetInfraClusterID i cp) = cp_Ready cp"
  by (simp_all add: cp_Ready_def set_cp_Ready_def set_cp_FailureMessage_def)

section \<open>Looking the cluster up\<close>

definition showCCECluster ::
  "'w Service \<Rightarrow> string \<Rightarrow> ((CCEManagedControlPlane, 'w) st, ShowClusterResponse option) go" where
  "showCCECluster S infraClusterID =
     andThen (attempt (ext (CallShowCluster infraClusterID) (ShowCluster (sv_CCEClient S) infraClusterID))) (\<lambda>r.
       case r of
         Inl err \<Rightarrow>
           if not_found_404 err then ret None else fail (Wrapped ''failed to show cluster'' err)
       | Inr response \<Rightarrow> ret (Some response))"

section \<open>Mirroring the phase\<close>

definition deref_phase :: "ClusterStatus option \<Rightarrow> ('s, string) go" where
  "deref_phase status = andThen (deref status) (\<lambda>st. deref (cs_Phase st))"

text \<open>The two conditions an available cluster ends.\<close>

definition end_creating :: "'w env \<Rightarrow> ((CCEManagedControlPlane, 'w) st, unit) go" where
  "end_creating E =
     andThen get_obj (\<lambda>cp.
       if cp_IsTrue (env_lib E) CCEControlPlaneCreatingCondition cp then
         andThen (Eventf E ''SuccessfulCreateCCEControlPlane''
                    (''Created new CCE control plane '' @ scp_InfraClusterName cp)) (\<lambda>_.
           upd_obj (cp_MarkFalse (env_lib E) CCEControlPlaneCreatingCondition ''created'' SeverityInfo []))
       else ret ())"

definition end_updating :: "'w env \<Rightarrow> ((CCEManagedControlPlane, 'w) st, unit) go" where
  "end_updating E =
     andThen get_obj (\<lambda>cp.
       if cp_IsTrue (env_lib E) CCEControlPlaneUpdatingCondition cp then
         andThen (upd_obj (cp_MarkFalse (env_lib E) CCEControlPlaneUpdatingCondition ''updated'' SeverityInfo [])) (\<lambda>_.
           Eventf E ''SuccessfulUpdateCCEControlPlane''
             (''Updated CCE control plane '' @ scp_InfraClusterName cp))
       else ret ())"

text \<open>The \<open>switch\<close> of \<open>setStatus\<close>, then \<open>setStatus\<close>.\<close>

definition mirror_cluster_phase ::
  "'w env \<Rightarrow> string \<Rightarrow> ClusterStatus option \<Rightarrow> ((CCEManagedControlPlane, 'w) st, unit) go" where
  "mirror_cluster_phase E phase status =
     (if phase = ''Deleting'' then upd_obj (set_cp_Ready False)
      else if phase = ''Unavailable'' then
        andThen (upd_obj (set_cp_Ready False)) (\<lambda>_.
        andThen (deref status) (\<lambda>st.
        andThen (deref (cs_Reason st)) (\<lambda>reason.
        andThen (deref (cs_Message st)) (\<lambda>message.
          upd_obj (set_cp_FailureMessage
            (Some (''CCE cluster in unexpected '' @ reason @ '' reason. '' @ message)))))))
      else if phase = ''Available'' then
        andThen (upd_obj (\<lambda>cp. set_cp_FailureMessage None (set_cp_Ready True cp))) (\<lambda>_.
        andThen (end_creating E) (\<lambda>_. end_updating E))
      else if phase = ''Creating'' then upd_obj (set_cp_Ready False)
      else if phase = ''Upgrading'' then upd_obj (set_cp_Ready True)
      else fail (ErrorString (''unexpected CCE cluster status '' @ phase)))"

definition cp_setStatus ::
  "'w env \<Rightarrow> 'w Service \<Rightarrow> ClusterStatus option \<Rightarrow> ((CCEManagedControlPlane, 'w) st, unit) go" where
  "cp_setStatus E S status =
     andThen (deref_phase status) (\<lambda>phase.
     andThen (mirror_cluster_phase E phase status) (\<lambda>_.
       wrapErr ''failed to update control plane'' (scp_PatchObject E (sv_scope S))))"

section \<open>Creating the cluster\<close>

definition defaultContainerCidr :: string where
  "defaultContainerCidr = ''10.0.0.0/16''"

definition defautlServiceCidr :: string where
  "defautlServiceCidr = ''10.247.0.0/16''"

definition network_mode :: "SdkEnums \<Rightarrow> CCEManagedControlPlane \<Rightarrow> string" where
  "network_mode en cp =
     (if en_VPC_ROUTER en
         = (case ns_Mode (cps_NetworkSpec (cp_Spec cp)) of None \<Rightarrow> ''vpc-router'' | Some m \<Rightarrow> m)
      then en_VPC_ROUTER en else en_OVERLAY_L2 en)"

definition container_cidrs :: "ClusterNetwork \<Rightarrow> string list" where
  "container_cidrs net =
     (let cidrs = (case cn_Pods net of None \<Rightarrow> [] | Some pods \<Rightarrow> CIDRBlocks pods)
      in if cidrs = [] then [defaultContainerCidr] else cidrs)"

definition service_cidr :: "lib \<Rightarrow> ClusterNetwork \<Rightarrow> string" where
  "service_cidr L net =
     (case cn_Services net of None \<Rightarrow> defautlServiceCidr | Some sv \<Rightarrow> lib_NetworkRanges_String L sv)"

definition create_cluster_request ::
  "lib \<Rightarrow> ClusterNetwork \<Rightarrow> CCEManagedControlPlane \<Rightarrow> CreateClusterRequest" where
  "create_cluster_request L net cp =
     (let mode = network_mode (lib_enums L) cp in
      \<lparr>ccq_Name = om_Name (cp_Meta cp), ccq_ApiVersion = ''v3'', ccq_Kind = ''Cluster'',
       ccq_Version = cps_Version (cp_Spec cp),
       ccq_Flavor = (case cps_Flavor (cp_Spec cp) of None \<Rightarrow> ''cce.s2.small'' | Some f \<Rightarrow> f),
       ccq_Vpc = vpc_id_of cp, ccq_Subnet = subnet_id_of cp, ccq_Mode = mode,
       ccq_Cidrs = container_cidrs net, ccq_KubernetesSvcIpRange = service_cidr L net,
       ccq_EnterpriseProjectId = scp_Project cp,
       ccq_AlphaCceFixPoolMask = (if mode = en_VPC_ROUTER (lib_enums L) then Some ''25'' else None)\<rparr>)"

definition createCluster ::
  "'w env \<Rightarrow> 'w Service \<Rightarrow> ((CCEManagedControlPlane, 'w) st, CreateClusterResponse) go" where
  "createCluster E S =
     andThen (deref (cl_ClusterNetwork (scp_Cluster (sv_scope S)))) (\<lambda>net.
     andThen (gets (\<lambda>s. create_cluster_request (env_lib E) net (obj s))) (\<lambda>request.
     andThen (wrapErr ''failed to create CCE cluster''
               (ext (CallCreateCluster request) (CreateCluster (sv_CCEClient S) request))) (\<lambda>response.
     andThen (deref (ccr_Metadata response)) (\<lambda>metadata.
     andThen (deref (cm_Uid metadata)) (\<lambda>uid.
     andThen (upd_obj (scp_SetInfraClusterID uid)) (\<lambda>_.
     andThen (upd_obj (cp_MarkTrue (env_lib E) CCEControlPlaneCreatingCondition)) (\<lambda>_.
       ret response)))))))"

section \<open>Waiting for the cluster\<close>

definition cluster_active_poll ::
  "'w Service \<Rightarrow> ((CCEManagedControlPlane, 'w) st, bool) go" where
  "cluster_active_poll S =
     andThen (gets (\<lambda>s. scp_InfraClusterID (obj s))) (\<lambda>i.
     andThen (showCCECluster S i) (\<lambda>cluster.
     andThen (deref cluster) (\<lambda>c.
     andThen (deref_phase (sc_Status c)) (\<lambda>phase.
       ret (phase = ''Available'')))))"

definition waitForClusterActive ::
  "'w env \<Rightarrow> 'w Service \<Rightarrow> ((CCEManagedControlPlane, 'w) st, ShowClusterResponse option) go" where
  "waitForClusterActive E S =
     andThen (gets (\<lambda>s. scp_InfraClusterName (obj s))) (\<lambda>name.
     andThen (wrapErr (''failed to wait for cce control plane '' @ quoted name)
               (waitUntil E (cluster_active_poll S) (30 * Second) 40)) (\<lambda>_.
     andThen (gets (\<lambda>s. scp_InfraClusterID (obj s))) (\<lambda>i.
     andThen (wrapErr ''failed to show cce cluster'' (showCCECluster S i)) (\<lambda>cluster.
     andThen (deref cluster) (\<lambda>c.
     andThen (wrapErr ''failed to set status'' (cp_setStatus E S (sc_Status c))) (\<lambda>_.
       ret cluster))))))"

section \<open>The endpoint\<close>

text \<open>One of the two loops over the endpoints: the last endpoint of the kind wins.\<close>

primrec apply_endpoints ::
  "string \<Rightarrow> ClusterEndpoints list \<Rightarrow> ((CCEManagedControlPlane, 'w) st, unit) go" where
  "apply_endpoints kind [] = ret ()"
| "apply_endpoints kind (ep # eps) =
     andThen (deref (ep_Type ep)) (\<lambda>ty.
     andThen (if ty = kind then
                andThen (deref (ep_Url ep)) (\<lambda>url.
                  case parseURL url of
                    Inl err \<Rightarrow> fail err
                  | Inr (host, port) \<Rightarrow> upd_obj (set_Endpoint \<lparr>Host = host, Port = to_int32 port\<rparr>))
              else ret ()) (\<lambda>_.
       apply_endpoints kind eps))"

section \<open>reconcileCluster\<close>

text \<open>
  \<open>find_or_create\<close> is the first part of the function's body, \<open>settle_cluster\<close> the rest of it, with
  \<open>provide_access\<close> for the part after the readiness test and \<open>publish_endpoint\<close> for its end. The \<open>Debug\<close> call after the readiness test formats
  \<open>*cluster.Status.Endpoints\<close>, so it is three dereferences.
\<close>

definition find_or_create ::
  "'w env \<Rightarrow> 'w Service \<Rightarrow>
   ((CCEManagedControlPlane, 'w) st, ShowClusterResponse option \<times> ClusterStatus option) go" where
  "find_or_create E S =
     andThen (gets (\<lambda>s. scp_InfraClusterID (obj s))) (\<lambda>i.
     andThen (if i \<noteq> [] then wrapErr ''failed to show cce clusters'' (showCCECluster S i) else ret None) (\<lambda>cluster.
       case cluster of
         None \<Rightarrow> andThen (wrapErr ''failed to create cluster'' (createCluster E S)) (\<lambda>created.
                  ret (None, ccr_Status created))
       | Some c \<Rightarrow> ret (Some c, sc_Status c)))"

definition publish_endpoint ::
  "'w env \<Rightarrow> 'w Service \<Rightarrow> ((CCEManagedControlPlane, 'w) st, unit) go" where
  "publish_endpoint E S =
     andThen (gets (\<lambda>s. scp_InfraClusterID (obj s))) (\<lambda>i.
     andThen (wrapErr ''failed to show cce clusters'' (showCCECluster S i)) (\<lambda>cluster.
     andThen (deref cluster) (\<lambda>c.
     andThen (deref (sc_Status c)) (\<lambda>status.
     andThen (case cs_Endpoints status of
                None \<Rightarrow> ret ()
              | Some eps \<Rightarrow> andThen (apply_endpoints ''Internal'' eps) (\<lambda>_. apply_endpoints ''External'' eps)) (\<lambda>_.
       wrapErr ''failed reconciling kubeconfig'' (reconcileKubeconfig E S))))))"

definition public_access :: "CCEManagedControlPlane \<Rightarrow> ('s, bool) go" where
  "public_access cp =
     andThen (deref (cps_EndpointAccess (cp_Spec cp))) (\<lambda>access.
       ret (case ea_Public access of None \<Rightarrow> True | Some b \<Rightarrow> b))"

definition provide_access ::
  "'w env \<Rightarrow> 'w Service \<Rightarrow> ShowClusterResponse option \<Rightarrow> ((CCEManagedControlPlane, 'w) st, unit) go" where
  "provide_access E S cluster =
     andThen (deref cluster) (\<lambda>c.
     andThen (deref (sc_Status c)) (\<lambda>status.
     andThen (deref (cs_Endpoints status)) (\<lambda>_.
     andThen get_obj (\<lambda>cp.
     andThen (public_access cp) (\<lambda>public.
     andThen (if public then wrapErr ''failed reconciling EIP'' (reconcileEIP E S) else ret ()) (\<lambda>_.
       publish_endpoint E S))))))"

definition settle_cluster ::
  "'w env \<Rightarrow> 'w Service \<Rightarrow> ShowClusterResponse option \<Rightarrow> ClusterStatus option \<Rightarrow>
   ((CCEManagedControlPlane, 'w) st, unit) go" where
  "settle_cluster E S cluster clusterStatus =
     andThen (wrapErr ''failed to set status'' (cp_setStatus E S clusterStatus)) (\<lambda>_.
     andThen (deref_phase clusterStatus) (\<lambda>phase.
     andThen (if phase \<in> {''Creating'', ''Upgrading''}
              then wrapErr ''failed to wait for cluster to be active'' (waitForClusterActive E S)
              else ret cluster) (\<lambda>cluster.
     andThen (gets (\<lambda>s. cp_Ready (obj s))) (\<lambda>ready.
       if \<not> ready then ret () else provide_access E S cluster))))"

definition reconcileCluster :: "'w env \<Rightarrow> 'w Service \<Rightarrow> ((CCEManagedControlPlane, 'w) st, unit) go" where
  "reconcileCluster E S =
     andThen (find_or_create E S) (\<lambda>(cluster, clusterStatus). settle_cluster E S cluster clusterStatus)"

definition ReconcileControlPlane ::
  "'w env \<Rightarrow> 'w Service \<Rightarrow> ((CCEManagedControlPlane, 'w) st, unit) go" where
  "ReconcileControlPlane E S =
     andThen (onErr (reconcileCluster E S) (\<lambda>err.
                andThen (upd_obj (cp_MarkFalse (env_lib E) CCEControlPlaneReadyCondition
                           CCEControlPlaneReconciliationFailedReason SeverityError (Error err))) (\<lambda>_.
                fail err))) (\<lambda>_.
       upd_obj (cp_MarkTrue (env_lib E) CCEControlPlaneReadyCondition))"

section \<open>Deleting the cluster\<close>

definition cluster_deleted_poll ::
  "'w env \<Rightarrow> 'w Service \<Rightarrow> string \<Rightarrow> ((CCEManagedControlPlane, 'w) st, bool) go" where
  "cluster_deleted_poll E S infraClusterID =
     andThen (showCCECluster S infraClusterID) (\<lambda>c.
       case c of
         None \<Rightarrow> ret True
       | Some cl \<Rightarrow>
           andThen (deref_phase (sc_Status cl)) (\<lambda>phase.
             ret (phase \<noteq> en_NP_DELETING (lib_enums (env_lib E)))))"

definition waitForClusterDeleted ::
  "'w env \<Rightarrow> 'w Service \<Rightarrow> string \<Rightarrow> ((CCEManagedControlPlane, 'w) st, unit) go" where
  "waitForClusterDeleted E S infraClusterID =
     waitUntil E (cluster_deleted_poll E S infraClusterID) (30 * Second) 40"

definition deleteClusterAndWait ::
  "'w env \<Rightarrow> 'w Service \<Rightarrow> string \<Rightarrow> ((CCEManagedControlPlane, 'w) st, unit) go" where
  "deleteClusterAndWait E S infraClusterID =
     andThen (attempt (ext (CallDeleteCluster infraClusterID) (DeleteCluster (sv_CCEClient S) infraClusterID))) (\<lambda>r.
       case r of
         Inl err \<Rightarrow>
           if not_found_404 err then ret () else fail (Wrapped ''failed to delete cce cluster'' err)
       | Inr _ \<Rightarrow>
           wrapErr (''failed waiting for cce cluster '' @ scp_Name (sv_scope S) @ '' to delete'')
             (waitForClusterDeleted E S infraClusterID))"

definition deleteCluster :: "'w env \<Rightarrow> 'w Service \<Rightarrow> ((CCEManagedControlPlane, 'w) st, unit) go" where
  "deleteCluster E S =
     andThen (gets (\<lambda>s. scp_InfraClusterID (obj s))) (\<lambda>infraClusterID.
       if infraClusterID = [] then ret ()
       else
         andThen (wrapErr ''unable to show CCE cluster'' (showCCECluster S infraClusterID)) (\<lambda>cluster.
           case cluster of
             None \<Rightarrow> ret ()
           | Some _ \<Rightarrow> wrapErr ''unable to delete CCE cluster'' (deleteClusterAndWait E S infraClusterID)))"

definition DeleteControlPlane :: "'w env \<Rightarrow> 'w Service \<Rightarrow> ((CCEManagedControlPlane, 'w) st, unit) go" where
  "DeleteControlPlane E S = deleteCluster E S"

end
