(* ===== verification/Cluster_Props.thy ===== *)
theory Cluster_Props
  imports Cluster_Service Demo_Env Call_Costs
begin

text \<open>
  Properties of \<open>cluster.go\<close>: what is created and how often, what the status and the conditions say,
  which endpoint is published, how long a reconcile blocks, what a successful deletion means, and
  the answers of the cloud that make the reconcile panic.
\<close>

section \<open>Which calls each step issues\<close>

lemma issues_showCCECluster: "A (CallShowCluster i) \<Longrightarrow> steps_in (issues A) (showCCECluster S i)"
  unfolding showCCECluster_def by (intro issues_rules)

lemma issues_deref_phase: "steps_in (issues A) (deref_phase st)"
  unfolding deref_phase_def by (intro issues_rules)

text \<open>Everything but the creation of clusters, addresses and secrets, and sleeping.\<close>

definition status_call :: "call \<Rightarrow> bool" where
  "status_call c \<longleftrightarrow>
     (case c of CallShowCluster _ \<Rightarrow> True | CallEvent _ _ \<Rightarrow> True | CallPatchControlPlane _ \<Rightarrow> True | _ \<Rightarrow> False)"

lemma status_call_simps [simp]:
  "status_call (CallShowCluster i)" "status_call (CallEvent a b)" "status_call (CallPatchControlPlane p)"
  by (simp_all add: status_call_def)

lemma issues_cp_setStatus: "steps_in (issues status_call) (cp_setStatus E S st)"
  unfolding cp_setStatus_def mirror_cluster_phase_def end_creating_def end_updating_def
  by (intro issues_rules issues_deref_phase issues_Eventf issues_scp_PatchObject status_call_simps)

lemma issues_cluster_active_poll: "steps_in (issues status_call) (cluster_active_poll S)"
  unfolding cluster_active_poll_def
  by (intro issues_rules issues_showCCECluster issues_deref_phase status_call_simps)

definition sleep_or_status :: "call \<Rightarrow> bool" where
  "sleep_or_status c \<longleftrightarrow> status_call c \<or> (\<exists>d. c = CallSleep d)"

lemma issues_waitForClusterActive: "steps_in (issues sleep_or_status) (waitForClusterActive E S)"
proof -
  show ?thesis
    unfolding waitForClusterActive_def
    by (intro issues_rules issues_waitUntil issues_mono[OF issues_cluster_active_poll]
        issues_mono[OF issues_cp_setStatus] issues_showCCECluster) (auto simp: sleep_or_status_def)
qed

lemma issues_createCluster: "(\<And>q. A (CallCreateCluster q)) \<Longrightarrow> steps_in (issues A) (createCluster E S)"
  unfolding createCluster_def by (intro issues_rules) simp

lemma issues_apply_endpoints: "steps_in (issues A) (apply_endpoints k eps)"
  by (induction eps) (auto intro!: issues_rules)

definition access_call :: "call \<Rightarrow> bool" where
  "access_call c \<longleftrightarrow> eip_call c \<or> kubeconfig_call c \<or> status_call c"

lemma issues_publish_endpoint: "steps_in (issues access_call) (publish_endpoint E S)"
  unfolding publish_endpoint_def
  by (intro issues_rules issues_showCCECluster issues_apply_endpoints
      issues_mono[OF issues_reconcileKubeconfig]) (auto simp: access_call_def)

lemma issues_reconcileEIP_access: "steps_in (issues access_call) (reconcileEIP E S)"
  by (rule issues_mono[OF issues_reconcileEIP]) (simp add: access_call_def)

lemma issues_public_access: "steps_in (issues A) (public_access cp)"
  unfolding public_access_def by (intro issues_rules)

lemma issues_provide_access: "steps_in (issues access_call) (provide_access E S cluster)"
  unfolding provide_access_def
  by (intro issues_rules issues_public_access issues_reconcileEIP_access issues_publish_endpoint)

section \<open>Counting\<close>

lemma access_call_weights:
  "access_call c \<Longrightarrow> cluster_creation c = 0" "access_call c \<Longrightarrow> sleep_time c = 0"
  "sleep_or_status c \<Longrightarrow> cluster_creation c = 0"
  "status_call c \<Longrightarrow> cluster_creation c = 0" "status_call c \<Longrightarrow> sleep_time c = 0"
  by (cases c; simp add: access_call_def eip_call_def kubeconfig_call_def status_call_def sleep_or_status_def)+

lemma costs_createCluster: "costs cluster_creation 1 (createCluster E S)"
  unfolding createCluster_def
  by (intro costs_free_then costs_then_free costs_wrapErr costs_ext issues_rules) simp_all

lemma costs_find_or_create: "costs cluster_creation 1 (find_or_create E S)"
  unfolding find_or_create_def
  by (intro costs_free_then costs_case_option costs_then_free[OF costs_wrapErr[OF costs_createCluster]]
      costs_free[OF issues.in_ret] issues_rules issues_showCCECluster) simp_all

lemma free_settle_cluster: "free cluster_creation (settle_cluster E S cluster st)"
proof -
  have w: "free cluster_creation (waitForClusterActive E S)"
    by (rule issues_mono[OF issues_waitForClusterActive]) (rule access_call_weights)
  have st: "free cluster_creation (cp_setStatus E S st)" for st
    by (rule issues_mono[OF issues_cp_setStatus]) (rule access_call_weights)
  have a: "free cluster_creation (provide_access E S c)" for c
    by (rule issues_mono[OF issues_provide_access]) (rule access_call_weights)
  show ?thesis
    unfolding settle_cluster_def by (intro issues_rules issues_deref_phase w st a)
qed

lemma costs_reconcileCluster_creation: "costs cluster_creation 1 (reconcileCluster E S)"
  unfolding reconcileCluster_def
  by (intro costs_then_free[OF costs_find_or_create] issues_rules free_settle_cluster)

lemma costs_waitForClusterActive: "costs sleep_time (1200 * 10 ^ 9) (waitForClusterActive E S)"
proof -
  have "free sleep_time (cluster_active_poll S)"
    by (rule issues_mono[OF issues_cluster_active_poll]) (rule access_call_weights)
  then have p: "costs sleep_time (1200 * 10 ^ 9) (waitUntil E (cluster_active_poll S) (30 * Second) 40)"
    by (rule costs_waitUntil) (simp add: Second_def)
  have st: "free sleep_time (cp_setStatus E S st)" for st
    by (rule issues_mono[OF issues_cp_setStatus]) (rule access_call_weights)
  show ?thesis
    unfolding waitForClusterActive_def
    by (rule costs_free_then[OF issues.in_gets], rule costs_then_free[OF costs_wrapErr[OF p]])
      (intro issues_rules issues_showCCECluster st, simp)
qed

lemma costs_reconcileCluster_sleep: "costs sleep_time (1200 * 10 ^ 9) (reconcileCluster E S)"
proof -
  have st: "free sleep_time (cp_setStatus E S st)" for st
    by (rule issues_mono[OF issues_cp_setStatus]) (rule access_call_weights)
  have a: "free sleep_time (provide_access E S c)" for c
    by (rule issues_mono[OF issues_provide_access]) (rule access_call_weights)
  have f: "free sleep_time (find_or_create E S)"
    unfolding find_or_create_def
    by (intro issues_rules issues_showCCECluster issues_createCluster) simp_all
  show ?thesis
    unfolding reconcileCluster_def settle_cluster_def
    by (intro costs_free_then[OF f] costs_case_prod costs_free_then[OF issues.in_wrapErr[OF st]]
        costs_free_then[OF issues_deref_phase] costs_then_free costs_if costs_wrapErr
        costs_waitForClusterActive costs_free[OF issues.in_ret])
      (intro issues_rules a)
qed

lemma costs_ReconcileControlPlane: "costs w n (reconcileCluster E S) \<Longrightarrow> costs w n (ReconcileControlPlane E S)"
  unfolding ReconcileControlPlane_def
  by (intro costs_then_free costs_onErr_free) (assumption | intro issues_rules)+

lemma costs_waitForClusterDeleted: "costs sleep_time (1200 * 10 ^ 9) (waitForClusterDeleted E S i)"
  unfolding waitForClusterDeleted_def cluster_deleted_poll_def
  by (intro costs_waitUntil issues_rules issues_showCCECluster issues_deref_phase) (simp_all add: Second_def)

lemma costs_DeleteControlPlane: "costs sleep_time (1200 * 10 ^ 9) (DeleteControlPlane E S)"
  unfolding DeleteControlPlane_def deleteCluster_def deleteClusterAndWait_def
  by (intro costs_free_then costs_if costs_case_option costs_case_sum costs_wrapErr costs_waitForClusterDeleted
      costs_free[OF issues.in_ret] costs_free[OF issues.in_fail] issues_rules issues_showCCECluster) simp_all

lemma find_or_create_found:
  assumes "scp_InfraClusterID (obj s) \<noteq> []"
    and "ShowCluster (sv_CCEClient S) (scp_InfraClusterID (obj s)) (world s) = (Ret c, w)"
  shows "find_or_create E S s =
    (Ret (Some c, sc_Status c), s\<lparr>world := w, calls := calls s @ [CallShowCluster (scp_InfraClusterID (obj s))]\<rparr>)"
  using assms by (simp add: find_or_create_def showCCECluster_def go_simps)

lemma calls_ReconcileControlPlane:
  "calls (snd (ReconcileControlPlane E S s)) = calls (snd (reconcileCluster E S s))"
proof -
  obtain r t where "reconcileCluster E S s = (r, t)" by fastforce
  then show ?thesis by (cases r) (simp_all add: ReconcileControlPlane_def go_simps)
qed

text \<open>
  Whatever the cloud answers and however it ends, a reconcile of the control plane requests at
  most one cluster, and none when the lookup of the cluster named by the label has found one.
\<close>

lemma one_cluster_at_most:
  "created_clusters (new_calls s (snd (ReconcileControlPlane E S s))) \<le> 1 \<and>
   (scp_InfraClusterID (obj s) \<noteq> [] \<and>
      ShowCluster (sv_CCEClient S) (scp_InfraClusterID (obj s)) (world s) = (Ret c, w) \<longrightarrow>
    created_clusters (new_calls s (snd (ReconcileControlPlane E S s))) = 0)"
proof (intro conjI impI)
  obtain r t where run: "reconcileCluster E S s = (r, t)" by fastforce
  have new: "new_calls s (snd (ReconcileControlPlane E S s)) = new_calls s t"
    using calls_ReconcileControlPlane[of E S s] run by (simp add: new_calls_def)
  show "created_clusters (new_calls s (snd (ReconcileControlPlane E S s))) \<le> 1"
    using costs_new_calls[OF costs_reconcileCluster_creation run] by (simp add: new created_clusters_def)
  assume "scp_InfraClusterID (obj s) \<noteq> [] \<and>
      ShowCluster (sv_CCEClient S) (scp_InfraClusterID (obj s)) (world s) = (Ret c, w)"
  with run have "settle_cluster E S (Some c) (sc_Status c)
      (s\<lparr>world := w, calls := calls s @ [CallShowCluster (scp_InfraClusterID (obj s))]\<rparr>) = (r, t)"
    by (simp add: reconcileCluster_def andThen_run[OF find_or_create_found])
  from steps_inD[OF free_settle_cluster this] obtain cs where
    "new_calls s t = CallShowCluster (scp_InfraClusterID (obj s)) # cs" "\<forall>c\<in>set cs. cluster_creation c = 0"
    by (auto simp: issues_def list_all_iff)
  then show "created_clusters (new_calls s (snd (ReconcileControlPlane E S s))) = 0"
    by (simp add: new created_clusters_def sum_list_zero)
qed

lemma one_cluster_at_most_witness:
  "created_clusters (new_calls (start (scp_SetInfraClusterID ''cce-1'' demo_cp))
     (snd (ReconcileControlPlane demo_env demo_service (start (scp_SetInfraClusterID ''cce-1'' demo_cp))))) = 0"
proof -
  let ?s = "start (scp_SetInfraClusterID ''cce-1'' demo_cp)"
  have "scp_InfraClusterID (obj ?s) \<noteq> []"
    by (simp add: start_def cluster_id.getID_setID)
  moreover have "ShowCluster (sv_CCEClient demo_service) i (world ?s)
      = (Ret \<lparr>sc_Status = Some (demo_status ''Creating'')\<rparr>, 0)" for i
    by (simp add: demo_service_def demo_cce_def start_def)
  ultimately show ?thesis
    using one_cluster_at_most[of ?s demo_env demo_service "\<lparr>sc_Status = Some (demo_status ''Creating'')\<rparr>" 0]
    by blast
qed

text \<open>
  A reconcile of the control plane and a deletion of it each sleep for at most twenty minutes
  in total, whatever the cloud answers: forty polls, thirty seconds apart.
\<close>

lemma cluster_waits_bounded:
  "slept (new_calls s (snd (ReconcileControlPlane E S s))) \<le> 20 * 60 * 10 ^ 9 \<and>
   slept (new_calls s (snd (DeleteControlPlane E S s))) \<le> 20 * 60 * 10 ^ 9"
  using costs_new_calls[OF costs_ReconcileControlPlane[OF costs_reconcileCluster_sleep], of E S s]
    costs_new_calls[OF costs_DeleteControlPlane, of E S s]
  by (simp add: slept_def prod_eq_iff)

section \<open>Creation and status\<close>

lemma created_condition_differs [simp]:
  "CCEControlPlaneCreatingCondition \<noteq> CCEControlPlaneUpdatingCondition"
  "CCEControlPlaneUpdatingCondition \<noteq> CCEControlPlaneCreatingCondition"
  by (simp_all add: condition_types)

text \<open>
  C20. A successful creation has requested exactly one cluster, with the name of the object, in the VPC and
  subnet the spec names; in VPC router mode if the spec names that mode, or none and the SDK's value of it
  is \<open>vpc-router\<close>, and in overlay mode if it names another, with the fixed pool mask exactly in VPC router
  mode; with the address ranges of the cluster's pods, or the default range if it lists none; and with the
  address range of its services as printed, or the default one. It has recorded the ID the cloud
  answered in the label, and the cluster is reported as being created.
\<close>

theorem createCluster_success:
  assumes "conditions_documented (env_lib E)" and "createCluster E S s = (Ret resp, t)"
  shows "\<exists>q net metadata.
    new_calls s t = [CallCreateCluster q] \<and> CreateCluster (sv_CCEClient S) q (world s) = (Ret resp, world t) \<and>
    cl_ClusterNetwork (scp_Cluster (sv_scope S)) = Some net \<and> ccq_Name q = om_Name (cp_Meta (obj s)) \<and>
    ccq_Vpc q = vpc_id_of (obj s) \<and> ccq_Subnet q = subnet_id_of (obj s) \<and>
    (\<forall>m. ns_Mode (cps_NetworkSpec (cp_Spec (obj s))) = Some m \<longrightarrow>
       ccq_Mode q = (if m = en_VPC_ROUTER (lib_enums (env_lib E)) then m else en_OVERLAY_L2 (lib_enums (env_lib E)))) \<and>
    (ns_Mode (cps_NetworkSpec (cp_Spec (obj s))) = None \<and> en_VPC_ROUTER (lib_enums (env_lib E)) = ''vpc-router'' \<longrightarrow>
       ccq_Mode q = ''vpc-router'') \<and>
    (ccq_AlphaCceFixPoolMask q = Some ''25'' \<longleftrightarrow> ccq_Mode q = en_VPC_ROUTER (lib_enums (env_lib E))) \<and>
    (\<forall>pods. cn_Pods net = Some pods \<and> CIDRBlocks pods \<noteq> [] \<longrightarrow> ccq_Cidrs q = CIDRBlocks pods) \<and>
    (cn_Pods net = None \<or> (\<exists>pods. cn_Pods net = Some pods \<and> CIDRBlocks pods = []) \<longrightarrow>
       ccq_Cidrs q = [defaultContainerCidr]) \<and>
    ccq_KubernetesSvcIpRange q =
      (case cn_Services net of Some sv \<Rightarrow> lib_NetworkRanges_String (env_lib E) sv | None \<Rightarrow> defautlServiceCidr) \<and>
    ccr_Metadata resp = Some metadata \<and> cm_Uid metadata = Some (scp_InfraClusterID (obj t)) \<and>
    cp_IsTrue (env_lib E) CCEControlPlaneCreatingCondition (obj t) \<and> cp_Spec (obj t) = cp_Spec (obj s)"
proof -
  from assms(2) obtain net metadata uid w where net: "cl_ClusterNetwork (scp_Cluster (sv_scope S)) = Some net"
    and "CreateCluster (sv_CCEClient S) (create_cluster_request (env_lib E) net (obj s)) (world s) = (Ret resp, w)"
    and m: "ccr_Metadata resp = Some metadata" "cm_Uid metadata = Some uid"
    and t: "t = s\<lparr>obj := cp_MarkTrue (env_lib E) CCEControlPlaneCreatingCondition (scp_SetInfraClusterID uid (obj s)),
                  world := w,
                  calls := calls s @ [CallCreateCluster (create_cluster_request (env_lib E) net (obj s))]\<rparr>"
    unfolding createCluster_def by (elim andThen_RetE) (auto simp: run_simps)
  moreover have "scp_InfraClusterID (obj t) = uid"
    using t cluster_id.getID_setID[of uid "obj s"] by (simp add: scp_InfraClusterID_def)
  moreover have "cl_ClusterNetwork (scp_Cluster (sv_scope S)) = Some net" by (rule net)
  ultimately show ?thesis
    by (intro exI[of _ "create_cluster_request (env_lib E) net (obj s)"] exI[of _ net] exI[of _ metadata])
      (auto simp: create_cluster_request_def container_cidrs_def service_cidr_def Let_def network_mode_def
        cp_IsTrue_MarkTrue[OF assms(1)] split: option.splits)
qed

lemma createCluster_success_witness:
  "\<exists>resp t. createCluster demo_env demo_service (start demo_cp) = (Ret resp, t) \<and>
     scp_InfraClusterID (obj t) = ''cce-1''"
proof -
  have run: "fst (createCluster demo_env demo_service (start demo_cp))
      = Ret \<lparr>ccr_Metadata = Some \<lparr>cm_Uid = Some ''cce-1''\<rparr>, ccr_Status = Some (demo_status ''Creating'')\<rparr>"
    by code_simp
  obtain t where t: "createCluster demo_env demo_service (start demo_cp)
      = (Ret \<lparr>ccr_Metadata = Some \<lparr>cm_Uid = Some ''cce-1''\<rparr>, ccr_Status = Some (demo_status ''Creating'')\<rparr>, t)"
    by (rule ended[OF run])
  have "conditions_documented (env_lib demo_env)"
    by (simp add: demo_env_def demo_conditions)
  from createCluster_success[OF this t] t show ?thesis by auto
qed

text \<open>The phases \<open>setStatus\<close> knows.\<close>

definition known_phases :: "string set" where
  "known_phases = {''Deleting'', ''Unavailable'', ''Available'', ''Creating'', ''Upgrading''}"

lemma known_phase_cases:
  assumes "phase \<in> known_phases"
  obtains "phase = ''Deleting''" | "phase = ''Unavailable''" | "phase = ''Available''" | "phase = ''Creating''"
    | "phase = ''Upgrading''"
  using assms unfolding known_phases_def insert_iff empty_iff by (elim disjE FalseE)

lemma mirror_unknown:
  "phase \<notin> known_phases \<Longrightarrow> mirror_cluster_phase E phase st s
    = (Err (ErrorString (''unexpected CCE cluster status '' @ phase)), s)"
  by (simp add: mirror_cluster_phase_def known_phases_def go_simps)

text \<open>
  A phase that \<open>setStatus\<close> does not know is an error that names it; nothing is changed and
  nothing is patched.
\<close>

lemma cp_setStatus_unknown:
  assumes "cs_Phase status = Some phase" and "phase \<notin> known_phases"
  shows "cp_setStatus E S (Some status) s = (Err (ErrorString (''unexpected CCE cluster status '' @ phase)), s)"
  using assms by (simp add: cp_setStatus_def deref_phase_def mirror_unknown go_simps)

lemma cp_setStatus_unknown_witness:
  "fst (cp_setStatus demo_env demo_service (Some (demo_status ''Frozen'')) (start demo_cp))
     = Err (ErrorString ''unexpected CCE cluster status Frozen'')"
  by (subst cp_setStatus_unknown[of _ "''Frozen''"]) (simp_all add: demo_status_def known_phases_def)

lemma end_creating_run:
  assumes "conditions_documented (env_lib E)" and "end_creating E s = (r, t)"
  shows "cp_Spec (obj t) = cp_Spec (obj s)" "cp_Ready (obj t) = cp_Ready (obj s)"
    "cpst_FailureMessage (cp_Status (obj t)) = cpst_FailureMessage (cp_Status (obj s))"
    "cp_IsTrue (env_lib E) u (obj t) \<longleftrightarrow> u \<noteq> CCEControlPlaneCreatingCondition \<and> cp_IsTrue (env_lib E) u (obj s)"
  using assms(2)
  by (auto simp: end_creating_def go_simps cp_IsTrue_MarkFalse[OF assms(1)] split: if_splits)

lemma end_updating_run:
  assumes "conditions_documented (env_lib E)" and "end_updating E s = (r, t)"
  shows "cp_Spec (obj t) = cp_Spec (obj s)" "cp_Ready (obj t) = cp_Ready (obj s)"
    "cpst_FailureMessage (cp_Status (obj t)) = cpst_FailureMessage (cp_Status (obj s))"
    "cp_IsTrue (env_lib E) u (obj t) \<longleftrightarrow> u \<noteq> CCEControlPlaneUpdatingCondition \<and> cp_IsTrue (env_lib E) u (obj s)"
  using assms(2)
  by (auto simp: end_updating_def go_simps cp_IsTrue_MarkFalse[OF assms(1)] split: if_splits)

lemma cpst_FailureMessage_setters [simp]:
  "cpst_FailureMessage (cp_Status (set_cp_Ready b cp)) = cpst_FailureMessage (cp_Status cp)"
  "cpst_FailureMessage (cp_Status (set_cp_FailureMessage m cp)) = m"
  by (simp_all add: set_cp_Ready_def set_cp_FailureMessage_def)

lemma mirror_known:
  "mirror_cluster_phase E phase st s = (Ret (), t) \<Longrightarrow> phase \<in> known_phases"
  using mirror_unknown[of phase E st s] by fastforce

lemma mirror_available:
  assumes doc: "conditions_documented (env_lib E)" and run: "mirror_cluster_phase E ''Available'' st s = (Ret (), t)"
  shows "cp_Ready (obj t) \<and> cp_Spec (obj t) = cp_Spec (obj s) \<and>
    cpst_FailureMessage (cp_Status (obj t)) = None \<and>
    \<not> cp_IsTrue (env_lib E) CCEControlPlaneCreatingCondition (obj t) \<and>
    \<not> cp_IsTrue (env_lib E) CCEControlPlaneUpdatingCondition (obj t)"
proof -
  obtain u where u: "end_creating E (s\<lparr>obj := set_cp_FailureMessage None (set_cp_Ready True (obj s))\<rparr>) = (Ret (), u)"
    and t: "end_updating E u = (Ret (), t)"
    using run by (simp add: mirror_cluster_phase_def) (auto simp: run_simps elim!: andThen_RetE)
  show ?thesis
    using end_creating_run[OF doc u] end_updating_run[OF doc t] by simp
qed

lemma mirror_unavailable:
  "mirror_cluster_phase E ''Unavailable'' (Some st) s = (Ret (), t) \<Longrightarrow>
   \<exists>r m. cs_Reason st = Some r \<and> cs_Message st = Some m \<and>
     t = s\<lparr>obj := set_cp_FailureMessage (Some (''CCE cluster in unexpected '' @ r @ '' reason. '' @ m))
                    (set_cp_Ready False (obj s))\<rparr>"
  by (simp add: mirror_cluster_phase_def) (auto simp: run_simps elim!: andThen_RetE)

lemma mirror_other:
  "phase \<in> {''Deleting'', ''Creating'', ''Upgrading''} \<Longrightarrow>
   mirror_cluster_phase E phase st s = (Ret (), t) \<Longrightarrow>
   t = s\<lparr>obj := set_cp_Ready (phase = ''Upgrading'') (obj s)\<rparr>"
  by (auto simp: mirror_cluster_phase_def run_simps)

lemma mirror_cluster_phase_Ret:
  assumes doc: "conditions_documented (env_lib E)" and run: "mirror_cluster_phase E phase (Some st) s = (Ret (), t)"
  shows "(cp_Ready (obj t) \<longleftrightarrow> phase \<in> {''Available'', ''Upgrading''}) \<and> cp_Spec (obj t) = cp_Spec (obj s) \<and>
    (phase = ''Available'' \<longrightarrow> \<not> cp_IsTrue (env_lib E) CCEControlPlaneCreatingCondition (obj t) \<and>
        \<not> cp_IsTrue (env_lib E) CCEControlPlaneUpdatingCondition (obj t)) \<and>
    cpst_FailureMessage (cp_Status (obj t)) =
       (if phase = ''Available'' then None
        else if phase = ''Unavailable'' then
          Some (''CCE cluster in unexpected '' @ the (cs_Reason st) @ '' reason. '' @ the (cs_Message st))
        else cpst_FailureMessage (cp_Status (obj s)))"
  using mirror_known[OF run]
proof (cases rule: known_phase_cases)
  case 2
  with run show ?thesis by (auto dest: mirror_unavailable)
next
  case 3
  with run mirror_available[OF doc] show ?thesis by simp
qed (use run mirror_other[of phase E "Some st" s t] in simp_all)

text \<open>
  C21. After a successful \<open>setStatus\<close> the cluster's phase is one of the five it knows. The object is
  ready exactly for an available or upgrading cluster, its failure message is set for an
  unavailable cluster and cleared for an available one, an available cluster is neither being
  created nor updated, the spec is untouched, and what is in memory is what was patched last.
\<close>

theorem cp_setStatus_success:
  assumes "conditions_documented (env_lib E)" and "cp_setStatus E S st s = (Ret (), t)"
  shows "\<exists>status phase. st = Some status \<and> cs_Phase status = Some phase \<and> phase \<in> known_phases \<and>
    (cp_Ready (obj t) \<longleftrightarrow> phase \<in> {''Available'', ''Upgrading''}) \<and> cp_Spec (obj t) = cp_Spec (obj s) \<and>
    (phase = ''Available'' \<longrightarrow> \<not> cp_IsTrue (env_lib E) CCEControlPlaneCreatingCondition (obj t) \<and>
        \<not> cp_IsTrue (env_lib E) CCEControlPlaneUpdatingCondition (obj t)) \<and>
    cpst_FailureMessage (cp_Status (obj t)) =
       (if phase = ''Available'' then None
        else if phase = ''Unavailable'' then
          Some (''CCE cluster in unexpected '' @ the (cs_Reason status) @ '' reason. '' @ the (cs_Message status))
        else cpst_FailureMessage (cp_Status (obj s))) \<and>
    calls t \<noteq> [] \<and> last (calls t) = CallPatchControlPlane (obj t)"
proof -
  obtain status phase u where st: "st = Some status" "cs_Phase status = Some phase"
    and u: "mirror_cluster_phase E phase st s = (Ret (), u)"
    and t: "scp_PatchObject E (sv_scope S) u = (Ret (), t)"
    using assms(2) unfolding cp_setStatus_def deref_phase_def by (elim andThen_RetE) auto
  have "obj t = obj u" "calls t = calls u @ [CallPatchControlPlane (obj u)]"
    using t by (auto simp: scp_PatchObject_apply split: prod.splits)
  with mirror_cluster_phase_Ret[OF assms(1) u[unfolded st(1)]] mirror_known[OF u] st show ?thesis
    by auto
qed

lemma cp_setStatus_success_witness:
  "\<exists>t. cp_setStatus demo_env demo_service (Some (demo_status ''Unavailable'')) (start demo_cp) = (Ret (), t) \<and>
     \<not> cp_Ready (obj t) \<and>
     cpst_FailureMessage (cp_Status (obj t)) = Some ''CCE cluster in unexpected r reason. m''"
proof -
  have run: "fst (cp_setStatus demo_env demo_service (Some (demo_status ''Unavailable'')) (start demo_cp)) = Ret ()"
    by code_simp
  obtain t where t: "cp_setStatus demo_env demo_service (Some (demo_status ''Unavailable'')) (start demo_cp) = (Ret (), t)"
    by (rule ended[OF run])
  have "conditions_documented (env_lib demo_env)"
    by (simp add: demo_env_def demo_conditions)
  from cp_setStatus_success[OF this t] t show ?thesis
    by (simp add: demo_status_def)
qed

section \<open>Access to the cluster\<close>

text \<open>The calls that open or hand out access to the cluster.\<close>

definition grants_access :: "call \<Rightarrow> bool" where
  "grants_access c \<longleftrightarrow>
     (case c of CallCreatePublicip _ \<Rightarrow> True | CallUpdateClusterEip _ \<Rightarrow> True | CallCreateCert _ \<Rightarrow> True
      | CallCreateSecret _ \<Rightarrow> True | CallUpdateSecret _ \<Rightarrow> True | _ \<Rightarrow> False)"

lemma grants_access_not:
  "status_call c \<Longrightarrow> \<not> grants_access c" "sleep_or_status c \<Longrightarrow> \<not> grants_access c"
  by (cases c; simp add: grants_access_def status_call_def sleep_or_status_def)+

lemma keeps_reconcileEIP: "steps_in (keeps cp_Ready) (reconcileEIP E S)"
  unfolding reconcileEIP_def Let_def by (intro keeps_rules) simp_all

lemma keeps_generateClientData': "steps_in (keeps f) (generateClientData S)"
  unfolding generateClientData_def by (intro keeps_rules keeps_decode_field)

lemma keeps_reconcileKubeconfig: "steps_in (keeps cp_Ready) (reconcileKubeconfig E S)"
  unfolding reconcileKubeconfig_def createCAPIKubeconfigSecret_def updateCAPIKubeconfigSecret_def
    createBaseKubeConfig_def Let_def
  by (intro keeps_rules keeps_from_sum keeps_generateClientData') simp_all

lemma keeps_apply_endpoints: "(\<And>ep x. f (set_Endpoint ep x) = f x) \<Longrightarrow> steps_in (keeps f) (apply_endpoints k eps)"
  by (induction eps) (auto intro!: keeps_rules)

lemma keeps_showCCECluster: "steps_in (keeps f) (showCCECluster S i)"
  unfolding showCCECluster_def by (intro keeps_rules)

lemma keeps_provide_access: "steps_in (keeps cp_Ready) (provide_access E S c)"
  unfolding provide_access_def publish_endpoint_def public_access_def
  by (intro keeps_rules keeps_reconcileEIP keeps_reconcileKubeconfig keeps_apply_endpoints keeps_showCCECluster) simp_all

lemma guarded_settle_cluster: "guarded grants_access cp_Ready (settle_cluster E S cluster st)"
proof -
  have w: "steps_in (issues (\<lambda>c. \<not> grants_access c)) (waitForClusterActive E S)"
    by (rule issues_mono[OF issues_waitForClusterActive]) (rule grants_access_not)
  have s: "steps_in (issues (\<lambda>c. \<not> grants_access c)) (cp_setStatus E S st)"
    by (rule issues_mono[OF issues_cp_setStatus]) (rule grants_access_not)
  show ?thesis
    unfolding settle_cluster_def
    by (intro guarded_andThen issues_rules guarded_test keeps_provide_access issues_deref_phase w s
        growsI[OF w] growsI[OF issues_provide_access])
qed

lemma guarded_reconcileCluster: "guarded grants_access cp_Ready (reconcileCluster E S)"
proof -
  have f: "steps_in (issues (\<lambda>c. \<not> grants_access c)) (find_or_create E S)"
    unfolding find_or_create_def
    by (intro issues_rules issues_showCCECluster issues_createCluster) (simp_all add: grants_access_def)
  have "guarded grants_access cp_Ready (case x of (c, st) \<Rightarrow> settle_cluster E S c st)" for x
    by (simp add: guarded_settle_cluster split: prod.split)
  then show ?thesis
    unfolding reconcileCluster_def
    by (intro guarded_andThen f issues_rules growsI[OF free_settle_cluster])
qed

text \<open>
  C22. An elastic IP is created or bound, and a client certificate or a kubeconfig secret is issued,
  only in a run in which the control plane is reported ready: it still is when the run ends, be it
  with an error or a panic.
\<close>

theorem access_only_when_ready:
  assumes "ReconcileControlPlane E S s = (r, t)" and "c \<in> set (new_calls s t)" and "grants_access c"
  shows "cp_Ready (obj t)"
proof -
  obtain q u where run: "reconcileCluster E S s = (q, u)" by fastforce
  have same: "calls t = calls u" "cp_Ready (obj t) = cp_Ready (obj u)"
    using assms(1) run by (cases q; auto simp: ReconcileControlPlane_def go_simps)+
  then have "c \<in> set (new_calls s u)" using assms(2) by (simp add: new_calls_def)
  with guardedD[OF guarded_reconcileCluster run] assms(3) same show ?thesis by blast
qed

definition demo_shows :: "ClusterStatus \<Rightarrow> nat Service" where
  "demo_shows status = demo_service\<lparr>sv_CCEClient := demo_cce\<lparr>ShowCluster := (\<lambda>_. ret \<lparr>sc_Status = Some status\<rparr>)\<rparr>,
     sv_EIPClient := \<lparr>CreatePublicip = (\<lambda>_. fail (ErrorString ''quota''))\<rparr>\<rparr>"

definition demo_labelled :: CCEManagedControlPlane where
  "demo_labelled = scp_SetInfraClusterID ''cce-1'' demo_cp"

lemma access_only_when_ready_witness:
  "cp_Ready (obj (snd (ReconcileControlPlane demo_env (demo_shows (demo_status ''Available'')) (start demo_labelled))))"
proof -
  let ?run = "ReconcileControlPlane demo_env (demo_shows (demo_status ''Available'')) (start demo_labelled)"
  have "list_ex grants_access (new_calls (start demo_labelled) (snd ?run))"
    by code_simp
  then obtain c where "c \<in> set (new_calls (start demo_labelled) (snd ?run))" "grants_access c"
    by (auto simp: list_ex_iff)
  from access_only_when_ready[OF surjective_pairing this] show ?thesis .
qed

section \<open>The published endpoint\<close>

definition endpoints_of :: "string \<Rightarrow> ClusterEndpoints list \<Rightarrow> ClusterEndpoints list" where
  "endpoints_of kind = filter (\<lambda>ep. ep_Type ep = Some kind)"

definition endpoint_at :: "ClusterEndpoints \<Rightarrow> APIEndpoint option" where
  "endpoint_at ep =
     (case ep_Url ep of
        None \<Rightarrow> None
      | Some url \<Rightarrow> (case parseURL url of Inl e \<Rightarrow> None | Inr (h, p) \<Rightarrow> Some \<lparr>Host = h, Port = to_int32 p\<rparr>))"

definition cp_endpoint :: "CCEManagedControlPlane \<Rightarrow> APIEndpoint" where
  "cp_endpoint cp = cps_ControlPlaneEndpoint (cp_Spec cp)"

lemma cp_endpoint_set [simp]: "cp_endpoint (set_Endpoint ep cp) = ep"
  by (simp add: cp_endpoint_def set_Endpoint_def)

lemma apply_endpoints_cons:
  assumes "apply_endpoints kind (ep # eps) s = (Ret (), t)"
  obtains u where "apply_endpoints kind eps u = (Ret (), t)" "calls u = calls s" "world u = world s"
    "if ep_Type ep = Some kind then endpoint_at ep = Some (cp_endpoint (obj u)) else obj u = obj s"
  using assms
  by (auto simp: go_simps endpoint_at_def split: option.splits sum.splits if_splits)

lemma apply_endpoints_Ret:
  "apply_endpoints kind eps s = (Ret (), t) \<Longrightarrow>
   calls t = calls s \<and> world t = world s \<and>
   (if endpoints_of kind eps = [] then obj t = obj s
    else endpoint_at (last (endpoints_of kind eps)) = Some (cp_endpoint (obj t)))"
proof (induction eps arbitrary: s)
  case Nil
  then show ?case by (simp add: endpoints_of_def go_simps)
next
  case (Cons ep eps)
  from Cons.prems obtain u where u: "apply_endpoints kind eps u = (Ret (), t)" "calls u = calls s" "world u = world s"
    "if ep_Type ep = Some kind then endpoint_at ep = Some (cp_endpoint (obj u)) else obj u = obj s"
    by (rule apply_endpoints_cons)
  with Cons.IH[OF u(1)] show ?case
    by (auto simp: endpoints_of_def split: if_splits)
qed

lemma keeps_kubeconfig_endpoint: "steps_in (keeps cp_Spec) (reconcileKubeconfig E S)"
  unfolding reconcileKubeconfig_def createCAPIKubeconfigSecret_def updateCAPIKubeconfigSecret_def
    createBaseKubeConfig_def Let_def
  by (intro keeps_rules keeps_from_sum keeps_generateClientData') simp_all

text \<open>
  C23. The endpoint a successful reconcile publishes is the address of the last external endpoint
  the cluster reports, else of the last internal one, else the endpoint already recorded.
\<close>

theorem publish_endpoint_choice:
  assumes "ShowCluster (sv_CCEClient S) (scp_InfraClusterID (obj s)) (world s) = (Ret c, w)"
    and "sc_Status c = Some status" and "cs_Endpoints status = Some eps"
    and "publish_endpoint E S s = (Ret (), t)"
  shows "Some (cp_endpoint (obj t)) =
    (if endpoints_of ''External'' eps \<noteq> [] then endpoint_at (last (endpoints_of ''External'' eps))
     else if endpoints_of ''Internal'' eps \<noteq> [] then endpoint_at (last (endpoints_of ''Internal'' eps))
     else Some (cp_endpoint (obj s)))"
proof -
  let ?s = "s\<lparr>world := w, calls := calls s @ [CallShowCluster (scp_InfraClusterID (obj s))]\<rparr>"
  have "showCCECluster S (scp_InfraClusterID (obj s)) s = (Ret (Some c), ?s)"
    using assms(1) by (simp add: showCCECluster_def go_simps)
  with assms obtain u v where int: "apply_endpoints ''Internal'' eps ?s = (Ret (), u)"
    and ext: "apply_endpoints ''External'' eps u = (Ret (), v)"
    and kube: "reconcileKubeconfig E S v = (Ret (), t)"
    unfolding publish_endpoint_def by (elim andThen_RetE) (auto simp: run_simps elim!: andThen_RetE)
  have "cp_endpoint (obj t) = cp_endpoint (obj v)"
    using steps_inD[OF keeps_kubeconfig_endpoint kube] by (simp add: keeps_def cp_endpoint_def)
  with apply_endpoints_Ret[OF int] apply_endpoints_Ret[OF ext] show ?thesis
    by (auto split: if_splits)
qed

lemma publish_endpoint_choice_witness:
  "\<exists>t. publish_endpoint demo_env (demo_shows (demo_status ''Available'')) (start demo_labelled) = (Ret (), t) \<and>
     Some (cp_endpoint (obj t)) = endpoint_at \<lparr>ep_Url = Some ''https://1.2.3.4:5443'', ep_Type = Some ''Internal''\<rparr>"
proof -
  let ?S = "demo_shows (demo_status ''Available'')"
  have run: "fst (publish_endpoint demo_env ?S (start demo_labelled)) = Ret ()"
    by code_simp
  obtain t where t: "publish_endpoint demo_env ?S (start demo_labelled) = (Ret (), t)"
    by (rule ended[OF run])
  have "ShowCluster (sv_CCEClient ?S) i x = (Ret \<lparr>sc_Status = Some (demo_status ''Available'')\<rparr>, x)" for i x
    by (simp add: demo_shows_def go_simps)
  from publish_endpoint_choice[OF this _ _ t] t show ?thesis
    by (simp add: demo_status_def endpoints_of_def)
qed

section \<open>Answers that make the reconcile panic\<close>

lemma setStatus_available:
  assumes "conditions_documented (env_lib E)"
    and "\<And>a b c w. fst (k_PatchControlPlane (env_kube E) a b c w) = Ret ()"
    and "cs_Phase status = Some ''Available''"
  obtains t where "cp_setStatus E S (Some status) s = (Ret (), t)" "cp_Ready (obj t)" "cp_Spec (obj t) = cp_Spec (obj s)"
proof -
  let ?s = "s\<lparr>obj := set_cp_FailureMessage None (set_cp_Ready True (obj s))\<rparr>"
  obtain u where u: "end_creating E ?s = (Ret (), u)"
    by (cases "cp_IsTrue (env_lib E) CCEControlPlaneCreatingCondition (obj ?s)") (simp_all add: end_creating_def go_simps)
  obtain v where v: "end_updating E u = (Ret (), v)"
    by (cases "cp_IsTrue (env_lib E) CCEControlPlaneUpdatingCondition (obj u)") (simp_all add: end_updating_def go_simps)
  have m: "mirror_cluster_phase E ''Available'' (Some status) s = (Ret (), v)"
    using u v by (simp add: mirror_cluster_phase_def go_simps)
  obtain w where "k_PatchControlPlane (env_kube E) (scp_patchHelper (sv_scope S)) scp_ownedConditions (obj v) (world v) = (Ret (), w)"
    by (rule ended[OF assms(2)])
  then have "cp_setStatus E S (Some status) s
      = (Ret (), v\<lparr>world := w, calls := calls v @ [CallPatchControlPlane (obj v)]\<rparr>)"
    using m assms(3) by (simp add: cp_setStatus_def deref_phase_def go_simps)
  with that mirror_available[OF assms(1) m] show thesis by simp
qed

text \<open>
  A reconcile panics when the cluster is available but reports no endpoints, although the code
  after it is written for that case, and when the object leaves out the optional
  \<open>spec.endpointAccess\<close>.
\<close>

lemma available_cluster_panics:
  assumes "conditions_documented (env_lib E)"
    and "\<And>a b c w. fst (k_PatchControlPlane (env_kube E) a b c w) = Ret ()"
    and "scp_InfraClusterID (obj s) \<noteq> []"
    and "ShowCluster (sv_CCEClient S) (scp_InfraClusterID (obj s)) (world s) = (Ret \<lparr>sc_Status = Some status\<rparr>, w)"
    and "cs_Phase status = Some ''Available''"
    and "cs_Endpoints status = None \<or> cps_EndpointAccess (cp_Spec (obj s)) = None"
  shows "fst (ReconcileControlPlane E S s) = Panic"
proof -
  let ?s = "s\<lparr>world := w, calls := calls s @ [CallShowCluster (scp_InfraClusterID (obj s))]\<rparr>"
  obtain t where t: "cp_setStatus E S (Some status) ?s = (Ret (), t)" "cp_Ready (obj t)" "cp_Spec (obj t) = cp_Spec (obj s)"
    using setStatus_available[OF assms(1,2,5), of S ?s] by auto
  have "fst (provide_access E S (Some \<lparr>sc_Status = Some status\<rparr>) t) = Panic"
    using assms(6) t(3) by (auto simp: provide_access_def public_access_def go_simps split: option.split)
  then have "fst (settle_cluster E S (Some \<lparr>sc_Status = Some status\<rparr>) (Some status) ?s) = Panic"
    using t assms(5) by (simp add: settle_cluster_def deref_phase_def go_simps)
  then have "fst (reconcileCluster E S s) = Panic"
    by (simp add: reconcileCluster_def andThen_run find_or_create_found[OF assms(3,4)])
  then show ?thesis
    unfolding ReconcileControlPlane_def by (intro panic_through)
qed

lemma available_cluster_panics_witness:
  "fst (ReconcileControlPlane demo_env (demo_shows ((demo_status ''Available'')\<lparr>cs_Endpoints := None\<rparr>)) (start demo_labelled)) = Panic"
proof (rule available_cluster_panics[where status = "(demo_status ''Available'')\<lparr>cs_Endpoints := None\<rparr>" and w = 0])
  show "conditions_documented (env_lib demo_env)" by (simp add: demo_env_def demo_conditions)
  show "fst (k_PatchControlPlane (env_kube demo_env) a b c w) = Ret ()" for a b c w
    by (simp add: demo_env_def demo_kube_def go_simps)
  show "scp_InfraClusterID (obj (start demo_labelled)) \<noteq> []"
    by (simp add: start_def demo_labelled_def cluster_id.getID_setID)
qed (simp_all add: demo_shows_def go_simps start_def demo_status_def)

text \<open>
  A cluster that disappears while the reconcile waits for it makes the reconcile panic:
  \<open>showCCECluster\<close> answers nil without an error, and the poll dereferences it.
\<close>

lemma vanished_cluster_panics:
  assumes "ShowCluster (sv_CCEClient S) (scp_InfraClusterID (obj s)) (world s) = (Err (ServiceResponseError 404 code txt), w)"
  shows "fst (waitForClusterActive E S s) = Panic"
proof -
  have "cluster_active_poll S s = (Panic, s\<lparr>world := w, calls := calls s @ [CallShowCluster (scp_InfraClusterID (obj s))]\<rparr>)"
    using assms by (simp add: cluster_active_poll_def showCCECluster_def go_simps)
  then have "fst (waitUntil E (cluster_active_poll S) (30 * Second) 40 s) = Panic"
    by (simp add: waitUntil_def eval_nat_numeral go_simps)
  then show ?thesis
    unfolding waitForClusterActive_def by (simp add: andThen_run[OF gets_apply] panic_through)
qed

definition demo_gone :: "nat Service" where
  "demo_gone = demo_service\<lparr>sv_CCEClient :=
     demo_cce\<lparr>ShowCluster := (\<lambda>_. fail (ServiceResponseError 404 ''CCE.01404001'' ''not found''))\<rparr>\<rparr>"

lemma vanished_cluster_panics_witness:
  "fst (waitForClusterActive demo_env demo_gone (start demo_labelled)) = Panic"
  by (rule vanished_cluster_panics) (simp add: demo_gone_def go_simps)

section \<open>Deletion\<close>

lemma cluster_deleted_poll_True:
  assumes "cluster_deleted_poll E S i s = (Ret True, t)"
  shows "obj t = obj s \<and>
    ((\<exists>w e. ShowCluster (sv_CCEClient S) i w = (Err e, world t) \<and> not_found_404 e) \<or>
     (\<exists>w c status phase. ShowCluster (sv_CCEClient S) i w = (Ret c, world t) \<and> sc_Status c = Some status \<and>
        cs_Phase status = Some phase \<and> phase \<noteq> en_NP_DELETING (lib_enums (env_lib E))))"
  using assms unfolding cluster_deleted_poll_def showCCECluster_def
  by (elim andThen_RetE)
    (auto simp: go_simps deref_phase_def split: option.splits sum.splits if_splits prod.splits outcome.splits)

lemma keeps_cluster_deleted_poll: "steps_in (keeps f) (cluster_deleted_poll E S i)"
  unfolding cluster_deleted_poll_def deref_phase_def by (intro keeps_rules keeps_showCCECluster)

lemma deleteClusterAndWait_RetE:
  assumes "deleteClusterAndWait E S i u = (Ret (), t)"
  obtains (gone) e where "DeleteCluster (sv_CCEClient S) i (world u) = (Err e, world t)" "not_found_404 e" "obj t = obj u"
    | (waited) v where "waitForClusterDeleted E S i v = (Ret (), t)" "obj v = obj u"
proof -
  obtain r w where "DeleteCluster (sv_CCEClient S) i (world u) = (r, w)" by fastforce
  with assms that show thesis
    by (cases r) (auto simp: deleteClusterAndWait_def go_simps split: if_splits prod.splits outcome.splits)
qed

text \<open>
  A deletion of the control plane that succeeds has left the object alone, and either the
  object has no cluster ID, or the last answer of the cloud was that the cluster is unknown, or
  it showed the cluster in a phase other than \<open>Deleting\<close>.
\<close>

lemma DeleteControlPlane_success:
  assumes "DeleteControlPlane E S s = (Ret (), t)"
  shows "obj t = obj s \<and>
    (scp_InfraClusterID (obj s) = [] \<and> t = s \<or>
     (\<exists>w e. ShowCluster (sv_CCEClient S) (scp_InfraClusterID (obj s)) w = (Err e, world t) \<and> not_found_404 e) \<or>
     (\<exists>w e. DeleteCluster (sv_CCEClient S) (scp_InfraClusterID (obj s)) w = (Err e, world t) \<and> not_found_404 e) \<or>
     (\<exists>w c status phase. ShowCluster (sv_CCEClient S) (scp_InfraClusterID (obj s)) w = (Ret c, world t) \<and>
        sc_Status c = Some status \<and> cs_Phase status = Some phase \<and>
        phase \<noteq> en_NP_DELETING (lib_enums (env_lib E))))"
proof (cases "scp_InfraClusterID (obj s) = []")
  case True
  with assms show ?thesis by (simp add: DeleteControlPlane_def deleteCluster_def go_simps)
next
  case False
  let ?i = "scp_InfraClusterID (obj s)"
  obtain x u where x: "showCCECluster S ?i s = (Ret x, u)"
    using assms False unfolding DeleteControlPlane_def deleteCluster_def
    by (elim andThen_RetE) (auto simp: run_simps elim!: andThen_RetE)
  have u: "obj u = obj s" using steps_inD[OF keeps_showCCECluster[of id] x] by (simp add: keeps_def)
  show ?thesis
  proof (cases x)
    case None
    with x have "\<exists>w e. ShowCluster (sv_CCEClient S) ?i w = (Err e, world u) \<and> not_found_404 e"
      by (auto simp: showCCECluster_def go_simps split: sum.splits if_splits prod.splits outcome.splits) blast
    moreover have "t = u" using assms False x None
      by (simp add: DeleteControlPlane_def deleteCluster_def go_simps)
    ultimately show ?thesis using u by blast
  next
    case (Some c)
    then have del: "deleteClusterAndWait E S ?i u = (Ret (), t)"
      using assms False x by (simp add: DeleteControlPlane_def deleteCluster_def andThen_run gets_apply)
    from del show ?thesis
    proof (cases rule: deleteClusterAndWait_RetE)
      case (gone e)
      with u show ?thesis by metis
    next
      case (waited v)
      obtain v' where poll: "cluster_deleted_poll E S ?i v' = (Ret True, t)"
        using waited(1) unfolding waitForClusterDeleted_def waitUntil_def by (rule waitLoop_success)
      have "obj t = obj v"
        using steps_inD[OF keeps_waitUntil[OF keeps_cluster_deleted_poll[of id]] waited(1)[unfolded waitForClusterDeleted_def]]
        by (simp add: keeps_def)
      with cluster_deleted_poll_True[OF poll] u waited(2) show ?thesis by auto
    qed
  qed
qed

lemma demo_delete_run: "fst (DeleteControlPlane demo_env demo_service (start demo_labelled)) = Ret ()"
  by code_simp

lemma DeleteControlPlane_success_witness:
  "\<exists>t. DeleteControlPlane demo_env demo_service (start demo_labelled) = (Ret (), t) \<and> obj t = demo_labelled"
proof -
  obtain t where t: "DeleteControlPlane demo_env demo_service (start demo_labelled) = (Ret (), t)"
    by (rule ended[OF demo_delete_run])
  with DeleteControlPlane_success[OF t] show ?thesis by (simp add: start_def)
qed

text \<open>
  C24. The wait for a deletion ends as soon as the cluster is shown in any phase but \<open>Deleting\<close>: when
  the cloud has accepted the request and still shows the cluster available, or unavailable, the
  deletion is reported complete after one poll, without waiting, and the cluster is still there.
\<close>

theorem deletion_complete_while_cluster_exists:
  assumes "scp_InfraClusterID (obj s) \<noteq> []"
    and "\<And>w. ShowCluster (sv_CCEClient S) (scp_InfraClusterID (obj s)) w = (Ret \<lparr>sc_Status = Some status\<rparr>, w)"
    and "DeleteCluster (sv_CCEClient S) (scp_InfraClusterID (obj s)) (world s) = (Ret (), w)"
    and "cs_Phase status = Some phase" and "phase \<noteq> en_NP_DELETING (lib_enums (env_lib E))"
  shows "DeleteControlPlane E S s = (Ret (), s\<lparr>world := w, calls := calls s @
    [CallShowCluster (scp_InfraClusterID (obj s)), CallDeleteCluster (scp_InfraClusterID (obj s)),
     CallShowCluster (scp_InfraClusterID (obj s))]\<rparr>)"
  using assms
  by (simp add: DeleteControlPlane_def deleteCluster_def deleteClusterAndWait_def waitForClusterDeleted_def
      waitUntil_def eval_nat_numeral cluster_deleted_poll_def showCCECluster_def deref_phase_def go_simps)

lemma deletion_complete_while_cluster_exists_witness:
  "fst (DeleteControlPlane demo_env (demo_shows (demo_status ''Available'')) (start demo_labelled)) = Ret ()"
proof -
  let ?S = "demo_shows (demo_status ''Available'')"
  have i: "scp_InfraClusterID (obj (start demo_labelled)) \<noteq> []"
    by (simp add: start_def demo_labelled_def cluster_id.getID_setID)
  have sh: "ShowCluster (sv_CCEClient ?S) j w = (Ret \<lparr>sc_Status = Some (demo_status ''Available'')\<rparr>, w)" for j w
    by (simp add: demo_shows_def go_simps)
  have d: "DeleteCluster (sv_CCEClient ?S) j w = (Ret (), w)" for j w
    by (simp add: demo_shows_def demo_cce_def go_simps)
  show ?thesis
    by (subst deletion_complete_while_cluster_exists[OF i sh d, where phase = "''Available''"])
      (simp_all add: demo_status_def demo_env_def demo_lib_def demo_enums_def)
qed

section \<open>The readiness condition\<close>

text \<open>
  The condition \<open>CCEControlPlaneReady\<close> reports on the reconcile: true after one that succeeded;
  after one that failed it is false, with severity error and the text of the very error that is
  returned.
\<close>

lemma ReconcileControlPlane_condition:
  assumes "conditions_documented (env_lib E)" and "ReconcileControlPlane E S s = (r, t)"
  shows "(r = Ret () \<longrightarrow> cp_IsTrue (env_lib E) CCEControlPlaneReadyCondition (obj t)) \<and>
    (\<forall>e. r = Err e \<longrightarrow> \<not> cp_IsTrue (env_lib E) CCEControlPlaneReadyCondition (obj t) \<and>
       (\<exists>x. obj t = cp_MarkFalse (env_lib E) CCEControlPlaneReadyCondition
              CCEControlPlaneReconciliationFailedReason SeverityError (Error e) x))"
proof -
  obtain q u where run: "reconcileCluster E S s = (q, u)" by fastforce
  with assms(2) show ?thesis
    by (cases q) (auto simp: ReconcileControlPlane_def go_simps cp_IsTrue_MarkTrue[OF assms(1)]
        cp_IsTrue_MarkFalse[OF assms(1)])
qed

definition demo_broken :: "nat Service" where
  "demo_broken = demo_service\<lparr>sv_CCEClient :=
     demo_cce\<lparr>ShowCluster := (\<lambda>_. fail (ErrorString ''timeout''))\<rparr>\<rparr>"

lemma ReconcileControlPlane_condition_witness:
  "\<exists>e t. ReconcileControlPlane demo_env demo_broken (start demo_labelled) = (Err e, t) \<and>
     \<not> cp_IsTrue demo_lib CCEControlPlaneReadyCondition (obj t)"
proof -
  have run: "fst (ReconcileControlPlane demo_env demo_broken (start demo_labelled)) \<notin> {Ret (), Panic}"
    by code_simp
  obtain e t where t: "ReconcileControlPlane demo_env demo_broken (start demo_labelled) = (Err e, t)"
    by (rule ended_Err[OF run])
  have E: "conditions_documented (env_lib demo_env)" "env_lib demo_env = demo_lib"
    by (simp_all add: demo_env_def demo_conditions)
  from ReconcileControlPlane_condition[OF E(1) t] t E(2) show ?thesis by auto
qed

end
