(* ===== verification/Nodepool_Service.thy ===== *)
theory Nodepool_Service
  imports Cce_Service
begin

text \<open>
  \<open>nodepool.go\<close>: the node pool service. A node pool is found through its ID or created, its phase is
  mirrored in the status together with the provider IDs of its nodes, and deletion reports its
  progress in the readiness condition, also from a deferred call.
\<close>

section \<open>Enumerations\<close>

definition toTaintEffect :: "SdkEnums \<Rightarrow> string \<Rightarrow> string" where
  "toTaintEffect en effect =
     (if effect = ''NoSchedule'' then en_NO_SCHEDULE en
      else if effect = ''PreferNoSchedule'' then en_PREFER_NO_SCHEDULE en
      else if effect = ''NoExecute'' then en_NO_EXECUTE en
      else en_NO_SCHEDULE en)"

definition toRuntimeName :: "SdkEnums \<Rightarrow> string \<Rightarrow> string" where
  "toRuntimeName en runtime = (if runtime = en_DOCKER en then en_DOCKER en else en_CONTAINERD en)"

section \<open>Looking the pool up\<close>

definition response_pool :: "NodePoolResponse \<Rightarrow> ('s, NodePool) go" where
  "response_pool response =
     andThen (deref (npr_Kind response)) (\<lambda>kind.
     andThen (deref (npr_ApiVersion response)) (\<lambda>apiVersion.
       ret \<lparr>np_Kind = kind, np_ApiVersion = apiVersion, np_Metadata = npr_Metadata response,
            np_Spec = npr_Spec response, np_Status = npr_Status response\<rparr>))"

definition showNodepool ::
  "'w NodepoolService \<Rightarrow> ((CCEManagedMachinePool, 'w) st, NodePool option) go" where
  "showNodepool S =
     (let clusterId = cp_InfraClusterID (smp_ControlPlane (nsv_scope S)) in
      andThen (gets (\<lambda>s. smp_InfraMachinePoolID (obj s))) (\<lambda>nodepoolId.
      andThen (attempt (ext (CallShowNodePool clusterId nodepoolId)
                         (ShowNodePool (nsv_CCEClient S) clusterId nodepoolId))) (\<lambda>r.
        case r of
          Inl err \<Rightarrow> if not_found_404 err then ret None else fail (Wrapped ''failed to show nodepool'' err)
        | Inr response \<Rightarrow> andThen (response_pool response) (\<lambda>np. ret (Some np)))))"

section \<open>Creating the pool\<close>

definition defaultOSNode :: string where
  "defaultOSNode = ''Huawei Cloud EulerOS 2.0''"

definition defaultVolumetype :: string where
  "defaultVolumetype = ''GPSSD''"

definition defaultRuntime :: string where
  "defaultRuntime = ''containerd''"

definition create_nodepool_request ::
  "SdkEnums \<Rightarrow> string \<Rightarrow> CCEManagedMachinePool \<Rightarrow> Volume \<Rightarrow> Subnet \<Rightarrow> CreateNodePoolRequest" where
  "create_nodepool_request en clusterId mp rootVolume subnet =
     \<lparr>cnq_ClusterId = clusterId,
      cnq_Body =
        \<lparr>np_Kind = ''NodePool'', np_ApiVersion = ''v3'',
         np_Metadata = Some \<lparr>npm_Name = smp_Name mp, npm_Uid = None\<rparr>,
         np_Spec = Some
           \<lparr>nsp_Type = en_NODEPOOL_VM en,
            nsp_Flavor = (case mps_Flavor (mp_Spec mp) of None \<Rightarrow> ''c6s.4xlarge.2'' | Some f \<Rightarrow> f),
            nsp_Az = ''random'', nsp_Os = defaultOSNode,
            nsp_SshKey = mps_SSHKeyName (mp_Spec mp),
            nsp_RootVolume = \<lparr>sv_Size = vo_Size rootVolume, sv_Volumetype = defaultVolumetype\<rparr>,
            nsp_DataVolumes =
              map (\<lambda>d. \<lparr>sv_Size = vo_Size d, sv_Volumetype = defaultVolumetype\<rparr>)
                (mps_DataVolumes (mp_Spec mp)),
            nsp_SubnetId = Subnet_ID subnet,
            nsp_RuntimeName =
              toRuntimeName en
                (case mps_Runtime (mp_Spec mp) of None \<Rightarrow> defaultRuntime | Some r \<Rightarrow> r),
            nsp_InitialNodeCount = mps_Replicas (mp_Spec mp),
            nsp_AutoscalingEnable = False\<rparr>,
         np_Status = None\<rparr>\<rparr>"

definition createNodepool ::
  "'w env \<Rightarrow> 'w NodepoolService \<Rightarrow> ((CCEManagedMachinePool, 'w) st, NodePool) go" where
  "createNodepool E S =
     andThen get_obj (\<lambda>mp.
     andThen (deref (mps_RootVolume (mp_Spec mp))) (\<lambda>rootVolume.
     andThen (deref (mps_Subnet (mp_Spec mp))) (\<lambda>subnet.
       let request = create_nodepool_request (lib_enums (env_lib E))
                       (cp_InfraClusterID (smp_ControlPlane (nsv_scope S))) mp rootVolume subnet in
     andThen (wrapErr ''failed to create CCE nodepool''
               (ext (CallCreateNodePool request) (CreateNodePool (nsv_CCEClient S) request))) (\<lambda>response.
     andThen (deref (npr_Metadata response)) (\<lambda>metadata.
     andThen (deref (npm_Uid metadata)) (\<lambda>uid.
     andThen (upd_obj (smp_SetInfraMachinePoolID uid)) (\<lambda>_.
       response_pool response)))))))"

section \<open>Mirroring the phase\<close>

definition set_mp_Ready :: "bool \<Rightarrow> CCEManagedMachinePool \<Rightarrow> CCEManagedMachinePool" where
  "set_mp_Ready b = mp_Status_update (mpst_Ready_update (\<lambda>_. b))"

definition set_mp_FailureMessage :: "string option \<Rightarrow> CCEManagedMachinePool \<Rightarrow> CCEManagedMachinePool" where
  "set_mp_FailureMessage m = mp_Status_update (mpst_FailureMessage_update (\<lambda>_. m))"

definition set_nodes :: "string list \<Rightarrow> int32 \<Rightarrow> CCEManagedMachinePool \<Rightarrow> CCEManagedMachinePool" where
  "set_nodes ids n mp =
     mp_Status_update (mpst_Replicas_update (\<lambda>_. n))
       (mp_Spec_update (mps_ProviderIDList_update (\<lambda>_. ids)) mp)"

definition mp_Ready :: "CCEManagedMachinePool \<Rightarrow> bool" where
  "mp_Ready mp = mpst_Ready (mp_Status mp)"

lemma mp_setters_frame [simp]:
  "mp_Meta (set_mp_Ready b mp) = mp_Meta mp"
  "mp_Spec (set_mp_Ready b mp) = mp_Spec mp"
  "mp_Meta (set_mp_FailureMessage m mp) = mp_Meta mp"
  "mp_Spec (set_mp_FailureMessage m mp) = mp_Spec mp"
  "mp_Meta (set_nodes ids n mp) = mp_Meta mp"
  "mp_Ready (set_mp_Ready b mp) = b"
  "mp_Ready (set_mp_FailureMessage m mp) = mp_Ready mp"
  "mp_Ready (set_nodes ids n mp) = mp_Ready mp"
  "mpst_Replicas (mp_Status (set_nodes ids n mp)) = n"
  "mps_ProviderIDList (mp_Spec (set_nodes ids n mp)) = ids"
  "mp_Ready (mp_MarkTrue L t mp) = mp_Ready mp"
  "mp_Ready (mp_MarkFalse L t r v msg mp) = mp_Ready mp"
  "mp_Ready (smp_SetInfraMachinePoolID i mp) = mp_Ready mp"
  "mp_Spec (smp_SetInfraMachinePoolID i mp) = mp_Spec mp"
  by (simp_all add: set_mp_Ready_def set_mp_FailureMessage_def set_nodes_def mp_Ready_def)

definition node_pool_annotation :: string where
  "node_pool_annotation = ''kubernetes.io/node-pool.id''"

primrec collect_provider_ids :: "string \<Rightarrow> Node list \<Rightarrow> ('s, string list) go" where
  "collect_provider_ids machinePoolID [] = ret []"
| "collect_provider_ids machinePoolID (node # nodes) =
     andThen (deref (no_Metadata node)) (\<lambda>metadata.
       if nm_Annotations metadata = [] then collect_provider_ids machinePoolID nodes
       else if map_of (nm_Annotations metadata) node_pool_annotation \<noteq> Some machinePoolID
       then collect_provider_ids machinePoolID nodes
       else
         andThen (deref (no_Az node)) (\<lambda>az.
         andThen (deref (nm_Uid metadata)) (\<lambda>uid.
         andThen (collect_provider_ids machinePoolID nodes) (\<lambda>ids.
           ret ((''cce:////'' @ az @ ''/'' @ uid) # ids)))))"

definition mirror_phase :: "SdkEnums \<Rightarrow> string \<Rightarrow> CCEManagedMachinePool \<Rightarrow> CCEManagedMachinePool" where
  "mirror_phase en phase mp =
     (if phase = en_NP_DELETING en then set_mp_Ready False mp
      else if phase = en_NP_ERROR en \<or> phase = en_NP_SOLD_OUT en then
        set_mp_FailureMessage (Some (''CCE nodeppol in failed '' @ en_phase_text en phase @ '' status''))
          (set_mp_Ready False mp)
      else if phase = en_NP_SYNCHRONIZING en \<or> phase = en_NP_SYNCHRONIZED en then set_mp_Ready False mp
      else if phase = [] then set_mp_FailureMessage None (set_mp_Ready True mp)
      else mp)"

text \<open>The part of \<open>setStatus\<close> that lists the nodes, then \<open>setStatus\<close>.\<close>

definition record_nodes ::
  "'w NodepoolService \<Rightarrow> NodePoolStatus \<Rightarrow> ((CCEManagedMachinePool, 'w) st, unit) go" where
  "record_nodes S status =
     andThen get_obj (\<lambda>mp.
       case nps_CurrentNode status of
         None \<Rightarrow> ret ()
       | Some currentNode \<Rightarrow>
           if mp_Ready mp \<and> 0 < sint currentNode then
             (let machinePoolID = mp_InfraMachinePoolID mp;
                  clusterId = cp_InfraClusterID (smp_ControlPlane (nsv_scope S)) in
              andThen (wrapErr ''failed to list nodes for cluster''
                        (ext (CallListNodes clusterId) (ListNodes (nsv_CCEClient S) clusterId))) (\<lambda>response.
              andThen (deref (ln_Items response)) (\<lambda>items.
              andThen (collect_provider_ids machinePoolID items) (\<lambda>providerIDList.
                upd_obj (set_nodes providerIDList currentNode)))))
           else ret ())"

definition mp_setStatus ::
  "'w env \<Rightarrow> 'w NodepoolService \<Rightarrow> NodePool option \<Rightarrow> ((CCEManagedMachinePool, 'w) st, unit) go" where
  "mp_setStatus E S np =
     andThen (deref np) (\<lambda>pool.
     andThen (deref (np_Status pool)) (\<lambda>status.
     andThen (deref (nps_Phase status)) (\<lambda>phase.
     andThen (upd_obj (mirror_phase (lib_enums (env_lib E)) phase)) (\<lambda>_.
     andThen (record_nodes S status) (\<lambda>_.
       wrapErr ''failed to update nodepool'' (smp_PatchObject E (nsv_scope S)))))))"

section \<open>Waiting for the pool\<close>

definition pool_phase :: "NodePool option \<Rightarrow> ('s, string) go" where
  "pool_phase np =
     andThen (deref np) (\<lambda>pool. andThen (deref (np_Status pool)) (\<lambda>status. deref (nps_Phase status)))"

definition nodepool_active_poll ::
  "'w NodepoolService \<Rightarrow> ((CCEManagedMachinePool, 'w) st, bool) go" where
  "nodepool_active_poll S =
     andThen (showNodepool S) (\<lambda>np. andThen (pool_phase np) (\<lambda>phase. ret (phase = [])))"

definition waitForNodepoolActive ::
  "'w env \<Rightarrow> 'w NodepoolService \<Rightarrow> ((CCEManagedMachinePool, 'w) st, NodePool option) go" where
  "waitForNodepoolActive E S =
     andThen (gets (\<lambda>s. om_Name (mp_Meta (obj s)))) (\<lambda>nodepoolName.
     andThen (wrapErr (''failed to wait for cce nodepool '' @ quoted nodepoolName)
               (waitUntil E (nodepool_active_poll S) (30 * Second) 40)) (\<lambda>_.
     andThen (wrapErr ''failed to describe CCE nodepool'' (showNodepool S)) (\<lambda>np.
     andThen (wrapErr ''failed to set status'' (mp_setStatus E S np)) (\<lambda>_.
       ret np))))"

definition nodepool_deleted_poll ::
  "'w env \<Rightarrow> 'w NodepoolService \<Rightarrow> ((CCEManagedMachinePool, 'w) st, bool) go" where
  "nodepool_deleted_poll E S =
     andThen (showNodepool S) (\<lambda>np.
       case np of
         None \<Rightarrow> ret True
       | Some _ \<Rightarrow>
           andThen (pool_phase np) (\<lambda>phase. ret (phase \<noteq> en_NP_DELETING (lib_enums (env_lib E)))))"

definition waitForNodepoolDeleted ::
  "'w env \<Rightarrow> 'w NodepoolService \<Rightarrow> ((CCEManagedMachinePool, 'w) st, unit) go" where
  "waitForNodepoolDeleted E S = waitUntil E (nodepool_deleted_poll E S) (30 * Second) 40"

section \<open>Reconciling\<close>

definition reconcileNodepool ::
  "'w env \<Rightarrow> 'w NodepoolService \<Rightarrow> ((CCEManagedMachinePool, 'w) st, unit) go" where
  "reconcileNodepool E S =
     andThen (gets (\<lambda>s. smp_InfraMachinePoolID (obj s))) (\<lambda>i.
     andThen (if i \<noteq> [] then wrapErr ''failed to show nodepool'' (showNodepool S) else ret None) (\<lambda>np.
     andThen (case np of
                None \<Rightarrow> wrapErr ''failed to create nodepool'' (createNodepool E S)
              | Some pool \<Rightarrow> ret pool) (\<lambda>pool.
     andThen (wrapErr ''failed to set status'' (mp_setStatus E S (Some pool))) (\<lambda>_.
     andThen (pool_phase (Some pool)) (\<lambda>phase.
       if phase \<in> {en_NP_SYNCHRONIZING (lib_enums (env_lib E)), en_NP_SYNCHRONIZED (lib_enums (env_lib E))}
       then andThen (wrapErr ''failed to wait for nodepool to be active'' (waitForNodepoolActive E S)) (\<lambda>_. ret ())
       else ret ())))))"

definition ReconcilePool ::
  "'w env \<Rightarrow> 'w NodepoolService \<Rightarrow> ((CCEManagedMachinePool, 'w) st, unit) go" where
  "ReconcilePool E S =
     andThen (onErr (reconcileNodepool E S) (\<lambda>err.
                andThen (upd_obj (mp_MarkFalse (env_lib E) CCENodepoolReadyCondition
                           CCENodepoolReconciliationFailedReason SeverityError (Error err))) (\<lambda>_.
                fail err))) (\<lambda>_.
       upd_obj (mp_MarkTrue (env_lib E) CCENodepoolReadyCondition))"

section \<open>Deleting\<close>

text \<open>
  \<open>with_deletion_report\<close> is the deferred function of \<open>deleteNodepoolAndWait\<close> around a body. It reads
  the named result, which a panicking body has not set, and the panic goes on after it.
\<close>

definition with_deletion_report ::
  "'w env \<Rightarrow> ManagedMachinePoolScope \<Rightarrow> ((CCEManagedMachinePool, 'w) st, unit) go \<Rightarrow>
   ((CCEManagedMachinePool, 'w) st, unit) go" where
  "with_deletion_report E sc body = (\<lambda>s.
     case body s of (r, t) \<Rightarrow>
       (case r of
          Err reterr \<Rightarrow> andThen (smp_NodepoolReadyFalse E sc ''DeletingFailed'' (Error reterr)) (\<lambda>_. fail reterr) t
        | Ret _ \<Rightarrow> smp_NodepoolReadyFalse E sc DeletedReason [] t
        | Panic \<Rightarrow> (Panic, snd (smp_NodepoolReadyFalse E sc DeletedReason [] t))))"

definition delete_nodepool_body ::
  "'w env \<Rightarrow> 'w NodepoolService \<Rightarrow> string \<Rightarrow> ((CCEManagedMachinePool, 'w) st, unit) go" where
  "delete_nodepool_body E S nodepoolName =
     (let clusterId = cp_InfraClusterID (smp_ControlPlane (nsv_scope S)) in
      andThen (gets (\<lambda>s. smp_InfraMachinePoolID (obj s))) (\<lambda>nodepoolId.
      andThen (attempt (ext (CallDeleteNodePool clusterId nodepoolId)
                         (DeleteNodePool (nsv_CCEClient S) clusterId nodepoolId))) (\<lambda>r.
        case r of
          Inl err \<Rightarrow> if not_found_404 err then ret () else fail (Wrapped ''failed to delete nodepool'' err)
        | Inr _ \<Rightarrow>
            wrapErr (''failed waiting for CCE nodepool '' @ nodepoolName @ '' to delete'')
              (waitForNodepoolDeleted E S))))"

definition deleteNodepoolAndWait ::
  "'w env \<Rightarrow> 'w NodepoolService \<Rightarrow> ((CCEManagedMachinePool, 'w) st, unit) go" where
  "deleteNodepoolAndWait E S =
     andThen (gets (\<lambda>s. smp_Name (obj s))) (\<lambda>nodepoolName.
     andThen (smp_NodepoolReadyFalse E (nsv_scope S) DeletingReason []) (\<lambda>_.
       with_deletion_report E (nsv_scope S) (delete_nodepool_body E S nodepoolName)))"

definition ReconcilePoolDelete ::
  "'w env \<Rightarrow> 'w NodepoolService \<Rightarrow> ((CCEManagedMachinePool, 'w) st, unit) go" where
  "ReconcilePoolDelete E S =
     andThen (wrapErr ''failed to show CCE nodepool'' (showNodepool S)) (\<lambda>np.
       case np of
         None \<Rightarrow> ret ()
       | Some _ \<Rightarrow> wrapErr ''failed to delete nodepool'' (deleteNodepoolAndWait E S))"

end
