(* ===== verification/Nodepool_Props.thy ===== *)
theory Nodepool_Props
  imports Nodepool_Service Demo_Env Call_Costs
begin

text \<open>
  Properties of \<open>nodepool.go\<close>: what the status says about a pool and its nodes, what is requested
  from the cloud and how often, how long a reconcile blocks, and what a deletion reports.
\<close>

section \<open>Which calls each step issues\<close>

definition pool_status_call :: "call \<Rightarrow> bool" where
  "pool_status_call c \<longleftrightarrow>
     (case c of CallShowNodePool _ _ \<Rightarrow> True | CallListNodes _ \<Rightarrow> True | CallPatchMachinePool _ \<Rightarrow> True | _ \<Rightarrow> False)"

lemma pool_status_call_simps [simp]:
  "pool_status_call (CallShowNodePool i j)" "pool_status_call (CallListNodes i)"
  "pool_status_call (CallPatchMachinePool p)"
  by (simp_all add: pool_status_call_def)

lemma pool_status_weights:
  "pool_status_call c \<Longrightarrow> pool_creation c = 0" "pool_status_call c \<Longrightarrow> sleep_time c = 0"
  "pool_status_call c \<or> (\<exists>d. c = CallSleep d) \<Longrightarrow> pool_creation c = 0"
  by (cases c; auto simp: pool_status_call_def)+

lemma issues_response_pool: "steps_in (issues A) (response_pool r)"
  unfolding response_pool_def by (intro issues_rules)

lemma issues_showNodepool: "(\<And>i j. A (CallShowNodePool i j)) \<Longrightarrow> steps_in (issues A) (showNodepool S)"
  unfolding showNodepool_def Let_def by (intro issues_rules issues_response_pool) simp

lemma issues_pool_phase: "steps_in (issues A) (pool_phase np)"
  unfolding pool_phase_def by (intro issues_rules)

lemma issues_collect: "steps_in (issues A) (collect_provider_ids i nodes)"
  by (induction nodes) (auto intro!: issues_rules)

lemma issues_smp_PatchObject:
  "(\<And>p. A (CallPatchMachinePool p)) \<Longrightarrow> steps_in (issues A) (smp_PatchObject E sc)"
  by (auto simp: smp_PatchObject_def intro!: issues_rules)

lemma issues_mp_setStatus: "steps_in (issues pool_status_call) (mp_setStatus E S np)"
  unfolding mp_setStatus_def record_nodes_def Let_def
  by (intro issues_rules issues_collect issues_smp_PatchObject pool_status_call_simps)

lemma issues_nodepool_active_poll: "steps_in (issues pool_status_call) (nodepool_active_poll S)"
  unfolding nodepool_active_poll_def
  by (intro issues_rules issues_showNodepool issues_pool_phase pool_status_call_simps)

lemma issues_waitForNodepoolActive:
  "steps_in (issues (\<lambda>c. pool_status_call c \<or> (\<exists>d. c = CallSleep d))) (waitForNodepoolActive E S)"
  unfolding waitForNodepoolActive_def
  by (intro issues_rules issues_waitUntil issues_mono[OF issues_nodepool_active_poll]
      issues_mono[OF issues_mp_setStatus] issues_showNodepool) auto

lemma keeps_response_pool: "steps_in (keeps f) (response_pool r)"
  unfolding response_pool_def by (intro keeps_rules)

lemma keeps_showNodepool: "steps_in (keeps f) (showNodepool S)"
  unfolding showNodepool_def Let_def by (intro keeps_rules keeps_response_pool)

lemma keeps_pool_phase: "steps_in (keeps f) (pool_phase np)"
  unfolding pool_phase_def by (intro keeps_rules)

section \<open>Counting\<close>

lemma costs_reconcileNodepool_creation: "costs pool_creation 1 (reconcileNodepool E S)"
proof -
  have st: "free pool_creation (mp_setStatus E S np)" for np
    by (rule issues_mono[OF issues_mp_setStatus]) (rule pool_status_weights)
  have w: "free pool_creation (waitForNodepoolActive E S)"
    by (rule issues_mono[OF issues_waitForNodepoolActive]) (rule pool_status_weights)
  have c: "costs pool_creation 1 (createNodepool E S)"
    unfolding createNodepool_def Let_def
    by (intro costs_free_then costs_then_free costs_wrapErr costs_ext issues_rules issues_response_pool) simp_all
  have rest: "free pool_creation (andThen (wrapErr ''failed to set status'' (mp_setStatus E S (Some pool))) (\<lambda>_.
     andThen (pool_phase (Some pool)) (\<lambda>phase.
       if phase \<in> {en_NP_SYNCHRONIZING (lib_enums (env_lib E)), en_NP_SYNCHRONIZED (lib_enums (env_lib E))}
       then andThen (wrapErr ''failed to wait for nodepool to be active'' (waitForNodepoolActive E S)) (\<lambda>_. ret ())
       else ret ())))" for pool
    by (intro issues_rules issues_pool_phase st w)
  show ?thesis
    unfolding reconcileNodepool_def
    by (intro costs_free_then[OF issues.in_gets] costs_free_then costs_then_free[OF _ rest] costs_case_option
        costs_wrapErr c costs_free[OF issues.in_ret]) (intro issues_rules issues_showNodepool; simp)
qed

lemma costs_waitForNodepoolActive: "costs sleep_time (1200 * 10 ^ 9) (waitForNodepoolActive E S)"
proof -
  have "free sleep_time (nodepool_active_poll S)"
    by (rule issues_mono[OF issues_nodepool_active_poll]) (rule pool_status_weights)
  then have p: "costs sleep_time (1200 * 10 ^ 9) (waitUntil E (nodepool_active_poll S) (30 * Second) 40)"
    by (rule costs_waitUntil) (simp add: Second_def)
  have st: "free sleep_time (mp_setStatus E S np)" for np
    by (rule issues_mono[OF issues_mp_setStatus]) (rule pool_status_weights)
  show ?thesis
    unfolding waitForNodepoolActive_def
    by (rule costs_free_then[OF issues.in_gets], rule costs_then_free[OF costs_wrapErr[OF p]])
      (intro issues_rules issues_showNodepool st, simp)
qed

lemma costs_reconcileNodepool_sleep: "costs sleep_time (1200 * 10 ^ 9) (reconcileNodepool E S)"
proof -
  have st: "free sleep_time (mp_setStatus E S np)" for np
    by (rule issues_mono[OF issues_mp_setStatus]) (rule pool_status_weights)
  have c: "free sleep_time (createNodepool E S)"
    unfolding createNodepool_def Let_def by (intro issues_rules issues_response_pool) simp
  show ?thesis
    unfolding reconcileNodepool_def
    by (intro costs_free_then[OF issues.in_gets] costs_free_then costs_if costs_then_free costs_wrapErr
        costs_waitForNodepoolActive costs_free[OF issues.in_ret])
      (intro issues_rules issues_showNodepool issues_pool_phase st c; simp)+
qed

lemma issues_NodepoolReadyFalse:
  "(\<And>p. A (CallPatchMachinePool p)) \<Longrightarrow> steps_in (issues A) (smp_NodepoolReadyFalse E sc reason err)"
  unfolding smp_NodepoolReadyFalse_def Let_def by (intro issues_rules issues_smp_PatchObject)

lemma with_deletion_report_calls:
  assumes body: "costs w n body"
    and free: "\<And>reason err. free w (smp_NodepoolReadyFalse E sc reason err)"
  shows "costs w n (with_deletion_report E sc body)"
proof (rule costsI)
  fix s r t assume run: "with_deletion_report E sc body s = (r, t)"
  obtain q u where q: "body s = (q, u)" by fastforce
  obtain cs where cs: "calls u = calls s @ cs" "sum_list (map w cs) \<le> n"
    using costsD[OF body q] by blast
  have "\<exists>reason err. calls t = calls (snd (smp_NodepoolReadyFalse E sc reason err u))"
  proof (cases q)
    case (Err e)
    with run q show ?thesis
      by (intro exI[of _ "''DeletingFailed''"] exI[of _ "Error e"])
        (auto simp: with_deletion_report_def go_simps split: prod.splits outcome.splits)
  next
    case (Ret x)
    with run q show ?thesis
      by (intro exI[of _ DeletedReason] exI[of _ "[]"]) (simp add: with_deletion_report_def)
  next
    case Panic
    with run q show ?thesis
      by (intro exI[of _ DeletedReason] exI[of _ "[]"]) (auto simp: with_deletion_report_def)
  qed
  then obtain v where "issues (\<lambda>c. w c = 0) u v" "calls t = calls v"
    using free unfolding steps_in_def by blast
  then obtain ds where "calls t = calls u @ ds" "\<forall>c\<in>set ds. w c = 0"
    by (auto simp: issues_def list_all_iff)
  with cs show "\<exists>cs. calls t = calls s @ cs \<and> sum_list (map w cs) \<le> n"
    by (intro exI[of _ "cs @ ds"]) (simp add: sum_list_zero)
qed

lemma costs_ReconcilePoolDelete: "costs sleep_time (1200 * 10 ^ 9) (ReconcilePoolDelete E S)"
proof -
  have w: "costs sleep_time (1200 * 10 ^ 9) (waitForNodepoolDeleted E S)"
    unfolding waitForNodepoolDeleted_def nodepool_deleted_poll_def
    by (intro costs_waitUntil issues_rules issues_showNodepool issues_pool_phase) (simp_all add: Second_def)
  have b: "costs sleep_time (1200 * 10 ^ 9) (delete_nodepool_body E S name)" for name
    unfolding delete_nodepool_body_def Let_def
    by (intro costs_free_then costs_case_sum costs_if costs_wrapErr w
        costs_free[OF issues.in_ret] costs_free[OF issues.in_fail] issues_rules) simp
  have f: "free sleep_time (smp_NodepoolReadyFalse E sc reason err)" for sc reason err
    by (rule issues_NodepoolReadyFalse) simp
  show ?thesis
    unfolding ReconcilePoolDelete_def deleteNodepoolAndWait_def
    by (intro costs_free_then costs_case_option costs_wrapErr with_deletion_report_calls b f
        costs_free[OF issues.in_ret]) (intro issues_rules issues_showNodepool f; simp)+
qed

section \<open>Creation\<close>

lemma calls_ReconcilePool:
  "calls (snd (ReconcilePool E S s)) = calls (snd (reconcileNodepool E S s))"
proof -
  obtain r t where "reconcileNodepool E S s = (r, t)" by fastforce
  then show ?thesis by (cases r) (simp_all add: ReconcilePool_def go_simps)
qed

text \<open>
  Whatever the cloud answers and however it ends, a reconcile of a machine pool requests at most
  one node pool and sleeps for at most twenty minutes; so does a deletion, which requests none.
\<close>

lemma pool_creation_and_waits_bounded:
  "created_pools (new_calls s (snd (ReconcilePool E S s))) \<le> 1 \<and>
   slept (new_calls s (snd (ReconcilePool E S s))) \<le> 20 * 60 * 10 ^ 9 \<and>
   slept (new_calls s (snd (ReconcilePoolDelete E S s))) \<le> 20 * 60 * 10 ^ 9"
proof -
  obtain r t where run: "reconcileNodepool E S s = (r, t)" by fastforce
  have new: "new_calls s (snd (ReconcilePool E S s)) = new_calls s t"
    using calls_ReconcilePool[of E S s] run by (simp add: new_calls_def)
  show ?thesis
    using costs_new_calls[OF costs_reconcileNodepool_creation run] costs_new_calls[OF costs_reconcileNodepool_sleep run]
      costs_new_calls[OF costs_ReconcilePoolDelete, of E S s]
    by (simp add: new created_pools_def slept_def prod_eq_iff)
qed

text \<open>
  The request for a node pool carries the sizes of the volumes, and nothing else of them: the
  volume types, the labels and the taints of the spec have no effect on what is requested.
\<close>

lemma nodepool_request_ignores:
  "create_nodepool_request en i
     (mp_Spec_update (\<lambda>sp. sp\<lparr>mps_Labels := labels, mps_Taints := taints,
        mps_DataVolumes := map (vo_Volumetype_update f) (mps_DataVolumes sp)\<rparr>) mp)
     (root\<lparr>vo_Volumetype := v\<rparr>) subnet
   = create_nodepool_request en i mp root subnet \<and>
   (\<exists>spec. np_Spec (cnq_Body (create_nodepool_request en i mp root subnet)) = Some spec \<and>
      sv_Size (nsp_RootVolume spec) = vo_Size root \<and>
      map sv_Size (nsp_DataVolumes spec) = map vo_Size (mps_DataVolumes (mp_Spec mp)) \<and>
      nsp_InitialNodeCount spec = mps_Replicas (mp_Spec mp) \<and> nsp_SubnetId spec = Subnet_ID subnet)"
  by (simp add: create_nodepool_request_def smp_Name_def comp_def)

section \<open>Status\<close>

definition owned_by :: "string \<Rightarrow> Node \<Rightarrow> bool" where
  "owned_by poolID node \<longleftrightarrow>
     (case no_Metadata node of None \<Rightarrow> False | Some m \<Rightarrow> map_of (nm_Annotations m) node_pool_annotation = Some poolID)"

definition provider_id :: "Node \<Rightarrow> string" where
  "provider_id node = ''cce:////'' @ the (no_Az node) @ ''/'' @ the (nm_Uid (the (no_Metadata node)))"

lemma collect_Ret:
  "collect_provider_ids i nodes s = (Ret ids, t) \<Longrightarrow> t = s \<and> ids = map provider_id (filter (owned_by i) nodes)"
proof (induction nodes arbitrary: ids)
  case Nil
  then show ?case by (simp add: go_simps)
next
  case (Cons node nodes)
  from Cons.prems obtain m where m: "no_Metadata node = Some m"
    by (auto elim!: andThen_RetE)
  show ?case
  proof (cases "map_of (nm_Annotations m) node_pool_annotation = Some i")
    case False
    with Cons.prems m have "collect_provider_ids i nodes s = (Ret ids, t)"
      by (auto simp: go_simps split: if_splits)
    with Cons.IH m False show ?thesis by (simp add: owned_by_def)
  next
    case True
    then have "nm_Annotations m \<noteq> []" by auto
    with Cons.prems m True obtain az uid ids' where "no_Az node = Some az" "nm_Uid m = Some uid"
      "collect_provider_ids i nodes s = (Ret ids', t)" "ids = (''cce:////'' @ az @ ''/'' @ uid) # ids'"
      by (auto simp: run_simps elim!: andThen_RetE)
    with Cons.IH m True show ?thesis by (simp add: owned_by_def provider_id_def)
  qed
qed

lemma mirror_phase_ready:
  assumes "phases_documented en"
  shows "mp_Ready (mirror_phase en phase mp) =
    (if phase = [] then True
     else if phase \<in> {en_NP_DELETING en, en_NP_ERROR en, en_NP_SOLD_OUT en, en_NP_SYNCHRONIZING en, en_NP_SYNCHRONIZED en}
     then False else mp_Ready mp)"
    and "mp_Spec (mirror_phase en phase mp) = mp_Spec mp"
    and "mpst_Replicas (mp_Status (mirror_phase en phase mp)) = mpst_Replicas (mp_Status mp)"
    and "mp_Meta (mirror_phase en phase mp) = mp_Meta mp"
  using assms
  by (auto simp: mirror_phase_def phases_documented_def set_mp_Ready_def set_mp_FailureMessage_def mp_Ready_def)

lemma record_nodes_listed:
  assumes "record_nodes S status s = (Ret (), u)" and "nps_CurrentNode status = Some n"
    and "mp_Ready (obj s)" and "0 < sint n"
  shows "\<exists>resp items w w'. ListNodes (nsv_CCEClient S) (cp_InfraClusterID (smp_ControlPlane (nsv_scope S))) w = (Ret resp, w') \<and>
    ln_Items resp = Some items \<and>
    obj u = set_nodes (map provider_id (filter (owned_by (mp_InfraMachinePoolID (obj s))) items)) n (obj s)"
proof -
  obtain resp w items ids where "ListNodes (nsv_CCEClient S) (cp_InfraClusterID (smp_ControlPlane (nsv_scope S))) (world s) = (Ret resp, w)"
    "ln_Items resp = Some items" "obj u = set_nodes ids n (obj s)"
    "ids = map provider_id (filter (owned_by (mp_InfraMachinePoolID (obj s))) items)"
    using assms unfolding record_nodes_def Let_def
    by (elim andThen_RetE) (auto simp: run_simps elim!: andThen_RetE dest!: collect_Ret)
  then show ?thesis by blast
qed

lemma record_nodes_none:
  assumes "record_nodes S status s = (Ret (), u)"
    and "\<And>n. nps_CurrentNode status = Some n \<Longrightarrow> \<not> (mp_Ready (obj s) \<and> 0 < sint n)"
  shows "u = s"
  using assms by (auto simp: record_nodes_def run_simps andThen_run[OF get_obj_apply] split: option.splits)

text \<open>
  C31. After a successful \<open>setStatus\<close> a pool is ready when its phase is empty, not ready in the five
  documented phases, and as before otherwise. When it is ready with nodes, the replicas are the
  reported number and the provider IDs are those of exactly the nodes annotated with the pool's
  ID, in the order listed; otherwise replicas and spec are untouched. What is in memory is what
  was patched.
\<close>

theorem mp_setStatus_success:
  assumes "phases_documented (lib_enums (env_lib E))"
    and "mp_setStatus E S (Some pool) s = (Ret (), t)"
  shows "\<exists>status phase. np_Status pool = Some status \<and> nps_Phase status = Some phase \<and>
    mp_Ready (obj t) =
      (if phase = [] then True
       else if phase \<in> {en_NP_DELETING (lib_enums (env_lib E)), en_NP_ERROR (lib_enums (env_lib E)),
           en_NP_SOLD_OUT (lib_enums (env_lib E)), en_NP_SYNCHRONIZING (lib_enums (env_lib E)),
           en_NP_SYNCHRONIZED (lib_enums (env_lib E))}
       then False else mp_Ready (obj s)) \<and>
    (case nps_CurrentNode status of
       Some n \<Rightarrow>
         if mp_Ready (obj t) \<and> 0 < sint n
         then (\<exists>resp items w w'. ListNodes (nsv_CCEClient S) (cp_InfraClusterID (smp_ControlPlane (nsv_scope S))) w = (Ret resp, w') \<and>
                 ln_Items resp = Some items \<and> mpst_Replicas (mp_Status (obj t)) = n \<and>
                 mps_ProviderIDList (mp_Spec (obj t))
                   = map provider_id (filter (owned_by (mp_InfraMachinePoolID (obj s))) items))
         else mpst_Replicas (mp_Status (obj t)) = mpst_Replicas (mp_Status (obj s)) \<and> mp_Spec (obj t) = mp_Spec (obj s)
     | None \<Rightarrow> mpst_Replicas (mp_Status (obj t)) = mpst_Replicas (mp_Status (obj s)) \<and> mp_Spec (obj t) = mp_Spec (obj s)) \<and>
    calls t \<noteq> [] \<and> last (calls t) = CallPatchMachinePool (obj t)"
proof -
  let ?en = "lib_enums (env_lib E)" and ?c = "cp_InfraClusterID (smp_ControlPlane (nsv_scope S))"
  obtain status phase where st: "np_Status pool = Some status" "nps_Phase status = Some phase"
    using assms(2) unfolding mp_setStatus_def by (elim andThen_RetE) auto
  let ?m = "mirror_phase ?en phase (obj s)"
  have id: "mp_InfraMachinePoolID ?m = mp_InfraMachinePoolID (obj s)"
    by (simp add: mp_InfraMachinePoolID_def mirror_phase_ready[OF assms(1)])
  obtain u where patch: "smp_PatchObject E (nsv_scope S) u = (Ret (), t)"
    and nodes: "record_nodes S status (s\<lparr>obj := ?m\<rparr>) = (Ret (), u)"
    using assms(2) st unfolding mp_setStatus_def by (elim andThen_RetE) (auto simp: run_simps)
  have t: "obj t = obj u" "calls t = calls u @ [CallPatchMachinePool (obj u)]"
    using patch by (auto simp: smp_PatchObject_apply split: prod.splits)
  show ?thesis
  proof (cases "\<exists>n. nps_CurrentNode status = Some n \<and> mp_Ready ?m \<and> 0 < sint n")
    case True
    then obtain n where n: "nps_CurrentNode status = Some n" "mp_Ready ?m" "0 < sint n" by blast
    with record_nodes_listed[OF nodes n(1)] obtain resp items w w' where
      l: "ListNodes (nsv_CCEClient S) ?c w = (Ret resp, w')" "ln_Items resp = Some items"
        "obj u = set_nodes (map provider_id (filter (owned_by (mp_InfraMachinePoolID ?m)) items)) n ?m"
      by auto
    have "mp_Ready (obj t)" using l(3) n(2) t(1) by simp
    then show ?thesis
      using st t l n id mirror_phase_ready(1)[OF assms(1), of phase "obj s"] by auto
  next
    case False
    then have "u = s\<lparr>obj := ?m\<rparr>"
      by (intro record_nodes_none[OF nodes]) auto
    with False st t mirror_phase_ready[OF assms(1), of phase "obj s"] show ?thesis
      by (auto split: option.splits)
  qed
qed

lemma mp_setStatus_success_witness:
  "\<exists>t. mp_setStatus demo_env demo_np_service (Some \<lparr>np_Kind = [], np_ApiVersion = [], np_Metadata = None,
      np_Spec = None, np_Status = Some (demo_np_status [])\<rparr>) (start demo_mp) = (Ret (), t) \<and> mp_Ready (obj t)"
proof -
  let ?np = "\<lparr>np_Kind = [], np_ApiVersion = [], np_Metadata = None, np_Spec = None, np_Status = Some (demo_np_status [])\<rparr>"
  have run: "fst (mp_setStatus demo_env demo_np_service (Some ?np) (start demo_mp)) = Ret ()"
    by code_simp
  obtain t where t: "mp_setStatus demo_env demo_np_service (Some ?np) (start demo_mp) = (Ret (), t)"
    by (rule ended[OF run])
  have "phases_documented (lib_enums (env_lib demo_env))"
    by (simp add: demo_env_def demo_lib_def demo_phases)
  from mp_setStatus_success[OF this t] t show ?thesis
    by (auto simp: demo_np_status_def)
qed

lemma mp_Replicas_MarkTrue: "mpst_Replicas (mp_Status (mp_MarkTrue L t mp)) = mpst_Replicas (mp_Status mp)"
  by (simp add: mp_MarkTrue_def)

lemma mp_IsTrue_MarkTrue_ready:
  "conditions_documented L \<Longrightarrow> lib_IsTrue L t (mp_GetConditions (mp_MarkTrue L t mp))"
  by (simp add: mp_MarkTrue_def mp_setter.get_set conditions_documentedD)

text \<open>
  C32. A pool that has been scaled to zero keeps reporting what it had: the reconcile succeeds, the
  pool is ready and its condition true, but the replicas and provider IDs of the removed nodes
  stay in the object.
\<close>

theorem scaled_to_zero_keeps_nodes:
  assumes "conditions_documented (env_lib E)" and "phases_documented (lib_enums (env_lib E))"
    and "\<And>a b c w. fst (k_PatchMachinePool (env_kube E) a b c w) = Ret ()"
    and "smp_InfraMachinePoolID (obj s) \<noteq> []"
    and "ShowNodePool (nsv_CCEClient S) (cp_InfraClusterID (smp_ControlPlane (nsv_scope S)))
           (smp_InfraMachinePoolID (obj s)) (world s)
         = (Ret \<lparr>npr_Kind = Some k, npr_ApiVersion = Some v, npr_Metadata = m, npr_Spec = sp,
                 npr_Status = Some \<lparr>nps_Phase = Some [], nps_CurrentNode = Some 0\<rparr>\<rparr>, w)"
  shows "\<exists>t. ReconcilePool E S s = (Ret (), t) \<and> mp_Ready (obj t) \<and>
    lib_IsTrue (env_lib E) CCENodepoolReadyCondition (mp_GetConditions (obj t)) \<and>
    mpst_Replicas (mp_Status (obj t)) = mpst_Replicas (mp_Status (obj s)) \<and>
    mps_ProviderIDList (mp_Spec (obj t)) = mps_ProviderIDList (mp_Spec (obj s))"
proof -
  let ?c = "cp_InfraClusterID (smp_ControlPlane (nsv_scope S))" and ?i = "smp_InfraMachinePoolID (obj s)"
  let ?np = "\<lparr>np_Kind = k, np_ApiVersion = v, np_Metadata = m, np_Spec = sp,
              np_Status = Some \<lparr>nps_Phase = Some [], nps_CurrentNode = Some 0\<rparr>\<rparr>"
  let ?s = "s\<lparr>world := w, calls := calls s @ [CallShowNodePool ?c ?i]\<rparr>"
  let ?m = "mirror_phase (lib_enums (env_lib E)) [] (obj s)"
  have np: "showNodepool S s = (Ret (Some ?np), ?s)"
    using assms(5) by (simp add: showNodepool_def response_pool_def Let_def go_simps)
  obtain w' where "k_PatchMachinePool (env_kube E) (smp_patchHelper (nsv_scope S)) [CCENodepoolReadyCondition] ?m w = (Ret (), w')"
    by (rule ended[OF assms(3)])
  then have "mp_setStatus E S (Some ?np) ?s
      = (Ret (), ?s\<lparr>obj := ?m, world := w', calls := calls ?s @ [CallPatchMachinePool ?m]\<rparr>)"
    by (simp add: mp_setStatus_def record_nodes_def go_simps)
  moreover have "en_NP_SYNCHRONIZING (lib_enums (env_lib E)) \<noteq> []" "en_NP_SYNCHRONIZED (lib_enums (env_lib E)) \<noteq> []"
    using assms(2) by (auto simp: phases_documented_def)
  ultimately have "ReconcilePool E S s = (Ret (), ?s\<lparr>obj := mp_MarkTrue (env_lib E) CCENodepoolReadyCondition ?m,
      world := w', calls := calls ?s @ [CallPatchMachinePool ?m]\<rparr>)"
    using np assms(4) by (simp add: ReconcilePool_def reconcileNodepool_def pool_phase_def go_simps)
  then show ?thesis
    by (simp add: mp_IsTrue_MarkTrue_ready[OF assms(1)] mirror_phase_ready[OF assms(2)] mp_Replicas_MarkTrue)
qed

lemma demo_np_facts:
  "conditions_documented (env_lib demo_env)" "phases_documented (lib_enums (env_lib demo_env))"
  "fst (k_PatchMachinePool (env_kube demo_env) a b c w) = Ret ()"
  by (simp_all add: demo_env_def demo_conditions demo_phases demo_kube_def go_simps, simp add: demo_lib_def demo_phases)

definition demo_empty_pool :: "nat NodepoolService" where
  "demo_empty_pool = demo_np_service\<lparr>nsv_CCEClient := demo_cce\<lparr>ShowNodePool := (\<lambda>_ _. ret
     \<lparr>npr_Kind = Some ''NodePool'', npr_ApiVersion = Some ''v3'', npr_Metadata = None, npr_Spec = None,
      npr_Status = Some \<lparr>nps_Phase = Some [], nps_CurrentNode = Some 0\<rparr>\<rparr>)\<rparr>\<rparr>"

definition demo_stale_pool :: CCEManagedMachinePool where
  "demo_stale_pool = smp_SetInfraMachinePoolID ''np-1'' (set_nodes [''cce:////az1/n1''] 1 demo_mp)"

lemma scaled_to_zero_keeps_nodes_witness:
  "\<exists>t. ReconcilePool demo_env demo_empty_pool (start demo_stale_pool) = (Ret (), t) \<and>
     mpst_Replicas (mp_Status (obj t)) = 1"
proof -
  have i: "smp_InfraMachinePoolID (obj (start demo_stale_pool)) \<noteq> []"
    by (simp add: start_def demo_stale_pool_def pool_id.getID_setID)
  have sh: "ShowNodePool (nsv_CCEClient demo_empty_pool) c j w = (Ret
     \<lparr>npr_Kind = Some ''NodePool'', npr_ApiVersion = Some ''v3'', npr_Metadata = None, npr_Spec = None,
      npr_Status = Some \<lparr>nps_Phase = Some [], nps_CurrentNode = Some 0\<rparr>\<rparr>, w)" for c j w
    by (simp add: demo_empty_pool_def go_simps)
  have r: "mpst_Replicas (mp_Status (obj (start demo_stale_pool))) = 1"
    by (simp add: start_def demo_stale_pool_def)
  show ?thesis
    using scaled_to_zero_keeps_nodes[OF demo_np_facts i sh] unfolding r by blast
qed

section \<open>Deletion\<close>

lemma nodepool_deleted_poll_True:
  assumes "nodepool_deleted_poll E S s = (Ret True, t)"
  shows "(\<exists>w e. ShowNodePool (nsv_CCEClient S) (cp_InfraClusterID (smp_ControlPlane (nsv_scope S)))
            (smp_InfraMachinePoolID (obj s)) w = (Err e, world t) \<and> not_found_404 e) \<or>
    (\<exists>w resp status phase. ShowNodePool (nsv_CCEClient S) (cp_InfraClusterID (smp_ControlPlane (nsv_scope S)))
            (smp_InfraMachinePoolID (obj s)) w = (Ret resp, world t) \<and> npr_Status resp = Some status \<and>
        nps_Phase status = Some phase \<and> phase \<noteq> en_NP_DELETING (lib_enums (env_lib E)))"
  using assms unfolding nodepool_deleted_poll_def showNodepool_def Let_def
  by (elim andThen_RetE)
    (auto simp: go_simps pool_phase_def response_pool_def
       split: option.splits sum.splits if_splits prod.splits outcome.splits)

lemma keeps_nodepool_deleted_poll: "steps_in (keeps f) (nodepool_deleted_poll E S)"
  unfolding nodepool_deleted_poll_def by (intro keeps_rules keeps_showNodepool keeps_pool_phase)

lemma NodepoolReadyFalse_Ret:
  assumes "smp_NodepoolReadyFalse E sc reason err s = (Ret (), t)"
  shows "obj t = mp_MarkFalse (env_lib E) CCENodepoolReadyCondition reason
            (if err = [] then SeverityInfo else SeverityWarning) err (obj s) \<and>
    calls t = calls s @ [CallPatchMachinePool (obj t)]"
  using assms unfolding smp_NodepoolReadyFalse_def Let_def
  by (elim andThen_RetE) (auto simp: run_simps smp_PatchObject_apply split: prod.splits)

lemma NodepoolReadyFalse_runs:
  assumes "\<And>a b c w. fst (k_PatchMachinePool (env_kube E) a b c w) = Ret ()"
  shows "\<exists>t. smp_NodepoolReadyFalse E sc reason err s = (Ret (), t)"
proof -
  let ?m = "mp_MarkFalse (env_lib E) CCENodepoolReadyCondition reason
    (if err = [] then SeverityInfo else SeverityWarning) err (obj s)"
  obtain w where "k_PatchMachinePool (env_kube E) (smp_patchHelper sc) [CCENodepoolReadyCondition] ?m (world s) = (Ret (), w)"
    by (rule ended[OF assms])
  then show ?thesis by (simp add: smp_NodepoolReadyFalse_def Let_def go_simps)
qed

lemma delete_nodepool_body_Ret:
  assumes "delete_nodepool_body E S name s = (Ret (), t)"
  shows "obj t = obj s \<and>
    ((\<exists>w e. ShowNodePool (nsv_CCEClient S) (cp_InfraClusterID (smp_ControlPlane (nsv_scope S)))
            (smp_InfraMachinePoolID (obj s)) w = (Err e, world t) \<and> not_found_404 e) \<or>
     (\<exists>w e. DeleteNodePool (nsv_CCEClient S) (cp_InfraClusterID (smp_ControlPlane (nsv_scope S)))
            (smp_InfraMachinePoolID (obj s)) w = (Err e, world t) \<and> not_found_404 e) \<or>
     (\<exists>w resp status phase. ShowNodePool (nsv_CCEClient S) (cp_InfraClusterID (smp_ControlPlane (nsv_scope S)))
            (smp_InfraMachinePoolID (obj s)) w = (Ret resp, world t) \<and> npr_Status resp = Some status \<and>
        nps_Phase status = Some phase \<and> phase \<noteq> en_NP_DELETING (lib_enums (env_lib E))))"
proof -
  let ?c = "cp_InfraClusterID (smp_ControlPlane (nsv_scope S))" and ?i = "smp_InfraMachinePoolID (obj s)"
  obtain r w where r: "DeleteNodePool (nsv_CCEClient S) ?c ?i (world s) = (r, w)" by fastforce
  show ?thesis
  proof (cases r)
    case (Err e)
    with assms r have "not_found_404 e" "world t = w" "obj t = obj s"
      by (auto simp: delete_nodepool_body_def Let_def go_simps split: if_splits)
    with r Err show ?thesis by metis
  next
    case (Ret x)
    with assms r obtain v where wait: "waitForNodepoolDeleted E S v = (Ret (), t)" and v: "obj v = obj s"
      by (auto simp: delete_nodepool_body_def Let_def go_simps split: prod.splits outcome.splits)
    obtain k u where poll: "undecided E (nodepool_deleted_poll E S) (30 * Second) k v = Some u"
        "nodepool_deleted_poll E S u = (Ret True, t)"
      using wait unfolding waitForNodepoolDeleted_def waitUntil_def by (rule waitLoop_success)
    have "obj t = obj v"
      using steps_inD[OF keeps_waitUntil[OF keeps_nodepool_deleted_poll[of id]] wait[unfolded waitForNodepoolDeleted_def]]
      by (simp add: keeps_def)
    moreover have "obj t = obj u"
      using steps_inD[OF keeps_nodepool_deleted_poll[of id] poll(2)] by (simp add: keeps_def)
    ultimately show ?thesis using nodepool_deleted_poll_True[OF poll(2)] v by auto
  next
    case Panic
    with assms r show ?thesis by (simp add: delete_nodepool_body_def Let_def go_simps)
  qed
qed

text \<open>
  A deletion of a node pool that succeeds either found no pool and left the object alone, or
  has marked the pool first as being deleted and at last as deleted, patching both, and the last
  answer of the cloud about the pool was that it is unknown or showed it in a phase other than
  \<open>Deleting\<close>.
\<close>

lemma ReconcilePoolDelete_success:
  assumes "ReconcilePoolDelete E S s = (Ret (), t)"
  shows "(obj t = obj s \<and> (\<exists>e. ShowNodePool (nsv_CCEClient S) (cp_InfraClusterID (smp_ControlPlane (nsv_scope S)))
            (smp_InfraMachinePoolID (obj s)) (world s) = (Err e, world t) \<and> not_found_404 e)) \<or>
    (\<exists>x v. x = mp_MarkFalse (env_lib E) CCENodepoolReadyCondition DeletingReason SeverityInfo [] (obj s) \<and>
       CallPatchMachinePool x \<in> set (calls t) \<and>
       obj t = mp_MarkFalse (env_lib E) CCENodepoolReadyCondition DeletedReason SeverityInfo [] x \<and>
       last (calls t) = CallPatchMachinePool (obj t) \<and>
       ((\<exists>w e. ShowNodePool (nsv_CCEClient S) (cp_InfraClusterID (smp_ControlPlane (nsv_scope S)))
              (smp_InfraMachinePoolID x) w = (Err e, v) \<and> not_found_404 e) \<or>
        (\<exists>w e. DeleteNodePool (nsv_CCEClient S) (cp_InfraClusterID (smp_ControlPlane (nsv_scope S)))
              (smp_InfraMachinePoolID x) w = (Err e, v) \<and> not_found_404 e) \<or>
        (\<exists>w resp status phase. ShowNodePool (nsv_CCEClient S) (cp_InfraClusterID (smp_ControlPlane (nsv_scope S)))
              (smp_InfraMachinePoolID x) w = (Ret resp, v) \<and> npr_Status resp = Some status \<and>
          nps_Phase status = Some phase \<and> phase \<noteq> en_NP_DELETING (lib_enums (env_lib E)))))"
proof -
  obtain np u where np: "showNodepool S s = (Ret np, u)"
    using assms unfolding ReconcilePoolDelete_def by (elim andThen_RetE) auto
  have u: "obj u = obj s" using steps_inD[OF keeps_showNodepool[of id] np] by (simp add: keeps_def)
  show ?thesis
  proof (cases np)
    case None
    with np have "\<exists>e. ShowNodePool (nsv_CCEClient S) (cp_InfraClusterID (smp_ControlPlane (nsv_scope S)))
            (smp_InfraMachinePoolID (obj s)) (world s) = (Err e, world u) \<and> not_found_404 e"
      by (auto simp: showNodepool_def response_pool_def Let_def go_simps
          split: sum.splits if_splits prod.splits outcome.splits option.splits)
    moreover have "t = u" using assms np None by (simp add: ReconcilePoolDelete_def go_simps)
    ultimately show ?thesis using u by simp
  next
    case (Some pool)
    then have "deleteNodepoolAndWait E S u = (Ret (), t)"
      using assms np by (simp add: ReconcilePoolDelete_def andThen_run)
    then obtain v where first: "smp_NodepoolReadyFalse E (nsv_scope S) DeletingReason [] u = (Ret (), v)"
      and rep: "with_deletion_report E (nsv_scope S) (delete_nodepool_body E S (smp_Name (obj u))) v = (Ret (), t)"
      unfolding deleteNodepoolAndWait_def by (elim andThen_RetE) (auto simp: run_simps)
    obtain y where body: "delete_nodepool_body E S (smp_Name (obj u)) v = (Ret (), y)"
      and last: "smp_NodepoolReadyFalse E (nsv_scope S) DeletedReason [] y = (Ret (), t)"
      using rep by (auto simp: with_deletion_report_def go_simps split: prod.splits outcome.splits)
    have grow: "issues (\<lambda>_. True) v y"
      using body unfolding delete_nodepool_body_def
      by (rule steps_inD[rotated], unfold Let_def waitForNodepoolDeleted_def nodepool_deleted_poll_def)
        (intro issues_rules issues_waitUntil issues_showNodepool issues_pool_phase; simp)
    note fst = NodepoolReadyFalse_Ret[OF first] and lst = NodepoolReadyFalse_Ret[OF last]
      and b = delete_nodepool_body_Ret[OF body]
    have "CallPatchMachinePool (obj v) \<in> set (calls t)" "calls t \<noteq> [] \<and> last (calls t) = CallPatchMachinePool (obj t)"
      using fst lst grow by (auto simp: issues_def)
    moreover have "obj v = mp_MarkFalse (env_lib E) CCENodepoolReadyCondition DeletingReason SeverityInfo [] (obj s)"
      "obj t = mp_MarkFalse (env_lib E) CCENodepoolReadyCondition DeletedReason SeverityInfo [] (obj v)"
      using fst lst b u by simp_all
    ultimately show ?thesis using b
      by (intro disjI2 exI[of _ "obj v"] exI[of _ "world y"]) simp
  qed
qed

lemma ReconcilePoolDelete_success_witness:
  "\<exists>t. ReconcilePoolDelete demo_env demo_np_service (start demo_stale_pool) = (Ret (), t) \<and>
     (obj t = demo_stale_pool \<or> last (calls t) = CallPatchMachinePool (obj t))"
proof -
  have run: "fst (ReconcilePoolDelete demo_env demo_np_service (start demo_stale_pool)) = Ret ()"
    by code_simp
  obtain t where t: "ReconcilePoolDelete demo_env demo_np_service (start demo_stale_pool) = (Ret (), t)"
    by (rule ended[OF run])
  with ReconcilePoolDelete_success[OF t] show ?thesis by (auto simp: start_def)
qed

text \<open>
  A deletion that panics reports success: when the cloud has accepted the request and shows the
  pool without a status, the poll panics, and the deferred report, which sees no error, marks and
  patches the pool as deleted while the panic goes on.
\<close>

lemma deletion_panic_reported_as_deleted:
  assumes "\<And>a b c w. fst (k_PatchMachinePool (env_kube E) a b c w) = Ret ()"
    and "\<And>w. DeleteNodePool (nsv_CCEClient S) (cp_InfraClusterID (smp_ControlPlane (nsv_scope S))) i w = (Ret (), w)"
    and "\<And>w. ShowNodePool (nsv_CCEClient S) (cp_InfraClusterID (smp_ControlPlane (nsv_scope S))) i w
         = (Ret \<lparr>npr_Kind = Some k, npr_ApiVersion = Some v, npr_Metadata = m, npr_Spec = sp, npr_Status = None\<rparr>, w)"
    and "smp_InfraMachinePoolID (obj s) = i"
  shows "\<exists>t x. deleteNodepoolAndWait E S s = (Panic, t) \<and>
    obj t = mp_MarkFalse (env_lib E) CCENodepoolReadyCondition DeletedReason SeverityInfo [] x \<and>
    last (calls t) = CallPatchMachinePool (obj t)"
proof -
  let ?c = "cp_InfraClusterID (smp_ControlPlane (nsv_scope S))"
  obtain u where u: "smp_NodepoolReadyFalse E (nsv_scope S) DeletingReason [] s = (Ret (), u)"
    using NodepoolReadyFalse_runs[OF assms(1)] by blast
  have id: "smp_InfraMachinePoolID (obj u) = i"
    using NodepoolReadyFalse_Ret[OF u] assms(4) by (simp add: smp_InfraMachinePoolID_def)
  obtain y where "delete_nodepool_body E S (smp_Name (obj s)) u = (Panic, y)"
    using id assms(2,3)
    by (simp add: delete_nodepool_body_def waitForNodepoolDeleted_def waitUntil_def eval_nat_numeral
        nodepool_deleted_poll_def showNodepool_def response_pool_def pool_phase_def Let_def go_simps)
  moreover obtain t where t: "smp_NodepoolReadyFalse E (nsv_scope S) DeletedReason [] y = (Ret (), t)"
    using NodepoolReadyFalse_runs[OF assms(1)] by blast
  ultimately have "deleteNodepoolAndWait E S s = (Panic, t)"
    using u by (simp add: deleteNodepoolAndWait_def with_deletion_report_def go_simps)
  with NodepoolReadyFalse_Ret[OF t] show ?thesis by auto
qed

definition demo_no_status :: "nat NodepoolService" where
  "demo_no_status = demo_np_service\<lparr>nsv_CCEClient := demo_cce\<lparr>ShowNodePool := (\<lambda>_ _. ret
     \<lparr>npr_Kind = Some ''NodePool'', npr_ApiVersion = Some ''v3'', npr_Metadata = None, npr_Spec = None,
      npr_Status = None\<rparr>)\<rparr>\<rparr>"

lemma deletion_panic_reported_as_deleted_witness:
  "\<exists>t. deleteNodepoolAndWait demo_env demo_no_status (start demo_stale_pool) = (Panic, t) \<and>
     last (calls t) = CallPatchMachinePool (obj t)"
proof -
  have d: "DeleteNodePool (nsv_CCEClient demo_no_status) c j w = (Ret (), w)" for c j w
    by (simp add: demo_no_status_def demo_cce_def go_simps)
  have sh: "ShowNodePool (nsv_CCEClient demo_no_status) c j w = (Ret
     \<lparr>npr_Kind = Some ''NodePool'', npr_ApiVersion = Some ''v3'', npr_Metadata = None, npr_Spec = None,
      npr_Status = None\<rparr>, w)" for c j w
    by (simp add: demo_no_status_def go_simps)
  show ?thesis
    using deletion_panic_reported_as_deleted[OF demo_np_facts(3) d sh refl, of "start demo_stale_pool"] by blast
qed

end
