(* ===== verification/Controlplane_Controller.thy ===== *)
theory Controlplane_Controller
  imports Controller_Base Cluster_Service
begin

text \<open>
  \<open>ccemanagedcontrolplane_controller.go\<close>: one reconcile of a \<open>CCEManagedControlPlane\<close> and the mapping
  from a changed \<open>CCEManagedCluster\<close> to the control plane to reconcile.
\<close>

definition deleteRequeueAfter :: int where
  "deleteRequeueAfter = 20 * Second"

definition cceManagedControlPlaneKind :: string where
  "cceManagedControlPlaneKind = ''CCEManagedControlPlane''"

record CCEManagedControlPlaneReconciler =
  cpr_WatchFilterValue :: string
  cpr_WaitInfraPeriod :: int

definition object_path :: "ObjectMeta \<Rightarrow> string" where
  "object_path m = om_Namespace m @ ''/'' @ om_Name m"

definition dependencyCount ::
  "'w env \<Rightarrow> ManagedControlPlaneScope \<Rightarrow> ((CCEManagedControlPlane, 'w) st, int) go" where
  "dependencyCount E sc =
     (let clusterName = om_Name (cl_Meta (scp_Cluster sc));
          namespace = om_Namespace (cl_Meta (scp_Cluster sc)) in
      andThen (wrapErr (''failed to list managed machine pools for cluster '' @ namespace @ ''/'' @ clusterName)
                (ext (CallRead ''CCEManagedMachinePoolList'')
                  (k_ListManagedMachinePools (env_kube E) namespace clusterName))) (\<lambda>managedMachinePools.
        ret (int (length managedMachinePools))))"

definition cpr_reconcileDelete ::
  "'w env \<Rightarrow> ManagedControlPlaneScope \<Rightarrow> ((CCEManagedControlPlane, 'w) st, ctrl_Result) go" where
  "cpr_reconcileDelete E sc =
     andThen (dependencyCount E sc) (\<lambda>numDependencies.
       if numDependencies > 0 then ret \<lparr>Requeue = False, RequeueAfter = deleteRequeueAfter\<rparr>
       else
         andThen get_obj (\<lambda>cp.
         andThen (wrapErr (''error deleting CCE cluster for CCE control plane '' @ object_path (cp_Meta cp))
                   (NewService E sc [])) (\<lambda>ccesvc.
         andThen (DeleteControlPlane E ccesvc) (\<lambda>_.
         andThen DeleteNetwork (\<lambda>_.
         andThen (upd_obj (\<lambda>cp. set_cp_Finalizers
                    (lib_RemoveFinalizer (env_lib E) ManagedControlPlaneFinalizer (cp_Finalizers cp)) cp)) (\<lambda>_.
           ret Result0))))))"

definition cpr_reconcileNormal ::
  "'w env \<Rightarrow> CCEManagedControlPlaneReconciler \<Rightarrow> ManagedControlPlaneScope \<Rightarrow>
   ((CCEManagedControlPlane, 'w) st, ctrl_Result) go" where
  "cpr_reconcileNormal E r sc =
     andThen (deref (cl_InfrastructureRef (scp_Cluster sc))) (\<lambda>infraRef.
       if or_Kind infraRef \<noteq> cceManagedControlPlaneKind \<and> \<not> cl_InfrastructureReady (scp_Cluster sc)
       then ret \<lparr>Requeue = False, RequeueAfter = cpr_WaitInfraPeriod r\<rparr>
       else
         andThen (ensure_finalizer (env_lib E) ManagedControlPlaneFinalizer cp_Finalizers set_cp_Finalizers
                    (scp_PatchObject E sc)) (\<lambda>_.
         andThen get_obj (\<lambda>cp.
         andThen (wrapErr (''failed to init cce service for CCEManagedControlPlane '' @ object_path (cp_Meta cp))
                   (NewService E sc [])) (\<lambda>ccesvc.
         andThen (wrapErr (''failed to reconcile network for CCEManagedControlPlane '' @ object_path (cp_Meta cp))
                   (ReconcileNetwork E ccesvc)) (\<lambda>_.
         andThen (wrapErr (''failed to reconcile control plane for CCEManagedControlPlane '' @ object_path (cp_Meta cp))
                   (ReconcileControlPlane E ccesvc)) (\<lambda>_.
           ret Result0))))))"

definition cpr_Reconcile ::
  "'w env \<Rightarrow> CCEManagedControlPlaneReconciler \<Rightarrow> NamespacedName \<Rightarrow>
   ((CCEManagedControlPlane, 'w) st, reconcile_return) go" where
  "cpr_Reconcile E r req =
     andThen (attempt (ext (CallRead ''CCEManagedControlPlane'') (k_GetControlPlane (env_kube E) req))) (\<lambda>got.
       case got of
         Inl err \<Rightarrow>
           if lib_IsNotFound (env_lib E) err then ret (Result0, None)
           else ret (\<lparr>Requeue = True, RequeueAfter = 0\<rparr>, None)
       | Inr cceControlPlane \<Rightarrow>
           andThen (upd_obj (\<lambda>_. cceControlPlane)) (\<lambda>_.
           andThen (attempt (ext (CallRead ''Cluster'')
                              (k_GetOwnerCluster (env_kube E) (cp_Meta cceControlPlane)))) (\<lambda>owner.
             case owner of
               Inl err \<Rightarrow> ret (Result0, Some err)
             | Inr None \<Rightarrow> ret (Result0, None)
             | Inr (Some cluster) \<Rightarrow>
                 if lib_IsPaused (env_lib E) cluster (cp_Meta cceControlPlane) then ret (Result0, None)
                 else
                   (case NewManagedControlPlaneScope (env_lib E)
                           \<lparr>cpp_Cluster = Some cluster, cpp_ControlPlane = Some cceControlPlane,
                            cpp_ControllerName = ''ccemanagedcontrolplane''\<rparr> of
                      Inl err \<Rightarrow> ret (Result0, Some (Wrapped ''failed to create scope'' err))
                    | Inr managedScope \<Rightarrow>
                        with_close (scp_Close E managedScope)
                          (if \<not> Time_IsZero (om_DeletionTimestamp (cp_Meta cceControlPlane))
                           then cpr_reconcileDelete E managedScope
                           else cpr_reconcileNormal E r managedScope)))))"

definition managedClusterToManagedControlPlane ::
  "'w env \<Rightarrow> client_object \<Rightarrow> (('o, 'w) st, NamespacedName list) go" where
  "managedClusterToManagedControlPlane E o1 =
     (case as_ManagedCluster o1 of
        None \<Rightarrow> ret []
      | Some cceManagedCluster \<Rightarrow>
          if \<not> Time_IsZero (om_DeletionTimestamp (mc_Meta cceManagedCluster)) then ret []
          else
            andThen (attempt (ext (CallRead ''Cluster'')
                       (k_GetOwnerCluster (env_kube E) (mc_Meta cceManagedCluster)))) (\<lambda>owner.
              case owner of
                Inl err \<Rightarrow> ret []
              | Inr None \<Rightarrow> ret []
              | Inr (Some cluster) \<Rightarrow>
                  (case cl_ControlPlaneRef cluster of
                     None \<Rightarrow> ret []
                   | Some controlPlaneRef \<Rightarrow>
                       if or_Kind controlPlaneRef \<noteq> cceManagedControlPlaneKind then ret []
                       else ret [\<lparr>nn_Namespace = or_Namespace controlPlaneRef,
                                  nn_Name = or_Name controlPlaneRef\<rparr>])))"

end
