(* ===== verification/Managedcluster_Controller.thy ===== *)
theory Managedcluster_Controller
  imports Controller_Base
begin

text \<open>
  \<open>ccemanagedcluster_controller.go\<close>: the infrastructure cluster of Cluster API. It has no cloud
  resources of its own; a reconcile copies the control plane's endpoint and reports readiness.
\<close>

definition set_mc_Ready :: "CCEManagedCluster \<Rightarrow> CCEManagedCluster" where
  "set_mc_Ready = mc_Status_update (mcst_Ready_update (\<lambda>_. True))"

definition set_mc_Endpoint :: "APIEndpoint \<Rightarrow> CCEManagedCluster \<Rightarrow> CCEManagedCluster" where
  "set_mc_Endpoint ep = mc_Spec_update (mcs_ControlPlaneEndpoint_update (\<lambda>_. ep))"

text \<open>\<open>if err := m; err != nil { return reconcile.Result{}, ... }\<close>.\<close>

definition or_return ::
  "('s, 'a) go \<Rightarrow> (go_error \<Rightarrow> go_error) \<Rightarrow> ('a \<Rightarrow> ('s, reconcile_return) go) \<Rightarrow>
   ('s, reconcile_return) go" where
  "or_return m wrap k =
     andThen (attempt m) (\<lambda>r. case r of Inl err \<Rightarrow> ret (Result0, Some (wrap err)) | Inr x \<Rightarrow> k x)"

definition mcr_Reconcile ::
  "'w env \<Rightarrow> NamespacedName \<Rightarrow> ((CCEManagedCluster, 'w) st, reconcile_return) go" where
  "mcr_Reconcile E req =
     andThen (attempt (ext (CallRead ''CCEManagedCluster'') (k_GetManagedCluster (env_kube E) req))) (\<lambda>got.
       case got of
         Inl err \<Rightarrow> if lib_IsNotFound (env_lib E) err then ret (Result0, None) else ret (Result0, Some err)
       | Inr cceManagedCluster \<Rightarrow>
           andThen (upd_obj (\<lambda>_. cceManagedCluster)) (\<lambda>_.
           or_return (ext (CallRead ''Cluster'') (k_GetOwnerCluster (env_kube E) (mc_Meta cceManagedCluster)))
             id (\<lambda>owner.
             case owner of
               None \<Rightarrow> ret (Result0, None)
             | Some cluster \<Rightarrow>
                 if lib_IsPaused (env_lib E) cluster (mc_Meta cceManagedCluster) then ret (Result0, None)
                 else
                   andThen (deref (cl_ControlPlaneRef cluster)) (\<lambda>ref.
                   or_return (ext (CallRead ''CCEManagedControlPlane'') (k_GetControlPlane (env_kube E)
                                \<lparr>nn_Namespace = or_Namespace ref, nn_Name = or_Name ref\<rparr>))
                     (Wrapped ''failed to get control plane ref'') (\<lambda>controlPlane.
                     case lib_NewHelperManagedCluster (env_lib E) cceManagedCluster of
                       Some err \<Rightarrow> ret (Result0, Some (Wrapped ''failed to init patch helper'' err))
                     | None \<Rightarrow>
                         andThen (upd_obj (\<lambda>mc. set_mc_Endpoint
                                    (cps_ControlPlaneEndpoint (cp_Spec controlPlane)) (set_mc_Ready mc))) (\<lambda>_.
                         andThen get_obj (\<lambda>mc.
                         or_return (ext (CallPatchManagedCluster mc)
                                     (k_PatchManagedCluster (env_kube E) cceManagedCluster mc))
                           (Wrapped ''failed to patch CCEManagedCluster'') (\<lambda>_.
                           ret (Result0, None)))))))))"

definition managedControlPlaneToManagedCluster ::
  "'w env \<Rightarrow> client_object \<Rightarrow> (('o, 'w) st, NamespacedName list) go" where
  "managedControlPlaneToManagedCluster E o1 =
     (case as_ControlPlane o1 of
        None \<Rightarrow> ret []
      | Some cp \<Rightarrow>
          if \<not> Time_IsZero (om_DeletionTimestamp (cp_Meta cp)) then ret []
          else if lib_APIEndpoint_IsZero (env_lib E) (cps_ControlPlaneEndpoint (cp_Spec cp)) then ret []
          else
            andThen (attempt (ext (CallRead ''Cluster'') (k_GetOwnerCluster (env_kube E) (cp_Meta cp)))) (\<lambda>owner.
              case owner of
                Inl err \<Rightarrow> ret []
              | Inr None \<Rightarrow> ret []
              | Inr (Some cluster) \<Rightarrow>
                  (case cl_InfrastructureRef cluster of
                     None \<Rightarrow> ret []
                   | Some managedClusterRef \<Rightarrow>
                       if or_Kind managedClusterRef \<noteq> ''CCEManagedCluster'' then ret []
                       else ret [\<lparr>nn_Namespace = or_Namespace managedClusterRef,
                                  nn_Name = or_Name managedClusterRef\<rparr>])))"

end
