(* ===== verification/Machinepool_Controller.thy ===== *)
theory Machinepool_Controller
  imports Controller_Base Nodepool_Service Controlplane_Controller
begin

text \<open>
  \<open>ccemanagedmachinepool_controller.go\<close>: one reconcile of a \<open>CCEManagedMachinePool\<close>, the lookup of its
  owners, and the mappings from changed machine pools and control planes.
\<close>

section \<open>Owners\<close>

text \<open>
  \<open>owner_of kind\<close>: the name in the first owner reference of that kind whose API group is Cluster
  API's; a malformed API version before it is an error.
\<close>

primrec owner_of :: "lib \<Rightarrow> string \<Rightarrow> OwnerReference list \<Rightarrow> go_error + string option" where
  "owner_of L kind [] = Inr None"
| "owner_of L kind (ref # refs) =
     (if ow_Kind ref \<noteq> kind then owner_of L kind refs
      else (case lib_ParseGroupVersion L (ow_APIVersion ref) of
              Inl err \<Rightarrow> Inl err
            | Inr grp \<Rightarrow>
                if grp = ClusterAPI_Group then Inr (Some (ow_Name ref)) else owner_of L kind refs))"

definition GetOwnerClusterKey :: "lib \<Rightarrow> ObjectMeta \<Rightarrow> go_error + NamespacedName option" where
  "GetOwnerClusterKey L m =
     map_sum id (map_option (\<lambda>n. \<lparr>nn_Namespace = om_Namespace m, nn_Name = n\<rparr>))
       (owner_of L ''Cluster'' (om_OwnerReferences m))"

definition getMachinePoolByName ::
  "'w env \<Rightarrow> string \<Rightarrow> string \<Rightarrow> (('o, 'w) st, MachinePool) go" where
  "getMachinePoolByName E namespace name =
     ext (CallRead ''MachinePool'')
       (k_GetMachinePool (env_kube E) \<lparr>nn_Namespace = namespace, nn_Name = name\<rparr>)"

definition getOwnerMachinePool :: "'w env \<Rightarrow> ObjectMeta \<Rightarrow> (('o, 'w) st, MachinePool option) go" where
  "getOwnerMachinePool E m =
     (case owner_of (env_lib E) ''MachinePool'' (om_OwnerReferences m) of
        Inl err \<Rightarrow> fail err
      | Inr None \<Rightarrow> ret None
      | Inr (Some name) \<Rightarrow> andThen (getMachinePoolByName E (om_Namespace m) name) (\<lambda>p. ret (Some p)))"

section \<open>Mapping functions\<close>

text \<open>
  A failed type assertion is only logged in both functions: the nil pointer is then dereferenced.
\<close>

definition machinePoolToInfrastructureMapFunc ::
  "lib \<Rightarrow> string \<times> string \<Rightarrow> client_object \<Rightarrow> ('s, NamespacedName list) go" where
  "machinePoolToInfrastructureMapFunc L gk o1 =
     andThen (deref (as_MachinePool o1)) (\<lambda>m.
       if gk \<noteq> lib_GroupKind L (mpo_InfrastructureRef m) then ret []
       else ret [\<lparr>nn_Namespace = om_Namespace (mpo_Meta m), nn_Name = or_Name (mpo_InfrastructureRef m)\<rparr>])"

primrec map_pools ::
  "lib \<Rightarrow> string \<times> string \<Rightarrow> MachinePool list \<Rightarrow> ('s, NamespacedName list) go" where
  "map_pools L gk [] = ret []"
| "map_pools L gk (m # ms) =
     andThen (machinePoolToInfrastructureMapFunc L gk (ObjMachinePool m)) (\<lambda>managedPool.
     andThen (map_pools L gk ms) (\<lambda>results.
       ret (managedPool @ results)))"

definition managedControlPlaneToManagedMachinePoolMapFunc ::
  "'w env \<Rightarrow> string \<times> string \<Rightarrow> client_object \<Rightarrow> (('o, 'w) st, NamespacedName list) go" where
  "managedControlPlaneToManagedMachinePoolMapFunc E gk o1 =
     andThen (deref (as_ControlPlane o1)) (\<lambda>cp.
       if \<not> Time_IsZero (om_DeletionTimestamp (cp_Meta cp)) then ret []
       else
         (case GetOwnerClusterKey (env_lib E) (cp_Meta cp) of
            Inl err \<Rightarrow> ret []
          | Inr None \<Rightarrow> ret []
          | Inr (Some clusterKey) \<Rightarrow>
              andThen (attempt (ext (CallRead ''MachinePoolList'')
                (k_ListMachinePools (env_kube E) (nn_Namespace clusterKey) (nn_Name clusterKey)))) (\<lambda>listed.
                case listed of
                  Inl err \<Rightarrow> ret []
                | Inr pools \<Rightarrow> map_pools (env_lib E) gk pools)))"

section \<open>Reconcile\<close>

definition mpr_reconcileDelete ::
  "'w env \<Rightarrow> ManagedMachinePoolScope \<Rightarrow> ((CCEManagedMachinePool, 'w) st, ctrl_Result) go" where
  "mpr_reconcileDelete E sc =
     andThen get_obj (\<lambda>mp.
     andThen (wrapErr (''failed to init cce service for CCEManagedMachinePool '' @ object_path (mp_Meta mp))
               (NewNodepoolService E sc)) (\<lambda>ccesvc.
     andThen (wrapErr (''failed to reconcile machine pool deletion for CCEManagedMachinePool ''
                        @ object_path (mp_Meta mp))
               (ReconcilePoolDelete E ccesvc)) (\<lambda>_.
     andThen (upd_obj (\<lambda>mp. set_mp_Finalizers
                (lib_RemoveFinalizer (env_lib E) ManagedMachinePoolFinalizer (mp_Finalizers mp)) mp)) (\<lambda>_.
       ret Result0))))"

definition mpr_reconcileNormal ::
  "'w env \<Rightarrow> ManagedMachinePoolScope \<Rightarrow> ((CCEManagedMachinePool, 'w) st, ctrl_Result) go" where
  "mpr_reconcileNormal E sc =
     andThen (ensure_finalizer (env_lib E) ManagedMachinePoolFinalizer mp_Finalizers set_mp_Finalizers
                (smp_PatchObject E sc)) (\<lambda>_.
     andThen get_obj (\<lambda>mp.
     andThen (wrapErr (''failed to init cce service for CCEManagedMachinePool '' @ object_path (mp_Meta mp))
               (NewNodepoolService E sc)) (\<lambda>ccesvc.
     andThen (wrapErr (''failed to reconcile machine pool for CCEManagedMachinePool ''
                        @ object_path (mp_Meta mp))
               (ReconcilePool E ccesvc)) (\<lambda>_.
       ret Result0))))"

text \<open>The deferred function: the summary condition, then the scope is closed.\<close>

definition summarize_and_close ::
  "'w env \<Rightarrow> ManagedMachinePoolScope \<Rightarrow> ((CCEManagedMachinePool, 'w) st, unit) go" where
  "summarize_and_close E sc =
     andThen (upd_obj (mp_SetSummary (env_lib E) [CCENodepoolReadyCondition])) (\<lambda>_. smp_Close E sc)"

definition mpr_Reconcile ::
  "'w env \<Rightarrow> NamespacedName \<Rightarrow> ((CCEManagedMachinePool, 'w) st, reconcile_return) go" where
  "mpr_Reconcile E req =
     andThen (attempt (ext (CallRead ''CCEManagedMachinePool'') (k_GetManagedMachinePool (env_kube E) req))) (\<lambda>got.
       case got of
         Inl err \<Rightarrow>
           if lib_IsNotFound (env_lib E) err then ret (Result0, None)
           else ret (\<lparr>Requeue = True, RequeueAfter = 0\<rparr>, None)
       | Inr ccePool \<Rightarrow>
           andThen (upd_obj (\<lambda>_. ccePool)) (\<lambda>_.
           andThen (attempt (getOwnerMachinePool E (mp_Meta ccePool))) (\<lambda>owner.
             case owner of
               Inl err \<Rightarrow> ret (Result0, Some err)
             | Inr None \<Rightarrow> ret (Result0, None)
             | Inr (Some machinePool) \<Rightarrow>
           andThen (attempt (ext (CallRead ''Cluster'')
                      (k_GetClusterFromMetadata (env_kube E) (mpo_Meta machinePool)))) (\<lambda>found.
             case found of
               Inl err \<Rightarrow> ret (Result0, None)
             | Inr cluster \<Rightarrow>
                 if lib_IsPaused (env_lib E) cluster (mp_Meta ccePool) then ret (Result0, None)
                 else
           andThen (deref (cl_ControlPlaneRef cluster)) (\<lambda>ref.
           andThen (attempt (ext (CallRead ''CCEManagedControlPlane'') (k_GetControlPlane (env_kube E)
                      \<lparr>nn_Namespace = om_Namespace (mp_Meta ccePool), nn_Name = or_Name ref\<rparr>))) (\<lambda>gotCp.
             case gotCp of
               Inl err \<Rightarrow> ret (Result0, None)
             | Inr controlPlane \<Rightarrow>
                 if \<not> cpst_Ready (cp_Status controlPlane) then
                   andThen (upd_obj (mp_MarkFalse (env_lib E) CCENodepoolReadyCondition
                              WaitingForCCEControlPlaneReason SeverityInfo [])) (\<lambda>_.
                     ret (Result0, None))
                 else
                   (case NewManagedMachinePoolScope (env_lib E)
                           \<lparr>mpp_Cluster = Some cluster, mpp_ControlPlane = Some controlPlane,
                            mpp_ManagedMachinePool = Some ccePool, mpp_MachinePool = Some machinePool,
                            mpp_ControllerName = ''ccemanagedmachinepool''\<rparr> of
                      Inl err \<Rightarrow> ret (Result0, Some (Wrapped ''failed to create scope'' err))
                    | Inr machinePoolScope \<Rightarrow>
                        with_close (summarize_and_close E machinePoolScope)
                          (if \<not> Time_IsZero (om_DeletionTimestamp (mp_Meta ccePool))
                           then mpr_reconcileDelete E machinePoolScope
                           else mpr_reconcileNormal E machinePoolScope))))))))"

end
