(* ===== verification/Controller_Props.thy ===== *)
theory Controller_Props
  imports Controlplane_Controller Managedcluster_Controller Machinepool_Controller
    Network_Props Cluster_Props Nodepool_Props
begin

text \<open>
  Properties that span the controllers and their services: the finalizer is on the object before
  anything is created and leaves it only after everything is deleted, a reconcile ends by patching
  the object it worked on, and what the mapping functions enqueue.
\<close>

lemma andThen_outcome:
  assumes "andThen m f s = (r, t)" and "m s = (q, u)"
  shows "case q of Ret x \<Rightarrow> f x u = (r, t) | Err e \<Rightarrow> r = Err e \<and> t = u | Panic \<Rightarrow> r = Panic \<and> t = u"
  using assms by (auto simp: go_simps split: outcome.split)

section \<open>What the services leave alone\<close>

lemma cp_Finalizers_setters [simp]:
  "cp_Finalizers (cp_MarkTrue L t cp) = cp_Finalizers cp"
  "cp_Finalizers (cp_MarkFalse L t r v m cp) = cp_Finalizers cp"
  "cp_Finalizers (set_VPC_ID i cp) = cp_Finalizers cp"
  "cp_Finalizers (set_Subnet_ID i cp) = cp_Finalizers cp"
  "cp_Finalizers (set_EIP_status i cp) = cp_Finalizers cp"
  "cp_Finalizers (set_Initialized cp) = cp_Finalizers cp"
  "cp_Finalizers (set_cp_Ready b cp) = cp_Finalizers cp"
  "cp_Finalizers (set_cp_FailureMessage f cp) = cp_Finalizers cp"
  "cp_Finalizers (set_Endpoint ep cp) = cp_Finalizers cp"
  "cp_Finalizers (scp_SetInfraClusterID i cp) = cp_Finalizers cp"
  using cluster_id.setID_identity(3)[of i cp] by (simp_all add: cp_Finalizers_def)

lemma mp_Finalizers_setters [simp]:
  "mp_Finalizers (mp_MarkTrue L t mp) = mp_Finalizers mp"
  "mp_Finalizers (mp_MarkFalse L t r v m mp) = mp_Finalizers mp"
  "mp_Finalizers (mirror_phase en phase mp) = mp_Finalizers mp"
  "mp_Finalizers (set_nodes ids n mp) = mp_Finalizers mp"
  "mp_Finalizers (smp_SetInfraMachinePoolID i mp) = mp_Finalizers mp"
  using pool_id.setID_identity(3)[of i mp]
  by (simp_all add: mp_Finalizers_def mirror_phase_def)

lemma keeps_createVPC': "steps_in (keeps f) (createVPC E S)"
  unfolding createVPC_def Let_def by (intro keeps_rules keeps_GenerateName)

lemma keeps_createSubnet': "steps_in (keeps f) (createSubnet E S)"
  unfolding createSubnet_def listSubnets_def Let_def by (intro keeps_rules keeps_GenerateName)

lemma keeps_deref_phase: "steps_in (keeps f) (deref_phase st)"
  unfolding deref_phase_def by (intro keeps_rules)

text \<open>
  A part of the control plane object that the writes behind the creation of the cluster leave alone:
  the services' own six conditions, the status fields, the elastic IP and the endpoint.
\<close>

locale settled =
  fixes E :: "'w env"
    and f :: "CCEManagedControlPlane \<Rightarrow> 'p"
  assumes f_MarkTrue: "t \<in> set scp_ownedConditions \<Longrightarrow> f (cp_MarkTrue (env_lib E) t cp) = f cp"
    and f_MarkFalse: "t \<in> set scp_ownedConditions \<Longrightarrow> f (cp_MarkFalse (env_lib E) t r v m cp) = f cp"
    and f_EIP: "f (set_EIP_status i cp) = f cp"
    and f_status: "f (set_Initialized cp) = f cp" "f (set_cp_Ready b cp) = f cp"
      "f (set_cp_FailureMessage x cp) = f cp"
    and f_endpoint: "f (set_Endpoint ep cp) = f cp"
begin

lemmas f_settled = f_MarkTrue f_MarkFalse f_EIP f_status f_endpoint scp_ownedConditions_def

lemma cp_setStatus_keeps: "steps_in (keeps f) (cp_setStatus E S st)"
  unfolding cp_setStatus_def mirror_cluster_phase_def end_creating_def end_updating_def
  by (intro keeps_rules keeps_deref_phase keeps_scp_PatchObject) (simp_all add: f_settled)

lemma waitForClusterActive_keeps: "steps_in (keeps f) (waitForClusterActive E S)"
  unfolding waitForClusterActive_def cluster_active_poll_def
  by (intro keeps_rules keeps_waitUntil keeps_showCCECluster keeps_deref_phase cp_setStatus_keeps)

lemma publish_endpoint_keeps: "steps_in (keeps f) (publish_endpoint E S)"
  unfolding publish_endpoint_def reconcileKubeconfig_def
    createCAPIKubeconfigSecret_def updateCAPIKubeconfigSecret_def createBaseKubeConfig_def Let_def
  by (intro keeps_rules keeps_showCCECluster keeps_apply_endpoints keeps_from_sum keeps_generateClientData')
    (simp_all add: f_settled)

lemma provide_access_keeps: "steps_in (keeps f) (provide_access E S c)"
  unfolding provide_access_def public_access_def reconcileEIP_def Let_def
  by (intro keeps_rules publish_endpoint_keeps) (simp_all add: f_settled)

lemma settle_cluster_keeps: "steps_in (keeps f) (settle_cluster E S c st)"
  unfolding settle_cluster_def
  by (intro keeps_rules waitForClusterActive_keeps cp_setStatus_keeps keeps_deref_phase provide_access_keeps)

end

text \<open>The same of the network IDs: everything but the creation of the cluster keeps such a part.\<close>

locale unlabelled = settled E f
  for E :: "'w env"
    and f :: "CCEManagedControlPlane \<Rightarrow> 'p" +
  assumes f_IDs: "f (set_VPC_ID i cp) = f cp" "f (set_Subnet_ID i cp) = f cp"
begin

lemmas f_simps = f_settled f_IDs

lemma ReconcileNetwork_keeps: "steps_in (keeps f) (ReconcileNetwork E S)"
  unfolding ReconcileNetwork_def report_network_step_def reconcileVPC_def reconcileSubnets_def
  by (intro keeps_rules keeps_createVPC' keeps_createSubnet' keeps_scp_PatchObject) (simp_all add: f_simps)

end

text \<open>When the label too leaves that part alone, the whole reconcile keeps it.\<close>

locale untouched = unlabelled E f
  for E :: "'w env"
    and f :: "CCEManagedControlPlane \<Rightarrow> 'p" +
  assumes f_label: "f (scp_SetInfraClusterID i cp) = f cp"
begin

lemma createCluster_keeps: "steps_in (keeps f) (createCluster E S)"
  unfolding createCluster_def by (intro keeps_rules) (simp_all add: f_simps f_label)

lemma ReconcileControlPlane_keeps: "steps_in (keeps f) (ReconcileControlPlane E S)"
  unfolding ReconcileControlPlane_def reconcileCluster_def find_or_create_def
  by (intro keeps_rules createCluster_keeps keeps_showCCECluster settle_cluster_keeps) (simp_all add: f_simps)

end

interpretation cp_fins: untouched E cp_Finalizers for E
  by unfold_locales simp_all

interpretation cp_label: unlabelled E scp_InfraClusterID for E
  by unfold_locales
    (simp_all add: scp_InfraClusterID_def set_VPC_ID_def set_Subnet_ID_def set_EIP_status_def set_Initialized_def
      set_cp_Ready_def set_cp_FailureMessage_def set_Endpoint_def)

lemmas keeps_ReconcileNetwork = cp_fins.ReconcileNetwork_keeps
lemmas keeps_ReconcileControlPlane = cp_fins.ReconcileControlPlane_keeps

lemma keeps_from_outcome: "steps_in (keeps f) (from_outcome r)"
  by (rule steps_inI) (auto simp: from_outcome_def keeps_def)

lemma issues_from_outcome: "steps_in (issues A) (from_outcome r)"
  by (rule steps_inI) (auto simp: from_outcome_def issues_def)

lemma keeps_NewService: "steps_in (keeps f) (NewService E sc opts)"
  unfolding NewService_def Let_def by (intro keeps_rules keeps_from_outcome)

definition read_call :: "call \<Rightarrow> bool" where
  "read_call c \<longleftrightarrow> (case c of CallRead _ \<Rightarrow> True | _ \<Rightarrow> False)"

lemma read_call_simps [simp]: "read_call (CallRead x)"
  by (simp add: read_call_def)

lemma issues_NewService: "(\<And>x. A (CallRead x)) \<Longrightarrow> steps_in (issues A) (NewService E sc opts)"
  unfolding NewService_def Let_def by (intro issues_rules issues_from_outcome) simp

lemma issues_NewNodepoolService: "(\<And>x. A (CallRead x)) \<Longrightarrow> steps_in (issues A) (NewNodepoolService E sc)"
  unfolding NewNodepoolService_def Let_def by (intro issues_rules issues_from_outcome) simp

lemma keeps_NewNodepoolService: "steps_in (keeps f) (NewNodepoolService E sc)"
  unfolding NewNodepoolService_def Let_def by (intro keeps_rules keeps_from_outcome)

lemma grows_ReconcileControlPlane: "steps_in (issues (\<lambda>_. True)) (ReconcileControlPlane E S)"
  unfolding ReconcileControlPlane_def reconcileCluster_def find_or_create_def
  by (intro issues_rules growsI[OF free_settle_cluster] issues_showCCECluster issues_createCluster) simp_all

lemma issues_ensure_finalizer:
  "steps_in (issues A) patch \<Longrightarrow> steps_in (issues A) (ensure_finalizer L f fins set_fins patch)"
  unfolding ensure_finalizer_def by (intro issues_rules)

section \<open>The finalizer is there before anything is created\<close>

text \<open>What \<open>reconcileNormal\<close> does once the finalizer is in place.\<close>

definition cpr_provision ::
  "'w env \<Rightarrow> ManagedControlPlaneScope \<Rightarrow> ((CCEManagedControlPlane, 'w) st, ctrl_Result) go" where
  "cpr_provision E sc =
     andThen get_obj (\<lambda>cp.
     andThen (wrapErr (''failed to init cce service for CCEManagedControlPlane '' @ object_path (cp_Meta cp))
               (NewService E sc [])) (\<lambda>ccesvc.
     andThen (wrapErr (''failed to reconcile network for CCEManagedControlPlane '' @ object_path (cp_Meta cp))
               (ReconcileNetwork E ccesvc)) (\<lambda>_.
     andThen (wrapErr (''failed to reconcile control plane for CCEManagedControlPlane '' @ object_path (cp_Meta cp))
               (ReconcileControlPlane E ccesvc)) (\<lambda>_.
       ret Result0))))"

abbreviation cp_ensure ::
  "'w env \<Rightarrow> ManagedControlPlaneScope \<Rightarrow> ((CCEManagedControlPlane, 'w) st, unit) go" where
  "cp_ensure E sc \<equiv> ensure_finalizer (env_lib E) ManagedControlPlaneFinalizer cp_Finalizers set_cp_Finalizers
                      (scp_PatchObject E sc)"

lemma cpr_reconcileNormal_split:
  "cpr_reconcileNormal E r sc =
     andThen (deref (cl_InfrastructureRef (scp_Cluster sc))) (\<lambda>infraRef.
       if or_Kind infraRef \<noteq> cceManagedControlPlaneKind \<and> \<not> cl_InfrastructureReady (scp_Cluster sc)
       then ret \<lparr>Requeue = False, RequeueAfter = cpr_WaitInfraPeriod r\<rparr>
       else andThen (cp_ensure E sc) (\<lambda>_. cpr_provision E sc))"
  unfolding cpr_reconcileNormal_def cpr_provision_def by (rule refl)

lemma grows_provision: "steps_in (issues (\<lambda>_. True)) (cpr_provision E sc)"
  unfolding cpr_provision_def
  by (intro issues_rules issues_NewService growsI[OF issues_ReconcileNetwork] grows_ReconcileControlPlane) simp

lemma keeps_provision: "steps_in (keeps cp_Finalizers) (cpr_provision E sc)"
  unfolding cpr_provision_def
  by (intro keeps_rules keeps_NewService keeps_ReconcileNetwork keeps_ReconcileControlPlane)

lemma cp_ensure_calls: "(\<And>p. A (CallPatchControlPlane p)) \<Longrightarrow> steps_in (issues A) (cp_ensure E sc)"
  by (intro issues_ensure_finalizer issues_scp_PatchObject)

text \<open>
  The interface both kinds of object share here: finalizers, and a patch that issues one call and
  leaves the object alone. What is proved of it: behind \<open>ensure_finalizer\<close>, nothing is created for
  an object without the finalizer.
\<close>

locale patched_object = finalizers fins set_fins
  for fins :: "'o \<Rightarrow> string list"
    and set_fins :: "string list \<Rightarrow> 'o \<Rightarrow> 'o" +
  fixes patch :: "(('o, 'w) st, unit) go"
    and patched :: "'o \<Rightarrow> call"
  assumes patch_object: "obj (snd (patch s)) = obj s"
    and patch_calls: "calls (snd (patch s)) = calls s @ [patched (obj s)]"
    and patch_creates_nothing: "\<not> cloud_creation (patched x)"
begin

lemma patch_issues: "A (patched (obj s)) \<Longrightarrow> patch s = (r, t) \<Longrightarrow> issues A s t"
  using patch_calls[of s] by (auto simp: issues_def)

lemma ensured_before_creation:
  assumes L: "finalizers_documented L"
    and run: "andThen (ensure_finalizer L f fins set_fins patch) (\<lambda>_. body) s = (res, t)"
    and grows: "steps_in (issues (\<lambda>_. True)) body" and keeps: "steps_in (keeps fins) body"
    and c: "c \<in> set (new_calls s t)" "cloud_creation c"
  shows "f \<in> set (fins (obj t)) \<and>
    (f \<in> set (fins (obj s)) \<or>
     (\<exists>x. f \<in> set (fins x) \<and> hd (new_calls s t) = patched x \<and> fst (patch (s\<lparr>obj := x\<rparr>)) = Ret ()))"
proof -
  have quiet: "steps_in (issues (\<lambda>c. \<not> cloud_creation c)) (ensure_finalizer L f fins set_fins patch)"
    by (rule issues_ensure_finalizer) (metis steps_inI patch_issues patch_creates_nothing)
  from run obtain x u where e: "ensure_finalizer L f fins set_fins patch s = (Ret x, u)" and p: "body u = (res, t)"
    by (rule late_call[OF _ c(2) c(1) quiet grows])
  have fins: "fins (obj t) = fins (obj u)"
    using steps_inD[OF keeps p] by (simp add: keeps_def)
  obtain ds where new: "calls t = calls u @ ds"
    using steps_inD[OF grows p] by (auto simp: issues_def)
  show ?thesis
  proof (cases "f \<in> set (fins (obj s))")
    case True
    with e have "u = s" by (simp add: ensure_present[OF L])
    with True fins show ?thesis by simp
  next
    case False
    let ?x = "set_fins (fins (obj s) @ [f]) (obj s)"
    from e False have patch: "patch (s\<lparr>obj := ?x\<rparr>) = (Ret x, u)"
      by (simp add: ensure_absent[OF L])
    have "obj u = ?x" "calls u = calls s @ [patched ?x]"
      using patch_object[of "s\<lparr>obj := ?x\<rparr>"] patch_calls[of "s\<lparr>obj := ?x\<rparr>"] patch by simp_all
    moreover from this(2) new have "calls t = calls s @ (patched ?x # ds)" by simp
    ultimately show ?thesis
      using fins patch by (intro conjI disjI2 exI[of _ ?x]) (simp_all add: fins_set)
  qed
qed

end

interpretation cp_patched: patched_object cp_Finalizers set_cp_Finalizers "scp_PatchObject E sc" CallPatchControlPlane
  for E sc
  by unfold_locales (simp_all add: scp_PatchObject_apply split: prod.split)

interpretation mp_patched: patched_object mp_Finalizers set_mp_Finalizers "smp_PatchObject E sc" CallPatchMachinePool
  for E sc
  by unfold_locales (simp_all add: smp_PatchObject_apply split: prod.split)

text \<open>
  C3. Nothing is created in the cloud for an object that does not carry the finalizer: when a
  reconcile issues a creating call, the finalizer was on the object when it was read, or the first
  call of the run was a successful patch that put it there. It is still there at the end.
\<close>

theorem finalizer_before_creation:
  assumes L: "finalizers_documented (env_lib E)"
    and run: "cpr_reconcileNormal E r sc s = (res, t)"
    and c: "c \<in> set (new_calls s t)" "cloud_creation c"
  shows "ManagedControlPlaneFinalizer \<in> set (cp_Finalizers (obj t)) \<and>
    (ManagedControlPlaneFinalizer \<in> set (cp_Finalizers (obj s)) \<or>
     (\<exists>cp. ManagedControlPlaneFinalizer \<in> set (cp_Finalizers cp) \<and>
        hd (new_calls s t) = CallPatchControlPlane cp \<and>
        fst (scp_PatchObject E sc (s\<lparr>obj := cp\<rparr>)) = Ret ()))"
proof -
  have "andThen (cp_ensure E sc) (\<lambda>_. cpr_provision E sc) s = (res, t)"
    using run c by (auto simp: cpr_reconcileNormal_split go_simps split: option.splits if_splits)
  from cp_patched.ensured_before_creation[OF L this grows_provision keeps_provision c] show ?thesis .
qed

text \<open>A cloud in which no VPC can be created, for runs that end early.\<close>

definition no_vpc_env :: "nat env" where
  "no_vpc_env = demo_env\<lparr>env_NewVpcClient := (\<lambda>_ _. Ret (demo_vpc\<lparr>CreateVpc := (\<lambda>_. fail (ErrorString ''quota''))\<rparr>))\<rparr>"

definition demo_reconciler :: CCEManagedControlPlaneReconciler where
  "demo_reconciler = \<lparr>cpr_WatchFilterValue = [], cpr_WaitInfraPeriod = 60 * Second\<rparr>"

lemma finalizer_before_creation_witness:
  "ManagedControlPlaneFinalizer
     \<in> set (cp_Finalizers (obj (snd (cpr_reconcileNormal no_vpc_env demo_reconciler demo_scope (start demo_cp)))))"
proof -
  let ?run = "cpr_reconcileNormal no_vpc_env demo_reconciler demo_scope (start demo_cp)"
  have "list_ex cloud_creation (new_calls (start demo_cp) (snd ?run))"
    by code_simp
  then obtain c where "c \<in> set (new_calls (start demo_cp) (snd ?run))" "cloud_creation c"
    by (auto simp: list_ex_iff)
  moreover have "finalizers_documented (env_lib no_vpc_env)"
    by (simp add: no_vpc_env_def demo_env_def demo_finalizers)
  ultimately show ?thesis
    using finalizer_before_creation[OF _ surjective_pairing] by blast
qed

section \<open>Deletion\<close>

lemma keeps_DeleteControlPlane: "steps_in (keeps f) (DeleteControlPlane E S)"
  unfolding DeleteControlPlane_def deleteCluster_def deleteClusterAndWait_def waitForClusterDeleted_def
  by (intro keeps_rules keeps_waitUntil keeps_showCCECluster keeps_cluster_deleted_poll)

lemma dependencyCount_run:
  "dependencyCount E sc s =
     (case k_ListManagedMachinePools (env_kube E) (om_Namespace (cl_Meta (scp_Cluster sc)))
             (om_Name (cl_Meta (scp_Cluster sc))) (world s) of
        (r, w) \<Rightarrow> ((case r of Ret pools \<Rightarrow> Ret (int (length pools))
                   | Err e \<Rightarrow> Err (Wrapped (''failed to list managed machine pools for cluster ''
                               @ om_Namespace (cl_Meta (scp_Cluster sc)) @ ''/'' @ om_Name (cl_Meta (scp_Cluster sc))) e)
                   | Panic \<Rightarrow> Panic),
                 s\<lparr>world := w, calls := calls s @ [CallRead ''CCEManagedMachinePoolList'']\<rparr>))"
  by (simp add: dependencyCount_def Let_def go_simps split: prod.split outcome.split)

text \<open>How a deletion ends: it leaves the object alone, or all its steps succeeded and the finalizer is gone.\<close>

lemma reconcileDelete_cases:
  assumes L: "finalizers_documented (env_lib E)"
    and run: "cpr_reconcileDelete E sc s = (res, t)"
  obtains (kept) "obj t = obj s" "res \<noteq> Ret Result0"
  | (removed) w z S u v where
      "k_ListManagedMachinePools (env_kube E) (om_Namespace (cl_Meta (scp_Cluster sc)))
         (om_Name (cl_Meta (scp_Cluster sc))) (world s) = (Ret [], w)"
      "NewService E sc [] z = (Ret S, u)" "calls z = calls s @ [CallRead ''CCEManagedMachinePoolList'']"
      "sv_scope S = sc" "obj u = obj s" "DeleteControlPlane E S u = (Ret (), v)" "calls t = calls v"
      "obj t = set_cp_Finalizers (filter (\<lambda>f. f \<noteq> ManagedControlPlaneFinalizer) (cp_Finalizers (obj s))) (obj s)"
      "res = Ret Result0" "dependencyCount E sc s = (Ret 0, z)"
proof -
  obtain listed w where list: "k_ListManagedMachinePools (env_kube E) (om_Namespace (cl_Meta (scp_Cluster sc)))
      (om_Name (cl_Meta (scp_Cluster sc))) (world s) = (listed, w)" by fastforce
  let ?s = "s\<lparr>world := w, calls := calls s @ [CallRead ''CCEManagedMachinePoolList'']\<rparr>"
  let ?msg = "''error deleting CCE cluster for CCE control plane '' @ object_path (cp_Meta (obj s))"
  show thesis
  proof (cases "listed = Ret []")
    case False
    with run list show thesis
      by (cases listed)
        (auto simp: cpr_reconcileDelete_def dependencyCount_run go_simps deleteRequeueAfter_def Result0_def Second_def
           neq_Nil_conv intro!: kept)
  next
    case True
    with list have dep: "dependencyCount E sc s = (Ret 0, ?s)"
      by (simp add: dependencyCount_run)
    have dep': "andThen (dependencyCount E sc) f s = f 0 ?s" for f :: "int \<Rightarrow> ((CCEManagedControlPlane, 'a) st, ctrl_Result) go"
      by (rule andThen_run) (rule dep)
    from run have rest: "andThen (wrapErr ?msg (NewService E sc [])) (\<lambda>ccesvc.
         andThen (DeleteControlPlane E ccesvc) (\<lambda>_. andThen DeleteNetwork (\<lambda>_.
         andThen (upd_obj (\<lambda>cp. set_cp_Finalizers
                    (lib_RemoveFinalizer (env_lib E) ManagedControlPlaneFinalizer (cp_Finalizers cp)) cp)) (\<lambda>_.
           ret Result0)))) ?s = (res, t)"
      by (simp add: cpr_reconcileDelete_def dep' andThen_run[OF get_obj_apply])
    obtain q u where q: "wrapErr ?msg (NewService E sc []) ?s = (q, u)" by fastforce
    have ou: "obj u = obj s"
      using steps_inD[OF keeps.in_wrapErr[OF keeps_NewService[where f = id]] q] by (simp add: keeps_def)
    note after = andThen_outcome[OF rest q]
    show thesis
    proof (cases q)
      case (Ret S)
      obtain q' v where q': "DeleteControlPlane E S u = (q', v)" by fastforce
      have ov: "obj v = obj s"
        using steps_inD[OF keeps_DeleteControlPlane[where f = id] q'] ou by (simp add: keeps_def)
      have sc: "sv_scope S = sc"
        using q Ret by (auto simp: NewService_def Let_def go_simps split: prod.splits outcome.splits option.splits)
      from after Ret have "andThen (DeleteControlPlane E S) (\<lambda>_. andThen DeleteNetwork (\<lambda>_.
         andThen (upd_obj (\<lambda>cp. set_cp_Finalizers
                    (lib_RemoveFinalizer (env_lib E) ManagedControlPlaneFinalizer (cp_Finalizers cp)) cp)) (\<lambda>_.
           ret Result0))) u = (res, t)"
        by simp
      note after' = andThen_outcome[OF this q']
      show thesis
      proof (cases q')
        case (Ret y)
        with after' have "res = Ret Result0" "t = v\<lparr>obj := set_cp_Finalizers
            (filter (\<lambda>f. f \<noteq> ManagedControlPlaneFinalizer) (cp_Finalizers (obj v))) (obj v)\<rparr>"
          by (simp_all add: run_simps andThen_run[OF upd_obj_apply] DeleteNetwork_def finalizers_documentedD[OF L])
        moreover have "NewService E sc [] ?s = (Ret S, u)" "DeleteControlPlane E S u = (Ret (), v)"
          using q \<open>q = Ret S\<close> q' Ret by simp_all
        ultimately show thesis using list True ou ov sc dep by (intro removed[of w ?s S u v]) simp_all
      qed (use after' ov in \<open>auto intro!: kept\<close>)
    qed (use after ou in \<open>auto intro!: kept\<close>)
  qed
qed

text \<open>
  C9. A deletion removes the finalizer only when its work is done: it changes the object at all only
  if it succeeds with nothing to requeue, which requires that no machine pool of the cluster was
  listed and that the deletion of the cluster succeeded; then exactly the finalizer is gone. With a
  machine pool left, it asks to be called again in twenty seconds and issues no further call.
\<close>

theorem finalizer_removed_last:
  assumes L: "finalizers_documented (env_lib E)"
    and run: "cpr_reconcileDelete E sc s = (res, t)"
    and list: "k_ListManagedMachinePools (env_kube E) (om_Namespace (cl_Meta (scp_Cluster sc)))
                 (om_Name (cl_Meta (scp_Cluster sc))) (world s) = (listed, w)"
  shows "(obj t = obj s \<and> res \<noteq> Ret Result0 \<or>
      (res = Ret Result0 \<and> listed = Ret [] \<and>
       obj t = set_cp_Finalizers (filter (\<lambda>f. f \<noteq> ManagedControlPlaneFinalizer) (cp_Finalizers (obj s))) (obj s) \<and>
       (\<exists>S u v. DeleteControlPlane E S u = (Ret (), v) \<and> sv_scope S = sc \<and> obj u = obj s \<and> calls t = calls v))) \<and>
    (\<forall>p ps. listed = Ret (p # ps) \<longrightarrow>
       res = Ret \<lparr>Requeue = False, RequeueAfter = 20 * Second\<rparr> \<and> obj t = obj s \<and>
       new_calls s t = [CallRead ''CCEManagedMachinePoolList''])"
  using L run
proof (cases rule: reconcileDelete_cases)
  case kept
  with run list show ?thesis
    by (auto simp: cpr_reconcileDelete_def dependencyCount_run go_simps deleteRequeueAfter_def Second_def)
next
  case (removed w' z S u v)
  with list show ?thesis by auto
qed

definition demo_deleted :: CCEManagedControlPlane where
  "demo_deleted = demo_cp\<lparr>cp_Meta := demo_meta\<lparr>om_Finalizers := [''other'', ManagedControlPlaneFinalizer],
                                               om_DeletionTimestamp := Some 7\<rparr>\<rparr>"

lemma finalizer_removed_last_witness:
  "cp_Finalizers (obj (snd (cpr_reconcileDelete demo_env demo_scope (start demo_deleted)))) = [''other'']"
proof -
  have "fst (cpr_reconcileDelete demo_env demo_scope (start demo_deleted)) = Ret Result0"
    by code_simp
  then obtain t where t: "cpr_reconcileDelete demo_env demo_scope (start demo_deleted) = (Ret Result0, t)"
    by (rule ended)
  have L: "finalizers_documented (env_lib demo_env)"
    by (simp add: demo_env_def demo_finalizers)
  have l: "k_ListManagedMachinePools (env_kube demo_env) (om_Namespace (cl_Meta (scp_Cluster demo_scope)))
      (om_Name (cl_Meta (scp_Cluster demo_scope))) (world (start demo_deleted)) = (Ret [], 0)"
    by (simp add: demo_env_def demo_kube_def go_simps start_def)
  from finalizer_removed_last[OF L t l] have "cp_Finalizers (obj t)
      = filter (\<lambda>f. f \<noteq> ManagedControlPlaneFinalizer) (cp_Finalizers (obj (start demo_deleted)))"
    by auto
  with t show ?thesis
    by (simp add: start_def demo_deleted_def cp_Finalizers_def ManagedControlPlaneFinalizer_def)
qed

section \<open>A whole reconcile\<close>

definition cpr_body ::
  "'w env \<Rightarrow> CCEManagedControlPlaneReconciler \<Rightarrow> CCEManagedControlPlane \<Rightarrow> ManagedControlPlaneScope \<Rightarrow>
   ((CCEManagedControlPlane, 'w) st, ctrl_Result) go" where
  "cpr_body E r cp sc =
     (if \<not> Time_IsZero (om_DeletionTimestamp (cp_Meta cp)) then cpr_reconcileDelete E sc
      else cpr_reconcileNormal E r sc)"

lemma grows_body: "steps_in (issues (\<lambda>_. True)) (cpr_body E r cp sc)"
  unfolding cpr_body_def cpr_reconcileNormal_split cpr_reconcileDelete_def dependencyCount_def DeleteControlPlane_def
    deleteCluster_def deleteClusterAndWait_def waitForClusterDeleted_def cluster_deleted_poll_def DeleteNetwork_def Let_def
  by (intro issues_rules issues_NewService cp_ensure_calls grows_provision issues_waitUntil issues_showCCECluster
      issues_deref_phase) simp_all

text \<open>A reconcile only reads, or it reads and then runs its body between the scope and its close.\<close>

text \<open>
  The reads a reconcile of a control plane starts with, up to the scope its body works in.
\<close>

definition cpr_opening ::
  "'w env \<Rightarrow> NamespacedName \<Rightarrow> ((CCEManagedControlPlane, 'w) st, ManagedControlPlaneScope) go" where
  "cpr_opening E req =
     andThen (ext (CallRead ''CCEManagedControlPlane'') (k_GetControlPlane (env_kube E) req)) (\<lambda>cp.
     andThen (upd_obj (\<lambda>_. cp)) (\<lambda>_.
     andThen (ext (CallRead ''Cluster'') (k_GetOwnerCluster (env_kube E) (cp_Meta cp))) (\<lambda>owner.
     andThen (deref owner) (\<lambda>cluster.
       from_sum (NewManagedControlPlaneScope (env_lib E)
         \<lparr>cpp_Cluster = Some cluster, cpp_ControlPlane = Some cp,
          cpp_ControllerName = ''ccemanagedcontrolplane''\<rparr>)))))"

lemma cpr_Reconcile_cases:
  assumes "cpr_Reconcile E r req s = (res, t)"
  obtains (idle) "issues read_call s t" "\<And>cp w. k_GetControlPlane (env_kube E) req (world s) = (Ret cp, w) \<Longrightarrow> obj t = cp"
  | (body) cp w sc u where "k_GetControlPlane (env_kube E) req (world s) = (Ret cp, w)"
      "scp_patchHelper sc = cp" "issues read_call s u" "obj u = cp"
      "k_GetOwnerCluster (env_kube E) (cp_Meta cp) w = (Ret (Some (scp_Cluster sc)), world u)"
      "with_close (scp_Close E sc) (cpr_body E r cp sc) u = (res, t)"
      "cpr_opening E req s = (Ret sc, u)"
proof -
  obtain got w where got: "k_GetControlPlane (env_kube E) req (world s) = (got, w)" by fastforce
  show thesis
  proof (cases got)
    case (Ret cp)
    let ?u = "s\<lparr>obj := cp, world := w, calls := calls s @ [CallRead ''CCEManagedControlPlane'']\<rparr>"
    obtain own v where own: "k_GetOwnerCluster (env_kube E) (cp_Meta cp) w = (own, v)" by fastforce
    let ?v = "?u\<lparr>world := v, calls := calls ?u @ [CallRead ''Cluster'']\<rparr>"
    have read: "issues read_call s ?v" "obj ?v = cp"
      by (simp_all add: issues_def)
    show thesis
    proof (cases "\<exists>cluster sc. own = Ret (Some cluster) \<and> \<not> lib_IsPaused (env_lib E) cluster (cp_Meta cp) \<and>
        NewManagedControlPlaneScope (env_lib E)
          \<lparr>cpp_Cluster = Some cluster, cpp_ControlPlane = Some cp,
           cpp_ControllerName = ''ccemanagedcontrolplane''\<rparr> = Inr sc")
      case True
      then obtain cluster sc where o: "own = Ret (Some cluster)" "\<not> lib_IsPaused (env_lib E) cluster (cp_Meta cp)"
        and sc: "NewManagedControlPlaneScope (env_lib E)
          \<lparr>cpp_Cluster = Some cluster, cpp_ControlPlane = Some cp,
           cpp_ControllerName = ''ccemanagedcontrolplane''\<rparr> = Inr sc"
        by blast
      have "scp_patchHelper sc = cp" "scp_Cluster sc = cluster"
        using sc by (auto simp: NewManagedControlPlaneScope_def split: option.splits)
      moreover have "with_close (scp_Close E sc) (cpr_body E r cp sc) ?v = (res, t)"
        using assms got Ret own o sc by (simp add: cpr_Reconcile_def cpr_body_def go_simps)
      moreover have "cpr_opening E req s = (Ret sc, ?v)"
        using got Ret own o(1) sc by (simp add: cpr_opening_def go_simps)
      ultimately show thesis using body[of cp w sc ?v] got Ret read own o(1) by simp
    next
      case False
      have "t = ?v"
        using assms got Ret own False
        by (auto simp: cpr_Reconcile_def go_simps split: outcome.splits option.splits if_splits sum.splits)
      with read got Ret show thesis by (intro idle) auto
    qed
  qed (use assms got in \<open>auto simp: cpr_Reconcile_def go_simps issues_def intro!: idle split: if_splits\<close>)
qed

text \<open>
  C10. A reconcile of the control plane either only reads, or its very last call is a patch of the
  object as it then is, computed against the object as it was read; this holds on every path,
  panics included, and a reconcile that reports no error has had that patch accepted.
\<close>

theorem reconcile_persists:
  assumes "cpr_Reconcile E r req s = (res, t)"
  shows "list_all read_call (new_calls s t) \<or>
    (\<exists>cp w v p. k_GetControlPlane (env_kube E) req (world s) = (Ret cp, w) \<and>
       new_calls s t \<noteq> [] \<and> last (new_calls s t) = CallPatchControlPlane (obj t) \<and>
       k_PatchControlPlane (env_kube E) cp scp_ownedConditions (obj t) v = (p, world t) \<and>
       (\<forall>x. res = Ret (x, None) \<longrightarrow> p = Ret ()))"
  using assms
proof (cases rule: cpr_Reconcile_cases)
  case idle
  then show ?thesis by (simp add: issues_new_calls)
next
  case (body cp w sc u)
  obtain q m where m: "cpr_body E r cp sc u = (q, m)" by fastforce
  from steps_inD[OF grows_body m] body(3) obtain cs where cs: "calls m = calls s @ cs"
    by (auto simp: issues_def)
  obtain p z where p: "k_PatchControlPlane (env_kube E) cp scp_ownedConditions (obj m) (world m) = (p, z)"
    by fastforce
  from body(6) m p body(2) have t: "t = m\<lparr>world := z, calls := calls m @ [CallPatchControlPlane (obj m)]\<rparr>"
    by (auto simp: with_close_def scp_Close_def scp_PatchObject_apply split: outcome.splits)
  have "\<forall>x. res = Ret (x, None) \<longrightarrow> p = Ret ()"
    using body(6) m p body(2)
    by (auto simp: with_close_def scp_Close_def scp_PatchObject_apply split: outcome.splits)
  moreover have "new_calls s t = cs @ [CallPatchControlPlane (obj m)]"
    using t cs by (intro new_calls_append) simp
  ultimately show ?thesis
    using body(1) p t by auto
qed

lemma reconcile_persists_witness:
  "last (new_calls (start demo_cp) (snd (cpr_Reconcile no_vpc_env demo_reconciler
       \<lparr>nn_Namespace = ''ns'', nn_Name = ''dev''\<rparr> (start demo_cp))))
   = CallPatchControlPlane (obj (snd (cpr_Reconcile no_vpc_env demo_reconciler
       \<lparr>nn_Namespace = ''ns'', nn_Name = ''dev''\<rparr> (start demo_cp))))"
proof -
  have "\<not> list_all read_call (new_calls (start demo_cp) (snd (cpr_Reconcile no_vpc_env demo_reconciler
       \<lparr>nn_Namespace = ''ns'', nn_Name = ''dev''\<rparr> (start demo_cp))))"
    by code_simp
  then show ?thesis
    using reconcile_persists[OF surjective_pairing] by blast
qed

section \<open>What is created and what is deleted\<close>

definition cloud_deletion :: "call \<Rightarrow> bool" where
  "cloud_deletion c \<longleftrightarrow> (case c of CallDeleteCluster _ \<Rightarrow> True | CallDeleteNodePool _ _ \<Rightarrow> True | _ \<Rightarrow> False)"

lemma cloud_deletion_simps [simp]:
  "cloud_deletion (CallDeleteCluster i)" "cloud_deletion (CallDeleteNodePool i j)"
  "\<not> cloud_deletion (CallPatchControlPlane p)" "\<not> cloud_deletion (CallRead x)"
  "\<not> cloud_deletion (CallShowCluster i)" "\<not> cloud_deletion (CallCreateCluster q)"
  "\<not> cloud_deletion (CallSleep d)"
  by (simp_all add: cloud_deletion_def)

lemma read_call_harmless: "read_call c \<Longrightarrow> \<not> cloud_creation c \<and> \<not> cloud_deletion c"
  by (auto simp: read_call_def split: call.splits)

lemma no_deletion:
  "network_call c \<Longrightarrow> \<not> cloud_deletion c" "eip_call c \<Longrightarrow> \<not> cloud_deletion c"
  "kubeconfig_call c \<Longrightarrow> \<not> cloud_deletion c" "status_call c \<Longrightarrow> \<not> cloud_deletion c"
  by (auto simp: network_call_def eip_call_def kubeconfig_call_def status_call_def cloud_deletion_def
      split: call.splits)

lemma no_deletion':
  "access_call c \<Longrightarrow> \<not> cloud_deletion c" "sleep_or_status c \<Longrightarrow> \<not> cloud_deletion c"
  by (auto simp: access_call_def sleep_or_status_def dest: no_deletion)

lemma normal_deletes_nothing: "steps_in (issues (\<lambda>c. \<not> cloud_deletion c)) (cpr_reconcileNormal E r sc)"
proof -
  have st: "steps_in (issues (\<lambda>c. \<not> cloud_deletion c)) (cp_setStatus E S x)" for S x
    by (rule issues_mono[OF issues_cp_setStatus]) (rule no_deletion)
  have w: "steps_in (issues (\<lambda>c. \<not> cloud_deletion c)) (waitForClusterActive E S)" for S
    by (rule issues_mono[OF issues_waitForClusterActive]) (rule no_deletion')
  have a: "steps_in (issues (\<lambda>c. \<not> cloud_deletion c)) (provide_access E S x)" for S x
    by (rule issues_mono[OF issues_provide_access]) (rule no_deletion')
  have n: "steps_in (issues (\<lambda>c. \<not> cloud_deletion c)) (ReconcileNetwork E S)" for S
    by (rule issues_mono[OF issues_ReconcileNetwork]) (rule no_deletion)
  show ?thesis
    unfolding cpr_reconcileNormal_split cpr_provision_def ReconcileControlPlane_def reconcileCluster_def
      find_or_create_def settle_cluster_def
    by (intro issues_rules cp_ensure_calls issues_NewService issues_showCCECluster issues_createCluster
        issues_deref_phase st w a n) simp_all
qed

lemma delete_creates_nothing: "steps_in (issues (\<lambda>c. \<not> cloud_creation c)) (cpr_reconcileDelete E sc)"
  unfolding cpr_reconcileDelete_def dependencyCount_def DeleteControlPlane_def deleteCluster_def
    deleteClusterAndWait_def waitForClusterDeleted_def cluster_deleted_poll_def DeleteNetwork_def Let_def
  by (intro issues_rules issues_NewService issues_waitUntil issues_showCCECluster issues_deref_phase) simp_all

lemma DeleteControlPlane_target:
  assumes "DeleteControlPlane E S s = (r, t)"
  shows "issues (\<lambda>c. cloud_deletion c \<longrightarrow> c = CallDeleteCluster (scp_InfraClusterID (obj s))) s t"
proof -
  let ?rest = "\<lambda>i. if i = [] then ret () else
       andThen (wrapErr ''unable to show CCE cluster'' (showCCECluster S i)) (\<lambda>cluster.
         case cluster of None \<Rightarrow> ret ()
         | Some c \<Rightarrow> wrapErr ''unable to delete CCE cluster'' (deleteClusterAndWait E S i))"
  have "steps_in (issues (\<lambda>c. cloud_deletion c \<longrightarrow> c = CallDeleteCluster i)) (?rest i)" for i
    unfolding deleteClusterAndWait_def waitForClusterDeleted_def cluster_deleted_poll_def
    by (intro issues_rules issues_waitUntil issues_showCCECluster issues_deref_phase) simp_all
  moreover have "?rest (scp_InfraClusterID (obj s)) s = (r, t)"
    using assms by (simp add: DeleteControlPlane_def deleteCluster_def andThen_run[OF gets_apply])
  ultimately show ?thesis by (rule steps_inD)
qed

lemma with_scope_closed:
  assumes "with_close (scp_Close E sc) b u = (res, t)" and "b u = (q, m)"
  shows "calls t = calls m @ [CallPatchControlPlane (obj m)]" "obj t = obj m"
  using assms by (auto simp: with_close_def scp_Close_def scp_PatchObject_apply split: prod.splits outcome.splits)

lemma deletion_target:
  assumes run: "cpr_reconcileDelete E sc s = (res, t)"
    and c: "c \<in> set (new_calls s t)" "cloud_deletion c"
  shows "c = CallDeleteCluster (scp_InfraClusterID (obj s)) \<and>
    (\<exists>v. k_ListManagedMachinePools (env_kube E) (om_Namespace (cl_Meta (scp_Cluster sc)))
           (om_Name (cl_Meta (scp_Cluster sc))) (world s) = (Ret [], v))"
proof -
  let ?fin = "andThen DeleteNetwork (\<lambda>_. andThen (upd_obj (\<lambda>cp. set_cp_Finalizers
                (lib_RemoveFinalizer (env_lib E) ManagedControlPlaneFinalizer (cp_Finalizers cp)) cp)) (\<lambda>_. ret Result0))"
  let ?del = "\<lambda>S. andThen (DeleteControlPlane E S) (\<lambda>_. ?fin)"
  let ?new = "\<lambda>cp. andThen (wrapErr (''error deleting CCE cluster for CCE control plane '' @ object_path (cp_Meta cp))
                (NewService E sc [])) ?del"
  let ?rest = "\<lambda>n. if n > 0 then ret \<lparr>Requeue = False, RequeueAfter = deleteRequeueAfter\<rparr> else andThen get_obj ?new"
  have fin: "steps_in (issues (\<lambda>_. True)) ?fin"
    unfolding DeleteNetwork_def by (intro issues_rules)
  have del: "steps_in (issues (\<lambda>_. True)) (?del S)" for S
    unfolding DeleteControlPlane_def deleteCluster_def deleteClusterAndWait_def waitForClusterDeleted_def
      cluster_deleted_poll_def
    by (intro issues_rules fin issues_waitUntil issues_showCCECluster issues_deref_phase) simp_all
  have new: "steps_in (issues (\<lambda>_. True)) (?new cp)" for cp
    by (intro issues_rules issues_NewService del) simp
  have rest: "steps_in (issues (\<lambda>_. True)) (?rest n)" for n
    by (intro issues_rules new)
  have dep: "steps_in (issues (\<lambda>c. \<not> cloud_deletion c)) (dependencyCount E sc)"
    unfolding dependencyCount_def Let_def by (intro issues_rules) simp
  have svc: "steps_in (issues (\<lambda>c. \<not> cloud_deletion c)) (wrapErr msg (NewService E sc []))" for msg
    by (intro issues.in_wrapErr issues_NewService) simp
  have "andThen (dependencyCount E sc) ?rest s = (res, t)"
    using run by (simp add: cpr_reconcileDelete_def)
  then obtain n u where u: "dependencyCount E sc s = (Ret n, u)" "?rest n u = (res, t)" "c \<in> set (new_calls u t)"
    by (rule late_call[OF _ c(2) c(1) dep rest])
  then have n: "n \<le> 0"
    by (cases "n > 0") (auto simp: ret_apply)
  with u have "?new (obj u) u = (res, t)"
    by (simp add: andThen_run[OF get_obj_apply])
  then obtain S v where v: "wrapErr (''error deleting CCE cluster for CCE control plane '' @ object_path (cp_Meta (obj u)))
      (NewService E sc []) u = (Ret S, v)" "?del S v = (res, t)" "c \<in> set (new_calls v t)"
    by (rule late_call[OF _ c(2) u(3) svc del])
  obtain q w where w: "DeleteControlPlane E S v = (q, w)" by fastforce
  have "calls t = calls w"
    using andThen_outcome[OF v(2) w] by (cases q) (auto simp: DeleteNetwork_def run_simps andThen_run[OF upd_obj_apply])
  with v(3) have "c \<in> set (new_calls v w)"
    by (simp add: new_calls_def)
  then have "c = CallDeleteCluster (scp_InfraClusterID (obj v))"
    using issues_new_calls[OF DeleteControlPlane_target[OF w]] c(2) by (auto simp: list_all_iff)
  moreover have "obj u = obj s" "world u = world u \<and> (\<exists>z. k_ListManagedMachinePools (env_kube E)
      (om_Namespace (cl_Meta (scp_Cluster sc))) (om_Name (cl_Meta (scp_Cluster sc))) (world s) = (Ret [], z))"
    using u(1) n by (auto simp: dependencyCount_run split: prod.splits outcome.splits)
  moreover have "obj v = obj u"
    using steps_inD[OF keeps.in_wrapErr[OF keeps_NewService[where f = id]] v(1)] by (simp add: keeps_def)
  ultimately show ?thesis by simp
qed

text \<open>
  C8. Creation and deletion never meet: a reconcile creates something in the cloud only for an
  object that is not being deleted, and deletes only for one that is. What it deletes is the
  cluster whose ID the object's label names, after a listing that showed no machine pool of the
  owning cluster.
\<close>

theorem creation_and_deletion_apart:
  assumes run: "cpr_Reconcile E r req s = (res, t)"
    and get: "k_GetControlPlane (env_kube E) req (world s) = (Ret cp, w)"
    and c: "c \<in> set (new_calls s t)"
  shows "(cloud_creation c \<longrightarrow> Time_IsZero (om_DeletionTimestamp (cp_Meta cp))) \<and>
    (cloud_deletion c \<longrightarrow> \<not> Time_IsZero (om_DeletionTimestamp (cp_Meta cp)) \<and>
       c = CallDeleteCluster (scp_InfraClusterID cp) \<and>
       (\<exists>cluster u v. k_GetOwnerCluster (env_kube E) (cp_Meta cp) w = (Ret (Some cluster), u) \<and>
          k_ListManagedMachinePools (env_kube E) (om_Namespace (cl_Meta cluster)) (om_Name (cl_Meta cluster)) u
            = (Ret [], v)))"
  using run
proof (cases rule: cpr_Reconcile_cases)
  case idle
  then have "read_call c"
    using c issues_new_calls[OF idle(1)] by (simp add: list_all_iff)
  then show ?thesis by (simp add: read_call_harmless)
next
  case (body cp' w' sc u)
  have cp: "cp' = cp" "w' = w" using body(1) get by simp_all
  obtain q m where m: "cpr_body E r cp sc u = (q, m)" by fastforce
  have t: "calls t = calls m @ [CallPatchControlPlane (obj m)]"
    using with_scope_closed(1)[OF body(6)] m cp by simp
  have um: "issues (\<lambda>_. True) u m"
    by (rule steps_inD[OF grows_body m])
  from body(3) um t have "new_calls s t = new_calls s u @ new_calls u m @ [CallPatchControlPlane (obj m)]"
    by (auto simp: issues_def new_calls_def)
  with c issues_new_calls[OF body(3)] have "c \<in> set (new_calls u m) \<or> \<not> cloud_creation c \<and> \<not> cloud_deletion c"
    by (auto simp: list_all_iff dest: read_call_harmless)
  then show ?thesis
  proof
    assume cm: "c \<in> set (new_calls u m)"
    show ?thesis
    proof (cases "Time_IsZero (om_DeletionTimestamp (cp_Meta cp))")
      case True
      with m cp have "cpr_reconcileNormal E r sc u = (q, m)"
        by (simp add: cpr_body_def)
      from issues_new_calls[OF steps_inD[OF normal_deletes_nothing this]] cm True show ?thesis
        by (auto simp: list_all_iff)
    next
      case False
      with m cp have del: "cpr_reconcileDelete E sc u = (q, m)"
        by (simp add: cpr_body_def)
      have "\<not> cloud_creation c"
        using issues_new_calls[OF steps_inD[OF delete_creates_nothing del]] cm by (auto simp: list_all_iff)
      with deletion_target[OF del cm] False body cp show ?thesis by auto
    qed
  qed auto
qed

definition deleted_env :: "nat env" where
  "deleted_env = demo_env\<lparr>env_kube := demo_kube\<lparr>k_GetControlPlane :=
     (\<lambda>_. ret (scp_SetInfraClusterID ''cce-1'' demo_deleted))\<rparr>,
     env_NewCceClient := (\<lambda>_ _. Ret (demo_cce\<lparr>DeleteCluster := (\<lambda>_. fail (ErrorString ''denied''))\<rparr>))\<rparr>"

lemma creation_and_deletion_apart_witness:
  "list_ex (\<lambda>c. c = CallDeleteCluster ''cce-1'')
     (new_calls (start demo_cp) (snd (cpr_Reconcile deleted_env demo_reconciler
        \<lparr>nn_Namespace = ''ns'', nn_Name = ''dev''\<rparr> (start demo_cp))))"
proof -
  let ?nn = "\<lparr>nn_Namespace = ''ns'', nn_Name = ''dev''\<rparr>"
  let ?run = "cpr_Reconcile deleted_env demo_reconciler ?nn (start demo_cp)"
  have "list_ex cloud_deletion (new_calls (start demo_cp) (snd ?run))"
    by code_simp
  then obtain c where c: "c \<in> set (new_calls (start demo_cp) (snd ?run))" "cloud_deletion c"
    by (auto simp: list_ex_iff)
  have g: "k_GetControlPlane (env_kube deleted_env) ?nn (world (start demo_cp))
      = (Ret (scp_SetInfraClusterID ''cce-1'' demo_deleted), 0)"
    by (simp add: deleted_env_def go_simps start_def)
  from creation_and_deletion_apart[OF surjective_pairing g c(1)] c(2) have "c = CallDeleteCluster ''cce-1''"
    by (simp add: cluster_id.getID_setID)
  with c(1) show ?thesis by (auto simp: list_ex_iff)
qed

end
