(* ===== verification/Pool_Controller_Props.thy ===== *)
theory Pool_Controller_Props
  imports Controller_Props
begin

text \<open>
  Properties of the machine pool controller, the managed cluster controller and the functions that
  map a changed object to the requests it causes.
\<close>

section \<open>What the pool service leaves alone\<close>

lemma in_with_deletion_report:
  assumes R: "frame R" and body: "steps_in R body"
    and mark: "\<And>reason err. steps_in R (smp_NodepoolReadyFalse E sc reason err)"
  shows "steps_in R (with_deletion_report E sc body)"
proof (rule steps_inI)
  fix s r t assume run: "with_deletion_report E sc body s = (r, t)"
  obtain q u where q: "body s = (q, u)" by fastforce
  have "\<exists>reason err. t = snd (smp_NodepoolReadyFalse E sc reason err u)"
    using run q
    by (cases q) (auto simp: with_deletion_report_def go_simps split: prod.splits outcome.splits; metis snd_conv)+
  with mark have "R u t" by (auto simp: steps_in_def)
  with steps_inD[OF body q] show "R s t" by (rule frame.frame_trans[OF R])
qed

lemma keeps_collect: "steps_in (keeps f) (collect_provider_ids i nodes)"
  by (induction nodes) (auto intro!: keeps_rules)

text \<open>
  A part of the machine pool object that none of the writes of the service touches except the ID label:
  conditions, status fields and the recorded nodes leave it alone.
\<close>

locale pool_part =
  fixes f :: "CCEManagedMachinePool \<Rightarrow> 'p"
  assumes f_marks: "f (mp_MarkTrue L t mp) = f mp" "f (mp_MarkFalse L t r v m mp) = f mp"
      "f (mp_SetSummary L ts mp) = f mp"
    and f_writes: "f (set_mp_Ready b mp) = f mp" "f (set_mp_FailureMessage x mp) = f mp"
      "f (set_nodes ids n mp) = f mp"
begin

lemmas f_simps = f_marks f_writes

lemma f_phase: "f (mirror_phase en ph mp) = f mp"
  by (simp add: mirror_phase_def f_simps)

lemma NodepoolReadyFalse_keeps: "steps_in (keeps f) (smp_NodepoolReadyFalse E sc reason err)"
  unfolding smp_NodepoolReadyFalse_def smp_PatchObject_def Let_def by (intro keeps_rules) (simp_all add: f_simps)

lemma setStatus_keeps: "steps_in (keeps f) (mp_setStatus E S np)"
  unfolding mp_setStatus_def record_nodes_def smp_PatchObject_def Let_def
  by (intro keeps_rules keeps_collect) (simp_all add: f_simps f_phase)

lemma waitForNodepoolActive_keeps: "steps_in (keeps f) (waitForNodepoolActive E S)"
  unfolding waitForNodepoolActive_def nodepool_active_poll_def
  by (intro keeps_rules keeps_waitUntil keeps_showNodepool keeps_pool_phase setStatus_keeps)

lemma ReconcilePoolDelete_keeps: "steps_in (keeps f) (ReconcilePoolDelete E S)"
  unfolding ReconcilePoolDelete_def deleteNodepoolAndWait_def delete_nodepool_body_def waitForNodepoolDeleted_def Let_def
  by (intro keeps_rules in_with_deletion_report[OF keeps.frame_axioms] keeps_waitUntil keeps_showNodepool
      keeps_nodepool_deleted_poll NodepoolReadyFalse_keeps)

end

locale pool_unlabelled_part = pool_part f
  for f :: "CCEManagedMachinePool \<Rightarrow> 'p" +
  assumes f_label: "f (smp_SetInfraMachinePoolID i mp) = f mp"
begin

lemma ReconcilePool_keeps: "steps_in (keeps f) (ReconcilePool E S)"
  unfolding ReconcilePool_def reconcileNodepool_def createNodepool_def Let_def
  by (intro keeps_rules keeps_showNodepool keeps_pool_phase keeps_response_pool setStatus_keeps
      waitForNodepoolActive_keeps) (simp_all add: f_simps f_label)

end

interpretation mp_fins: pool_unlabelled_part mp_Finalizers
  by unfold_locales (simp_all add: mp_Finalizers_def pool_id.setID_identity)

interpretation mp_label: pool_part smp_InfraMachinePoolID
  by unfold_locales (simp_all add: smp_InfraMachinePoolID_def)

lemmas keeps_ReconcilePool = mp_fins.ReconcilePool_keeps
lemmas keeps_ReconcilePoolDelete = mp_fins.ReconcilePoolDelete_keeps

lemma grows_ReconcilePool: "steps_in (issues (\<lambda>_. True)) (ReconcilePool E S)"
  unfolding ReconcilePool_def reconcileNodepool_def createNodepool_def Let_def
  by (intro issues_rules issues_showNodepool issues_pool_phase issues_response_pool
      growsI[OF issues_mp_setStatus] growsI[OF issues_waitForNodepoolActive]) simp_all

section \<open>Finalizer of a machine pool\<close>

definition mpr_provision ::
  "'w env \<Rightarrow> ManagedMachinePoolScope \<Rightarrow> ((CCEManagedMachinePool, 'w) st, ctrl_Result) go" where
  "mpr_provision E sc =
     andThen get_obj (\<lambda>mp.
     andThen (wrapErr (''failed to init cce service for CCEManagedMachinePool '' @ object_path (mp_Meta mp))
               (NewNodepoolService E sc)) (\<lambda>ccesvc.
     andThen (wrapErr (''failed to reconcile machine pool for CCEManagedMachinePool ''
                        @ object_path (mp_Meta mp))
               (ReconcilePool E ccesvc)) (\<lambda>_.
       ret Result0)))"

lemma mpr_reconcileNormal_split:
  "mpr_reconcileNormal E sc =
     andThen (ensure_finalizer (env_lib E) ManagedMachinePoolFinalizer mp_Finalizers set_mp_Finalizers
                (smp_PatchObject E sc)) (\<lambda>_. mpr_provision E sc)"
  unfolding mpr_reconcileNormal_def mpr_provision_def by (rule refl)

lemma grows_mpr_provision: "steps_in (issues (\<lambda>_. True)) (mpr_provision E sc)"
  unfolding mpr_provision_def by (intro issues_rules issues_NewNodepoolService grows_ReconcilePool) simp

lemma keeps_mpr_provision: "steps_in (keeps mp_Finalizers) (mpr_provision E sc)"
  unfolding mpr_provision_def by (intro keeps_rules keeps_NewNodepoolService keeps_ReconcilePool)

text \<open>
  C18. No node pool is created for an object without the finalizer, and a deletion takes the
  finalizer off only when the deletion of the node pool has succeeded; a deletion that fails or
  panics keeps all finalizers.
\<close>

theorem pool_finalizer_guards:
  assumes L: "finalizers_documented (env_lib E)"
    and up: "mpr_reconcileNormal E sc s = (res, t)" "c \<in> set (new_calls s t)" "cloud_creation c"
    and down: "mpr_reconcileDelete E sc s' = (res', t')"
  shows "ManagedMachinePoolFinalizer \<in> set (mp_Finalizers (obj t)) \<and>
    (ManagedMachinePoolFinalizer \<in> set (mp_Finalizers (obj s)) \<or>
     (\<exists>mp. ManagedMachinePoolFinalizer \<in> set (mp_Finalizers mp) \<and>
        hd (new_calls s t) = CallPatchMachinePool mp \<and>
        fst (smp_PatchObject E sc (s\<lparr>obj := mp\<rparr>)) = Ret ())) \<and>
    (mp_Finalizers (obj t') = mp_Finalizers (obj s') \<and> res' \<noteq> Ret Result0 \<or>
     res' = Ret Result0 \<and>
     mp_Finalizers (obj t') = filter (\<lambda>f. f \<noteq> ManagedMachinePoolFinalizer) (mp_Finalizers (obj s')) \<and>
     (\<exists>S u v. ReconcilePoolDelete E S u = (Ret (), v) \<and> nsv_scope S = sc \<and> obj u = obj s' \<and> calls t' = calls v))"
proof -
  let ?m1 = "''failed to init cce service for CCEManagedMachinePool '' @ object_path (mp_Meta (obj s'))"
  let ?m2 = "''failed to reconcile machine pool deletion for CCEManagedMachinePool '' @ object_path (mp_Meta (obj s'))"
  let ?fin = "andThen (upd_obj (\<lambda>mp. set_mp_Finalizers
                (lib_RemoveFinalizer (env_lib E) ManagedMachinePoolFinalizer (mp_Finalizers mp)) mp)) (\<lambda>_. ret Result0)"
  obtain q u where q: "wrapErr ?m1 (NewNodepoolService E sc) s' = (q, u)" by fastforce
  have rest: "andThen (wrapErr ?m1 (NewNodepoolService E sc)) (\<lambda>S. andThen (wrapErr ?m2 (ReconcilePoolDelete E S)) (\<lambda>_. ?fin)) s'
      = (res', t')"
    using down by (simp add: mpr_reconcileDelete_def andThen_run[OF get_obj_apply])
  have u: "obj u = obj s'"
    using steps_inD[OF keeps.in_wrapErr[OF keeps_NewNodepoolService[where f = id]] q] by (simp add: keeps_def)
  note after = andThen_outcome[OF rest q]
  have "mp_Finalizers (obj t') = mp_Finalizers (obj s') \<and> res' \<noteq> Ret Result0 \<or>
     res' = Ret Result0 \<and>
     mp_Finalizers (obj t') = filter (\<lambda>f. f \<noteq> ManagedMachinePoolFinalizer) (mp_Finalizers (obj s')) \<and>
     (\<exists>S u v. ReconcilePoolDelete E S u = (Ret (), v) \<and> nsv_scope S = sc \<and> obj u = obj s' \<and> calls t' = calls v)"
  proof (cases q)
    case (Ret S)
    have sc: "nsv_scope S = sc"
      using q Ret by (auto simp: NewNodepoolService_def Let_def go_simps split: prod.splits outcome.splits option.splits)
    obtain q' v where q': "wrapErr ?m2 (ReconcilePoolDelete E S) u = (q', v)" by fastforce
    have v: "mp_Finalizers (obj v) = mp_Finalizers (obj s')"
      using steps_inD[OF keeps.in_wrapErr[OF keeps_ReconcilePoolDelete] q'] u by (simp add: keeps_def)
    from after Ret have "andThen (wrapErr ?m2 (ReconcilePoolDelete E S)) (\<lambda>_. ?fin) u = (res', t')" by simp
    note after' = andThen_outcome[OF this q']
    show ?thesis
    proof (cases q')
      case (Ret y)
      with after' have "res' = Ret Result0" "t' = v\<lparr>obj := set_mp_Finalizers
          (filter (\<lambda>f. f \<noteq> ManagedMachinePoolFinalizer) (mp_Finalizers (obj v))) (obj v)\<rparr>"
        by (simp_all add: run_simps andThen_run[OF upd_obj_apply] finalizers_documentedD[OF L])
      moreover have "ReconcilePoolDelete E S u = (Ret (), v)"
        using q' Ret by simp
      ultimately show ?thesis using u v sc by auto
    qed (use after' v in auto)
  qed (use after u in auto)
  moreover have "andThen (ensure_finalizer (env_lib E) ManagedMachinePoolFinalizer mp_Finalizers set_mp_Finalizers
      (smp_PatchObject E sc)) (\<lambda>_. mpr_provision E sc) s = (res, t)"
    using up(1) by (simp add: mpr_reconcileNormal_split)
  note mp_patched.ensured_before_creation[OF L this grows_mpr_provision keeps_mpr_provision up(2,3)]
  ultimately show ?thesis by blast
qed

definition no_pool_env :: "nat env" where
  "no_pool_env = demo_env\<lparr>env_NewCceClient := (\<lambda>_ _. Ret (demo_cce
     \<lparr>ShowNodePool := (\<lambda>_ _. fail (ServiceResponseError 404 ''none'' ''none'')),
      CreateNodePool := (\<lambda>_. fail (ErrorString ''quota''))\<rparr>))\<rparr>"

definition finalized_mp :: CCEManagedMachinePool where
  "finalized_mp = set_mp_Finalizers [ManagedMachinePoolFinalizer] demo_mp"

lemma pool_finalizer_guards_witness:
  "ManagedMachinePoolFinalizer
     \<in> set (mp_Finalizers (obj (snd (mpr_reconcileNormal no_pool_env demo_pool_scope (start demo_mp))))) \<and>
   mp_Finalizers (obj (snd (mpr_reconcileDelete no_pool_env demo_pool_scope (start finalized_mp)))) = []"
proof -
  let ?up = "mpr_reconcileNormal no_pool_env demo_pool_scope (start demo_mp)"
  have "list_ex cloud_creation (new_calls (start demo_mp) (snd ?up))"
    by code_simp
  then obtain c where c: "c \<in> set (new_calls (start demo_mp) (snd ?up))" "cloud_creation c"
    by (auto simp: list_ex_iff)
  have "fst (mpr_reconcileDelete no_pool_env demo_pool_scope (start finalized_mp)) = Ret Result0"
    by code_simp
  then obtain t where t: "mpr_reconcileDelete no_pool_env demo_pool_scope (start finalized_mp) = (Ret Result0, t)"
    by (rule ended)
  have "finalizers_documented (env_lib no_pool_env)"
    by (simp add: no_pool_env_def demo_env_def demo_finalizers)
  from pool_finalizer_guards[OF this surjective_pairing c t] t show ?thesis
    by (auto simp: start_def finalized_mp_def)
qed

section \<open>Waiting for the control plane\<close>

text \<open>
  A machine pool whose control plane is not ready is left waiting without being told: the
  reconcile marks the readiness condition in memory, with the reason that it waits for the control
  plane, but returns before a scope exists, so it issues no patch and the condition is lost.
\<close>

lemma waiting_pool_not_told:
  assumes pool: "k_GetManagedMachinePool (env_kube E) req (world s) = (Ret pool, w1)"
    and own: "owner_of (env_lib E) ''MachinePool'' (om_OwnerReferences (mp_Meta pool)) = Inr (Some name)"
      "k_GetMachinePool (env_kube E) \<lparr>nn_Namespace = om_Namespace (mp_Meta pool), nn_Name = name\<rparr> w1 = (Ret owner, w2)"
    and cl: "k_GetClusterFromMetadata (env_kube E) (mpo_Meta owner) w2 = (Ret cluster, w3)"
      "\<not> lib_IsPaused (env_lib E) cluster (mp_Meta pool)" "cl_ControlPlaneRef cluster = Some ref"
    and cp: "k_GetControlPlane (env_kube E)
               \<lparr>nn_Namespace = om_Namespace (mp_Meta pool), nn_Name = or_Name ref\<rparr> w3 = (Ret cp, w4)"
      "\<not> cpst_Ready (cp_Status cp)"
  shows "\<exists>t. mpr_Reconcile E req s = (Ret (Result0, None), t) \<and>
    obj t = mp_MarkFalse (env_lib E) CCENodepoolReadyCondition WaitingForCCEControlPlaneReason SeverityInfo [] pool \<and>
    list_all read_call (new_calls s t)"
proof -
  have "mpr_Reconcile E req s = (Ret (Result0, None),
     s\<lparr>obj := mp_MarkFalse (env_lib E) CCENodepoolReadyCondition WaitingForCCEControlPlaneReason SeverityInfo [] pool,
       world := w4, calls := calls s @ [CallRead ''CCEManagedMachinePool'', CallRead ''MachinePool'',
         CallRead ''Cluster'', CallRead ''CCEManagedControlPlane'']\<rparr>)"
    using assms by (simp add: mpr_Reconcile_def getOwnerMachinePool_def getMachinePoolByName_def go_simps)
  then show ?thesis by simp
qed

definition owned_mp :: CCEManagedMachinePool where
  "owned_mp = demo_mp\<lparr>mp_Meta := demo_meta\<lparr>om_OwnerReferences :=
     [\<lparr>ow_APIVersion = ClusterAPI_Group, ow_Kind = ''MachinePool'', ow_Name = ''dev''\<rparr>]\<rparr>\<rparr>"

definition owned_env :: "nat env" where
  "owned_env = demo_env\<lparr>env_kube := demo_kube\<lparr>k_GetManagedMachinePool := (\<lambda>_. ret owned_mp)\<rparr>\<rparr>"

lemma waiting_pool_not_told_witness:
  "\<exists>t. mpr_Reconcile owned_env \<lparr>nn_Namespace = ''ns'', nn_Name = ''dev''\<rparr> (start demo_mp) = (Ret (Result0, None), t) \<and>
     list_all read_call (new_calls (start demo_mp) t)"
proof -
  have o: "owner_of (env_lib owned_env) ''MachinePool'' (om_OwnerReferences (mp_Meta owned_mp)) = Inr (Some ''dev'')"
    by code_simp
  have k: "env_kube owned_env = demo_kube\<lparr>k_GetManagedMachinePool := (\<lambda>_. ret owned_mp)\<rparr>"
    "env_lib owned_env = demo_lib"
    by (simp_all add: owned_env_def demo_env_def)
  have "\<exists>t. mpr_Reconcile owned_env \<lparr>nn_Namespace = ''ns'', nn_Name = ''dev''\<rparr> (start demo_mp) = (Ret (Result0, None), t) \<and>
    obj t = mp_MarkFalse (env_lib owned_env) CCENodepoolReadyCondition WaitingForCCEControlPlaneReason SeverityInfo [] owned_mp \<and>
    list_all read_call (new_calls (start demo_mp) t)"
    by (rule waiting_pool_not_told[OF _ o, of _ _ 0 demo_pool 0 demo_cluster 0 "demo_ref ''CCEManagedControlPlane''" demo_cp 0])
      (simp_all add: k demo_kube_def demo_cluster_def demo_cp_def start_def go_simps demo_lib_def)
  then show ?thesis by blast
qed

section \<open>The managed cluster\<close>

text \<open>
  A reconcile of the managed cluster either only reads, or it has read the control plane that
  the owning cluster refers to and its last call patches the object with that control plane's
  endpoint and \<open>ready\<close> set. The endpoint is not tested: the cluster is reported ready also when the
  control plane has none yet.
\<close>

lemma managed_cluster_mirrors:
  assumes "mcr_Reconcile E req s = (res, t)"
  shows "list_all read_call (new_calls s t) \<or>
    (\<exists>mc cluster ref cp w w1 w2 p.
       k_GetManagedCluster (env_kube E) req (world s) = (Ret mc, w) \<and>
       k_GetOwnerCluster (env_kube E) (mc_Meta mc) w = (Ret (Some cluster), w1) \<and>
       cl_ControlPlaneRef cluster = Some ref \<and>
       k_GetControlPlane (env_kube E) \<lparr>nn_Namespace = or_Namespace ref, nn_Name = or_Name ref\<rparr> w1 = (Ret cp, w2) \<and>
       last (new_calls s t) = CallPatchManagedCluster (obj t) \<and>
       obj t = set_mc_Endpoint (cps_ControlPlaneEndpoint (cp_Spec cp)) (set_mc_Ready mc) \<and>
       k_PatchManagedCluster (env_kube E) mc (obj t) w2 = (p, world t) \<and>
       (p = Ret () \<longleftrightarrow> res = Ret (Result0, None)))"
  using assms
  by (auto simp: mcr_Reconcile_def or_return_def go_simps new_calls_def
      split: prod.splits outcome.splits if_splits option.splits)

lemma managed_cluster_mirrors_witness:
  "\<exists>t. mcr_Reconcile demo_env \<lparr>nn_Namespace = ''ns'', nn_Name = ''dev''\<rparr> (start demo_mc) = (Ret (Result0, None), t) \<and>
     mcst_Ready (mc_Status (obj t)) \<and> Host (mcs_ControlPlaneEndpoint (mc_Spec (obj t))) = []"
proof -
  let ?run = "mcr_Reconcile demo_env \<lparr>nn_Namespace = ''ns'', nn_Name = ''dev''\<rparr> (start demo_mc)"
  have "fst ?run = Ret (Result0, None)"
    by code_simp
  then obtain t where t: "?run = (Ret (Result0, None), t)"
    by (rule ended)
  have "\<not> list_all read_call (new_calls (start demo_mc) (snd ?run))"
    by code_simp
  moreover have "k_GetControlPlane (env_kube demo_env) n w = (Ret demo_cp, w)" for n w
    by (simp add: demo_env_def demo_kube_def go_simps)
  ultimately have "\<exists>mc. obj t = set_mc_Endpoint (cps_ControlPlaneEndpoint (cp_Spec demo_cp)) (set_mc_Ready mc)"
    using managed_cluster_mirrors[OF t] t by auto
  with t show ?thesis by (auto simp: set_mc_Endpoint_def set_mc_Ready_def demo_cp_def)
qed

section \<open>Mapping functions\<close>

definition pool_request :: "MachinePool \<Rightarrow> NamespacedName" where
  "pool_request m = \<lparr>nn_Namespace = om_Namespace (mpo_Meta m), nn_Name = or_Name (mpo_InfrastructureRef m)\<rparr>"

lemma map_pools_filter:
  "map_pools L gk pools s
   = (Ret (map pool_request (filter (\<lambda>m. lib_GroupKind L (mpo_InfrastructureRef m) = gk) pools)), s)"
  by (induction pools)
    (auto simp: machinePoolToInfrastructureMapFunc_def pool_request_def go_simps)

text \<open>
  A change of a control plane that is not being deleted enqueues, for its owning cluster, exactly
  the infrastructure objects of the listed machine pools whose template refers to the expected
  group and kind, in the order listed; it issues one read and nothing else.
\<close>

lemma pools_enqueued:
  assumes "Time_IsZero (om_DeletionTimestamp (cp_Meta cp))"
    and "GetOwnerClusterKey (env_lib E) (cp_Meta cp) = Inr (Some key)"
    and "k_ListMachinePools (env_kube E) (nn_Namespace key) (nn_Name key) (world s) = (Ret pools, w)"
  shows "managedControlPlaneToManagedMachinePoolMapFunc E gk (ObjControlPlane cp) s =
    (Ret (map pool_request (filter (\<lambda>m. lib_GroupKind (env_lib E) (mpo_InfrastructureRef m) = gk) pools)),
     s\<lparr>world := w, calls := calls s @ [CallRead ''MachinePoolList'']\<rparr>)"
  using assms by (simp add: managedControlPlaneToManagedMachinePoolMapFunc_def go_simps map_pools_filter)

lemma pools_enqueued_witness:
  "fst (managedControlPlaneToManagedMachinePoolMapFunc demo_env (''infrastructure.cluster.x-k8s.io'', ''CCEManagedMachinePool'')
     (ObjControlPlane (demo_cp\<lparr>cp_Meta := demo_meta\<lparr>om_OwnerReferences :=
        [\<lparr>ow_APIVersion = ClusterAPI_Group, ow_Kind = ''Cluster'', ow_Name = ''dev''\<rparr>]\<rparr>\<rparr>)) (start demo_cp))
   = Ret [\<lparr>nn_Namespace = ''ns'', nn_Name = ''dev''\<rparr>]"
proof -
  let ?cp = "demo_cp\<lparr>cp_Meta := demo_meta\<lparr>om_OwnerReferences :=
        [\<lparr>ow_APIVersion = ClusterAPI_Group, ow_Kind = ''Cluster'', ow_Name = ''dev''\<rparr>]\<rparr>\<rparr>"
  have k: "GetOwnerClusterKey (env_lib demo_env) (cp_Meta ?cp) = Inr (Some \<lparr>nn_Namespace = ''ns'', nn_Name = ''dev''\<rparr>)"
    by code_simp
  have z: "Time_IsZero (om_DeletionTimestamp (cp_Meta ?cp))"
    by code_simp
  have l: "k_ListMachinePools (env_kube demo_env) a b (world (start demo_cp)) = (Ret [demo_pool], 0)" for a b
    by (simp add: demo_env_def demo_kube_def go_simps start_def)
  have g: "lib_GroupKind (env_lib demo_env) (mpo_InfrastructureRef demo_pool)
      = (''infrastructure.cluster.x-k8s.io'', ''CCEManagedMachinePool'')"
    by code_simp
  show ?thesis
    using pools_enqueued[OF z k l] g by (simp add: pool_request_def demo_pool_def demo_meta_def demo_ref_def)
qed

text \<open>
  The four mapping functions do not treat an unexpected object alike: two return no request,
  the two of the machine pool controller log it, go on with a nil pointer, and panic.
\<close>

lemma mapping_of_other_kinds:
  "(as_ControlPlane x = None \<longrightarrow>
      managedControlPlaneToManagedMachinePoolMapFunc E gk x s = (Panic, s) \<and>
      managedControlPlaneToManagedCluster E x s = (Ret [], s)) \<and>
   (as_MachinePool x = None \<longrightarrow> machinePoolToInfrastructureMapFunc L gk x s = (Panic, s)) \<and>
   (as_ManagedCluster x = None \<longrightarrow> managedClusterToManagedControlPlane E x s = (Ret [], s))"
  by (simp add: managedControlPlaneToManagedMachinePoolMapFunc_def managedControlPlaneToManagedCluster_def
      machinePoolToInfrastructureMapFunc_def managedClusterToManagedControlPlane_def go_simps)

lemma mapping_of_other_kinds_witness:
  "machinePoolToInfrastructureMapFunc demo_lib (''g'', ''k'') ObjOther (start demo_cp) = (Panic, start demo_cp) \<and>
   managedControlPlaneToManagedMachinePoolMapFunc demo_env (''g'', ''k'') ObjOther (start demo_cp) = (Panic, start demo_cp)"
  using mapping_of_other_kinds[of ObjOther demo_env "(''g'', ''k'')" "start demo_cp" demo_lib] by simp

section \<open>Owners\<close>

lemma owner_of_none:
  "\<forall>r\<in>set rs. ow_Kind r = kind \<longrightarrow> (\<exists>g. lib_ParseGroupVersion L (ow_APIVersion r) = Inr g \<and> g \<noteq> ClusterAPI_Group) \<Longrightarrow>
   owner_of L kind (rs @ rest) = owner_of L kind rest"
  by (induction rs) auto

text \<open>
  The owner of a kind is the first reference of that kind in Cluster API's group; references of
  another kind are skipped without being parsed, and a malformed version of the kind before it is
  an error.
\<close>

lemma owner_is_first:
  assumes "\<forall>r\<in>set before. ow_Kind r = kind \<longrightarrow>
      (\<exists>g. lib_ParseGroupVersion L (ow_APIVersion r) = Inr g \<and> g \<noteq> ClusterAPI_Group)"
    and "ow_Kind ref = kind"
  shows "owner_of L kind before = Inr None \<and>
    (lib_ParseGroupVersion L (ow_APIVersion ref) = Inr ClusterAPI_Group \<longrightarrow>
       owner_of L kind (before @ ref # after) = Inr (Some (ow_Name ref))) \<and>
    (\<forall>e. lib_ParseGroupVersion L (ow_APIVersion ref) = Inl e \<longrightarrow>
       owner_of L kind (before @ ref # after) = Inl e)"
  using owner_of_none[OF assms(1), of "[]"] owner_of_none[OF assms(1), of "ref # after"] assms(2) by simp

lemma owner_is_first_witness:
  "owner_of demo_lib ''Cluster''
     [\<lparr>ow_APIVersion = ''v1'', ow_Kind = ''Pod'', ow_Name = ''p''\<rparr>,
      \<lparr>ow_APIVersion = ''apps/v1'', ow_Kind = ''Cluster'', ow_Name = ''x''\<rparr>,
      \<lparr>ow_APIVersion = ClusterAPI_Group, ow_Kind = ''Cluster'', ow_Name = ''dev''\<rparr>] = Inr (Some ''dev'')"
proof -
  let ?b = "[\<lparr>ow_APIVersion = ''v1'', ow_Kind = ''Pod'', ow_Name = ''p''\<rparr>,
      \<lparr>ow_APIVersion = ''apps/v1'', ow_Kind = ''Cluster'', ow_Name = ''x''\<rparr>]"
  let ?r = "\<lparr>ow_APIVersion = ClusterAPI_Group, ow_Kind = ''Cluster'', ow_Name = ''dev''\<rparr>"
  have "\<forall>r\<in>set ?b. ow_Kind r = ''Cluster'' \<longrightarrow>
      (\<exists>g. lib_ParseGroupVersion demo_lib (ow_APIVersion r) = Inr g \<and> g \<noteq> ClusterAPI_Group)"
    by (simp add: demo_lib_def ClusterAPI_Group_def)
  moreover have "lib_ParseGroupVersion demo_lib (ow_APIVersion ?r) = Inr ClusterAPI_Group"
    by code_simp
  ultimately show ?thesis
    using owner_is_first[of ?b "''Cluster''" demo_lib ?r "[]"] by simp
qed

end
