(* ===== verification/Readiness_Props.thy ===== *)
theory Readiness_Props
  imports Pool_Controller_Props
begin

text \<open>
  What the readiness conditions do not say: a reconcile that ends without an error marks the
  condition true, also when the cluster or the pool has failed, and the severity for failures
  after initialization is never used.
\<close>

section \<open>Failed resources\<close>

text \<open>
  C35. An unavailable cluster is reported under a true condition: the reconcile records the failure
  message and that the control plane is not ready, returns no error, and marks
  \<open>CCEControlPlaneReady\<close> true.
\<close>

theorem unavailable_cluster_condition_true:
  assumes "conditions_documented (env_lib E)"
    and "\<And>a b c w. fst (k_PatchControlPlane (env_kube E) a b c w) = Ret ()"
    and "scp_InfraClusterID (obj s) \<noteq> []"
    and "ShowCluster (sv_CCEClient S) (scp_InfraClusterID (obj s)) (world s) = (Ret \<lparr>sc_Status = Some status\<rparr>, w)"
    and "cs_Phase status = Some ''Unavailable''" "cs_Reason status = Some reason" "cs_Message status = Some msg"
  shows "\<exists>t. ReconcileControlPlane E S s = (Ret (), t) \<and> \<not> cp_Ready (obj t) \<and>
    cpst_FailureMessage (cp_Status (obj t)) = Some (''CCE cluster in unexpected '' @ reason @ '' reason. '' @ msg) \<and>
    cp_IsTrue (env_lib E) CCEControlPlaneReadyCondition (obj t)"
proof -
  let ?s = "s\<lparr>world := w, calls := calls s @ [CallShowCluster (scp_InfraClusterID (obj s))]\<rparr>"
  let ?m = "set_cp_FailureMessage (Some (''CCE cluster in unexpected '' @ reason @ '' reason. '' @ msg))
              (set_cp_Ready False (obj s))"
  obtain v where v: "k_PatchControlPlane (env_kube E) (scp_patchHelper (sv_scope S)) scp_ownedConditions ?m w = (Ret (), v)"
    by (rule ended[OF assms(2)])
  let ?t = "?s\<lparr>obj := ?m, world := v, calls := calls ?s @ [CallPatchControlPlane ?m]\<rparr>"
  have "cp_setStatus E S (Some status) ?s = (Ret (), ?t)"
    using assms(5-7) v by (simp add: cp_setStatus_def deref_phase_def mirror_cluster_phase_def go_simps)
  then have "settle_cluster E S (Some \<lparr>sc_Status = Some status\<rparr>) (Some status) ?s = (Ret (), ?t)"
    using assms(5) by (simp add: settle_cluster_def deref_phase_def go_simps)
  then have "reconcileCluster E S s = (Ret (), ?t)"
    by (simp add: reconcileCluster_def andThen_run find_or_create_found[OF assms(3,4)])
  then have "ReconcileControlPlane E S s = (Ret (), ?t\<lparr>obj := cp_MarkTrue (env_lib E) CCEControlPlaneReadyCondition ?m\<rparr>)"
    by (simp add: ReconcileControlPlane_def go_simps)
  then show ?thesis
    by (simp add: cp_IsTrue_MarkTrue[OF assms(1)] cp_Ready_def set_cp_FailureMessage_def set_cp_Ready_def)
qed

lemma unavailable_cluster_condition_true_witness:
  "\<exists>t. ReconcileControlPlane demo_env (demo_shows (demo_status ''Unavailable'')) (start demo_labelled) = (Ret (), t) \<and>
     \<not> cp_Ready (obj t) \<and> cp_IsTrue demo_lib CCEControlPlaneReadyCondition (obj t)"
proof -
  have E: "conditions_documented (env_lib demo_env)" "env_lib demo_env = demo_lib"
    by (simp_all add: demo_env_def demo_conditions)
  have p: "fst (k_PatchControlPlane (env_kube demo_env) a b c w) = Ret ()" for a b c w
    by (simp add: demo_env_def demo_kube_def go_simps)
  have i: "scp_InfraClusterID (obj (start demo_labelled)) \<noteq> []"
    by (simp add: start_def demo_labelled_def cluster_id.getID_setID)
  have sh: "ShowCluster (sv_CCEClient (demo_shows st)) j w = (Ret \<lparr>sc_Status = Some st\<rparr>, w)" for st j w
    by (simp add: demo_shows_def go_simps)
  have st: "cs_Phase (demo_status ph) = Some ph" "cs_Reason (demo_status ph) = Some ''r''"
    "cs_Message (demo_status ph) = Some ''m''" for ph
    by (simp_all add: demo_status_def)
  from unavailable_cluster_condition_true[OF E(1) p i sh st] show ?thesis
    unfolding E(2) by blast
qed

text \<open>
  A node pool in the error phase is reported under a true condition: the pool is not ready and
  has a failure message, the reconcile returns no error, and marks \<open>CCENodepoolReady\<close> true.
\<close>

lemma failed_pool_condition_true:
  assumes "conditions_documented (env_lib E)" and "phases_documented (lib_enums (env_lib E))"
    and "\<And>a b c w. fst (k_PatchMachinePool (env_kube E) a b c w) = Ret ()"
    and "smp_InfraMachinePoolID (obj s) \<noteq> []"
    and "ShowNodePool (nsv_CCEClient S) (cp_InfraClusterID (smp_ControlPlane (nsv_scope S)))
           (smp_InfraMachinePoolID (obj s)) (world s)
         = (Ret \<lparr>npr_Kind = Some k, npr_ApiVersion = Some v, npr_Metadata = m, npr_Spec = sp,
                 npr_Status = Some \<lparr>nps_Phase = Some (en_NP_ERROR (lib_enums (env_lib E))), nps_CurrentNode = n\<rparr>\<rparr>, w)"
  shows "\<exists>t. ReconcilePool E S s = (Ret (), t) \<and> \<not> mp_Ready (obj t) \<and>
    mpst_FailureMessage (mp_Status (obj t)) \<noteq> None \<and>
    lib_IsTrue (env_lib E) CCENodepoolReadyCondition (mp_GetConditions (obj t))"
proof -
  let ?e = "en_NP_ERROR (lib_enums (env_lib E))"
  let ?c = "cp_InfraClusterID (smp_ControlPlane (nsv_scope S))" and ?i = "smp_InfraMachinePoolID (obj s)"
  let ?np = "\<lparr>np_Kind = k, np_ApiVersion = v, np_Metadata = m, np_Spec = sp,
              np_Status = Some \<lparr>nps_Phase = Some ?e, nps_CurrentNode = n\<rparr>\<rparr>"
  let ?s = "s\<lparr>world := w, calls := calls s @ [CallShowNodePool ?c ?i]\<rparr>"
  let ?m = "mirror_phase (lib_enums (env_lib E)) ?e (obj s)"
  have e: "?e \<noteq> en_NP_DELETING (lib_enums (env_lib E))" "?e \<noteq> en_NP_SYNCHRONIZING (lib_enums (env_lib E))"
    "?e \<noteq> en_NP_SYNCHRONIZED (lib_enums (env_lib E))"
    using assms(2) by (auto simp: phases_documented_def)
  have m: "\<not> mp_Ready ?m" "mpst_FailureMessage (mp_Status ?m) \<noteq> None"
    using e(1) by (simp_all add: mirror_phase_def set_mp_FailureMessage_def mp_Ready_def set_mp_Ready_def)
  have np: "showNodepool S s = (Ret (Some ?np), ?s)"
    using assms(5) by (simp add: showNodepool_def response_pool_def Let_def go_simps)
  obtain w' where w': "k_PatchMachinePool (env_kube E) (smp_patchHelper (nsv_scope S)) [CCENodepoolReadyCondition] ?m w = (Ret (), w')"
    by (rule ended[OF assms(3)])
  let ?t = "?s\<lparr>obj := ?m, world := w', calls := calls ?s @ [CallPatchMachinePool ?m]\<rparr>"
  have st: "mp_setStatus E S (Some ?np) ?s = (Ret (), ?t)"
    using w' m(1) by (cases n) (simp_all add: mp_setStatus_def record_nodes_def go_simps)
  have "reconcileNodepool E S s = (Ret (), ?t)"
    using np st e(2,3) assms(4) by (simp add: reconcileNodepool_def pool_phase_def go_simps)
  then have "ReconcilePool E S s = (Ret (), ?t\<lparr>obj := mp_MarkTrue (env_lib E) CCENodepoolReadyCondition ?m\<rparr>)"
    by (simp add: ReconcilePool_def go_simps)
  then show ?thesis
    using m by (simp add: mp_IsTrue_MarkTrue_ready[OF assms(1)]) (simp add: mp_MarkTrue_def)
qed

definition demo_failed_pool :: "nat NodepoolService" where
  "demo_failed_pool = demo_np_service\<lparr>nsv_CCEClient := demo_cce\<lparr>ShowNodePool := (\<lambda>_ _. ret
     \<lparr>npr_Kind = Some ''NodePool'', npr_ApiVersion = Some ''v3'', npr_Metadata = None, npr_Spec = None,
      npr_Status = Some \<lparr>nps_Phase = Some ''Error'', nps_CurrentNode = None\<rparr>\<rparr>)\<rparr>\<rparr>"

lemma failed_pool_condition_true_witness:
  "\<exists>t. ReconcilePool demo_env demo_failed_pool (start demo_stale_pool) = (Ret (), t) \<and> \<not> mp_Ready (obj t) \<and>
     lib_IsTrue (env_lib demo_env) CCENodepoolReadyCondition (mp_GetConditions (obj t))"
proof -
  have i: "smp_InfraMachinePoolID (obj (start demo_stale_pool)) \<noteq> []"
    by (simp add: start_def demo_stale_pool_def pool_id.getID_setID)
  have sh: "ShowNodePool (nsv_CCEClient demo_failed_pool) c j w = (Ret
     \<lparr>npr_Kind = Some ''NodePool'', npr_ApiVersion = Some ''v3'', npr_Metadata = None, npr_Spec = None,
      npr_Status = Some \<lparr>nps_Phase = Some (en_NP_ERROR (lib_enums (env_lib demo_env))), nps_CurrentNode = None\<rparr>\<rparr>, w)"
    for c j w
    by (simp add: demo_failed_pool_def go_simps demo_env_def demo_lib_def demo_enums_def)
  show ?thesis
    using failed_pool_condition_true[OF demo_np_facts i sh] by blast
qed

section \<open>Severity after initialization\<close>

lemma not_owned: "ControlPlaneInitializedCondition \<notin> set scp_ownedConditions"
  by (simp add: scp_ownedConditions_def condition_types ControlPlaneInitializedCondition_def)

lemma initialized_condition_untouched:
  assumes "conditions_documented (env_lib E)"
  shows "untouched E (cp_IsTrue (env_lib E) ControlPlaneInitializedCondition)"
proof
  fix t cp assume "t \<in> set scp_ownedConditions"
  then show "cp_IsTrue (env_lib E) ControlPlaneInitializedCondition (cp_MarkTrue (env_lib E) t cp)
      = cp_IsTrue (env_lib E) ControlPlaneInitializedCondition cp"
    and "cp_IsTrue (env_lib E) ControlPlaneInitializedCondition (cp_MarkFalse (env_lib E) t r v m cp)
      = cp_IsTrue (env_lib E) ControlPlaneInitializedCondition cp" for r v m
    using not_owned by (auto simp: cp_IsTrue_MarkTrue[OF assms] cp_IsTrue_MarkFalse[OF assms])
qed (simp_all add: cp_IsTrue_def cp_GetConditions_def set_VPC_ID_def set_Subnet_ID_def set_EIP_status_def
      set_Initialized_def set_cp_Ready_def set_cp_FailureMessage_def set_Endpoint_def)

lemma body_keeps:
  assumes f: "untouched E f" and fins: "\<And>fs cp. f (set_cp_Finalizers fs cp) = f cp"
  shows "steps_in (keeps f) (cpr_body E r cp sc)"
  unfolding cpr_body_def cpr_reconcileNormal_split cpr_provision_def cpr_reconcileDelete_def dependencyCount_def
    DeleteNetwork_def ensure_finalizer_def Let_def
  by (intro keeps_rules keeps_NewService keeps_DeleteControlPlane keeps_scp_PatchObject
      unlabelled.ReconcileNetwork_keeps[OF untouched.axioms(1)[OF f]] untouched.ReconcileControlPlane_keeps[OF f] fins)

text \<open>
  C36. The severity for failures after initialization is never used: \<open>ErrorConditionAfterInit\<close> asks for
  the condition \<open>ControlPlaneInitialized\<close>, and no reconcile sets that condition. Initialization is
  recorded in \<open>status.initialized\<close>, so an object that was read without the condition still gets
  severity warning after any run, also after one that has set \<open>status.initialized\<close>.
\<close>

theorem severity_stays_warning:
  assumes L: "conditions_documented (env_lib E)"
    and get: "k_GetControlPlane (env_kube E) req (world s) = (Ret cp, w)"
    and init: "ErrorConditionAfterInit (env_lib E) cp = SeverityWarning"
    and run: "cpr_Reconcile E r req s = (res, t)"
  shows "ErrorConditionAfterInit (env_lib E) (obj t) = SeverityWarning"
  using run
proof (cases rule: cpr_Reconcile_cases)
  case idle
  then show ?thesis using get init by simp
next
  case (body cp' w' sc u)
  let ?f = "cp_IsTrue (env_lib E) ControlPlaneInitializedCondition"
  have keeps: "steps_in (keeps ?f) (cpr_body E r cp' sc)"
    by (rule body_keeps[OF initialized_condition_untouched[OF L]])
      (simp add: cp_IsTrue_def cp_GetConditions_def)
  obtain q m where m: "cpr_body E r cp' sc u = (q, m)" by fastforce
  have "?f (obj m) = ?f cp"
    using steps_inD[OF keeps m] body get by (simp add: keeps_def)
  moreover have "obj t = obj m"
    using with_scope_closed(2)[OF body(6) m] .
  ultimately show ?thesis
    using init by (simp add: ErrorConditionAfterInit_def split: if_splits)
qed

lemma severity_stays_warning_witness:
  "ErrorConditionAfterInit demo_lib (obj (snd (cpr_Reconcile no_vpc_env demo_reconciler
     \<lparr>nn_Namespace = ''ns'', nn_Name = ''dev''\<rparr> (start demo_cp)))) = SeverityWarning"
proof -
  have E: "env_lib no_vpc_env = demo_lib" "conditions_documented (env_lib no_vpc_env)"
    by (simp_all add: no_vpc_env_def demo_env_def demo_conditions)
  have g: "k_GetControlPlane (env_kube no_vpc_env) n (world (start demo_cp)) = (Ret demo_cp, 0)" for n
    by (simp add: no_vpc_env_def demo_env_def demo_kube_def go_simps start_def)
  have i: "ErrorConditionAfterInit (env_lib no_vpc_env) demo_cp = SeverityWarning"
    by code_simp
  from severity_stays_warning[OF E(2) g i surjective_pairing] show ?thesis
    unfolding E(1) .
qed

end
