(* ===== verification/Reconcile_Props.thy ===== *)
theory Reconcile_Props
  imports Pool_Controller_Props
begin

text \<open>
  Whole reconciles of all three controllers: how long they block, what they may request at most,
  and which calls each of them issues at all.
\<close>

section \<open>A whole reconcile of a machine pool\<close>

definition mpr_body ::
  "'w env \<Rightarrow> CCEManagedMachinePool \<Rightarrow> ManagedMachinePoolScope \<Rightarrow> ((CCEManagedMachinePool, 'w) st, ctrl_Result) go" where
  "mpr_body E mp sc =
     (if \<not> Time_IsZero (om_DeletionTimestamp (mp_Meta mp)) then mpr_reconcileDelete E sc
      else mpr_reconcileNormal E sc)"

text \<open>The reads a reconcile starts with, up to its scope.\<close>

definition mpr_opening ::
  "'w env \<Rightarrow> NamespacedName \<Rightarrow> ((CCEManagedMachinePool, 'w) st, ManagedMachinePoolScope) go" where
  "mpr_opening E req =
     andThen (ext (CallRead ''CCEManagedMachinePool'') (k_GetManagedMachinePool (env_kube E) req)) (\<lambda>mp.
     andThen (upd_obj (\<lambda>_. mp)) (\<lambda>_.
     andThen (getOwnerMachinePool E (mp_Meta mp)) (\<lambda>owner.
     andThen (deref owner) (\<lambda>p.
     andThen (ext (CallRead ''Cluster'') (k_GetClusterFromMetadata (env_kube E) (mpo_Meta p))) (\<lambda>cluster.
     andThen (deref (cl_ControlPlaneRef cluster)) (\<lambda>ref.
     andThen (ext (CallRead ''CCEManagedControlPlane'') (k_GetControlPlane (env_kube E)
                \<lparr>nn_Namespace = om_Namespace (mp_Meta mp), nn_Name = or_Name ref\<rparr>)) (\<lambda>cp.
       from_sum (NewManagedMachinePoolScope (env_lib E)
         \<lparr>mpp_Cluster = Some cluster, mpp_ControlPlane = Some cp, mpp_ManagedMachinePool = Some mp,
          mpp_MachinePool = Some p, mpp_ControllerName = ''ccemanagedmachinepool''\<rparr>))))))))"

text \<open>It only reads, or it reads a ready control plane and then runs its body between the scope and its close.\<close>

lemma mpr_Reconcile_cases:
  assumes run: "mpr_Reconcile E req s = (res, t)"
  obtains (idle) "issues read_call s t"
  | (body) mp cp nn w0 w1 w2 sc u where "k_GetManagedMachinePool (env_kube E) req (world s) = (Ret mp, w0)"
      "k_GetControlPlane (env_kube E) nn w1 = (Ret cp, w2)" "cpst_Ready (cp_Status cp)"
      "smp_ControlPlane sc = cp" "smp_patchHelper sc = mp" "issues read_call s u" "obj u = mp"
      "with_close (summarize_and_close E sc) (mpr_body E mp sc) u = (res, t)" "mpr_opening E req s = (Ret sc, u)"
proof -
  obtain got w where got: "k_GetManagedMachinePool (env_kube E) req (world s) = (got, w)" by fastforce
  show thesis
  proof (cases got)
    case (Ret mp)
    let ?u = "s\<lparr>world := w, calls := calls s @ [CallRead ''CCEManagedMachinePool''], obj := mp\<rparr>"
    have read: "issues read_call s ?u" by (simp add: issues_def)
    have getOwner: "steps_in (issues read_call) (getOwnerMachinePool E m)"
      "steps_in (keeps id) (getOwnerMachinePool E m)" for m
      unfolding getOwnerMachinePool_def getMachinePoolByName_def
      by (intro issues_rules read_call_simps, intro keeps_rules)
    obtain own v where own: "getOwnerMachinePool E (mp_Meta mp) ?u = (own, v)" by fastforce
    have v: "issues read_call s v" "obj v = mp"
      using issues.frame_trans[OF read steps_inD[OF getOwner(1) own]] steps_inD[OF getOwner(2) own]
      by (simp_all add: keeps_def)
    show thesis
    proof (cases "\<exists>p. own = Ret (Some p)")
      case False
      have "t = v"
        using run got Ret own False
        by (auto simp: mpr_Reconcile_def go_simps split: outcome.splits option.splits)
      with v show thesis by (intro idle) simp
    next
      case True
      then obtain p where p: "own = Ret (Some p)" by blast
      obtain found w1 where found: "k_GetClusterFromMetadata (env_kube E) (mpo_Meta p) (world v) = (found, w1)"
        by fastforce
      let ?v = "v\<lparr>world := w1, calls := calls v @ [CallRead ''Cluster'']\<rparr>"
      have v': "issues read_call s ?v" "obj ?v = mp"
        using v by (auto simp: issues_def)
      show thesis
      proof (cases "\<exists>cl ref. found = Ret cl \<and> \<not> lib_IsPaused (env_lib E) cl (mp_Meta mp) \<and> cl_ControlPlaneRef cl = Some ref")
        case False
        have "t = ?v"
          using run got Ret own p found False
          by (auto simp: mpr_Reconcile_def go_simps split: outcome.splits option.splits if_splits)
        with v' show thesis by (intro idle) simp
      next
        case True
        then obtain cl ref where cl: "found = Ret cl" "\<not> lib_IsPaused (env_lib E) cl (mp_Meta mp)"
          "cl_ControlPlaneRef cl = Some ref" by blast
        let ?nn = "\<lparr>nn_Namespace = om_Namespace (mp_Meta mp), nn_Name = or_Name ref\<rparr>"
        obtain gotCp w2 where cp: "k_GetControlPlane (env_kube E) ?nn w1 = (gotCp, w2)" by fastforce
        let ?w = "?v\<lparr>world := w2, calls := calls ?v @ [CallRead ''CCEManagedControlPlane'']\<rparr>"
        have w': "issues read_call s ?w" "obj ?w = mp" "issues read_call s (?w\<lparr>obj := x\<rparr>)" for x
          using v by (auto simp: issues_def)
        show thesis
        proof (cases "\<exists>c sc. gotCp = Ret c \<and> cpst_Ready (cp_Status c) \<and>
            NewManagedMachinePoolScope (env_lib E)
              \<lparr>mpp_Cluster = Some cl, mpp_ControlPlane = Some c, mpp_ManagedMachinePool = Some mp,
               mpp_MachinePool = Some p, mpp_ControllerName = ''ccemanagedmachinepool''\<rparr> = Inr sc")
          case True
          then obtain c sc where c: "gotCp = Ret c" "cpst_Ready (cp_Status c)"
            and sc: "NewManagedMachinePoolScope (env_lib E)
              \<lparr>mpp_Cluster = Some cl, mpp_ControlPlane = Some c, mpp_ManagedMachinePool = Some mp,
               mpp_MachinePool = Some p, mpp_ControllerName = ''ccemanagedmachinepool''\<rparr> = Inr sc" by blast
          have "smp_ControlPlane sc = c" "smp_patchHelper sc = mp"
            using sc by (auto simp: NewManagedMachinePoolScope_def split: option.splits)
          moreover have "with_close (summarize_and_close E sc) (mpr_body E mp sc) ?w = (res, t)"
            using run got Ret own p found cl cp c sc by (simp add: mpr_Reconcile_def mpr_body_def go_simps)
          moreover have "mpr_opening E req s = (Ret sc, ?w)"
            using got Ret own p found cl cp c sc by (simp add: mpr_opening_def go_simps)
          ultimately show thesis
            using body[of mp w ?nn w1 c w2 sc ?w] got Ret cp c w' by simp
        next
          case False
          have "t = ?w \<or> (\<exists>x. t = ?w\<lparr>obj := x\<rparr>)"
            using run got Ret own p found cl cp False v'(2)
            by (auto simp: mpr_Reconcile_def go_simps split: outcome.splits option.splits if_splits sum.splits)
          with w'(1,3) show thesis by (intro idle) auto
        qed
      qed
    qed
  qed (use run got in \<open>auto simp: mpr_Reconcile_def go_simps issues_def intro!: idle split: if_splits\<close>)
qed

section \<open>What a whole reconcile costs\<close>

fun vpc_creation :: "call \<Rightarrow> nat" where
  "vpc_creation (CallCreateVpc q) = 1"
| "vpc_creation _ = 0"

fun subnet_creation :: "call \<Rightarrow> nat" where
  "subnet_creation (CallCreateSubnet q) = 1"
| "subnet_creation _ = 0"

definition created_vpcs :: "call list \<Rightarrow> nat" where
  "created_vpcs cs = sum_list (map vpc_creation cs)"

definition created_subnets :: "call list \<Rightarrow> nat" where
  "created_subnets cs = sum_list (map subnet_creation cs)"

text \<open>
  The interface between the services and the controllers here: a weight that counts neither reads
  nor patches. From the costs of the services' operations follow those of a reconcile.
\<close>

locale call_weight =
  fixes w :: "call \<Rightarrow> nat"
  assumes w_read: "read_call c \<Longrightarrow> w c = 0"
    and w_patch: "w (CallPatchControlPlane cp) = 0" "w (CallPatchMachinePool mp) = 0"
begin

lemma reads_free: "steps_in (issues read_call) m \<Longrightarrow> free w m"
  by (erule issues_mono) (rule w_read)

lemma service_free: "free w (wrapErr msg (NewService E sc []))" "free w (wrapErr msg (NewNodepoolService E psc))"
  by (intro issues.in_wrapErr issues_NewService issues_NewNodepoolService w_read read_call_simps)+

lemma sum_reads: "issues read_call s t \<Longrightarrow> \<exists>cs. calls t = calls s @ cs \<and> sum_list (map w cs) = 0"
  using w_read by (auto simp: issues_def list_all_iff intro: sum_list_zero)

lemma costs_between:
  assumes before: "issues read_call s u" and body: "costs w n b" and close: "free w close"
    and run: "with_close close b u = (res, t)"
  shows "\<exists>cs. calls t = calls s @ cs \<and> sum_list (map w cs) \<le> n"
proof -
  obtain q m where m: "b u = (q, m)" by fastforce
  obtain r v where v: "close m = (r, v)" by fastforce
  obtain cs where cs: "calls u = calls s @ cs" "sum_list (map w cs) = 0"
    using sum_reads[OF before] by blast
  obtain ds where ds: "calls m = calls u @ ds" "sum_list (map w ds) \<le> n"
    using costsD[OF body m] by blast
  obtain es where es: "calls v = calls m @ es" "sum_list (map w es) \<le> 0"
    using costsD[OF costs_free[OF close] v] by blast
  have "t = v"
    using with_close_state[of close b u] run m v by simp
  with cs ds es show ?thesis
    by (intro exI[of _ "cs @ ds @ es"]) (simp del: sum_list_eq_0_iff)
qed

lemma costs_cpr_body:
  assumes net: "\<And>S. costs w a (ReconcileNetwork E S)" and cl: "\<And>S. costs w b (ReconcileControlPlane E S)"
    and del: "\<And>S. costs w c (DeleteControlPlane E S)" and n: "a + b \<le> n" "c \<le> n"
  shows "costs w n (cpr_body E r cp sc)"
proof -
  have ensure: "free w (cp_ensure E sc)"
    by (rule cp_ensure_calls) (rule w_patch)
  have "costs w (a + b) (cpr_provision E sc)"
    unfolding cpr_provision_def
    by (intro costs_free_then[OF issues_get_obj] costs_free_then[OF service_free(1)] costs_andThen
        costs_then_free costs_wrapErr net cl issues.in_ret)
  then have up: "costs w n (cpr_reconcileNormal E r sc)"
    unfolding cpr_reconcileNormal_split
    by (intro costs_free_then[OF issues.in_deref] costs_if costs_free[OF issues.in_ret] costs_free_then[OF ensure]
        costs_mono[OF _ n(1)])
  have count: "free w (dependencyCount E sc)"
    unfolding dependencyCount_def Let_def by (intro issues_rules w_read read_call_simps)
  have down: "costs w n (cpr_reconcileDelete E sc)"
    unfolding cpr_reconcileDelete_def DeleteNetwork_def
  proof (rule costs_free_then[OF count], rule costs_if, goal_cases)
    case 2
    have tail: "free w (andThen (ret ()) (\<lambda>_. andThen (upd_obj f) (\<lambda>_. ret q)))" for f q
      by (intro issues_rules)
    show ?case
      by (rule costs_free_then[OF issues_get_obj], rule costs_free_then[OF service_free(1)],
          rule costs_then_free[OF costs_mono[OF del n(2)]], rule tail)
  qed (rule costs_free[OF issues.in_ret])
  show ?thesis
    unfolding cpr_body_def by (intro costs_if up down)
qed

lemma costs_cpr_Reconcile:
  assumes "\<And>S. costs w a (ReconcileNetwork E S)" and "\<And>S. costs w b (ReconcileControlPlane E S)"
    and "\<And>S. costs w c (DeleteControlPlane E S)" and "a + b \<le> n" "c \<le> n"
  shows "sum_list (map w (new_calls s (snd (cpr_Reconcile E r req s)))) \<le> n"
proof -
  obtain res t where run: "cpr_Reconcile E r req s = (res, t)" by fastforce
  have "\<exists>cs. calls t = calls s @ cs \<and> sum_list (map w cs) \<le> n"
    using run
  proof (cases rule: cpr_Reconcile_cases)
    case idle
    then obtain cs where "calls t = calls s @ cs" "sum_list (map w cs) = 0"
      using sum_reads by blast
    then show ?thesis by (intro exI[of _ cs]) (simp del: sum_list_eq_0_iff)
  next
    case (body cp v sc u)
    have "free w (scp_Close E sc)"
      unfolding scp_Close_def by (rule issues_scp_PatchObject) (rule w_patch)
    with body(3) costs_cpr_body[OF assms] show ?thesis
      using body(6) by (rule costs_between)
  qed
  with run show ?thesis by auto
qed

lemma costs_mpr_body:
  assumes rec: "\<And>S. costs w n (ReconcilePool E S)" and del: "\<And>S. costs w n (ReconcilePoolDelete E S)"
  shows "costs w n (mpr_body E mp sc)"
proof -
  have ensure: "free w (ensure_finalizer (env_lib E) ManagedMachinePoolFinalizer mp_Finalizers set_mp_Finalizers
                  (smp_PatchObject E sc))"
    by (intro issues_ensure_finalizer issues_smp_PatchObject w_patch)
  show ?thesis
    unfolding mpr_body_def mpr_reconcileDelete_def mpr_reconcileNormal_def
    by (intro costs_if costs_free_then[OF issues_get_obj] costs_free_then[OF ensure] costs_free_then[OF service_free(2)]
        costs_then_free costs_wrapErr rec del issues_rules)
qed

lemma costs_mpr_Reconcile:
  assumes "\<And>S. costs w n (ReconcilePool E S)" and "\<And>S. costs w n (ReconcilePoolDelete E S)"
  shows "sum_list (map w (new_calls s (snd (mpr_Reconcile E req s)))) \<le> n"
proof -
  obtain res t where run: "mpr_Reconcile E req s = (res, t)" by fastforce
  have "\<exists>cs. calls t = calls s @ cs \<and> sum_list (map w cs) \<le> n"
    using run
  proof (cases rule: mpr_Reconcile_cases)
    case idle
    then obtain cs where "calls t = calls s @ cs" "sum_list (map w cs) = 0"
      using sum_reads by blast
    then show ?thesis by (intro exI[of _ cs]) (simp del: sum_list_eq_0_iff)
  next
    case (body mp cp nn w0 w1 w2 sc u)
    have "free w (summarize_and_close E sc)"
      unfolding summarize_and_close_def smp_Close_def
      by (intro issues_rules issues_smp_PatchObject w_patch)
    with body(6) costs_mpr_body[OF assms] show ?thesis
      using body(8) by (rule costs_between)
  qed
  with run show ?thesis by auto
qed

end

lemma read_weights:
  "read_call c \<Longrightarrow> sleep_time c = 0 \<and> cluster_creation c = 0 \<and> pool_creation c = 0 \<and> eip_creation c = 0 \<and>
     vpc_creation c = 0 \<and> subnet_creation c = 0"
  by (cases c) (simp_all add: read_call_def)

interpretation slept: call_weight sleep_time by unfold_locales (simp_all add: read_weights)
interpretation clusters: call_weight cluster_creation by unfold_locales (simp_all add: read_weights)
interpretation pools: call_weight pool_creation by unfold_locales (simp_all add: read_weights)
interpretation eips: call_weight eip_creation by unfold_locales (simp_all add: read_weights)
interpretation vpcs: call_weight vpc_creation by unfold_locales (simp_all add: read_weights)
interpretation subnets: call_weight subnet_creation by unfold_locales (simp_all add: read_weights)

section \<open>Bounds of a reconcile\<close>

lemma network_weights:
  "network_call c \<Longrightarrow> sleep_time c = 0 \<and> cluster_creation c = 0 \<and> pool_creation c = 0 \<and> eip_creation c = 0"
  by (cases c) (simp_all add: network_call_def)

lemma access_weights:
  "access_call c \<or> sleep_or_status c \<Longrightarrow>
     pool_creation c = 0 \<and> vpc_creation c = 0 \<and> subnet_creation c = 0"
  "status_call c \<or> sleep_or_status c \<or> kubeconfig_call c \<Longrightarrow> eip_creation c = 0"
  by (cases c;
      simp add: access_call_def eip_call_def kubeconfig_call_def status_call_def sleep_or_status_def)+

text \<open>Everything \<open>reconcileCluster\<close> and \<open>DeleteControlPlane\<close> may issue.\<close>

lemma issues_ReconcileControlPlane:
  "steps_in (issues (\<lambda>c. access_call c \<or> sleep_or_status c \<or> (\<exists>q. c = CallCreateCluster q)))
     (ReconcileControlPlane E S)"
proof -
  have show_call: "access_call (CallShowCluster i)" for i
    by (simp add: access_call_def)
  have st: "steps_in (issues (\<lambda>c. access_call c \<or> sleep_or_status c \<or> (\<exists>q. c = CallCreateCluster q))) (cp_setStatus E S x)"
    for x by (rule issues_mono[OF issues_cp_setStatus]) (simp add: sleep_or_status_def)
  have w: "steps_in (issues (\<lambda>c. access_call c \<or> sleep_or_status c \<or> (\<exists>q. c = CallCreateCluster q)))
      (waitForClusterActive E S)"
    by (rule issues_mono[OF issues_waitForClusterActive]) simp
  have a: "steps_in (issues (\<lambda>c. access_call c \<or> sleep_or_status c \<or> (\<exists>q. c = CallCreateCluster q)))
      (provide_access E S x)" for x
    by (rule issues_mono[OF issues_provide_access]) simp
  show ?thesis
    unfolding ReconcileControlPlane_def reconcileCluster_def find_or_create_def settle_cluster_def
    by (intro issues_rules issues_showCCECluster issues_createCluster issues_deref_phase st w a)
      (simp_all add: show_call)
qed

lemma issues_DeleteControlPlane:
  "steps_in (issues (\<lambda>c. sleep_or_status c \<or> (\<exists>i. c = CallDeleteCluster i))) (DeleteControlPlane E S)"
  unfolding DeleteControlPlane_def deleteCluster_def deleteClusterAndWait_def waitForClusterDeleted_def
    cluster_deleted_poll_def
  by (intro issues_rules issues_waitUntil issues_showCCECluster issues_deref_phase)
    (simp_all add: sleep_or_status_def)

lemma costs_network:
  "costs vpc_creation 1 (ReconcileNetwork E S)" "costs subnet_creation 1 (ReconcileNetwork E S)"
proof -
  have vpc: "costs vpc_creation 1 (reconcileVPC E S)" "free subnet_creation (reconcileVPC E S)"
    unfolding reconcileVPC_def createVPC_def Let_def
    by (intro costs_free_then[OF issues_get_obj] costs_if costs_free[OF issues.in_ret] costs_free_then
        costs_then_free costs_wrapErr costs_ext issues_rules issues_GenerateName issues_scp_PatchObject; simp)+
  have subnets: "free vpc_creation (reconcileSubnets E S)" "costs subnet_creation 1 (reconcileSubnets E S)"
    unfolding reconcileSubnets_def createSubnet_def listSubnets_def Let_def
    by (intro costs_free_then[OF issues_get_obj] costs_if costs_free[OF issues.in_ret] costs_free_then
        costs_then_free costs_wrapErr costs_attempt costs_ext issues_rules issues_GenerateName issues_scp_PatchObject; simp)+
  show "costs vpc_creation 1 (ReconcileNetwork E S)" "costs subnet_creation 1 (ReconcileNetwork E S)"
    unfolding ReconcileNetwork_def report_network_step_def
    by (intro costs_then_free costs_free_then costs_onErr_free vpc subnets issues_rules)+
qed

lemma costs_eip: "costs eip_creation 1 (ReconcileControlPlane E S)"
proof -
  have st: "free eip_creation (cp_setStatus E S x)" for x
    by (rule issues_mono[OF issues_cp_setStatus]) (simp add: access_weights)
  have w: "free eip_creation (waitForClusterActive E S)"
    by (rule issues_mono[OF issues_waitForClusterActive]) (simp add: access_weights)
  have k: "free eip_creation (reconcileKubeconfig E S)"
    by (rule issues_mono[OF issues_reconcileKubeconfig]) (simp add: access_weights)
  have p: "free eip_creation (publish_endpoint E S)"
    unfolding publish_endpoint_def by (intro issues_rules issues_showCCECluster issues_apply_endpoints k) simp
  have eip: "costs eip_creation 1 (reconcileEIP E S)"
    unfolding reconcileEIP_def Let_def
    by (intro costs_free_then costs_then_free costs_if costs_free[OF issues.in_ret] costs_wrapErr costs_ext issues_rules) simp_all
  have a: "costs eip_creation 1 (provide_access E S c)" for c
    unfolding provide_access_def
    by (intro costs_free_then[OF issues.in_deref] costs_free_then[OF issues_get_obj]
        costs_free_then[OF issues_public_access] costs_then_free[OF _ p] costs_if costs_wrapErr eip
        costs_free[OF issues.in_ret])
  have f: "free eip_creation (find_or_create E S)"
    unfolding find_or_create_def by (intro issues_rules issues_showCCECluster issues_createCluster) simp_all
  have "costs eip_creation 1 (reconcileCluster E S)"
    unfolding reconcileCluster_def settle_cluster_def
    by (intro costs_free_then[OF f] costs_case_prod costs_free_then[OF issues.in_wrapErr[OF st]]
        costs_free_then[OF issues_deref_phase] costs_free_then[OF issues.in_gets] costs_if a
        costs_free_then[OF issues.in_if] issues.in_wrapErr w costs_free[OF issues.in_ret] issues.in_ret)
  then show ?thesis by (rule costs_ReconcileControlPlane)
qed

definition within_budget :: "nat \<Rightarrow> nat \<Rightarrow> nat \<Rightarrow> call list \<Rightarrow> bool" where
  "within_budget network cluster pool cs \<longleftrightarrow>
     slept cs \<le> 20 * 60 * 10 ^ 9 \<and> created_vpcs cs \<le> network \<and> created_subnets cs \<le> network \<and>
     created_clusters cs \<le> cluster \<and> created_eips cs \<le> cluster \<and> created_pools cs \<le> pool"

lemmas budget_defs = within_budget_def slept_def created_vpcs_def created_subnets_def created_clusters_def
  created_eips_def created_pools_def

lemma reads_within_budget: "list_all (\<lambda>c. read_call c \<or> (\<exists>x. c = CallPatchManagedCluster x)) cs \<Longrightarrow> within_budget a b c cs"
proof -
  assume reads: "list_all (\<lambda>c. read_call c \<or> (\<exists>x. c = CallPatchManagedCluster x)) cs"
  have none: "sum_list (map w cs) = 0"
    if "\<And>c. read_call c \<Longrightarrow> w c = 0" "\<And>x. w (CallPatchManagedCluster x) = 0" for w :: "call \<Rightarrow> nat"
    using reads that by (intro sum_list_zero) (auto simp: list_all_iff)
  show ?thesis
    by (simp add: budget_defs none read_weights del: sum_list_eq_0_iff)
qed

lemma cpr_within_budget: "within_budget 1 1 0 (new_calls s (snd (cpr_Reconcile E r req s)))"
proof -
  have rec: "free w (ReconcileControlPlane E S)"
    if "\<And>c. access_call c \<or> sleep_or_status c \<Longrightarrow> w c = 0" "\<And>q. w (CallCreateCluster q) = 0" for w S
    by (rule issues_mono[OF issues_ReconcileControlPlane]) (auto simp: that)
  have del: "costs w 0 (DeleteControlPlane E S)"
    if "\<And>c. sleep_or_status c \<Longrightarrow> w c = 0" "\<And>i. w (CallDeleteCluster i) = 0" for w S
    by (rule costs_free, rule issues_mono[OF issues_DeleteControlPlane]) (auto simp: that)
  have net: "costs w 0 (ReconcileNetwork E S)" if "\<And>c. network_call c \<Longrightarrow> w c = 0" for w S
    by (rule costs_free, rule issues_mono[OF issues_ReconcileNetwork]) (rule that)
  have other: "costs vpc_creation 0 (ReconcileControlPlane E S)" "costs subnet_creation 0 (ReconcileControlPlane E S)"
    "costs pool_creation 0 (ReconcileControlPlane E S)" for S
    by (rule costs_free, rule rec, simp_all add: access_weights)+
  have none: "costs vpc_creation 0 (DeleteControlPlane E S)" "costs subnet_creation 0 (DeleteControlPlane E S)"
    "costs cluster_creation 0 (DeleteControlPlane E S)" "costs eip_creation 0 (DeleteControlPlane E S)"
    "costs pool_creation 0 (DeleteControlPlane E S)" for S
    by (rule del, simp_all add: access_weights access_call_weights)+
  have quiet: "costs sleep_time 0 (ReconcileNetwork E S)" "costs cluster_creation 0 (ReconcileNetwork E S)"
    "costs eip_creation 0 (ReconcileNetwork E S)" "costs pool_creation 0 (ReconcileNetwork E S)" for S
    by (rule net, simp add: network_weights)+
  show ?thesis
    unfolding budget_defs
    by (intro conjI
        slept.costs_cpr_Reconcile[OF quiet(1) costs_ReconcileControlPlane[OF costs_reconcileCluster_sleep] costs_DeleteControlPlane]
        vpcs.costs_cpr_Reconcile[OF costs_network(1) other(1) none(1)]
        subnets.costs_cpr_Reconcile[OF costs_network(2) other(2) none(2)]
        clusters.costs_cpr_Reconcile[OF quiet(2) costs_ReconcileControlPlane[OF costs_reconcileCluster_creation] none(3)]
        eips.costs_cpr_Reconcile[OF quiet(3) costs_eip none(4)]
        pools.costs_cpr_Reconcile[OF quiet(4) other(3) none(5)]) simp_all
qed

text \<open>What the pool service may issue; \<open>i\<close> is the cluster of the control plane it was built for.\<close>

fun pool_lane :: "string \<Rightarrow> call \<Rightarrow> bool" where
  "pool_lane i (CallShowNodePool j n) \<longleftrightarrow> j = i"
| "pool_lane i (CallCreateNodePool q) \<longleftrightarrow> cnq_ClusterId q = i"
| "pool_lane i (CallDeleteNodePool j n) \<longleftrightarrow> j = i"
| "pool_lane i (CallListNodes j) \<longleftrightarrow> j = i"
| "pool_lane i (CallPatchMachinePool mp) \<longleftrightarrow> True"
| "pool_lane i (CallSleep d) \<longleftrightarrow> True"
| "pool_lane i (CallRead x) \<longleftrightarrow> True"
| "pool_lane i _ \<longleftrightarrow> False"

abbreviation pool_cluster :: "'w NodepoolService \<Rightarrow> string" where
  "pool_cluster S \<equiv> cp_InfraClusterID (smp_ControlPlane (nsv_scope S))"

lemma lane_showNodepool: "steps_in (issues (pool_lane (pool_cluster S))) (showNodepool S)"
  unfolding showNodepool_def Let_def by (intro issues_rules issues_response_pool) simp

lemma lane_mp_setStatus: "steps_in (issues (pool_lane (pool_cluster S))) (mp_setStatus E S np)"
  unfolding mp_setStatus_def record_nodes_def Let_def
  by (intro issues_rules issues_collect issues_smp_PatchObject) simp_all

lemma lane_ReconcilePool: "steps_in (issues (pool_lane (pool_cluster S))) (ReconcilePool E S)"
  unfolding ReconcilePool_def reconcileNodepool_def createNodepool_def waitForNodepoolActive_def
    nodepool_active_poll_def Let_def
  by (intro issues_rules issues_waitUntil lane_showNodepool lane_mp_setStatus issues_response_pool issues_pool_phase)
    (simp_all add: create_nodepool_request_def)

lemma lane_ReconcilePoolDelete: "steps_in (issues (pool_lane (pool_cluster S))) (ReconcilePoolDelete E S)"
  unfolding ReconcilePoolDelete_def deleteNodepoolAndWait_def delete_nodepool_body_def waitForNodepoolDeleted_def
    nodepool_deleted_poll_def Let_def
  by (intro issues_rules in_with_deletion_report[OF issues.frame_axioms] issues_waitUntil lane_showNodepool
      issues_pool_phase issues_NodepoolReadyFalse) simp_all

text \<open>The service a machine pool reconcile builds is the one of its scope.\<close>

lemma NewNodepoolService_scope:
  "wrapErr msg (NewNodepoolService E sc) s = (Ret S, t) \<Longrightarrow> nsv_scope S = sc"
  by (auto simp: NewNodepoolService_def Let_def go_simps from_outcome_def
      split: prod.splits outcome.splits option.splits)

lemma lane_mpr_body: "steps_in (issues (pool_lane (cp_InfraClusterID (smp_ControlPlane sc)))) (mpr_body E mp sc)"
proof -
  let ?A = "pool_lane (cp_InfraClusterID (smp_ControlPlane sc))"
  have new: "steps_in (issues ?A) (wrapErr msg (NewNodepoolService E sc))" for msg
    by (intro issues.in_wrapErr issues_NewNodepoolService) simp
  have rec: "steps_in (issues ?A) (ReconcilePool E S)" and del: "steps_in (issues ?A) (ReconcilePoolDelete E S)"
    if "wrapErr msg (NewNodepoolService E sc) s = (Ret S, t)" for msg s S t
    using lane_ReconcilePool[of S E] lane_ReconcilePoolDelete[of S E] NewNodepoolService_scope[OF that] by simp_all
  have ensure: "steps_in (issues ?A) (ensure_finalizer (env_lib E) ManagedMachinePoolFinalizer mp_Finalizers
      set_mp_Finalizers (smp_PatchObject E sc))"
    by (intro issues_ensure_finalizer issues_smp_PatchObject) simp
  show ?thesis
    unfolding mpr_body_def mpr_reconcileDelete_def mpr_reconcileNormal_def
    by (intro issues.in_if issues.in_andThen[OF issues_get_obj] issues.in_andThen[OF ensure]
        issues.in_andThen_ran[OF new] issues.in_andThen[OF issues.in_wrapErr[OF rec]]
        issues.in_andThen[OF issues.in_wrapErr[OF del]] issues.in_andThen[OF issues_upd_obj] issues.in_ret)
qed

lemma lane_mpr_closed:
  "steps_in (issues (pool_lane (cp_InfraClusterID (smp_ControlPlane sc))))
     (with_close (summarize_and_close E sc) (mpr_body E mp sc))"
  by (rule issues_with_close[OF _ lane_mpr_body], unfold summarize_and_close_def smp_Close_def)
    (intro issues_rules issues_smp_PatchObject, simp)

lemma read_lane: "issues read_call s t \<Longrightarrow> issues (pool_lane i) s t"
proof -
  have "read_call c \<Longrightarrow> pool_lane i c" for c
    by (cases c) (simp_all add: read_call_def)
  then show "issues read_call s t \<Longrightarrow> issues (pool_lane i) s t"
    by (auto simp: issues_def list_all_iff)
qed

lemma lane_mpr_Reconcile:
  assumes run: "mpr_Reconcile E req s = (res, t)"
  shows "list_all read_call (new_calls s t) \<or>
    (\<exists>cp nn v w. k_GetControlPlane (env_kube E) nn v = (Ret cp, w) \<and> cpst_Ready (cp_Status cp) \<and>
       list_all (pool_lane (cp_InfraClusterID cp)) (new_calls s t))"
  using run
proof (cases rule: mpr_Reconcile_cases)
  case idle
  then show ?thesis by (intro disjI1 issues_new_calls)
next
  case (body mp cp nn w0 w1 w2 sc u)
  have "issues (pool_lane (cp_InfraClusterID cp)) s t"
    using steps_inD[OF lane_mpr_closed body(8)] body(4) by (auto intro: issues.frame_trans[OF read_lane[OF body(6)]])
  then show ?thesis
    using body(2,3) issues_new_calls by blast
qed

lemma lane_weights:
  "pool_lane i c \<Longrightarrow> cluster_creation c = 0 \<and> eip_creation c = 0 \<and> vpc_creation c = 0 \<and> subnet_creation c = 0"
  by (cases c) simp_all

lemma free_pool_creation_delete: "free pool_creation (ReconcilePoolDelete E S)"
  unfolding ReconcilePoolDelete_def deleteNodepoolAndWait_def delete_nodepool_body_def waitForNodepoolDeleted_def
    nodepool_deleted_poll_def Let_def
  by (intro issues_rules in_with_deletion_report[OF issues.frame_axioms] issues_waitUntil issues_showNodepool
      issues_pool_phase issues_NodepoolReadyFalse) simp_all

lemma mpr_within_budget: "within_budget 0 0 1 (new_calls s (snd (mpr_Reconcile E req s)))"
proof -
  have other: "costs w 0 (ReconcilePool E S)" "costs w 0 (ReconcilePoolDelete E S)"
    if "\<And>i c. pool_lane i c \<Longrightarrow> w c = 0" for w S
    by (rule costs_free, rule issues_mono[OF lane_ReconcilePool], rule that, assumption)
      (rule costs_free, rule issues_mono[OF lane_ReconcilePoolDelete], rule that, assumption)
  have del: "costs pool_creation 1 (ReconcilePoolDelete E S)" for S
    by (rule costs_free[OF free_pool_creation_delete])
  have wrap: "costs w n (ReconcilePool E S)" if "costs w n (reconcileNodepool E S)" for w n S
    unfolding ReconcilePool_def using that by (intro costs_then_free costs_onErr_free) (assumption | intro issues_rules)+
  show ?thesis
    unfolding budget_defs
    by (intro conjI
        slept.costs_mpr_Reconcile[OF costs_mono[OF wrap[OF costs_reconcileNodepool_sleep]] costs_mono[OF costs_ReconcilePoolDelete]]
        pools.costs_mpr_Reconcile[OF wrap[OF costs_reconcileNodepool_creation] del]
        vpcs.costs_mpr_Reconcile[OF other] subnets.costs_mpr_Reconcile[OF other]
        clusters.costs_mpr_Reconcile[OF other] eips.costs_mpr_Reconcile[OF other]) (simp_all add: lane_weights)
qed

lemma issues_or_return:
  "steps_in (issues A) m \<Longrightarrow> (\<And>x. steps_in (issues A) (k x)) \<Longrightarrow> steps_in (issues A) (or_return m wrap k)"
  unfolding or_return_def by (intro issues_rules)

lemma lane_mcr_Reconcile:
  "steps_in (issues (\<lambda>c. read_call c \<or> (\<exists>x. c = CallPatchManagedCluster x))) (mcr_Reconcile E req)"
  unfolding mcr_Reconcile_def by (intro issues_rules issues_or_return) simp_all

text \<open>
  C15. One reconcile of whatever kind of object, whatever the cloud and the API server answer and
  however it ends, sleeps at most twenty minutes in total. For a control plane it requests at most
  one VPC, one subnet, one cluster and one elastic IP, and no node pool; for a machine pool at most
  one node pool and nothing else; for a managed cluster nothing.
\<close>

theorem reconcile_bounded:
  "within_budget 1 1 0 (new_calls s (snd (cpr_Reconcile E r req s))) \<and>
   within_budget 0 0 1 (new_calls s' (snd (mpr_Reconcile E req s'))) \<and>
   within_budget 0 0 0 (new_calls s'' (snd (mcr_Reconcile E req s'')))"
  by (intro conjI cpr_within_budget mpr_within_budget reads_within_budget)
    (rule issues_new_calls, rule steps_inD[OF lane_mcr_Reconcile], rule surjective_pairing)

section \<open>Who may do what\<close>

fun cluster_lane :: "call \<Rightarrow> bool" where
  "cluster_lane (CallShowNodePool i n) \<longleftrightarrow> False"
| "cluster_lane (CallCreateNodePool q) \<longleftrightarrow> False"
| "cluster_lane (CallDeleteNodePool i n) \<longleftrightarrow> False"
| "cluster_lane (CallListNodes i) \<longleftrightarrow> False"
| "cluster_lane (CallPatchMachinePool mp) \<longleftrightarrow> False"
| "cluster_lane (CallPatchManagedCluster mc) \<longleftrightarrow> False"
| "cluster_lane _ \<longleftrightarrow> True"

lemma cluster_lane_calls:
  "network_call c \<or> access_call c \<or> sleep_or_status c \<or> read_call c \<Longrightarrow> cluster_lane c"
  by (cases c) (simp_all add: network_call_def access_call_def eip_call_def kubeconfig_call_def status_call_def
      sleep_or_status_def read_call_def)

lemma lane_cpr_Reconcile: "list_all cluster_lane (new_calls s (snd (cpr_Reconcile E r req s)))"
proof -
  obtain res t where run: "cpr_Reconcile E r req s = (res, t)" by fastforce
  have net: "steps_in (issues cluster_lane) (ReconcileNetwork E S)" for S
    by (rule issues_mono[OF issues_ReconcileNetwork]) (simp add: cluster_lane_calls)
  have rec: "steps_in (issues cluster_lane) (ReconcileControlPlane E S)" for S
    by (rule issues_mono[OF issues_ReconcileControlPlane]) (auto simp: cluster_lane_calls)
  have del: "steps_in (issues cluster_lane) (DeleteControlPlane E S)" for S
    by (rule issues_mono[OF issues_DeleteControlPlane]) (auto simp: cluster_lane_calls)
  have body: "steps_in (issues cluster_lane) (cpr_body E r cp sc)" for cp sc
    unfolding cpr_body_def cpr_reconcileNormal_split cpr_provision_def cpr_reconcileDelete_def dependencyCount_def
      DeleteNetwork_def Let_def
    by (intro issues_rules issues_NewService cp_ensure_calls net rec del) simp_all
  have "issues cluster_lane s t"
    using run
  proof (cases rule: cpr_Reconcile_cases)
    case idle
    then show ?thesis by (auto simp: issues_def list_all_iff cluster_lane_calls)
  next
    case (body cp w sc u)
    obtain q m where m: "cpr_body E r cp sc u = (q, m)" by fastforce
    have "issues cluster_lane s u"
      using body(3) by (auto simp: issues_def list_all_iff cluster_lane_calls)
    with steps_inD[OF \<open>\<And>cp sc. steps_in (issues cluster_lane) (cpr_body E r cp sc)\<close> m]
    have "issues cluster_lane s m" by (metis issues.frame_trans)
    then show ?thesis
      using with_scope_closed(1)[OF body(6) m] by (auto simp: issues_def)
  qed
  with run show ?thesis by (simp add: issues_new_calls)
qed

text \<open>
  C14. The controllers stay apart. The control plane controller never calls the node pool API and never
  patches another kind. The managed cluster controller only reads and patches managed clusters. The
  machine pool controller only reads, unless it has read a control plane that is ready; then every
  call it makes to the cloud names the cluster of that control plane and is about node pools and
  nodes, and it patches machine pools only.
\<close>

theorem controllers_in_lane:
  "list_all cluster_lane (new_calls s (snd (cpr_Reconcile E r req s))) \<and>
   (list_all read_call (new_calls s' (snd (mpr_Reconcile E req s'))) \<or>
    (\<exists>cp nn v w. k_GetControlPlane (env_kube E) nn v = (Ret cp, w) \<and> cpst_Ready (cp_Status cp) \<and>
       list_all (pool_lane (cp_InfraClusterID cp)) (new_calls s' (snd (mpr_Reconcile E req s'))))) \<and>
   list_all (\<lambda>c. read_call c \<or> (\<exists>x. c = CallPatchManagedCluster x))
     (new_calls s'' (snd (mcr_Reconcile E req s'')))"
  by (intro conjI lane_cpr_Reconcile lane_mpr_Reconcile)
    (rule surjective_pairing, rule issues_new_calls, rule steps_inD[OF lane_mcr_Reconcile], rule surjective_pairing)

end
