(* ===== verification/Lifecycle_Props.thy ===== *)
theory Lifecycle_Props
  imports Reconcile_Props
begin

text \<open>
  The life of a control plane object over many reconciles. \<open>history\<close> is the step relation: an object
  starts without a cluster, other actors edit it, and reconciles run on it from any state of the
  world and with any answers of the cloud and of the API server. It refines an abstract machine,
  \<open>id_history\<close>, that the machine pools share (\<open>Pool_Lifecycle_Props\<close>).
\<close>

section \<open>The abstract machine\<close>

text \<open>
  A turn of a reconcile: the ID that is stored after it, and how many resources it requested. If it
  requested one: the ID for which the cloud answered its lookup with 404, if it did; the ID the cloud's
  answer to the request gives, if any; and whether the ID the reconcile ended with was stored
  (the patch that does it may be refused or lost).
\<close>

record turn =
  tu_stored :: string
  tu_requests :: nat
  tu_missing :: "string option"
  tu_granted :: "string option"
  tu_saved :: bool

text \<open>
  \<open>id_step i e\<close>: a turn that starts with the ID \<open>i\<close> requests one resource at most and leaves the ID alone if
  it requests none; it requests one in spite of an ID only if the cloud has reported that ID missing;
  and what is stored after it is the ID it was granted.
\<close>

definition id_step :: "string \<Rightarrow> turn \<Rightarrow> bool" where
  "id_step i e \<longleftrightarrow>
     tu_requests e \<le> 1 \<and> (tu_requests e = 0 \<longrightarrow> tu_stored e = i) \<and>
     (tu_requests e \<noteq> 0 \<and> i \<noteq> [] \<longrightarrow> tu_missing e = Some i) \<and>
     (tu_requests e \<noteq> 0 \<and> tu_saved e \<longrightarrow> (\<forall>j. tu_granted e = Some j \<longrightarrow> tu_stored e = j))"

text \<open>\<open>id_history i log\<close>: a resource has the ID \<open>i\<close> after the turns in \<open>log\<close>, the latest first.\<close>

inductive id_history :: "string \<Rightarrow> turn list \<Rightarrow> bool" where
  id_start: "id_history [] []"
| id_next: "id_history i log \<Longrightarrow> id_step i e \<Longrightarrow> id_history (tu_stored e) (e # log)"

text \<open>
  What it promises. An ID that was stored is still there, and nothing has been requested after it,
  unless a later turn found exactly that ID missing in the cloud and requested a replacement. And
  there is one request at most beside those that replace an ID reported missing and those whose ID
  was lost: the cloud gave none, or it was not saved.
\<close>

definition replaces :: "string \<Rightarrow> turn \<Rightarrow> bool" where
  "replaces i e \<longleftrightarrow> tu_requests e \<noteq> 0 \<and> tu_missing e = Some i"

definition loses_id :: "turn \<Rightarrow> bool" where
  "loses_id e \<longleftrightarrow> tu_requests e \<noteq> 0 \<and> (\<not> tu_saved e \<or> tu_granted e \<in> {None, Some []})"

definition one_per_life :: "string \<Rightarrow> turn list \<Rightarrow> bool" where
  "one_per_life i log \<longleftrightarrow>
     (\<forall>new e old. log = new @ e # old \<longrightarrow> tu_stored e \<noteq> [] \<longrightarrow> \<not> list_ex (replaces (tu_stored e)) new \<longrightarrow>
        i = tu_stored e \<and> list_all (\<lambda>e'. tu_stored e' = tu_stored e \<and> tu_requests e' = 0) new) \<and>
     sum_list (map tu_requests log)
       \<le> 1 + length (filter (\<lambda>e. tu_requests e \<noteq> 0 \<and> tu_missing e \<noteq> None) log) + length (filter loses_id log)"

lemma id_history_kept:
  assumes "id_history i log" and "log = new @ e # old" and "tu_stored e \<noteq> []"
    and "\<not> list_ex (replaces (tu_stored e)) new"
  shows "i = tu_stored e \<and> list_all (\<lambda>e'. tu_stored e' = tu_stored e \<and> tu_requests e' = 0) new"
  using assms
proof (induction arbitrary: new rule: id_history.induct)
  case (id_next i log d)
  show ?case
  proof (cases new)
    case Nil
    with id_next.prems show ?thesis by simp
  next
    case (Cons n new')
    with id_next.prems have new: "d = n" "log = new' @ e # old" "\<not> list_ex (replaces (tu_stored e)) new'"
      "\<not> replaces (tu_stored e) n" by simp_all
    from id_next.IH[OF new(2) id_next.prems(2) new(3)]
    have i: "i = tu_stored e" "list_all (\<lambda>e'. tu_stored e' = tu_stored e \<and> tu_requests e' = 0) new'" by simp_all
    from id_next.hyps(2) new(1,4) id_next.prems(2) i(1) have "tu_requests n = 0 \<and> tu_stored n = i"
      by (auto simp: id_step_def replaces_def)
    with i new(1) Cons show ?thesis by simp
  qed
qed simp

lemma id_history_bound:
  "id_history i log \<Longrightarrow> sum_list (map tu_requests log) + (if i = [] then 1 else 0)
     \<le> 1 + length (filter (\<lambda>e. tu_requests e \<noteq> 0 \<and> tu_missing e \<noteq> None) log) + length (filter loses_id log)"
proof (induction rule: id_history.induct)
  case (id_next i log e)
  have "tu_requests e = 0 \<or> tu_stored e \<noteq> [] \<or> loses_id e"
    using id_next.hyps(2) by (cases "tu_granted e") (auto simp: id_step_def loses_id_def)
  with id_next show ?case by (auto simp: id_step_def split: if_splits)
qed simp

lemma id_history_one_per_life: "id_history i log \<Longrightarrow> one_per_life i log"
  unfolding one_per_life_def
proof (intro conjI allI impI)
  assume h: "id_history i log"
  show "sum_list (map tu_requests log)
       \<le> 1 + length (filter (\<lambda>e. tu_requests e \<noteq> 0 \<and> tu_missing e \<noteq> None) log) + length (filter loses_id log)"
    using id_history_bound[OF h] by (rule add_leD1)
qed (simp_all add: id_history_kept)

section \<open>The ID without a request\<close>

text \<open>
  \<open>recorded f w\<close>: a run that issues no request, counted by \<open>w\<close>, leaves the ID that \<open>f\<close> reads of the
  reconciled object.
\<close>

definition recorded ::
  "('o \<Rightarrow> string) \<Rightarrow> (call \<Rightarrow> nat) \<Rightarrow> ('o, 'w) st \<Rightarrow> ('o, 'w) st \<Rightarrow> bool" where
  "recorded f w s t \<longleftrightarrow>
     issues (\<lambda>_. True) s t \<and> (issues (\<lambda>c. w c = 0) s t \<longrightarrow> f (obj t) = f (obj s))"

lemma issues_split:
  "issues (\<lambda>_. True) s t \<Longrightarrow> issues (\<lambda>_. True) t u \<Longrightarrow> issues A s u \<longleftrightarrow> issues A s t \<and> issues A t u"
  by (auto simp: issues_def)

interpretation recorded: frame "recorded f w" for f w
proof
  show "recorded f w s s" for s
    by (simp add: recorded_def issues.frame_refl)
  fix s t u
  assume st: "recorded f w s t" and tu: "recorded f w t u"
  then have grow: "issues (\<lambda>_. True) s t" "issues (\<lambda>_. True) t u"
    by (simp_all add: recorded_def)
  from st tu show "recorded f w s u"
    using issues.frame_trans[OF grow] by (simp add: recorded_def issues_split[OF grow, of "\<lambda>c. w c = 0"])
qed

lemma recordedI:
  assumes "steps_in (keeps f) m" and "steps_in (issues A) m"
  shows "steps_in (recorded f w) m"
  using steps_inD[OF assms(1)] issues_all[OF assms(2)]
  by (intro steps_inI) (auto simp: recorded_def keeps_def)

text \<open>Between reads and a closing patch the run of the body decides.\<close>

lemma recorded_between:
  assumes before: "issues A s u" and body: "recorded f w u m"
    and after: "calls t = calls m @ [c]" "f (obj t) = f (obj m)"
    and none: "sum_list (map w (new_calls s t)) = 0"
  shows "f (obj t) = f (obj u)"
proof -
  from body obtain cs where cs: "calls m = calls u @ cs"
    by (auto simp: recorded_def issues_def)
  from before obtain ds where ds: "calls u = calls s @ ds"
    by (auto simp: issues_def)
  have "new_calls s t = ds @ cs @ [c]"
    using cs ds after(1) by (intro new_calls_append) simp
  with none cs have "issues (\<lambda>c. w c = 0) u m"
    by (auto simp: issues_def list_all_iff)
  with body after(2) show ?thesis by (simp add: recorded_def)
qed

lemma counted_call: "sum_list (map w cs) \<noteq> (0::nat) \<Longrightarrow> \<exists>c\<in>set cs. w c \<noteq> 0"
  using sum_list_zero[of cs w] by auto

text \<open>A call that the rest does not issue was issued before it.\<close>

lemma early_call:
  assumes run: "andThen m f s = (r, t)"
    and c: "A c" "c \<in> set (new_calls s t)"
    and m: "steps_in (issues (\<lambda>_. True)) m"
    and f: "\<And>x. steps_in (issues (\<lambda>c. \<not> A c)) (f x)"
  obtains q u where "m s = (q, u)" "c \<in> set (new_calls s u)"
proof -
  obtain q u where q: "m s = (q, u)" by fastforce
  have su: "issues (\<lambda>_. True) s u" by (rule steps_inD[OF m q])
  show thesis
  proof (cases q)
    case (Ret x)
    with run q have fx: "f x u = (r, t)" by (simp add: go_simps)
    from issues_new_calls[OF steps_inD[OF f fx]] c(1) have "c \<notin> set (new_calls u t)"
      by (auto simp: list_all_iff)
    with c(2) have "c \<in> set (new_calls s u)"
      unfolding new_calls_trans[OF su steps_inD[OF f fx]] by simp
    with q that show thesis by blast
  qed (use run q c that in \<open>auto simp: go_simps\<close>)
qed

section \<open>What one reconcile does to the ID\<close>

abbreviation cp_recorded ::
  "(CCEManagedControlPlane, 'w) st \<Rightarrow> (CCEManagedControlPlane, 'w) st \<Rightarrow> bool" where
  "cp_recorded \<equiv> recorded scp_InfraClusterID cluster_creation"

lemma scp_InfraClusterID_finalizers [simp]: "scp_InfraClusterID (set_cp_Finalizers fs cp) = scp_InfraClusterID cp"
  by (simp add: scp_InfraClusterID_def set_cp_Finalizers_def)

lemma keeps_cp_ensure: "steps_in (keeps scp_InfraClusterID) (cp_ensure E sc)"
  unfolding ensure_finalizer_def by (intro keeps_rules keeps_scp_PatchObject scp_InfraClusterID_finalizers)

lemma createCluster_recorded: "steps_in cp_recorded (createCluster E S)"
proof (rule steps_inI)
  fix s r t assume run: "createCluster E S s = (r, t)"
  show "cp_recorded s t"
  proof (cases "cl_ClusterNetwork (scp_Cluster (sv_scope S))")
    case None
    with run have "t = s" by (simp add: createCluster_def go_simps)
    then show ?thesis by (simp add: recorded.frame_refl)
  next
    case (Some net)
    let ?q = "create_cluster_request (env_lib E) net (obj s)"
    obtain a v where a: "CreateCluster (sv_CCEClient S) ?q (world s) = (a, v)" by fastforce
    have "calls t = calls s @ [CallCreateCluster ?q]"
      using run Some a by (cases a) (auto simp: createCluster_def go_simps split: option.splits)
    then show ?thesis by (simp add: recorded_def issues_def)
  qed
qed

lemma find_or_create_recorded: "steps_in cp_recorded (find_or_create E S)"
proof -
  have lookup: "steps_in cp_recorded (showCCECluster S i)" for i
    by (rule recordedI[OF keeps_showCCECluster issues_showCCECluster[of "\<lambda>_. True"]]) simp
  show ?thesis
    unfolding find_or_create_def by (intro recorded.in_rules lookup createCluster_recorded)
qed

lemma body_recorded: "steps_in cp_recorded (cpr_body E r cp sc)"
proof -
  have ensure: "steps_in cp_recorded (cp_ensure E sc)"
    by (rule recordedI[OF keeps_cp_ensure cp_ensure_calls[of "\<lambda>_. True"]]) simp
  have new: "steps_in cp_recorded (NewService E sc [])"
    by (rule recordedI[OF keeps_NewService issues_NewService[of "\<lambda>_. True"]]) simp
  have net: "steps_in cp_recorded (ReconcileNetwork E S)" for S
    by (rule recordedI[OF cp_label.ReconcileNetwork_keeps issues_ReconcileNetwork])
  have settle: "steps_in cp_recorded (settle_cluster E S c st)" for S c st
    by (rule recordedI[OF cp_label.settle_cluster_keeps free_settle_cluster])
  have mark: "steps_in cp_recorded (upd_obj (cp_MarkTrue (env_lib E) CCEControlPlaneReadyCondition))"
    "steps_in cp_recorded (upd_obj (cp_MarkFalse (env_lib E) CCEControlPlaneReadyCondition x y z))" for x y z
    by (intro recordedI[of _ _ "\<lambda>_. True"] keeps_upd_obj issues_upd_obj; simp add: cp_label.f_simps)+
  have delete: "steps_in cp_recorded (cpr_reconcileDelete E sc)"
  proof (rule recordedI[OF _ delete_creates_nothing])
    show "steps_in (keeps scp_InfraClusterID) (cpr_reconcileDelete E sc)"
      unfolding cpr_reconcileDelete_def dependencyCount_def DeleteNetwork_def Let_def
      by (intro keeps_rules keeps_NewService keeps_DeleteControlPlane scp_InfraClusterID_finalizers)
  qed
  show ?thesis
    unfolding cpr_body_def cpr_reconcileNormal_split cpr_provision_def get_obj_def ReconcileControlPlane_def
      reconcileCluster_def
    by (intro recorded.in_rules delete ensure new net find_or_create_recorded settle mark)
qed

text \<open>
  \<open>cpr_before E req\<close> is the part of a reconcile that comes before it looks for the cluster; it returns
  the service the reconcile works with. From there, \<open>cluster_missing\<close> is the recorded ID if the cloud
  answers the lookup of it with 404, and \<open>cluster_granted\<close> is the ID the cloud's answer gives to the request
  for a cluster that would follow. \<open>missing_cluster\<close> and \<open>granted_cluster\<close> are both for a whole reconcile.
\<close>

definition cpr_before ::
  "'w env \<Rightarrow> NamespacedName \<Rightarrow> ((CCEManagedControlPlane, 'w) st, 'w Service) go" where
  "cpr_before E req =
     andThen (cpr_opening E req) (\<lambda>sc.
     andThen (cp_ensure E sc) (\<lambda>_.
     andThen (NewService E sc []) (\<lambda>S.
     andThen (ReconcileNetwork E S) (\<lambda>_. ret S))))"

definition cluster_missing :: "'w Service \<Rightarrow> ((CCEManagedControlPlane, 'w) st, string option) go" where
  "cluster_missing S =
     andThen (gets (\<lambda>s. scp_InfraClusterID (obj s))) (\<lambda>i.
       if i = [] then ret None
       else andThen (showCCECluster S i) (\<lambda>c. ret (if c = None then Some i else None)))"

definition cluster_granted :: "'w env \<Rightarrow> 'w Service \<Rightarrow> ((CCEManagedControlPlane, 'w) st, string option) go" where
  "cluster_granted E S =
     andThen (cluster_missing S) (\<lambda>_.
     andThen (deref (cl_ClusterNetwork (scp_Cluster (sv_scope S)))) (\<lambda>net.
     andThen (gets (\<lambda>s. create_cluster_request (env_lib E) net (obj s))) (\<lambda>q.
     andThen (ext (CallCreateCluster q) (CreateCluster (sv_CCEClient S) q)) (\<lambda>response.
       ret (Option.bind (ccr_Metadata response) cm_Uid)))))"

definition answer :: "('s, 'a option) go \<Rightarrow> 's \<Rightarrow> 'a option" where
  "answer m s = (case fst (m s) of Ret g \<Rightarrow> g | _ \<Rightarrow> None)"

definition missing_cluster ::
  "'w env \<Rightarrow> NamespacedName \<Rightarrow> (CCEManagedControlPlane, 'w) st \<Rightarrow> string option" where
  "missing_cluster E req = answer (andThen (cpr_before E req) cluster_missing)"

definition granted_cluster ::
  "'w env \<Rightarrow> NamespacedName \<Rightarrow> (CCEManagedControlPlane, 'w) st \<Rightarrow> string option" where
  "granted_cluster E req = answer (andThen (cpr_before E req) (cluster_granted E))"

text \<open>
  A cluster is requested: if there was an ID, the lookup has reported it missing; and an ID the cloud
  grants is the one the object carries in the end.
\<close>

lemma createCluster_grants:
  assumes run: "createCluster E S v = (q, u)" and m: "cluster_missing S s = (Ret x, v)"
    and j: "answer (cluster_granted E S) s = Some j"
  shows "scp_InfraClusterID (obj u) = j"
proof (cases "cl_ClusterNetwork (scp_Cluster (sv_scope S))")
  case None
  with m j show ?thesis by (simp add: answer_def cluster_granted_def go_simps)
next
  case (Some net)
  let ?q = "create_cluster_request (env_lib E) net (obj v)"
  obtain a w where a: "CreateCluster (sv_CCEClient S) ?q (world v) = (a, w)" by fastforce
  with m j Some obtain response metadata where "a = Ret response" "ccr_Metadata response = Some metadata"
    "cm_Uid metadata = Some j"
    by (cases a) (auto simp: answer_def cluster_granted_def go_simps bind_eq_Some_conv)
  with run Some a show ?thesis
    by (auto simp: createCluster_def go_simps cp_label.f_simps cluster_id.getID_setID)
qed

lemma find_or_create_requests:
  assumes f: "find_or_create E S s = (q, u)" and c: "cluster_creation c \<noteq> 0" "c \<in> set (new_calls s u)"
  shows "scp_InfraClusterID (obj s) \<noteq> [] \<Longrightarrow> answer (cluster_missing S) s = Some (scp_InfraClusterID (obj s))"
    and "answer (cluster_granted E S) s = Some j \<Longrightarrow> scp_InfraClusterID (obj u) = j"
proof -
  let ?i = "scp_InfraClusterID (obj s)"
  have "\<exists>v q'. cluster_missing S s = (Ret (if ?i = [] then None else Some ?i), v) \<and> createCluster E S v = (q', u)"
  proof (cases "?i = []")
    case True
    obtain q' w where "createCluster E S s = (q', w)" by fastforce
    moreover from this f True have "w = u"
      by (cases q') (auto simp: find_or_create_def go_simps)
    ultimately show ?thesis using True by (simp add: cluster_missing_def go_simps)
  next
    case i: False
    obtain a v where a: "showCCECluster S ?i s = (a, v)" by fastforce
    have "issues (\<lambda>c. cluster_creation c = 0) s v"
      by (rule steps_inD[OF issues_showCCECluster a]) simp
    from issues_new_calls[OF this] c have "u \<noteq> v"
      by (auto simp: list_all_iff)
    moreover have "u = v" if "a \<noteq> Ret None"
      using f a i that by (cases a) (auto simp: find_or_create_def go_simps split: option.splits)
    ultimately have a': "a = Ret None" by blast
    obtain q' w where w: "createCluster E S v = (q', w)" by fastforce
    with f a a' i have "w = u"
      by (cases q') (auto simp: find_or_create_def go_simps)
    with w a a' i show ?thesis by (simp add: cluster_missing_def go_simps)
  qed
  then obtain v q' where v: "cluster_missing S s = (Ret (if ?i = [] then None else Some ?i), v)"
    "createCluster E S v = (q', u)" by blast
  show "?i \<noteq> [] \<Longrightarrow> answer (cluster_missing S) s = Some ?i"
    using v(1) by (simp add: answer_def)
  show "answer (cluster_granted E S) s = Some j \<Longrightarrow> scp_InfraClusterID (obj u) = j"
    by (rule createCluster_grants[OF v(2,1)])
qed

lemma request_answers:
  assumes run: "ReconcileControlPlane E S s = (r, t)"
    and c: "cluster_creation c \<noteq> 0" "c \<in> set (new_calls s t)"
  shows "scp_InfraClusterID (obj s) \<noteq> [] \<Longrightarrow> answer (cluster_missing S) s = Some (scp_InfraClusterID (obj s))"
    and "answer (cluster_granted E S) s = Some j \<Longrightarrow> scp_InfraClusterID (obj t) = j"
proof -
  obtain r1 t1 where r1: "reconcileCluster E S s = (r1, t1)" by fastforce
  with run c(2) have c1: "c \<in> set (new_calls s t1)"
    using calls_ReconcileControlPlane[of E S s] by (simp add: new_calls_def)
  have grows: "steps_in (issues (\<lambda>_. True)) (find_or_create E S)"
    unfolding find_or_create_def by (intro issues_rules issues_showCCECluster issues_createCluster) simp_all
  have settle: "steps_in (issues (\<lambda>c. \<not> cluster_creation c \<noteq> 0)) (case x of (cl, st) \<Rightarrow> settle_cluster E S cl st)" for x
    using free_settle_cluster by (cases x) simp
  obtain q u where f: "find_or_create E S s = (q, u)" and cu: "c \<in> set (new_calls s u)"
    using early_call[of _ _ s r1 t1 "\<lambda>c. cluster_creation c \<noteq> 0" c] r1 c(1) c1 grows settle
    unfolding reconcileCluster_def by metis
  show "scp_InfraClusterID (obj s) \<noteq> [] \<Longrightarrow> answer (cluster_missing S) s = Some (scp_InfraClusterID (obj s))"
    by (rule find_or_create_requests(1)[OF f c(1) cu])
  have "scp_InfraClusterID (obj t1) = scp_InfraClusterID (obj u)"
  proof (cases q)
    case (Ret x)
    with r1 f have "(case x of (cl, st) \<Rightarrow> settle_cluster E S cl st) u = (r1, t1)"
      by (simp add: reconcileCluster_def go_simps)
    then show ?thesis
      using steps_inD[OF cp_label.settle_cluster_keeps] by (cases x) (fastforce simp: keeps_def)
  qed (use r1 f in \<open>auto simp: reconcileCluster_def go_simps\<close>)
  moreover have "scp_InfraClusterID (obj t) = scp_InfraClusterID (obj t1)"
    using run r1 by (cases r1) (auto simp: ReconcileControlPlane_def go_simps cp_label.f_simps)
  moreover assume "answer (cluster_granted E S) s = Some j"
  then have "scp_InfraClusterID (obj u) = j" by (rule find_or_create_requests(2)[OF f c(1) cu])
  ultimately show "scp_InfraClusterID (obj t) = j" by simp
qed

lemma request_in_provision:
  assumes run: "cpr_provision E sc s = (r, t)"
    and c: "cluster_creation c \<noteq> 0" "c \<in> set (new_calls s t)"
  obtains S x u v q where "NewService E sc [] s = (Ret S, u)" "ReconcileNetwork E S u = (Ret x, v)"
    "ReconcileControlPlane E S v = (q, t)" "c \<in> set (new_calls v t)"
    "scp_InfraClusterID (obj v) = scp_InfraClusterID (obj s)"
proof -
  let ?n = "\<lambda>p. p @ object_path (cp_Meta (obj s))"
  let ?A = "\<lambda>c. cluster_creation c \<noteq> 0"
  have grows: "steps_in (issues (\<lambda>_. True)) (andThen (wrapErr m (ReconcileControlPlane E S)) (\<lambda>_. ret Result0))" for m S
    by (intro issues_rules grows_ReconcileControlPlane)
  have grows': "steps_in (issues (\<lambda>_. True)) (andThen (wrapErr m' (ReconcileNetwork E S))
      (\<lambda>_. andThen (wrapErr m (ReconcileControlPlane E S)) (\<lambda>_. ret Result0)))" for m m' S
    by (intro issues_rules grows_ReconcileControlPlane growsI[OF issues_ReconcileNetwork])
  have new: "steps_in (issues (\<lambda>c. \<not> ?A c)) (wrapErr m (NewService E sc []))" for m
    by (intro issues.in_wrapErr issues_NewService) simp
  have "network_call c \<Longrightarrow> cluster_creation c = 0" for c by (simp add: network_weights)
  then have net: "steps_in (issues (\<lambda>c. \<not> ?A c)) (wrapErr m (ReconcileNetwork E S))" for m S
    by (intro issues.in_wrapErr issues_mono[OF issues_ReconcileNetwork]) simp
  have "andThen (wrapErr (?n ''failed to init cce service for CCEManagedControlPlane '') (NewService E sc [])) (\<lambda>S.
     andThen (wrapErr (?n ''failed to reconcile network for CCEManagedControlPlane '') (ReconcileNetwork E S)) (\<lambda>_.
     andThen (wrapErr (?n ''failed to reconcile control plane for CCEManagedControlPlane '') (ReconcileControlPlane E S)) (\<lambda>_.
       ret Result0))) s = (r, t)"
    using run by (simp add: cpr_provision_def andThen_run[OF get_obj_apply])
  then obtain S u where S: "NewService E sc [] s = (Ret S, u)" and
    u: "andThen (wrapErr (?n ''failed to reconcile network for CCEManagedControlPlane '') (ReconcileNetwork E S)) (\<lambda>_.
     andThen (wrapErr (?n ''failed to reconcile control plane for CCEManagedControlPlane '') (ReconcileControlPlane E S)) (\<lambda>_.
       ret Result0)) u = (r, t)" and cu: "c \<in> set (new_calls u t)"
    using c by (elim late_call[where A = ?A, OF _ _ _ new grows']) simp_all
  from u cu c(1) obtain x v where N: "ReconcileNetwork E S u = (Ret x, v)" and
    v: "andThen (wrapErr (?n ''failed to reconcile control plane for CCEManagedControlPlane '') (ReconcileControlPlane E S))
      (\<lambda>_. ret Result0) v = (r, t)" and cv: "c \<in> set (new_calls v t)"
    by (elim late_call[where A = ?A, OF _ _ _ net grows]) simp_all
  obtain q w where q: "ReconcileControlPlane E S v = (q, w)" by fastforce
  with v have "t = w" by (cases q) (auto simp: go_simps)
  have same: "scp_InfraClusterID (obj v) = scp_InfraClusterID (obj s)"
    using steps_inD[OF keeps_NewService[of scp_InfraClusterID] S] steps_inD[OF cp_label.ReconcileNetwork_keeps N]
    by (simp add: keeps_def)
  from S N q[folded \<open>t = w\<close>] cv same show thesis by (rule that)
qed

lemma request_in_body:
  assumes run: "cpr_body E r cp sc u = (q, m)" and opened: "cpr_opening E req s = (Ret sc, u)"
    and c: "cluster_creation c \<noteq> 0" "c \<in> set (new_calls u m)"
  obtains S v p where "cpr_before E req s = (Ret S, v)" "ReconcileControlPlane E S v = (p, m)"
    "c \<in> set (new_calls v m)" "scp_InfraClusterID (obj v) = scp_InfraClusterID (obj u)"
proof -
  have creates: "cloud_creation c" using c(1) by (cases c) simp_all
  have "\<not> cpr_reconcileDelete E sc u = (q, m)"
  proof
    assume "cpr_reconcileDelete E sc u = (q, m)"
    from issues_new_calls[OF steps_inD[OF delete_creates_nothing this]] creates c(2) show False
      by (auto simp: list_all_iff)
  qed
  with run have "cpr_reconcileNormal E r sc u = (q, m)" by (simp add: cpr_body_def split: if_splits)
  then have "andThen (cp_ensure E sc) (\<lambda>_. cpr_provision E sc) u = (q, m)"
    using c(2) by (auto simp: cpr_reconcileNormal_split go_simps split: option.splits if_splits)
  moreover have "steps_in (issues (\<lambda>c. \<not> cluster_creation c \<noteq> 0)) (cp_ensure E sc)"
    by (rule cp_ensure_calls) simp
  ultimately obtain x v where e: "cp_ensure E sc u = (Ret x, v)" and v: "cpr_provision E sc v = (q, m)"
    and cv: "c \<in> set (new_calls v m)"
    using c by (elim late_call[where A = "\<lambda>c. cluster_creation c \<noteq> 0", OF _ _ _ _ grows_provision]) simp_all
  have same: "scp_InfraClusterID (obj v) = scp_InfraClusterID (obj u)"
    using steps_inD[OF keeps_cp_ensure e] by (simp add: keeps_def)
  from v c(1) cv obtain S y a b p where S: "NewService E sc [] v = (Ret S, a)" "ReconcileNetwork E S a = (Ret y, b)"
    "ReconcileControlPlane E S b = (p, m)" "c \<in> set (new_calls b m)" "scp_InfraClusterID (obj b) = scp_InfraClusterID (obj v)"
    by (rule request_in_provision)
  have "cpr_before E req s = (Ret S, b)"
    using opened e S(1,2) by (simp add: cpr_before_def andThen_run ret_apply)
  from this S(3,4) S(5)[unfolded same] show thesis by (rule that)
qed

text \<open>The turn of a reconcile that read \<open>cp\<close> and ran from \<open>s\<close> to \<open>t\<close>.\<close>

definition cp_turn ::
  "'w env \<Rightarrow> NamespacedName \<Rightarrow> CCEManagedControlPlane \<Rightarrow> (CCEManagedControlPlane, 'w) st \<Rightarrow>
   (CCEManagedControlPlane, 'w) st \<Rightarrow> bool \<Rightarrow> turn" where
  "cp_turn E req cp s t saved =
     \<lparr>tu_stored = scp_InfraClusterID (if saved then obj t else cp),
      tu_requests = created_clusters (new_calls s t),
      tu_missing = missing_cluster E req s, tu_granted = granted_cluster E req s, tu_saved = saved\<rparr>"

lemma reconcile_id_step:
  assumes run: "cpr_Reconcile E r req s = (res, t)"
    and get: "k_GetControlPlane (env_kube E) req (world s) = (Ret cp, w)"
  shows "id_step (scp_InfraClusterID cp) (cp_turn E req cp s t saved)"
  using run
proof (cases rule: cpr_Reconcile_cases)
  case idle
  have "list_all (\<lambda>c. cluster_creation c = 0) (new_calls s t)"
    using issues_new_calls[OF idle(1)] by (auto simp: list_all_iff read_weights)
  then have "created_clusters (new_calls s t) = 0"
    by (simp add: created_clusters_def list_all_iff)
  with idle(2)[OF get] show ?thesis by (simp add: id_step_def cp_turn_def)
next
  case (body cp' w' sc u)
  obtain q m where m: "cpr_body E r cp' sc u = (q, m)" by fastforce
  note closed = with_scope_closed[OF body(6) m]
  have cp: "obj u = cp" using body(1,4) get by simp
  have one: "created_clusters (new_calls s t) \<le> 1"
    using cpr_within_budget[of s E r req] run by (simp add: within_budget_def)
  show ?thesis
  proof (cases "created_clusters (new_calls s t) = 0")
    case True
    have "scp_InfraClusterID (obj t) = scp_InfraClusterID (obj u)"
      using closed True unfolding created_clusters_def
      by (intro recorded_between[OF body(3) steps_inD[OF body_recorded m]]) simp_all
    with cp True show ?thesis by (simp add: id_step_def cp_turn_def)
  next
    case False
    from counted_call[OF False[unfolded created_clusters_def]]
    obtain c where c: "cluster_creation c \<noteq> 0" "c \<in> set (new_calls s t)" by auto
    have um: "issues (\<lambda>_. True) u m" by (rule steps_inD[OF grows_body m])
    have "new_calls s t = new_calls s u @ new_calls u m @ [CallPatchControlPlane (obj m)]"
      using body(3) um closed(1) by (auto simp: issues_def new_calls_def)
    moreover have "c \<notin> set (new_calls s u)"
      using issues_new_calls[OF body(3)] c(1) by (auto simp: list_all_iff read_weights)
    moreover have "c \<noteq> CallPatchControlPlane (obj m)" using c(1) by auto
    ultimately have cm: "c \<in> set (new_calls u m)" using c(2) by simp
    from m body(7) c(1) cm obtain S v p where S: "cpr_before E req s = (Ret S, v)"
      "ReconcileControlPlane E S v = (p, m)" "c \<in> set (new_calls v m)"
      "scp_InfraClusterID (obj v) = scp_InfraClusterID (obj u)"
      by (rule request_in_body)
    have answers: "missing_cluster E req s = answer (cluster_missing S) v"
      "granted_cluster E req s = answer (cluster_granted E S) v"
      using S(1) by (simp_all add: missing_cluster_def granted_cluster_def answer_def andThen_run)
    have "missing_cluster E req s = Some (scp_InfraClusterID cp)" if "scp_InfraClusterID cp \<noteq> []"
      using request_answers(1)[OF S(2) c(1) S(3)] that S(4) cp answers(1) by simp
    moreover have "scp_InfraClusterID (obj t) = j" if "granted_cluster E req s = Some j" for j
      using request_answers(2)[OF S(2) c(1) S(3)] that answers(2) closed(2) by simp
    ultimately show ?thesis using one False by (auto simp: id_step_def cp_turn_def)
  qed
qed

section \<open>Histories\<close>

text \<open>
  \<open>history Es r req cp log\<close>: after the turns in \<open>log\<close>, the latest first, the API server stores \<open>cp\<close>. A
  reconcile reads the stored object. What is stored after it carries the ID the reconcile ended with,
  or still the one it read, when the patch that should have stored the new one was refused or lost.
  Between reconciles anything may happen to the world, and to the object anything that leaves the
  ID label. Nothing is assumed of the environments in \<open>Es\<close>, which may differ from turn to turn.
\<close>

inductive history ::
  "'w env set \<Rightarrow> CCEManagedControlPlaneReconciler \<Rightarrow> NamespacedName \<Rightarrow> CCEManagedControlPlane \<Rightarrow>
   turn list \<Rightarrow> bool"
  for Es r req where
  submitted: "scp_InfraClusterID cp = [] \<Longrightarrow> history Es r req cp []"
| edited: "history Es r req cp log \<Longrightarrow> scp_InfraClusterID cp' = scp_InfraClusterID cp \<Longrightarrow>
    history Es r req cp' log"
| reconciled: "history Es r req cp log \<Longrightarrow> E \<in> Es \<Longrightarrow>
    k_GetControlPlane (env_kube E) req (world s) = (Ret cp, w) \<Longrightarrow>
    cpr_Reconcile E r req s = (res, t) \<Longrightarrow>
    scp_InfraClusterID cp' = tu_stored (cp_turn E req cp s t saved) \<Longrightarrow>
    history Es r req cp' (cp_turn E req cp s t saved # log)"

text \<open>Histories refine the abstract machine: the ID of the stored object makes its steps.\<close>

lemma history_refines: "history Es r req cp log \<Longrightarrow> id_history (scp_InfraClusterID cp) log"
proof (induction rule: history.induct)
  case (submitted cp)
  then show ?case by (simp add: id_history.id_start)
next
  case (edited cp log cp')
  then show ?case by simp
next
  case (reconciled cp log E s w res t cp' saved)
  from id_history.id_next[OF reconciled.IH reconcile_id_step[OF reconciled.hyps(4,3)]] reconciled.hyps(5)
  show ?case by simp
qed

text \<open>
  C1. Over the whole life of a control plane object, through any number of reconciles, whatever the
  cloud and the API server answer and however each of them ends, each reading the stored object: a
  cluster ID that was stored is still there and no cluster has been requested after it, unless the
  lookup of a later reconcile had exactly that ID answered with 404 and that reconcile requested a
  replacement. And the requests are one at most, beside those that replace an ID reported missing and
  those whose ID was lost: the cloud gave none, or the patch with it did not get stored. Whenever it
  gets stored, it is the ID the cloud gave.
\<close>

theorem one_cluster_per_life:
  assumes "history Es r req cp log"
  shows "one_per_life (scp_InfraClusterID cp) log"
  using assms by (intro id_history_one_per_life history_refines)

text \<open>
  A server that at first stores the object as submitted and then, when the world is 1 or 2, with an ID;
  the cloud cannot be reached when the world is 1, and reports the cluster missing when it is 2.
\<close>

definition life_env :: "nat env" where
  "life_env = demo_env\<lparr>
     env_kube := demo_kube\<lparr>k_GetControlPlane :=
       (\<lambda>_ w. (Ret (if w = 0 then demo_cp else scp_SetInfraClusterID ''cce-1'' demo_cp), w))\<rparr>,
     env_NewCceClient := (\<lambda>_ _. Ret (demo_cce\<lparr>
       CreateCluster := (\<lambda>_ w. (Ret \<lparr>ccr_Metadata = Some \<lparr>cm_Uid = Some (if w = 0 then ''cce-1'' else ''cce-2'')\<rparr>,
                                    ccr_Status = Some (demo_status ''Resizing'')\<rparr>, w)),
       ShowCluster := (\<lambda>_ w. (Err (if w = 1 then ErrorString ''timeout''
                                  else ServiceResponseError 404 ''CCE.404'' ''no cluster''), w))\<rparr>))\<rparr>"

abbreviation life_req :: NamespacedName where
  "life_req \<equiv> \<lparr>nn_Namespace = ''ns'', nn_Name = ''dev''\<rparr>"

abbreviation first_turn :: turn where
  "first_turn \<equiv> \<lparr>tu_stored = ''cce-1'', tu_requests = 1, tu_missing = None, tu_granted = Some ''cce-1'', tu_saved = True\<rparr>"

text \<open>A life with one reconcile, which has created the cluster; after it the object may be edited.\<close>

lemma life_first:
  assumes "scp_InfraClusterID cp = ''cce-1''"
  shows "history {life_env} demo_reconciler life_req cp [first_turn]"
proof -
  let ?run = "cpr_Reconcile life_env demo_reconciler life_req (start demo_cp)"
  have turn: "cp_turn life_env life_req demo_cp (start demo_cp) (snd ?run) True = first_turn"
    by code_simp
  have get: "k_GetControlPlane (env_kube life_env) life_req (world (start demo_cp)) = (Ret demo_cp, 0)"
    by (simp add: life_env_def start_def)
  have "history {life_env} demo_reconciler life_req demo_cp []"
    by (rule history.submitted) code_simp
  from history.reconciled[OF this _ get surjective_pairing, of cp True]
  show ?thesis by (simp add: turn assms)
qed

abbreviation life_log :: "turn list" where
  "life_log \<equiv>
     [\<lparr>tu_stored = ''cce-2'', tu_requests = 1, tu_missing = Some ''cce-1'', tu_granted = Some ''cce-2'', tu_saved = True\<rparr>,
      \<lparr>tu_stored = ''cce-1'', tu_requests = 0, tu_missing = None, tu_granted = None, tu_saved = False\<rparr>, first_turn]"

lemma one_cluster_per_life_witness:
  "\<exists>cp. history {life_env} demo_reconciler life_req cp life_log \<and> one_per_life ''cce-2'' life_log"
proof -
  let ?cp = "scp_SetInfraClusterID ''cce-1'' demo_cp" and ?s = "\<lambda>n. (start demo_cp)\<lparr>world := n\<rparr>"
  let ?run = "\<lambda>n. cpr_Reconcile life_env demo_reconciler life_req (?s n)"
  have turn: "cp_turn life_env life_req ?cp (?s 1) (snd (?run 1)) False
      = \<lparr>tu_stored = ''cce-1'', tu_requests = 0, tu_missing = None, tu_granted = None, tu_saved = False\<rparr>"
    "cp_turn life_env life_req ?cp (?s 2) (snd (?run 2)) True
      = \<lparr>tu_stored = ''cce-2'', tu_requests = 1, tu_missing = Some ''cce-1'', tu_granted = Some ''cce-2'', tu_saved = True\<rparr>"
    by code_simp+
  have get: "k_GetControlPlane (env_kube life_env) life_req (world (?s 1)) = (Ret ?cp, 1)"
    "k_GetControlPlane (env_kube life_env) life_req (world (?s 2)) = (Ret ?cp, 2)"
    by (simp_all add: life_env_def start_def)
  have id: "scp_InfraClusterID ?cp = ''cce-1''" "scp_InfraClusterID (scp_SetInfraClusterID ''cce-2'' demo_cp) = ''cce-2''"
    by (simp_all add: cluster_id.getID_setID)
  from history.reconciled[OF life_first[OF id(1)] _ get(1) surjective_pairing, of ?cp False]
  have "history {life_env} demo_reconciler life_req ?cp
      [\<lparr>tu_stored = ''cce-1'', tu_requests = 0, tu_missing = None, tu_granted = None, tu_saved = False\<rparr>, first_turn]"
    unfolding turn by (simp add: id)
  from history.reconciled[OF this _ get(2) surjective_pairing, of "scp_SetInfraClusterID ''cce-2'' demo_cp" True]
  have h: "history {life_env} demo_reconciler life_req (scp_SetInfraClusterID ''cce-2'' demo_cp) life_log"
    unfolding turn by (simp add: id)
  from one_cluster_per_life[OF h] h show ?thesis unfolding id by blast
qed

section \<open>The endpoint reaches the cluster\<close>

text \<open>
  C19. An endpoint on a control plane reaches the infrastructure object: the change of a control
  plane that has an endpoint and is not being deleted enqueues exactly the managed cluster its
  owning cluster refers to; and a reconcile of that request, when its reads are answered, the
  cluster is not paused and the patch is accepted, ends without error with that endpoint and
  \<open>ready\<close> on the managed cluster, and the object it sent is the one it ends with.
\<close>

theorem endpoint_propagates:
  assumes cp: "Time_IsZero (om_DeletionTimestamp (cp_Meta cp))"
      "\<not> lib_APIEndpoint_IsZero (env_lib E) (cps_ControlPlaneEndpoint (cp_Spec cp))"
    and owner: "k_GetOwnerCluster (env_kube E) (cp_Meta cp) (world s) = (Ret (Some cluster), w)"
      "cl_InfrastructureRef cluster = Some infra" "or_Kind infra = ''CCEManagedCluster''"
    and reads: "k_GetManagedCluster (env_kube E) \<lparr>nn_Namespace = or_Namespace infra, nn_Name = or_Name infra\<rparr> (world s')
        = (Ret mc, w1)"
      "k_GetOwnerCluster (env_kube E) (mc_Meta mc) w1 = (Ret (Some cluster), w2)"
      "\<not> lib_IsPaused (env_lib E) cluster (mc_Meta mc)" "cl_ControlPlaneRef cluster = Some ref"
      "k_GetControlPlane (env_kube E) \<lparr>nn_Namespace = or_Namespace ref, nn_Name = or_Name ref\<rparr> w2 = (Ret cp, w3)"
    and patch: "lib_NewHelperManagedCluster (env_lib E) mc = None"
      "\<And>new v. fst (k_PatchManagedCluster (env_kube E) mc new v) = Ret ()"
  shows "\<exists>req t. fst (managedControlPlaneToManagedCluster E (ObjControlPlane cp) s) = Ret [req] \<and>
    mcr_Reconcile E req s' = (Ret (Result0, None), t) \<and>
    mcs_ControlPlaneEndpoint (mc_Spec (obj t)) = cps_ControlPlaneEndpoint (cp_Spec cp) \<and>
    mcst_Ready (mc_Status (obj t)) \<and> last (calls t) = CallPatchManagedCluster (obj t)"
proof -
  let ?req = "\<lparr>nn_Namespace = or_Namespace infra, nn_Name = or_Name infra\<rparr>"
  let ?mc = "set_mc_Endpoint (cps_ControlPlaneEndpoint (cp_Spec cp)) (set_mc_Ready mc)"
  obtain v where v: "k_PatchManagedCluster (env_kube E) mc ?mc w3 = (Ret (), v)"
    by (rule ended[OF patch(2)])
  have "fst (managedControlPlaneToManagedCluster E (ObjControlPlane cp) s) = Ret [?req]"
    using cp owner by (simp add: managedControlPlaneToManagedCluster_def go_simps)
  moreover have "\<exists>t. mcr_Reconcile E ?req s' = (Ret (Result0, None), t) \<and> obj t = ?mc \<and>
      last (calls t) = CallPatchManagedCluster ?mc"
    using reads patch(1) v by (simp add: mcr_Reconcile_def or_return_def go_simps)
  ultimately show ?thesis
    by (auto simp: set_mc_Endpoint_def set_mc_Ready_def)
qed

definition endpoint_cp :: CCEManagedControlPlane where
  "endpoint_cp = set_Endpoint \<lparr>Host = ''1.2.3.4'', Port = 5443\<rparr> demo_cp"

lemma endpoint_propagates_witness:
  "\<exists>E req t. fst (managedControlPlaneToManagedCluster E (ObjControlPlane endpoint_cp) (start ())) = Ret [req] \<and>
     mcr_Reconcile E req (start demo_mc) = (Ret (Result0, None), t) \<and>
     Host (mcs_ControlPlaneEndpoint (mc_Spec (obj t))) = ''1.2.3.4''"
proof -
  let ?E = "demo_env\<lparr>env_kube := demo_kube\<lparr>k_GetControlPlane := (\<lambda>_. ret endpoint_cp)\<rparr>\<rparr>"
  have cp: "Time_IsZero (om_DeletionTimestamp (cp_Meta endpoint_cp))"
      "\<not> lib_APIEndpoint_IsZero (env_lib ?E) (cps_ControlPlaneEndpoint (cp_Spec endpoint_cp))"
    by code_simp+
  have paused: "\<not> lib_IsPaused (env_lib ?E) demo_cluster m" for m
    by (simp add: demo_env_def demo_lib_def)
  have infra: "or_Kind (demo_ref ''CCEManagedCluster'') = ''CCEManagedCluster''"
    by (simp add: demo_ref_def)
  have host: "Host (cps_ControlPlaneEndpoint (cp_Spec endpoint_cp)) = ''1.2.3.4''"
    by code_simp
  have "\<exists>req t. fst (managedControlPlaneToManagedCluster ?E (ObjControlPlane endpoint_cp) (start ())) = Ret [req] \<and>
    mcr_Reconcile ?E req (start demo_mc) = (Ret (Result0, None), t) \<and>
    mcs_ControlPlaneEndpoint (mc_Spec (obj t)) = cps_ControlPlaneEndpoint (cp_Spec endpoint_cp) \<and>
    mcst_Ready (mc_Status (obj t)) \<and> last (calls t) = CallPatchManagedCluster (obj t)"
    by (rule endpoint_propagates[OF cp _ _ infra _ _ paused])
      (simp_all add: demo_env_def demo_kube_def demo_cluster_def demo_lib_def go_simps)
  with host show ?thesis by metis
qed

end
