(* ===== verification/Steady_Props.thy ===== *)
theory Steady_Props
  imports Lifecycle_Props
begin

text \<open>
  The steady state of a control plane: once its network and its cluster are recorded, the records stay,
  and reconciles create nothing more, but for a cluster that replaces one the cloud reports missing and
  for elastic IPs of a public access point.
\<close>

section \<open>Runs from objects with a property\<close>

text \<open>\<open>within P A\<close>: from an object with property \<open>P\<close> only calls in \<open>A\<close> are issued, and \<open>P\<close> holds again.\<close>

definition within :: "('o \<Rightarrow> bool) \<Rightarrow> (call \<Rightarrow> bool) \<Rightarrow> ('o, 'w) st \<Rightarrow> ('o, 'w) st \<Rightarrow> bool" where
  "within P A s t \<longleftrightarrow> (P (obj s) \<longrightarrow> issues A s t \<and> P (obj t))"

interpretation within: frame "within P A" for P A
proof
  show "within P A s s" for s
    by (simp add: within_def issues.frame_refl)
  show "within P A s t \<Longrightarrow> within P A t u \<Longrightarrow> within P A s u" for s t u
    by (auto simp: within_def intro: issues.frame_trans)
qed

lemma withinI: "steps_in (keeps P) m \<Longrightarrow> steps_in (issues A) m \<Longrightarrow> steps_in (within P A) m"
  by (rule steps_inI) (auto simp: within_def keeps_def dest: steps_inD)

lemma within_get_obj:
  assumes "\<And>x. P x \<Longrightarrow> steps_in (within P A) (f x)"
  shows "steps_in (within P A) (andThen get_obj f)"
proof (rule steps_inI)
  fix s r t assume run: "andThen get_obj f s = (r, t)"
  show "within P A s t"
  proof (cases "P (obj s)")
    case True
    have "f (obj s) s = (r, t)" using run by (simp add: andThen_run[OF get_obj_apply])
    then show ?thesis by (rule steps_inD[OF assms[OF True]])
  qed (simp add: within_def)
qed

section \<open>Provisioned control planes\<close>

definition private_access :: "CCEManagedControlPlane \<Rightarrow> bool" where
  "private_access cp \<longleftrightarrow> (\<exists>a. cps_EndpointAccess (cp_Spec cp) = Some a \<and> ea_Public a = Some False)"

text \<open>What a reconcile looks at before it creates a network or an elastic IP.\<close>

definition provision_record :: "CCEManagedControlPlane \<Rightarrow> string \<times> string \<times> bool" where
  "provision_record cp = (vpc_id_of cp, subnet_id_of cp, private_access cp)"

interpretation cp_record: settled E provision_record for E
  by unfold_locales
    (simp_all add: provision_record_def private_access_def vpc_id_of_def subnet_id_of_def
      set_EIP_status_def set_Initialized_def set_cp_Ready_def set_cp_FailureMessage_def set_Endpoint_def)

lemma provision_record_others [simp]:
  "provision_record (scp_SetInfraClusterID i cp) = provision_record cp"
  "provision_record (set_cp_Finalizers fs cp) = provision_record cp"
  by (simp_all add: provision_record_def private_access_def vpc_id_of_def subnet_id_of_def set_cp_Finalizers_def
      cluster_id.setID_identity)

text \<open>The cloud answers with a public endpoint whenever it is asked for the endpoints of a cluster.\<close>

definition publishes_endpoints :: "'w env \<Rightarrow> bool" where
  "publishes_endpoints E \<longleftrightarrow>
     (\<forall>auth region client i w r v. env_NewCceClient E auth region = Ret client \<longrightarrow>
        ShowClusterEndpoints client i w = (Ret r, v) \<longrightarrow>
        (\<exists>st p. sce_Status r = Some st \<and> ces_PublicEndpoint st = Some p \<and> p \<noteq> []))"

lemma NewService_client:
  assumes "NewService E sc [] s = (Ret S, t)"
  obtains auth region where "env_NewCceClient E auth region = Ret (sv_CCEClient S)"
  using assms by (auto simp: NewService_def Let_def go_simps from_outcome_def
      split: prod.splits outcome.splits option.splits)

definition networked :: "string \<times> string \<times> bool \<Rightarrow> CCEManagedControlPlane \<Rightarrow> bool" where
  "networked x cp \<longleftrightarrow> provision_record cp = x \<and> vpc_id_of cp \<noteq> [] \<and> subnet_id_of cp \<noteq> []"

lemma networked_keeps: "steps_in (keeps provision_record) m \<Longrightarrow> steps_in (keeps (networked x)) m"
  by (rule steps_inI) (auto simp: keeps_def networked_def provision_record_def dest: steps_inD)

text \<open>
  What such a control plane may still make a reconcile create: a cluster, and an elastic IP when the
  access is not private and the cloud does not always show a public endpoint.
\<close>

definition steady_call :: "bool \<Rightarrow> call \<Rightarrow> bool" where
  "steady_call no_eip c \<longleftrightarrow> (cloud_creation c \<longrightarrow> cluster_creation c \<noteq> 0 \<or> \<not> no_eip \<and> eip_creation c \<noteq> 0)"

lemma steady_call_harmless: "\<not> cloud_creation c \<Longrightarrow> steady_call b c"
  by (simp add: steady_call_def)

abbreviation quiet ::
  "'w env \<Rightarrow> string \<times> string \<times> bool \<Rightarrow> (CCEManagedControlPlane, 'w) st \<Rightarrow> (CCEManagedControlPlane, 'w) st \<Rightarrow> bool" where
  "quiet E x \<equiv> within (networked x) (steady_call (snd (snd x) \<or> publishes_endpoints E))"

lemma quietI:
  "steps_in (keeps provision_record) m \<Longrightarrow> steps_in (issues (\<lambda>c. \<not> cloud_creation c)) m \<Longrightarrow> steps_in (quiet E x) m"
  by (rule withinI[OF networked_keeps issues_mono[OF _ steady_call_harmless]])

lemma quiet_calls:
  "access_call c \<Longrightarrow> \<not> eip_call c \<Longrightarrow> \<not> cloud_creation c" "status_call c \<or> sleep_or_status c \<or> kubeconfig_call c \<Longrightarrow> \<not> cloud_creation c"
  by (cases c; simp add: access_call_def eip_call_def kubeconfig_call_def status_call_def sleep_or_status_def)+

lemma network_quiet: "steps_in (quiet E x) (ReconcileNetwork E S)"
proof -
  have vpc: "steps_in (quiet E x) (reconcileVPC E S)" "steps_in (quiet E x) (reconcileSubnets E S)"
    unfolding reconcileVPC_def reconcileSubnets_def
    by (rule within_get_obj, simp add: networked_def within.in_ret)+
  have mark: "steps_in (quiet E x) (upd_obj (cp_MarkTrue (env_lib E) c))"
    "steps_in (quiet E x) (upd_obj (\<lambda>cp. cp_MarkFalse (env_lib E) c r (g cp) m cp))"
    if "c \<in> {VpcReadyCondition, SubnetsReadyCondition}" for c r g m
    using that by (intro quietI keeps_upd_obj issues_upd_obj; auto simp: cp_record.f_settled)+
  show ?thesis
    unfolding ReconcileNetwork_def report_network_step_def
    by (intro within.in_rules vpc mark) simp_all
qed

lemma find_or_create_quiet: "steps_in (quiet E x) (find_or_create E S)"
proof (rule withinI[OF networked_keeps])
  show "steps_in (keeps provision_record) (find_or_create E S)"
    unfolding find_or_create_def createCluster_def
    by (intro keeps_rules keeps_showCCECluster) (simp_all add: cp_record.f_settled)
  show "steps_in (issues (steady_call (snd (snd x) \<or> publishes_endpoints E))) (find_or_create E S)"
    unfolding find_or_create_def
    by (intro issues_rules issues_showCCECluster issues_createCluster) (simp_all add: steady_call_def)
qed

lemma reconcileEIP_quiet:
  assumes client: "env_NewCceClient E auth region = Ret (sv_CCEClient S)" and x: "\<not> snd (snd x)"
  shows "steps_in (quiet E x) (reconcileEIP E S)"
proof (cases "publishes_endpoints E")
  case True
  show ?thesis
  proof (rule steps_inI)
    fix s r t assume run: "reconcileEIP E S s = (r, t)"
    let ?i = "scp_InfraClusterID (obj s)"
    obtain q w where q: "ShowClusterEndpoints (sv_CCEClient S) ?i (world s) = (q, w)" by fastforce
    have "obj t = obj s \<and> calls t = calls s @ [CallShowClusterEndpoints ?i]"
    proof (cases q)
      case (Ret e)
      obtain st p where "sce_Status e = Some st" "ces_PublicEndpoint st = Some p" "p \<noteq> []"
        using True client q Ret unfolding publishes_endpoints_def by blast
      with run q Ret show ?thesis by (auto simp: reconcileEIP_def go_simps)
    qed (use run q in \<open>auto simp: reconcileEIP_def go_simps\<close>)
    then show "quiet E x s t" by (simp add: within_def issues_def steady_call_harmless cloud_creation_def)
  qed
next
  case False
  show ?thesis
  proof (rule withinI[OF networked_keeps])
    show "steps_in (keeps provision_record) (reconcileEIP E S)"
      unfolding reconcileEIP_def Let_def by (intro keeps_rules) (simp_all add: cp_record.f_settled)
    have "eip_call c \<Longrightarrow> steady_call (snd (snd x) \<or> publishes_endpoints E) c" for c
      using x False by (cases c) (simp_all add: steady_call_def eip_call_def)
    then show "steps_in (issues (steady_call (snd (snd x) \<or> publishes_endpoints E))) (reconcileEIP E S)"
      by (rule issues_mono[OF issues_reconcileEIP])
  qed
qed

lemma ReconcileControlPlane_quiet:
  assumes client: "env_NewCceClient E auth region = Ret (sv_CCEClient S)"
  shows "steps_in (quiet E x) (ReconcileControlPlane E S)"
proof -
  have st: "steps_in (quiet E x) (cp_setStatus E S y)" for y
    by (rule quietI[OF cp_record.cp_setStatus_keeps issues_mono[OF issues_cp_setStatus]]) (simp add: quiet_calls)
  have w: "steps_in (quiet E x) (waitForClusterActive E S)"
    by (rule quietI[OF cp_record.waitForClusterActive_keeps issues_mono[OF issues_waitForClusterActive]])
      (simp add: quiet_calls)
  have ph: "steps_in (quiet E x) (deref_phase y)" for y
    by (rule quietI[OF keeps_deref_phase issues_deref_phase])
  have pe: "steps_in (quiet E x) (publish_endpoint E S)"
  proof (rule quietI[OF cp_record.publish_endpoint_keeps])
    show "steps_in (issues (\<lambda>c. \<not> cloud_creation c)) (publish_endpoint E S)"
      unfolding publish_endpoint_def
      by (intro issues_rules issues_showCCECluster issues_apply_endpoints issues_mono[OF issues_reconcileKubeconfig])
        (simp_all add: quiet_calls)
  qed
  have pa: "steps_in (quiet E x) (provide_access E S c)" for c
    unfolding provide_access_def
  proof (intro within.in_andThen[OF within.in_deref] within_get_obj)
    fix cp assume cp: "networked x cp"
    have eip: "steps_in (quiet E x) (if pub then wrapErr ''failed reconciling EIP'' (reconcileEIP E S) else ret ())"
      if "public_access cp s = (Ret pub, t)" for pub and s t :: "(CCEManagedControlPlane, 'a) st"
    proof (cases "snd (snd x)")
      case True
      with cp that have "\<not> pub"
        by (auto simp: networked_def provision_record_def private_access_def public_access_def go_simps)
      then show ?thesis by (simp add: within.in_ret)
    next
      case False
      then show ?thesis by (intro within.in_if within.in_wrapErr within.in_ret reconcileEIP_quiet[OF client])
    qed
    have "steps_in (quiet E x) (public_access cp)"
      unfolding public_access_def by (intro within.in_rules)
    then show "steps_in (quiet E x) (andThen (public_access cp) (\<lambda>public.
        andThen (if public then wrapErr ''failed reconciling EIP'' (reconcileEIP E S) else ret ()) (\<lambda>_. publish_endpoint E S)))"
      by (rule within.in_andThen_ran) (rule within.in_andThen[OF eip pe])
  qed
  have mark: "steps_in (quiet E x) (upd_obj (cp_MarkTrue (env_lib E) CCEControlPlaneReadyCondition))"
    "steps_in (quiet E x) (upd_obj (cp_MarkFalse (env_lib E) CCEControlPlaneReadyCondition a b c))" for a b c
    by (intro quietI keeps_upd_obj issues_upd_obj; simp add: cp_record.f_settled)+
  show ?thesis
    unfolding ReconcileControlPlane_def reconcileCluster_def settle_cluster_def
    by (intro within.in_rules find_or_create_quiet st w ph pa mark)
qed

lemma body_quiet: "steps_in (quiet E x) (cpr_body E r cp sc)"
proof -
  have new: "steps_in (quiet E x) (wrapErr msg (NewService E sc []))" for msg
    by (intro quietI keeps.in_wrapErr issues.in_wrapErr keeps_NewService issues_NewService) simp
  have rec: "steps_in (quiet E x) (wrapErr m2 (ReconcileControlPlane E S))"
    if "wrapErr m (NewService E sc []) s = (Ret S, t)" for m m2 s S t
  proof -
    from that obtain auth region where "env_NewCceClient E auth region = Ret (sv_CCEClient S)"
      using NewService_client by (metis wrapErr_Ret)
    then show ?thesis by (intro within.in_wrapErr ReconcileControlPlane_quiet)
  qed
  have up: "steps_in (quiet E x) (cpr_provision E sc)"
    unfolding cpr_provision_def get_obj_def
    by (intro within.in_andThen[OF within.in_gets] within.in_andThen_ran[OF new]
        within.in_andThen[OF within.in_wrapErr[OF network_quiet]] within.in_andThen[OF rec] within.in_ret)
  have ensure: "steps_in (quiet E x) (cp_ensure E sc)"
  proof (rule quietI)
    show "steps_in (keeps provision_record) (cp_ensure E sc)"
      unfolding ensure_finalizer_def by (intro keeps_rules keeps_scp_PatchObject provision_record_others)
  qed (rule cp_ensure_calls, simp)
  have delete: "steps_in (quiet E x) (cpr_reconcileDelete E sc)"
  proof (rule quietI[OF _ delete_creates_nothing])
    show "steps_in (keeps provision_record) (cpr_reconcileDelete E sc)"
      unfolding cpr_reconcileDelete_def dependencyCount_def DeleteNetwork_def Let_def
      by (intro keeps_rules keeps_NewService keeps_DeleteControlPlane provision_record_others)
  qed
  show ?thesis
    unfolding cpr_body_def cpr_reconcileNormal_split by (intro within.in_rules delete ensure up)
qed

lemma networked_run:
  assumes run: "cpr_Reconcile E r req s = (res, t)"
    and get: "k_GetControlPlane (env_kube E) req (world s) = (Ret cp, w)"
    and cp: "vpc_id_of cp \<noteq> []" "subnet_id_of cp \<noteq> []"
  shows "list_all (steady_call (private_access cp \<or> publishes_endpoints E)) (new_calls s t)"
    and "provision_record (obj t) = provision_record cp"
proof -
  let ?A = "steady_call (private_access cp \<or> publishes_endpoints E)"
  have "issues ?A s t \<and> provision_record (obj t) = provision_record cp"
    using run
  proof (cases rule: cpr_Reconcile_cases)
    case idle
    then show ?thesis using get by (auto simp: issues_def list_all_iff read_call_harmless steady_call_harmless)
  next
    case (body cp' w' sc u)
    obtain q m where m: "cpr_body E r cp' sc u = (q, m)" by fastforce
    have u: "networked (provision_record cp) (obj u)"
      using body(1,4) get cp by (simp add: networked_def)
    have priv: "snd (snd (provision_record cp)) = private_access cp" by (simp add: provision_record_def)
    from steps_inD[OF body_quiet[where x = "provision_record cp"] m] u
    have m': "issues ?A u m" "provision_record (obj m) = provision_record cp"
      by (simp_all add: within_def networked_def priv)
    have "issues ?A s u"
      using body(3) by (auto simp: issues_def list_all_iff read_call_harmless steady_call_harmless)
    from issues.frame_trans[OF this m'(1)] show ?thesis
      using with_scope_closed[OF body(6) m] m'(2) by (auto simp: issues_def steady_call_harmless)
  qed
  then show "list_all ?A (new_calls s t)" "provision_record (obj t) = provision_record cp"
    by (auto simp: issues_new_calls)
qed

text \<open>
  C11. The steady state, whatever the cloud and the API server answer. A reconcile of a control plane
  whose VPC, subnet and cluster are recorded creates neither a VPC nor a subnet; it creates a cluster only
  if the cloud answers its lookup of the recorded cluster with 404; and it creates an elastic IP only
  if the access is not private and the cloud does not always show a public endpoint. The recorded VPC
  and subnet and the access stay as they are, and so does the cluster unless it is that missing one.
\<close>

theorem provisioned_stays:
  assumes run: "cpr_Reconcile E r req s = (res, t)"
    and get: "k_GetControlPlane (env_kube E) req (world s) = (Ret cp, w)"
    and cp: "vpc_id_of cp \<noteq> []" "subnet_id_of cp \<noteq> []" "scp_InfraClusterID cp \<noteq> []"
  shows "(\<forall>c\<in>set (new_calls s t). cloud_creation c \<longrightarrow>
      (\<exists>q. c = CallCreateCluster q) \<and> missing_cluster E req s = Some (scp_InfraClusterID cp) \<or>
      (\<exists>q. c = CallCreatePublicip q) \<and> \<not> private_access cp \<and> \<not> publishes_endpoints E) \<and>
    vpc_id_of (obj t) = vpc_id_of cp \<and> subnet_id_of (obj t) = subnet_id_of cp \<and>
    private_access (obj t) = private_access cp \<and>
    (missing_cluster E req s \<noteq> Some (scp_InfraClusterID cp) \<longrightarrow>
       scp_InfraClusterID (obj t) = scp_InfraClusterID cp)"
proof (intro conjI ballI impI)
  have step: "created_clusters (new_calls s t) \<noteq> 0 \<Longrightarrow> missing_cluster E req s = Some (scp_InfraClusterID cp)"
    using reconcile_id_step[OF run get] cp(3) by (simp add: id_step_def cp_turn_def)
  fix c assume c: "c \<in> set (new_calls s t)" "cloud_creation c"
  show "(\<exists>q. c = CallCreateCluster q) \<and> missing_cluster E req s = Some (scp_InfraClusterID cp) \<or>
      (\<exists>q. c = CallCreatePublicip q) \<and> \<not> private_access cp \<and> \<not> publishes_endpoints E"
  proof (cases "cluster_creation c = 0")
    case True
    with networked_run(1)[OF run get cp(1,2)] c show ?thesis
      by (cases c) (auto simp: list_all_iff steady_call_def)
  next
    case False
    with c(1) have "created_clusters (new_calls s t) \<noteq> 0"
      by (auto simp: created_clusters_def)
    from step[OF this] False show ?thesis by (cases c) simp_all
  qed
next
  assume "missing_cluster E req s \<noteq> Some (scp_InfraClusterID cp)"
  with reconcile_id_step[OF run get, of True] cp(3)
  show "scp_InfraClusterID (obj t) = scp_InfraClusterID cp" by (auto simp: id_step_def cp_turn_def)
qed (use networked_run(2)[OF run get cp(1,2)] in \<open>simp_all add: provision_record_def\<close>)

definition settled_cp :: CCEManagedControlPlane where
  "settled_cp = set_VPC_ID ''vpc-1'' (set_Subnet_ID ''sub-1'' (scp_SetInfraClusterID ''cce-1'' demo_cp))"

definition steady_env :: "nat env" where
  "steady_env = demo_env\<lparr>
     env_kube := demo_kube\<lparr>k_GetControlPlane := (\<lambda>_. ret settled_cp)\<rparr>,
     env_NewCceClient := (\<lambda>_ _. Ret (demo_cce\<lparr>
       ShowCluster := (\<lambda>_. ret \<lparr>sc_Status = Some (demo_status ''Available'')\<rparr>),
       ShowClusterEndpoints := (\<lambda>_. ret \<lparr>sce_Status = Some \<lparr>ces_PublicEndpoint = Some ''https://5.6.7.8''\<rparr>\<rparr>)\<rparr>))\<rparr>"

lemma provisioned_stays_witness:
  "list_all (\<lambda>c. \<not> cloud_creation c)
     (new_calls (start demo_cp) (snd (cpr_Reconcile steady_env demo_reconciler life_req (start demo_cp))))"
proof -
  have get: "k_GetControlPlane (env_kube steady_env) life_req (world (start demo_cp)) = (Ret settled_cp, 0)"
    by (simp add: steady_env_def go_simps start_def)
  have cp: "vpc_id_of settled_cp \<noteq> []" "subnet_id_of settled_cp \<noteq> []" "scp_InfraClusterID settled_cp \<noteq> []"
    by code_simp+
  have "missing_cluster steady_env life_req (start demo_cp) = None"
    by code_simp
  moreover have "publishes_endpoints steady_env"
    by (auto simp: publishes_endpoints_def steady_env_def ret_apply)
  ultimately show ?thesis
    using provisioned_stays[OF surjective_pairing get cp] by (auto simp: list_all_iff)
qed

end
