(* ===== verification/Provisioning_Props.thy ===== *)
theory Provisioning_Props
  imports Steady_Props
begin

text \<open>
  A control plane gets provisioned: in a cloud that grants what it is asked for, one reconcile takes a
  control plane from wherever it is to the steady state. The proofs use the judgement \<open>ends\<close> of total
  correctness; \<open>stage\<close> measures how far an object has come.
\<close>

section \<open>A cloud that grants what it is asked for\<close>

text \<open>
  \<open>grants W m R\<close>: whatever the state of the world, \<open>m\<close> succeeds with a value in \<open>R\<close>, and the number of
  polls that a cluster still needs to become available does not change: \<open>W n\<close> holds in the worlds in
  which it is \<open>n\<close>.
\<close>

definition grants :: "(nat \<Rightarrow> 'w \<Rightarrow> bool) \<Rightarrow> ('w, 'a) go \<Rightarrow> ('a \<Rightarrow> bool) \<Rightarrow> bool" where
  "grants W m R \<longleftrightarrow> (\<forall>n w. W n w \<longrightarrow> (\<exists>x v. m w = (Ret x, v) \<and> W n v \<and> R x))"

definition renewable :: "lib \<Rightarrow> string \<Rightarrow> go_error + Secret \<Rightarrow> bool" where
  "renewable L name r \<longleftrightarrow>
     (case r of
        Inl e \<Rightarrow> lib_IsNotFound L e
      | Inr se \<Rightarrow> \<exists>d cfg. se_Data se KubeconfigDataName = Some d \<and> lib_clientcmd_Load L d = Inr cfg \<and>
                  cfg_AuthInfos cfg (getKubeConfigUserName name False) \<noteq> None)"

definition healthy_kube :: "'w env \<Rightarrow> string \<Rightarrow> (nat \<Rightarrow> 'w \<Rightarrow> bool) \<Rightarrow> bool" where
  "healthy_kube E name W \<longleftrightarrow>
     (\<forall>a b c. grants W (k_PatchControlPlane (env_kube E) a b c) (\<lambda>_. True)) \<and>
     (\<forall>n. grants W (k_GetSecret (env_kube E) n) (\<lambda>_. True)) \<and>
     (\<forall>n. grants W (attempt (k_GetKubeconfigSecret (env_kube E) n)) (renewable (env_lib E) name)) \<and>
     (\<forall>se. grants W (k_CreateSecret (env_kube E) se) (\<lambda>_. True)) \<and>
     (\<forall>se. grants W (k_UpdateSecret (env_kube E) se) (\<lambda>_. True)) \<and>
     (\<forall>cfg. \<exists>out. lib_clientcmd_Write (env_lib E) cfg = Inr out) \<and>
     (\<forall>n w. W n w \<longrightarrow> (\<forall>a b. W n (k_Eventf (env_kube E) a b w)) \<and> W n (snd (k_RandString (env_kube E) 5 w)) \<and>
        W (n - 1) (k_Sleep (env_kube E) (30 * Second) w))"

definition usable_endpoint :: "ClusterEndpoints \<Rightarrow> bool" where
  "usable_endpoint ep \<longleftrightarrow>
     (\<exists>ty url host port. ep_Type ep = Some ty \<and> ep_Url ep = Some url \<and> parseURL url = Inr (host, port) \<and> host \<noteq> [])"

definition cluster_in :: "string \<Rightarrow> ClusterStatus \<Rightarrow> bool" where
  "cluster_in phase st \<longleftrightarrow>
     cs_Phase st = Some phase \<and>
     (\<exists>eps. cs_Endpoints st = Some eps \<and> list_all usable_endpoint eps \<and>
        (\<exists>ep \<in> set eps. ep_Type ep \<in> {Some ''Internal'', Some ''External''}))"

definition certificate :: "CreateCertResponse \<Rightarrow> bool" where
  "certificate r \<longleftrightarrow>
     (\<exists>u us user c k bs ks. ctr_Users r = Some (u # us) \<and> us_User u = Some user \<and>
        cu_ClientCertificateData user = Some c \<and> base64_DecodeString c = Inr bs \<and>
        cu_ClientKeyData user = Some k \<and> base64_DecodeString k = Inr ks)"

definition healthy_cce :: "'w CceClient \<Rightarrow> (nat \<Rightarrow> 'w \<Rightarrow> bool) \<Rightarrow> bool" where
  "healthy_cce C W \<longleftrightarrow>
     (\<forall>q. grants W (CreateCluster C q) (\<lambda>r.
        \<exists>m i st. ccr_Metadata r = Some m \<and> cm_Uid m = Some i \<and> i \<noteq> [] \<and> ccr_Status r = Some st \<and> cs_Phase st = Some ''Creating'')) \<and>
     (\<forall>i n w. i \<noteq> [] \<longrightarrow> W n w \<longrightarrow> (\<exists>c st v. ShowCluster C i w = (Ret c, v) \<and> W n v \<and> sc_Status c = Some st \<and>
        cluster_in (if n = 0 then ''Available'' else ''Creating'') st)) \<and>
     (\<forall>i. grants W (ShowClusterEndpoints C i) (\<lambda>r. sce_Status r \<noteq> None)) \<and>
     (\<forall>u. grants W (UpdateClusterEip C u) (\<lambda>_. True)) \<and>
     (\<forall>q. grants W (CreateKubernetesClusterCert C q) certificate)"

definition healthy_net :: "'w VpcClient \<Rightarrow> 'w EipClient \<Rightarrow> (nat \<Rightarrow> 'w \<Rightarrow> bool) \<Rightarrow> bool" where
  "healthy_net V I W \<longleftrightarrow>
     (\<forall>q. grants W (CreateVpc V q) (\<lambda>r. \<exists>i. cvr_Vpc r = Some i \<and> i \<noteq> [])) \<and>
     (\<forall>q. grants W (CreateSubnet V q) (\<lambda>r. \<exists>i. cnr_Subnet r = Some i \<and> i \<noteq> [])) \<and>
     (\<forall>q. grants W (CreatePublicip I q) (\<lambda>r. pr_Publicip r \<noteq> None))"

definition healthy :: "'w env \<Rightarrow> string \<Rightarrow> (nat \<Rightarrow> 'w \<Rightarrow> bool) \<Rightarrow> bool" where
  "healthy E name W \<longleftrightarrow>
     healthy_kube E name W \<and>
     (\<forall>auth region. \<exists>C I V. env_NewCceClient E auth region = Ret C \<and> env_NewEipClient E auth region = Ret I \<and>
        env_NewVpcClient E auth region = Ret V \<and> healthy_cce C W \<and> healthy_net V I W)"

text \<open>A service with such clients.\<close>

definition served :: "'w Service \<Rightarrow> (nat \<Rightarrow> 'w \<Rightarrow> bool) \<Rightarrow> bool" where
  "served S W \<longleftrightarrow> healthy_cce (sv_CCEClient S) W \<and> healthy_net (sv_VPCClient S) (sv_EIPClient S) W"

section \<open>How far an object has come\<close>

text \<open>
  Nothing a reconcile dereferences is missing; with the finalizer, that is stage 0. Then the VPC (1), the
  subnet (2) and the cluster (3) are recorded, the control plane is ready (4), has an endpoint (5), and is
  initialized (6).
\<close>

definition complete :: "string \<Rightarrow> CCEManagedControlPlane \<Rightarrow> bool" where
  "complete name cp \<longleftrightarrow>
     om_Name (cp_Meta cp) = name \<and> cps_IdentityRef (cp_Spec cp) \<noteq> None \<and> cps_EndpointAccess (cp_Spec cp) \<noteq> None"

definition stage :: "string \<Rightarrow> nat \<Rightarrow> CCEManagedControlPlane \<Rightarrow> bool" where
  "stage name k cp \<longleftrightarrow>
     complete name cp \<and> ManagedControlPlaneFinalizer \<in> set (cp_Finalizers cp) \<and>
     (1 \<le> k \<longrightarrow> vpc_id_of cp \<noteq> []) \<and>
     (2 \<le> k \<longrightarrow> subnet_id_of cp \<noteq> []) \<and>
     (3 \<le> k \<longrightarrow> scp_InfraClusterID cp \<noteq> []) \<and>
     (4 \<le> k \<longrightarrow> cp_Ready cp) \<and>
     (5 \<le> k \<longrightarrow> Host (cps_ControlPlaneEndpoint (cp_Spec cp)) \<noteq> []) \<and>
     (6 \<le> k \<longrightarrow> cpst_Initialized (cp_Status cp))"

lemma stage_mono: "stage name k cp \<Longrightarrow> j \<le> k \<Longrightarrow> stage name j cp"
  by (auto simp: stage_def)

lemma SetInfraClusterID_meta [simp]:
  "om_Name (cp_Meta (scp_SetInfraClusterID i cp)) = om_Name (cp_Meta cp)"
  "cp_Finalizers (scp_SetInfraClusterID i cp) = cp_Finalizers cp"
  by (simp_all add: scp_SetInfraClusterID_def cp_Finalizers_def Let_def)

lemmas stage_simps =
  stage_def complete_def cp_Finalizers_def vpc_id_of_def subnet_id_of_def scp_InfraClusterID_def cp_Ready_def

text \<open>What keeps every stage.\<close>

lemma stage_keeps [simp]:
  "stage name k (cp_MarkTrue L t cp) = stage name k cp"
  "stage name k (cp_MarkFalse L t r v m cp) = stage name k cp"
  "stage name k (set_EIP_status i cp) = stage name k cp"
  "stage name k (set_cp_FailureMessage msg cp) = stage name k cp"
  by (simp_all add: stage_simps set_EIP_status_def set_cp_FailureMessage_def)

text \<open>What climbs.\<close>

lemma stage_climbs:
  "stage name 0 cp \<Longrightarrow> i \<noteq> [] \<Longrightarrow> stage name 1 (set_VPC_ID i cp)"
  "stage name 1 cp \<Longrightarrow> i \<noteq> [] \<Longrightarrow> stage name 2 (set_Subnet_ID i cp)"
  "stage name 2 cp \<Longrightarrow> i \<noteq> [] \<Longrightarrow> stage name 3 (scp_SetInfraClusterID i cp)"
  "stage name 3 cp \<Longrightarrow> stage name 3 (set_cp_Ready False cp)"
  "stage name 3 cp \<Longrightarrow> stage name 4 (set_cp_Ready True cp)"
  "stage name 4 cp \<Longrightarrow> Host ep \<noteq> [] \<Longrightarrow> stage name 5 (set_Endpoint ep cp)"
  "stage name 5 cp \<Longrightarrow> stage name 6 (set_Initialized cp)"
  by (auto simp: stage_def complete_def cp_Finalizers_def set_VPC_ID_def set_Subnet_ID_def cluster_id.getID_setID
        vpc_id_of_def subnet_id_of_def)
    (auto simp: stage_simps set_cp_Ready_def set_Endpoint_def set_Initialized_def scp_SetInfraClusterID_def Let_def)

section \<open>The state of a run\<close>

definition during :: "(nat \<Rightarrow> 'w \<Rightarrow> bool) \<Rightarrow> nat \<Rightarrow> ('o \<Rightarrow> bool) \<Rightarrow> ('o, 'w) st \<Rightarrow> bool" where
  "during W n J s \<longleftrightarrow> W n (world s) \<and> J (obj s)"

abbreviation reached :: "(nat \<Rightarrow> 'w \<Rightarrow> bool) \<Rightarrow> string \<Rightarrow> nat \<Rightarrow> nat \<Rightarrow> (CCEManagedControlPlane, 'w) st \<Rightarrow> bool" where
  "reached W name n k \<equiv> during W n (stage name k)"

lemma during_ext: "grants W f R \<Longrightarrow> ends (during W n J) (ext c f) (\<lambda>x s. during W n J s \<and> R x)"
  unfolding grants_def by (rule endsI) (fastforce simp: during_def go_simps)

lemma during_granted: "grants W f R \<Longrightarrow> ends (during W n J) (ext c f) (\<lambda>x. during W n J)"
  by (rule ends_post[OF during_ext]) auto

lemma during_attempt:
  "grants W (attempt f) R \<Longrightarrow> ends (during W n J) (attempt (ext c f)) (\<lambda>x s. during W n J s \<and> R x)"
proof (rule endsI)
  fix s assume g: "grants W (attempt f) R" and s: "during W n J s"
  then obtain x v where "attempt f (world s) = (Ret x, v)" "W n v" "R x"
    unfolding grants_def during_def by blast
  with s show "\<exists>x t. attempt (ext c f) s = (Ret x, t) \<and> during W n J t \<and> R x"
    by (auto simp: go_simps during_def split: prod.splits outcome.splits)
qed

lemma during_upd_obj: "(\<And>x. J x \<Longrightarrow> J' (f x)) \<Longrightarrow> ends (during W n J) (upd_obj f) (\<lambda>_. during W n J')"
  by (rule endsI) (simp add: go_simps during_def)

lemma during_ret: "ends (during W n J) (ret x) (\<lambda>_. during W n J)"
  by (rule ends_ret)

lemma during_gets_then:
  "(\<And>x. J x \<Longrightarrow> A (f x)) \<Longrightarrow> (\<And>y. A y \<Longrightarrow> ends (during W n J) (g y) Q) \<Longrightarrow>
   ends (during W n J) (andThen (gets (\<lambda>s. f (obj s))) g) Q"
  by (auto simp: ends_def go_simps during_def)

text \<open>A wait: each poll that answers no is followed by a sleep, after which one poll less is needed.\<close>

lemma during_wait:
  assumes poll: "\<And>n. ends (during W n J) c (\<lambda>r s. during W n J s \<and> r = (n = 0))"
    and clock: "\<And>n w. W n w \<Longrightarrow> W (n - 1) (k_Sleep (env_kube E) iv w)"
    and "n < m"
  shows "ends (during W n J) (waitLoop E c iv m) (\<lambda>_. during W 0 J)"
  using assms(3)
proof (induction n arbitrary: m)
  case 0
  then obtain l where "m = Suc l" by (cases m) auto
  then show ?case
    by (auto intro!: ends_fact_then[OF poll[of 0]] ends_ret)
next
  case (Suc n)
  then obtain l where l: "m = Suc l" "n < l" by (cases m) auto
  have "ends (during W (Suc n) J) (sleep E iv) (\<lambda>_. during W n J)"
    by (rule endsI) (use clock[of "Suc n"] in \<open>simp add: go_simps during_def\<close>)
  from ends_andThen[OF this Suc.IH[OF l(2)]] l(1) show ?case
    by (auto intro!: ends_fact_then[OF poll[of "Suc n"]])
qed

lemma reached_cluster_id_then:
  "3 \<le> k \<Longrightarrow> (\<And>i. i \<noteq> [] \<Longrightarrow> ends (reached W name n k) (g i) Q) \<Longrightarrow>
   ends (reached W name n k) (andThen (gets (\<lambda>s. scp_InfraClusterID (obj s))) g) Q"
  by (auto simp: ends_def go_simps during_def stage_def)

section \<open>Kubernetes\<close>

lemma healthy_kubeD:
  assumes "healthy_kube E name W"
  shows "grants W (k_PatchControlPlane (env_kube E) a b c) (\<lambda>_. True)"
    and "grants W (k_GetSecret (env_kube E) n) (\<lambda>_. True)"
    and "grants W (attempt (k_GetKubeconfigSecret (env_kube E) n)) (renewable (env_lib E) name)"
    and "grants W (k_CreateSecret (env_kube E) se) (\<lambda>_. True)"
    and "grants W (k_UpdateSecret (env_kube E) se) (\<lambda>_. True)"
    and "\<exists>out. lib_clientcmd_Write (env_lib E) cfg = Inr out"
    and "W i w \<Longrightarrow> W i (k_Eventf (env_kube E) r msg w)"
    and "W i w \<Longrightarrow> W i (snd (k_RandString (env_kube E) 5 w))"
    and "W i w \<Longrightarrow> W (i - 1) (k_Sleep (env_kube E) (30 * Second) w)"
  using assms unfolding healthy_kube_def by blast+

lemma reached_patch: "healthy_kube E name W \<Longrightarrow> ends (reached W name n k) (scp_PatchObject E sc) (\<lambda>_. reached W name n k)"
  unfolding scp_PatchObject_def by (rule ends_get_obj_any, rule during_granted[OF healthy_kubeD(1)])

lemma reached_Eventf: "healthy_kube E name W \<Longrightarrow> ends (reached W name n k) (Eventf E a b) (\<lambda>_. reached W name n k)"
  by (rule endsI) (simp add: go_simps during_def healthy_kubeD)

lemma reached_GenerateName:
  assumes "healthy_kube E name W"
  shows "ends (reached W name n k) (GenerateName E b) (\<lambda>_. reached W name n k)"
  by (intro endsI) (simp add: go_simps during_def case_prod_beta healthy_kubeD(8)[OF assms])

text \<open>A condition that is reported at once.\<close>

lemma reached_report:
  assumes "healthy_kube E name W"
  shows "ends (reached W name n k)
    (if b then andThen (upd_obj (cp_MarkFalse (env_lib E) t r v m)) (\<lambda>_. wrapErr w (scp_PatchObject E sc)) else ret ())
    (\<lambda>_. reached W name n k)"
  by (intro ends_if ends_andThen[OF during_upd_obj[of "stage name k" "stage name k"]] ends_wrapErr reached_patch[OF assms] during_ret) simp

section \<open>The network\<close>

lemma servedD:
  assumes "served S W"
  shows "grants W (CreateVpc (sv_VPCClient S) vq) (\<lambda>r. \<exists>i. cvr_Vpc r = Some i \<and> i \<noteq> [])"
    and "grants W (CreateSubnet (sv_VPCClient S) sq) (\<lambda>r. \<exists>i. cnr_Subnet r = Some i \<and> i \<noteq> [])"
    and "grants W (CreatePublicip (sv_EIPClient S) pq) (\<lambda>r. pr_Publicip r \<noteq> None)"
    and "grants W (CreateCluster (sv_CCEClient S) cq) (\<lambda>r.
        \<exists>m i st. ccr_Metadata r = Some m \<and> cm_Uid m = Some i \<and> i \<noteq> [] \<and> ccr_Status r = Some st \<and> cs_Phase st = Some ''Creating'')"
    and "i \<noteq> [] \<Longrightarrow> W n w \<Longrightarrow> \<exists>c st v. ShowCluster (sv_CCEClient S) i w = (Ret c, v) \<and> W n v \<and> sc_Status c = Some st \<and>
        cluster_in (if n = 0 then ''Available'' else ''Creating'') st"
    and "grants W (ShowClusterEndpoints (sv_CCEClient S) i) (\<lambda>r. sce_Status r \<noteq> None)"
    and "grants W (UpdateClusterEip (sv_CCEClient S) u) (\<lambda>_. True)"
    and "grants W (CreateKubernetesClusterCert (sv_CCEClient S) tq) certificate"
  using assms unfolding served_def healthy_cce_def healthy_net_def by blast+

lemma grants_attempt: "grants W m R \<Longrightarrow> grants W (attempt m) (\<lambda>r. \<exists>x. r = Inr x \<and> R x)"
  unfolding grants_def by (fastforce simp: go_simps)

lemma vpc_climbs:
  assumes K: "healthy_kube E name W" and S: "served S W"
  shows "ends (reached W name n 0) (reconcileVPC E S) (\<lambda>_. reached W name n 1)"
proof -
  have new: "ends (reached W name n 0) (createVPC E S) (\<lambda>v s. reached W name n 0 s \<and> VPC_ID v \<noteq> [])"
    unfolding createVPC_def Let_def
    by (rule ends_andThen[OF reached_GenerateName[OF K]], rule ends_gets_any,
        rule ends_fact_then[OF ends_wrapErr[OF during_ext[OF servedD(1)[OF S]]]])
      (auto intro!: ends_deref_then ends_ret)
  have set: "ends (reached W name n 0) (upd_obj (set_VPC_ID (VPC_ID v))) (\<lambda>_. reached W name n 1)" if "VPC_ID v \<noteq> []" for v
    using that by (intro during_upd_obj stage_climbs)
  show ?thesis
    unfolding reconcileVPC_def
    by (intro ends_get_obj_then ends_if ends_and[OF ends_andThen[OF reached_report[OF K]
            ends_fact_then[OF ends_wrapErr[OF new] set]]])
      (auto intro!: ends_ret simp: during_def stage_def)
qed

lemma subnet_climbs:
  assumes K: "healthy_kube E name W" and S: "served S W"
  shows "ends (reached W name n 1) (reconcileSubnets E S) (\<lambda>_. reached W name n 2)"
proof -
  have new: "ends (reached W name n 1) (createSubnet E S) (\<lambda>v s. reached W name n 1 s \<and> Subnet_ID v \<noteq> [])"
    unfolding createSubnet_def Let_def
    by (rule ends_andThen[OF reached_GenerateName[OF K]], rule ends_gets_any,
        rule ends_fact_then[OF during_attempt[OF grants_attempt[OF servedD(2)[OF S]]]])
      (auto intro!: ends_deref_then ends_ret)
  have set: "ends (reached W name n 1) (upd_obj (set_Subnet_ID (Subnet_ID v))) (\<lambda>_. reached W name n 2)"
    if "Subnet_ID v \<noteq> []" for v
    using that by (intro during_upd_obj stage_climbs)
  show ?thesis
    unfolding reconcileSubnets_def
    by (intro ends_get_obj_then ends_if ends_and[OF ends_andThen[OF reached_report[OF K]
            ends_fact_then[OF ends_wrapErr[OF new] set]]])
      (auto intro!: ends_ret simp: during_def stage_def)
qed

lemma network_climbs:
  assumes "healthy_kube E name W" and "served S W"
  shows "ends (reached W name n 0) (ReconcileNetwork E S) (\<lambda>_. reached W name n 2)"
proof -
  note mark = during_upd_obj[of "stage name k" "stage name k" for k]
  show ?thesis
    unfolding ReconcileNetwork_def report_network_step_def
    by (rule ends_andThen[OF ends_andThen[OF ends_onErr[OF vpc_climbs[OF assms]] mark]
          ends_andThen[OF ends_onErr[OF subnet_climbs[OF assms]] mark]]) simp_all
qed

section \<open>The cluster\<close>

definition shown :: "nat \<Rightarrow> ShowClusterResponse option \<Rightarrow> bool" where
  "shown n r \<longleftrightarrow> (\<exists>c st. r = Some c \<and> sc_Status c = Some st \<and> cluster_in (if n = 0 then ''Available'' else ''Creating'') st)"

lemma reached_show:
  assumes "served S W" and "i \<noteq> []"
  shows "ends (reached W name n k) (showCCECluster S i) (\<lambda>r s. reached W name n k s \<and> shown n r)"
proof (rule endsI)
  fix s :: "(CCEManagedControlPlane, 'a) st" assume s: "reached W name n k s"
  then obtain c st v where c: "ShowCluster (sv_CCEClient S) i (world s) = (Ret c, v)" "W n v" "sc_Status c = Some st"
    "cluster_in (if n = 0 then ''Available'' else ''Creating'') st"
    using servedD(5)[OF assms, of n "world s"] unfolding during_def by blast
  then have "shown n (Some c)" unfolding shown_def by blast
  with c s show "\<exists>x t. showCCECluster S i s = (Ret x, t) \<and> reached W name n k t \<and> shown n x"
    by (auto simp: showCCECluster_def go_simps during_def)
qed

lemma deref_Some [simp]: "deref (Some x) = ret x"
  by (simp add: deref_def)

lemma wrapErr_ret [simp]: "wrapErr m (ret x) = ret x"
  by (rule ext) (simp add: go_simps)

lemma from_sum_Inr [simp]: "from_sum (Inr x) = ret x"
  by (simp add: from_sum_def)

lemma deref_phase_Some [simp]: "cs_Phase st = Some p \<Longrightarrow> deref_phase (Some st) = ret p"
  by (simp add: deref_phase_def)

lemma status_climbs:
  assumes K: "healthy_kube E name W"
  shows "cs_Phase st = Some ''Creating'' \<Longrightarrow> ends (reached W name n 3) (cp_setStatus E S (Some st)) (\<lambda>_. reached W name n 3)"
    and "cs_Phase st = Some ''Available'' \<Longrightarrow> ends (reached W name n 3) (cp_setStatus E S (Some st)) (\<lambda>_. reached W name n 4)"
proof -
  have patch: "ends (reached W name n k) (wrapErr m (scp_PatchObject E sc)) (\<lambda>_. reached W name n k)" for k m sc
    by (rule ends_wrapErr[OF reached_patch[OF K]])
  have mark: "ends (reached W name n k) (upd_obj (cp_MarkFalse (env_lib E) t r v m)) (\<lambda>_. reached W name n k)" for k t r v m
    by (rule during_upd_obj) simp
  have down: "ends (reached W name n 3) (upd_obj (set_cp_Ready False)) (\<lambda>_. reached W name n 3)"
    by (rule during_upd_obj) (simp add: stage_climbs)
  show "ends (reached W name n 3) (cp_setStatus E S (Some st)) (\<lambda>_. reached W name n 3)" if "cs_Phase st = Some ''Creating''"
    using that by (simp add: cp_setStatus_def mirror_cluster_phase_def ends_andThen[OF down patch])
  have ready: "ends (reached W name n 3) (upd_obj (\<lambda>cp. set_cp_FailureMessage None (set_cp_Ready True cp))) (\<lambda>_. reached W name n 4)"
    by (rule during_upd_obj) (simp add: stage_climbs)
  have events: "ends (reached W name n 4) (end_creating E) (\<lambda>_. reached W name n 4)"
    "ends (reached W name n 4) (end_updating E) (\<lambda>_. reached W name n 4)"
    unfolding end_creating_def end_updating_def
    by (intro ends_get_obj_any ends_if during_ret ends_andThen[OF reached_Eventf[OF K] mark]
        ends_andThen[OF mark reached_Eventf[OF K]])+
  show "ends (reached W name n 3) (cp_setStatus E S (Some st)) (\<lambda>_. reached W name n 4)" if "cs_Phase st = Some ''Available''"
    using that
    by (simp add: cp_setStatus_def mirror_cluster_phase_def
        ends_andThen[OF ends_andThen[OF ready ends_andThen[OF events]] patch])
qed

lemma reached_poll:
  assumes "served S W"
  shows "ends (reached W name n 3) (cluster_active_poll S) (\<lambda>r s. reached W name n 3 s \<and> r = (n = 0))"
  unfolding cluster_active_poll_def
proof (rule reached_cluster_id_then[OF order_refl], rule ends_fact_then[OF reached_show[OF assms]])
  fix r assume "shown n r"
  then obtain c st where "r = Some c" "sc_Status c = Some st"
    "cs_Phase st = Some (if n = 0 then ''Available'' else ''Creating'')"
    by (auto simp: shown_def cluster_in_def)
  then show "ends (reached W name n 3) (andThen (deref r) (\<lambda>c. andThen (deref_phase (sc_Status c))
      (\<lambda>phase. ret (phase = ''Available'')))) (\<lambda>r s. reached W name n 3 s \<and> r = (n = 0))"
    by (auto intro: ends_ret)
qed simp

lemma wait_climbs:
  assumes K: "healthy_kube E name W" and S: "served S W" and n: "n < m"
  shows "ends (reached W name n 3) (waitLoop E (cluster_active_poll S) (30 * Second) m) (\<lambda>_. reached W name 0 3)"
  by (rule during_wait[OF reached_poll[OF S] _ n]) (rule healthy_kubeD(9)[OF K])

lemma shown_status:
  assumes "shown n r"
  obtains c st where "r = Some c" "sc_Status c = Some st" "cluster_in (if n = 0 then ''Available'' else ''Creating'') st"
  using assms by (auto simp: shown_def)

lemma waitForClusterActive_climbs:
  assumes K: "healthy_kube E name W" and S: "served S W" and n: "n < 40"
  shows "ends (reached W name n 3) (waitForClusterActive E S) (\<lambda>r s. reached W name 0 4 s \<and> shown 0 r)"
  unfolding waitForClusterActive_def waitUntil_def
proof (rule ends_gets_any, rule ends_andThen[OF ends_wrapErr[OF wait_climbs[OF K S]]])
  show "n < nat 40" using n by simp
  show "ends (reached W name 0 3) (andThen (gets (\<lambda>s. scp_InfraClusterID (obj s))) (\<lambda>i.
      andThen (wrapErr ''failed to show cce cluster'' (showCCECluster S i)) (\<lambda>cluster.
      andThen (deref cluster) (\<lambda>c.
      andThen (wrapErr ''failed to set status'' (cp_setStatus E S (sc_Status c))) (\<lambda>_. ret cluster)))))
      (\<lambda>r s. reached W name 0 4 s \<and> shown 0 r)"
  proof (rule reached_cluster_id_then[OF order_refl], rule ends_fact_then[OF ends_wrapErr[OF reached_show[OF S]]])
    fix r assume r: "shown 0 r"
    then obtain c st where c: "r = Some c" "sc_Status c = Some st" "cs_Phase st = Some ''Available''"
      by (auto elim!: shown_status simp: cluster_in_def)
    then show "ends (reached W name 0 3) (andThen (deref r) (\<lambda>c.
        andThen (wrapErr ''failed to set status'' (cp_setStatus E S (sc_Status c))) (\<lambda>_. ret r)))
        (\<lambda>r s. reached W name 0 4 s \<and> shown 0 r)"
      using r by (simp add: ends_andThen[OF ends_wrapErr[OF status_climbs(2)[OF K c(3)]] ends_ret])
  qed simp
qed

text \<open>A cluster that was found, or the answer to its creation.\<close>

definition found :: "nat \<Rightarrow> ShowClusterResponse option \<times> ClusterStatus option \<Rightarrow> bool" where
  "found n r \<longleftrightarrow>
     (\<exists>st. snd r = Some st \<and>
        (cs_Phase st = Some ''Creating'' \<or> n = 0 \<and> cs_Phase st = Some ''Available'' \<and> shown 0 (fst r)))"

lemma createCluster_climbs:
  assumes S: "served S W" and net: "cl_ClusterNetwork (scp_Cluster (sv_scope S)) = Some net"
  shows "ends (reached W name n 2) (createCluster E S) (\<lambda>r s. reached W name n 3 s \<and> found n (None, ccr_Status r))"
  unfolding createCluster_def net deref_Some andThen_ret
proof (rule ends_gets_any, rule ends_fact_then[OF ends_wrapErr[OF during_ext[OF servedD(4)[OF S]]]], elim exE conjE)
  fix r :: CreateClusterResponse and m i st
  assume r: "ccr_Metadata r = Some m" "cm_Uid m = Some i" "i \<noteq> []" "ccr_Status r = Some st" "cs_Phase st = Some ''Creating''"
  have 1: "ends (reached W name n 2) (upd_obj (scp_SetInfraClusterID i)) (\<lambda>_. reached W name n 3)"
    using r(3) by (intro during_upd_obj stage_climbs)
  have 2: "ends (reached W name n 3) (upd_obj (cp_MarkTrue (env_lib E) t)) (\<lambda>_. reached W name n 3)" for t
    by (rule during_upd_obj) simp
  show "ends (reached W name n 2)
      (andThen (deref (ccr_Metadata r)) (\<lambda>metadata.
       andThen (deref (cm_Uid metadata)) (\<lambda>uid.
       andThen (upd_obj (scp_SetInfraClusterID uid)) (\<lambda>_.
       andThen (upd_obj (cp_MarkTrue (env_lib E) CCEControlPlaneCreatingCondition)) (\<lambda>_. ret r)))))
      (\<lambda>r s. reached W name n 3 s \<and> found n (None, ccr_Status r))"
    using r by (simp add: ends_andThen[OF 1 ends_andThen[OF 2 ends_ret]] found_def)
qed

lemma find_or_create_climbs:
  assumes S: "served S W" and net: "cl_ClusterNetwork (scp_Cluster (sv_scope S)) = Some net"
  shows "ends (reached W name n 2) (find_or_create E S) (\<lambda>r s. reached W name n 3 s \<and> found n r)"
  unfolding find_or_create_def
proof (rule ends_gets_then)
  fix i :: string
  let ?rest = "\<lambda>cluster. case cluster of
      None \<Rightarrow> andThen (wrapErr ''failed to create cluster'' (createCluster E S)) (\<lambda>created. ret (None, ccr_Status created))
    | Some c \<Rightarrow> ret (Some c, sc_Status c)"
  show "ends (\<lambda>s. reached W name n 2 s \<and> scp_InfraClusterID (obj s) = i)
      (andThen (if i \<noteq> [] then wrapErr ''failed to show cce clusters'' (showCCECluster S i) else ret None) ?rest)
      (\<lambda>r s. reached W name n 3 s \<and> found n r)"
  proof (cases "i = []")
    case True
    have "ends (reached W name n 2) (?rest None) (\<lambda>r s. reached W name n 3 s \<and> found n r)"
      by (simp add: ends_fact_then[OF ends_wrapErr[OF createCluster_climbs[OF S net]] ends_ret])
    with True show ?thesis by (simp add: ends_and)
  next
    case False
    have "ends (reached W name n 3) (?rest r) (\<lambda>r s. reached W name n 3 s \<and> found n r)" if "shown n r" for r
      using that by (elim shown_status) (auto simp: found_def cluster_in_def shown_def intro!: ends_ret split: if_splits)
    from ends_fact_then[OF ends_wrapErr[OF reached_show[OF S False]] this]
    have "ends (reached W name n 3) (andThen (wrapErr ''failed to show cce clusters'' (showCCECluster S i)) ?rest)
        (\<lambda>r s. reached W name n 3 s \<and> found n r)" .
    with False show ?thesis
      by (auto intro: ends_pre simp: during_def stage_def)
  qed
qed

section \<open>Access\<close>

lemma eip_climbs:
  assumes S: "served S W" and k: "3 \<le> k"
  shows "ends (reached W name n k) (reconcileEIP E S) (\<lambda>_. reached W name n k)"
  unfolding reconcileEIP_def Let_def
proof (rule reached_cluster_id_then[OF k], rule ends_fact_then[OF ends_wrapErr[OF during_ext[OF servedD(6)[OF S]]]],
    intro ends_deref_then ends_if during_ret ends_gets_any, goal_cases)
  case 1
  have record_: "ends (reached W name n k) (upd_obj (set_EIP_status i)) (\<lambda>_. reached W name n k)" for i
    by (rule during_upd_obj) simp
  show ?case
    by (rule ends_fact_then[OF ends_wrapErr[OF during_ext[OF servedD(3)[OF S]]]], intro ends_deref_then)
      (auto intro!: ends_andThen[OF record_] ends_wrapErr during_granted[OF servedD(7)[OF S]])
qed auto

lemma endpoints_climb:
  assumes "list_all usable_endpoint eps" and "k \<in> {4, 5}"
  shows "ends (reached W name n k) (apply_endpoints kind eps)
    (\<lambda>_. reached W name n (if k = 5 \<or> (\<exists>ep \<in> set eps. ep_Type ep = Some kind) then 5 else 4))"
  using assms
proof (induction eps arbitrary: k)
  case Nil
  then show ?case by (auto intro: ends_ret)
next
  case (Cons ep eps)
  then obtain ty url host port where ep: "ep_Type ep = Some ty" "ep_Url ep = Some url" "parseURL url = Inr (host, port)"
    "host \<noteq> []" by (auto simp: usable_endpoint_def)
  have set: "ends (reached W name n k) (upd_obj (set_Endpoint \<lparr>Host = host, Port = to_int32 port\<rparr>)) (\<lambda>_. reached W name n 5)"
    using Cons.prems(2) ep(4) by (intro during_upd_obj stage_climbs stage_mono[of name k _ 4]) auto
  have rest: "ends (reached W name n 5) (apply_endpoints kind eps) (\<lambda>_. reached W name n 5)"
    using Cons.IH[of 5] Cons.prems by simp
  show ?case
  proof (cases "ty = kind")
    case True
    with ep ends_andThen[OF set rest] show ?thesis by simp
  next
    case False
    with ep Cons.IH[of k] Cons.prems show ?thesis by simp
  qed
qed

lemma reached_client_data:
  assumes S: "served S W" and k: "3 \<le> k"
  shows "ends (reached W name n k) (generateClientData S) (\<lambda>_. reached W name n k)"
  unfolding generateClientData_def
  by (rule ends_gets_any, rule ends_fact_then[OF ends_wrapErr[OF during_ext[OF servedD(8)[OF S]]]])
    (auto simp: certificate_def decode_field_def intro!: ends_ret)

lemma reached_user_then:
  "ends (reached W name n k) (g (getKubeConfigUserName name False)) Q \<Longrightarrow>
   ends (reached W name n k) (andThen (gets (\<lambda>s. getKubeConfigUserName (scp_InfraClusterName (obj s)) False)) g) Q"
  by (auto simp: ends_def go_simps during_def stage_def complete_def scp_InfraClusterName_def)

lemma kubeconfig_climbs:
  assumes K: "healthy_kube E name W" and S: "served S W"
  shows "ends (reached W name n 5) (reconcileKubeconfig E S) (\<lambda>_. reached W name n 6)"
proof -
  have data: "ends (reached W name n 5) (generateClientData S) (\<lambda>_. reached W name n 5)"
    by (rule reached_client_data[OF S]) simp
  have out: "ends (reached W name n 5) (wrapErr m (from_sum (lib_clientcmd_Write (env_lib E) cfg))) (\<lambda>_. reached W name n 5)"
    for m cfg
    using healthy_kubeD(6)[OF K, of cfg] by (auto intro: ends_ret)
  have base: "ends (reached W name n 5) (wrapErr m (createBaseKubeConfig E S u)) (\<lambda>_. reached W name n 5)" for m u
    unfolding createBaseKubeConfig_def Let_def case_prod_beta
    by (intro ends_wrapErr ends_gets_any ends_andThen[OF data] during_ret)
  have create: "ends (reached W name n 5) (createCAPIKubeconfigSecret E S ref) (\<lambda>_. reached W name n 5)" for ref
    unfolding createCAPIKubeconfigSecret_def Let_def
    by (intro ends_get_obj_any ends_andThen[OF base] ends_andThen[OF out] reached_Eventf[OF K]
        ends_andThen[OF ends_wrapErr[OF during_granted[OF healthy_kubeD(4)[OF K]]]])
  have update: "ends (reached W name n 5) (updateCAPIKubeconfigSecret E S se) (\<lambda>_. reached W name n 5)"
    if "renewable (env_lib E) name (Inr se)" for se
  proof -
    from that obtain d cfg info where u: "se_Data se KubeconfigDataName = Some d" "lib_clientcmd_Load (env_lib E) d = Inr cfg"
      "cfg_AuthInfos cfg (getKubeConfigUserName name False) = Some info"
      by (auto simp: renewable_def)
    show ?thesis
      unfolding updateCAPIKubeconfigSecret_def Let_def
      by (simp add: u, rule ends_andThen[OF data], unfold case_prod_beta, rule reached_user_then)
        (simp add: u ends_andThen[OF out ends_wrapErr[OF during_granted[OF healthy_kubeD(5)[OF K]]]])
  qed
  have init: "ends (reached W name n 5) (upd_obj set_Initialized) (\<lambda>_. reached W name n 6)"
    by (intro during_upd_obj stage_climbs)
  show ?thesis
    unfolding reconcileKubeconfig_def Let_def
    by (rule ends_fact_then[OF during_attempt[OF healthy_kubeD(3)[OF K]]], rule ends_andThen[OF _ init])
      (auto simp: renewable_def[of _ _ "Inl e" for e] intro!: ends_onErr create update split: sum.split)
qed

section \<open>The control plane\<close>

lemma publish_climbs:
  assumes K: "healthy_kube E name W" and S: "served S W"
  shows "ends (reached W name 0 4) (publish_endpoint E S) (\<lambda>_. reached W name 0 6)"
  unfolding publish_endpoint_def
proof (rule reached_cluster_id_then, simp, rule ends_fact_then[OF ends_wrapErr[OF reached_show[OF S]]])
  fix r assume "shown 0 r"
  then obtain c st eps where c: "r = Some c" "sc_Status c = Some st" "cs_Endpoints st = Some eps" "list_all usable_endpoint eps"
    "\<exists>ep \<in> set eps. ep_Type ep \<in> {Some ''Internal'', Some ''External''}"
    unfolding shown_def cluster_in_def by blast
  have "ends (reached W name 0 4) (andThen (apply_endpoints ''Internal'' eps) (\<lambda>_. apply_endpoints ''External'' eps))
      (\<lambda>_. reached W name 0 5)"
  proof (cases "\<exists>ep \<in> set eps. ep_Type ep = Some ''Internal''")
    case True
    with endpoints_climb[OF c(4), where k = 4 and W = W and name = name and n = 0 and kind = "''Internal''"] endpoints_climb[OF c(4), where k = 5 and W = W and name = name and n = 0 and kind = "''External''"]
    show ?thesis by (auto intro: ends_andThen)
  next
    case False
    with endpoints_climb[OF c(4), where k = 4 and W = W and name = name and n = 0 and kind = "''Internal''"] endpoints_climb[OF c(4), where k = 4 and W = W and name = name and n = 0 and kind = "''External''"] c(5)
    show ?thesis by (auto intro: ends_andThen)
  qed
  from ends_andThen[OF this ends_wrapErr[OF kubeconfig_climbs[OF K S]]] c(1-3)
  show "ends (reached W name 0 4) (andThen (deref r) (\<lambda>c. andThen (deref (sc_Status c)) (\<lambda>status.
      andThen (case cs_Endpoints status of None \<Rightarrow> ret ()
               | Some eps \<Rightarrow> andThen (apply_endpoints ''Internal'' eps) (\<lambda>_. apply_endpoints ''External'' eps)) (\<lambda>_.
        wrapErr ''failed reconciling kubeconfig'' (reconcileKubeconfig E S))))) (\<lambda>_. reached W name 0 6)"
    by simp
qed simp

lemma access_climbs:
  assumes K: "healthy_kube E name W" and S: "served S W" and c: "shown 0 r"
  shows "ends (reached W name 0 4) (provide_access E S r) (\<lambda>_. reached W name 0 6)"
proof -
  obtain c st eps where c: "r = Some c" "sc_Status c = Some st" "cs_Endpoints st = Some eps"
    using c unfolding shown_def cluster_in_def by blast
  have eip: "ends (reached W name 0 4) (if b then wrapErr m (reconcileEIP E S) else ret ()) (\<lambda>_. reached W name 0 4)" for b m
    by (intro ends_if ends_wrapErr eip_climbs[OF S] during_ret) simp
  have go_on: "ends (reached W name 0 4) (andThen (public_access cp) (\<lambda>public.
      andThen (if public then wrapErr ''failed reconciling EIP'' (reconcileEIP E S) else ret ()) (\<lambda>_. publish_endpoint E S)))
      (\<lambda>_. reached W name 0 6)" if "cps_EndpointAccess (cp_Spec cp) \<noteq> None" for cp
    using that by (cases "cps_EndpointAccess (cp_Spec cp)")
      (simp_all add: public_access_def ends_andThen[OF eip publish_climbs[OF K S]])
  show ?thesis
    unfolding provide_access_def using c
    by simp (intro ends_get_obj_then, rule ends_fact[OF _ ends_and[OF go_on]],
      auto simp: during_def stage_def complete_def)
qed

lemma reached_ready_then:
  "4 \<le> k \<Longrightarrow> ends (reached W name n k) (g True) Q \<Longrightarrow>
   ends (reached W name n k) (andThen (gets (\<lambda>s. cp_Ready (obj s))) g) Q"
  by (auto simp: ends_def go_simps during_def stage_def)

lemma settle_climbs:
  assumes K: "healthy_kube E name W" and S: "served S W" and n: "n < 40" and f: "found n (r, status)"
  shows "ends (reached W name n 3) (settle_cluster E S r status) (\<lambda>_. reached W name 0 6)"
proof -
  have go_on: "ends (reached W name 0 4) (andThen (gets (\<lambda>s. cp_Ready (obj s))) (\<lambda>ready.
      if \<not> ready then ret () else provide_access E S q)) (\<lambda>_. reached W name 0 6)" if "shown 0 q" for q
    by (rule reached_ready_then) (simp_all add: access_climbs[OF K S that])
  from f obtain st where st: "status = Some st"
    "cs_Phase st = Some ''Creating'' \<or> n = 0 \<and> cs_Phase st = Some ''Available'' \<and> shown 0 r"
    by (auto simp: found_def)
  from st(2) show ?thesis
  proof (elim disjE conjE)
    assume ph: "cs_Phase st = Some ''Creating''"
    show ?thesis
      unfolding settle_cluster_def st(1)
      by (rule ends_andThen[OF ends_wrapErr[OF status_climbs(1)[OF K ph]]])
        (simp add: ph ends_fact_then[OF ends_wrapErr[OF waitForClusterActive_climbs[OF K S n]] go_on])
  next
    assume 0: "n = 0" "shown 0 r" and ph: "cs_Phase st = Some ''Available''"
    show ?thesis
      unfolding settle_cluster_def st(1) 0(1)
      by (rule ends_andThen[OF ends_wrapErr[OF status_climbs(2)[OF K ph]]]) (simp add: ph go_on[OF 0(2)])
  qed
qed

lemma control_plane_climbs:
  assumes K: "healthy_kube E name W" and S: "served S W" and n: "n < 40"
    and net: "cl_ClusterNetwork (scp_Cluster (sv_scope S)) = Some net"
  shows "ends (reached W name n 2) (ReconcileControlPlane E S) (\<lambda>_. reached W name 0 6)"
proof -
  have "ends (reached W name n 2) (reconcileCluster E S) (\<lambda>_. reached W name 0 6)"
    unfolding reconcileCluster_def
    by (rule ends_fact_then[OF find_or_create_climbs[OF S net]]) (auto intro: settle_climbs[OF K S n])
  then show ?thesis
    unfolding ReconcileControlPlane_def by (rule ends_andThen[OF ends_onErr during_upd_obj]) simp
qed

section \<open>The controller\<close>

lemma NewService_served:
  assumes H: "healthy E name W"
  shows "ends (reached W name n k) (NewService E sc []) (\<lambda>S s. reached W name n k s \<and> served S W \<and> sv_scope S = sc)"
proof -
  have K: "healthy_kube E name W" using H by (simp add: healthy_def)
  have rest: "ends (reached W name n k) (andThen (ext c (k_GetSecret (env_kube E) nn)) (\<lambda>sec.
      let auth = \<lparr>cr_Ak = secret_field sec ''accessKey'', cr_Sk = secret_field sec ''secretKey''\<rparr> in
      andThen (from_outcome (env_NewCceClient E auth region)) (\<lambda>cceClient.
      andThen (from_outcome (env_NewEipClient E auth region)) (\<lambda>eipClient.
      andThen (from_outcome (env_NewVpcClient E auth region)) (\<lambda>vpcClient.
        ret (fold (\<lambda>opt s. opt s) []
          \<lparr>sv_scope = sc, sv_CCEClient = cceClient, sv_EIPClient = eipClient, sv_VPCClient = vpcClient\<rparr>))))))
      (\<lambda>S s. reached W name n k s \<and> served S W \<and> sv_scope S = sc)" for c nn region
  proof (rule ends_andThen[OF during_granted[OF healthy_kubeD(2)[OF K]]])
    fix sec :: Secret
    let ?auth = "\<lparr>cr_Ak = secret_field sec ''accessKey'', cr_Sk = secret_field sec ''secretKey''\<rparr>"
    obtain C I V where "env_NewCceClient E ?auth region = Ret C" "env_NewEipClient E ?auth region = Ret I"
      "env_NewVpcClient E ?auth region = Ret V" "healthy_cce C W" "healthy_net V I W"
      using H unfolding healthy_def by blast
    then show "ends (reached W name n k) (let auth = ?auth in
        andThen (from_outcome (env_NewCceClient E auth region)) (\<lambda>cceClient.
        andThen (from_outcome (env_NewEipClient E auth region)) (\<lambda>eipClient.
        andThen (from_outcome (env_NewVpcClient E auth region)) (\<lambda>vpcClient.
          ret (fold (\<lambda>opt s. opt s) []
            \<lparr>sv_scope = sc, sv_CCEClient = cceClient, sv_EIPClient = eipClient, sv_VPCClient = vpcClient\<rparr>)))))
        (\<lambda>S s. reached W name n k s \<and> served S W \<and> sv_scope S = sc)"
      by (auto simp: ends_def go_simps served_def)
  qed
  show ?thesis
    unfolding NewService_def
    by (intro ends_get_obj_then, rule ends_deref_then, rule ends_and[OF rest])
      (auto simp: during_def stage_def complete_def)
qed

lemma provision_climbs:
  assumes H: "healthy E name W" and n: "n < 40" and net: "cl_ClusterNetwork (scp_Cluster sc) = Some net"
  shows "ends (reached W name n 0) (cpr_provision E sc) (\<lambda>res s. reached W name 0 6 s \<and> res = Result0)"
proof -
  have K: "healthy_kube E name W" using H by (simp add: healthy_def)
  show ?thesis
    unfolding cpr_provision_def
  proof (rule ends_get_obj_any, rule ends_fact_then[OF ends_wrapErr[OF NewService_served[OF H]]], elim conjE)
    fix cp S assume S: "served S W" "sv_scope S = sc"
    have "cl_ClusterNetwork (scp_Cluster (sv_scope S)) = Some net" using net S(2) by simp
    note up = ends_wrapErr[OF network_climbs[OF K S(1)]] ends_wrapErr[OF control_plane_climbs[OF K S(1) n this]]
    show "ends (reached W name n 0)
        (andThen (wrapErr (''failed to reconcile network for CCEManagedControlPlane '' @ object_path (cp_Meta cp))
           (ReconcileNetwork E S)) (\<lambda>_.
         andThen (wrapErr (''failed to reconcile control plane for CCEManagedControlPlane '' @ object_path (cp_Meta cp))
           (ReconcileControlPlane E S)) (\<lambda>_. ret Result0)))
        (\<lambda>res s. reached W name 0 6 s \<and> res = Result0)"
      by (intro ends_andThen[OF up(1)] ends_andThen[OF up(2)] ends_ret) simp
  qed
qed

context finalizers begin

lemma ensure_ends:
  assumes L: "finalizers_documented L"
    and patch: "ends (\<lambda>s. P s \<and> f \<in> set (fins (obj s))) patch (\<lambda>_. Q)"
    and stay: "\<And>s. P s \<Longrightarrow> f \<in> set (fins (obj s)) \<Longrightarrow> Q s"
    and add: "\<And>s fs. P s \<Longrightarrow> P (s\<lparr>obj := set_fins fs (obj s)\<rparr>)"
  shows "ends P (ensure_finalizer L f fins set_fins patch) (\<lambda>_. Q)"
proof (rule endsI)
  fix s assume s: "P s"
  show "\<exists>x t. ensure_finalizer L f fins set_fins patch s = (Ret x, t) \<and> Q t"
  proof (cases "f \<in> set (fins (obj s))")
    case True
    with stay[OF s] show ?thesis by (simp add: ensure_present[OF L])
  next
    case False
    let ?u = "s\<lparr>obj := set_fins (fins (obj s) @ [f]) (obj s)\<rparr>"
    have "P ?u \<and> f \<in> set (fins (obj ?u))"
      using add[OF s] by (simp add: fins_set)
    from endsD[OF patch this] show ?thesis
      by (simp add: ensure_absent[OF L False])
  qed
qed

end

lemma ensure_climbs:
  assumes K: "healthy_kube E name W" and L: "finalizers_documented (env_lib E)"
  shows "ends (during W n (complete name)) (cp_ensure E sc) (\<lambda>_. reached W name n 0)"
proof (rule cp_fin.ensure_ends[OF L])
  show "ends (\<lambda>s. during W n (complete name) s \<and> ManagedControlPlaneFinalizer \<in> set (cp_Finalizers (obj s)))
      (scp_PatchObject E sc) (\<lambda>_. reached W name n 0)"
    by (rule ends_pre[OF reached_patch[OF K]]) (simp add: during_def stage_def)
qed (simp_all add: during_def stage_def complete_def set_cp_Finalizers_def)

lemma provisioning_run:
  assumes H: "healthy E (om_Name (cp_Meta cp)) W" and k: "k < 40" and L: "finalizers_documented (env_lib E)"
    and get: "k_GetControlPlane (env_kube E) req (world s) = (Ret cp, w)"
    and owner: "k_GetOwnerCluster (env_kube E) (cp_Meta cp) w = (Ret (Some cluster), v)" and v: "W k v"
    and live: "Time_IsZero (om_DeletionTimestamp (cp_Meta cp))" "\<not> lib_IsPaused (env_lib E) cluster (cp_Meta cp)"
      "lib_NewHelperControlPlane (env_lib E) cp = None"
    and infra: "cl_InfrastructureRef cluster = Some ref" "cl_InfrastructureReady cluster"
    and spec: "cl_ClusterNetwork cluster \<noteq> None" "cps_IdentityRef (cp_Spec cp) \<noteq> None"
      "cps_EndpointAccess (cp_Spec cp) \<noteq> None"
  shows "\<exists>t. cpr_Reconcile E r req s = (Ret (Result0, None), t) \<and> reached W (om_Name (cp_Meta cp)) 0 6 t \<and>
    last (calls t) = CallPatchControlPlane (obj t) \<and>
    (\<exists>old conds w. k_PatchControlPlane (env_kube E) old conds (obj t) w = (Ret (), world t))"
proof -
  let ?name = "om_Name (cp_Meta cp)"
  have K: "healthy_kube E ?name W" using H by (simp add: healthy_def)
  obtain net where net: "cl_ClusterNetwork cluster = Some net" using spec(1) by auto
  define sc where "sc = \<lparr>scp_patchHelper = cp, scp_Cluster = cluster, scp_controllerName = ''ccemanagedcontrolplane''\<rparr>"
  let ?u = "s\<lparr>obj := cp, world := v, calls := calls s @ [CallRead ''CCEManagedControlPlane'', CallRead ''Cluster'']\<rparr>"
  have start: "during W k (complete ?name) ?u"
    using v spec by (simp add: during_def complete_def)
  have cl: "scp_Cluster sc = cluster" by (simp add: sc_def)
  have normal: "cpr_reconcileNormal E r sc = andThen (cp_ensure E sc) (\<lambda>_. cpr_provision E sc)"
    unfolding cpr_reconcileNormal_split cl infra(1) deref_Some andThen_ret using infra(2) by simp
  have "cl_ClusterNetwork (scp_Cluster sc) = Some net"
    using net cl by simp
  then have up: "ends (during W k (complete ?name)) (andThen (cp_ensure E sc) (\<lambda>_. cpr_provision E sc))
      (\<lambda>q s. reached W ?name 0 6 s \<and> q = Result0)"
    by (rule ends_andThen[OF ensure_climbs[OF K L] provision_climbs[OF H k]])
  have "\<exists>q t. andThen (cp_ensure E sc) (\<lambda>_. cpr_provision E sc) ?u = (Ret q, t) \<and> reached W ?name 0 6 t \<and> q = Result0"
    using up start by (rule endsD)
  then obtain t where "andThen (cp_ensure E sc) (\<lambda>_. cpr_provision E sc) ?u = (Ret Result0, t)" "reached W ?name 0 6 t"
    by (elim exE conjE) simp
  then have t: "cpr_reconcileNormal E r sc ?u = (Ret Result0, t)" "reached W ?name 0 6 t"
    by (simp_all only: normal)
  obtain x where x: "scp_Close E sc t = (Ret (), x)" "reached W ?name 0 6 x"
    using endsD[OF reached_patch[OF K] t(2), of sc] unfolding scp_Close_def by auto
  have "cpr_Reconcile E r req s = with_close (scp_Close E sc) (cpr_reconcileNormal E r sc) ?u"
    using get owner live by (simp add: cpr_Reconcile_def go_simps NewManagedControlPlaneScope_def sc_def)
  with t(1) x(1) have "cpr_Reconcile E r req s = (Ret (Result0, None), x)"
    by (simp add: with_close_def)
  moreover have "last (calls x) = CallPatchControlPlane (obj x) \<and>
      k_PatchControlPlane (env_kube E) (scp_patchHelper sc) scp_ownedConditions (obj x) (world t) = (Ret (), world x)"
    using x(1) by (auto simp: scp_Close_def scp_PatchObject_apply split: prod.splits)
  ultimately show ?thesis using x(2) by blast
qed

text \<open>
  C6. A control plane gets provisioned. Take a live control plane, from wherever an earlier reconcile left
  it, that has its identity reference and its endpoint access set, and whose owner is not paused, refers to
  an infrastructure object, is marked as infrastructure ready, and has a cluster network. (Without the mark
  the controller only asks to be called again; the optional fields are dereferenced without a test.) In a cloud
  that knows the clusters it is asked for, grants what it is asked for and makes a new cluster available within forty
  polls, and with an API server that answers its reads and accepts its patches, one reconcile ends without
  an error and with nothing left to do: the network and the cluster are recorded, the control plane is
  ready and initialized and has an endpoint, the finalizer is there, and all of this is in the last patch.
\<close>

theorem provisioning_completes:
  assumes H: "healthy E (om_Name (cp_Meta cp)) W" and k: "k < 40" and L: "finalizers_documented (env_lib E)"
    and get: "k_GetControlPlane (env_kube E) req (world s) = (Ret cp, w)"
    and owner: "k_GetOwnerCluster (env_kube E) (cp_Meta cp) w = (Ret (Some cluster), v)" and v: "W k v"
    and live: "Time_IsZero (om_DeletionTimestamp (cp_Meta cp))" "\<not> lib_IsPaused (env_lib E) cluster (cp_Meta cp)"
      "lib_NewHelperControlPlane (env_lib E) cp = None"
    and infra: "cl_InfrastructureRef cluster = Some ref" "cl_InfrastructureReady cluster"
    and spec: "cl_ClusterNetwork cluster \<noteq> None" "cps_IdentityRef (cp_Spec cp) \<noteq> None"
      "cps_EndpointAccess (cp_Spec cp) \<noteq> None"
  shows "\<exists>t. cpr_Reconcile E r req s = (Ret (Result0, None), t) \<and>
    vpc_id_of (obj t) \<noteq> [] \<and> subnet_id_of (obj t) \<noteq> [] \<and> scp_InfraClusterID (obj t) \<noteq> [] \<and>
    cp_Ready (obj t) \<and> cpst_Initialized (cp_Status (obj t)) \<and>
    Host (cps_ControlPlaneEndpoint (cp_Spec (obj t))) \<noteq> [] \<and>
    ManagedControlPlaneFinalizer \<in> set (cp_Finalizers (obj t)) \<and>
    last (calls t) = CallPatchControlPlane (obj t)"
  using provisioning_run[OF assms] by (auto simp: during_def stage_def)

text \<open>In the cloud of the examples a cluster needs two polls, counted by the clock.\<close>

definition demo_polls :: "nat \<Rightarrow> nat \<Rightarrow> bool" where
  "demo_polls n w \<longleftrightarrow> n = 2 - w"

lemma demo_healthy: "healthy demo_env ''dev'' demo_polls"
proof -
  have "usable_endpoint \<lparr>ep_Url = Some ''https://1.2.3.4:5443'', ep_Type = Some ''Internal''\<rparr>"
  proof -
    have "parseURL ''https://1.2.3.4:5443'' = Inr (''1.2.3.4'', 5443)" by code_simp
    then show ?thesis by (simp add: usable_endpoint_def)
  qed
  then have "cluster_in p (demo_status p)" for p
    by (simp add: cluster_in_def demo_status_def)
  moreover have "base64_DecodeString ''aGk='' = Inr ''hi''" by code_simp
  ultimately have cce: "healthy_cce demo_cce demo_polls"
    by (auto simp: healthy_cce_def grants_def demo_cce_def ret_apply certificate_def demo_polls_def demo_status_def)
  have net: "healthy_net demo_vpc demo_eip demo_polls"
    by (simp add: healthy_net_def grants_def demo_vpc_def demo_eip_def ret_apply)
  have "healthy_kube demo_env ''dev'' demo_polls"
    by (auto simp: healthy_kube_def grants_def demo_env_def demo_kube_def go_simps renewable_def demo_lib_def demo_polls_def)
  with cce net show ?thesis
    by (simp add: healthy_def demo_env_def)
qed

lemma provisioning_completes_witness:
  "\<exists>t. cpr_Reconcile demo_env demo_reconciler life_req (start demo_cp) = (Ret (Result0, None), t) \<and> cp_Ready (obj t)"
proof -
  have name: "om_Name (cp_Meta demo_cp) = ''dev''"
    by (simp add: demo_cp_def demo_meta_def)
  have L: "finalizers_documented (env_lib demo_env)"
    by (simp add: demo_env_def demo_finalizers)
  have get: "k_GetControlPlane (env_kube demo_env) life_req (world (start demo_cp)) = (Ret demo_cp, 0)"
    "k_GetOwnerCluster (env_kube demo_env) (cp_Meta demo_cp) 0 = (Ret (Some demo_cluster), 0)"
    by (simp_all add: demo_env_def demo_kube_def go_simps start_def)
  have polls: "demo_polls 2 0" by (simp add: demo_polls_def)
  have "\<exists>t. cpr_Reconcile demo_env demo_reconciler life_req (start demo_cp) = (Ret (Result0, None), t) \<and>
    vpc_id_of (obj t) \<noteq> [] \<and> subnet_id_of (obj t) \<noteq> [] \<and> scp_InfraClusterID (obj t) \<noteq> [] \<and>
    cp_Ready (obj t) \<and> cpst_Initialized (cp_Status (obj t)) \<and>
    Host (cps_ControlPlaneEndpoint (cp_Spec (obj t))) \<noteq> [] \<and>
    ManagedControlPlaneFinalizer \<in> set (cp_Finalizers (obj t)) \<and>
    last (calls t) = CallPatchControlPlane (obj t)"
    by (rule provisioning_completes[OF demo_healthy[folded name] _ L get polls])
      (simp_all add: demo_cp_def demo_meta_def demo_env_def demo_lib_def demo_cluster_def)
  then show ?thesis by blast
qed

end
