(* ===== verification/Pool_Provisioning_Props.thy ===== *)
theory Pool_Provisioning_Props
  imports Provisioning_Props Pool_Controller_Props Reconcile_Props
begin

text \<open>
  A machine pool gets provisioned: the counterpart of \<open>Provisioning_Props\<close> for node pools, over the same
  judgement and the same notion of a cloud that grants what it is asked for.
\<close>

section \<open>A cloud that grants node pools\<close>

definition pool_in :: "SdkEnums \<Rightarrow> nat \<Rightarrow> NodePoolStatus option \<Rightarrow> bool" where
  "pool_in en n st \<longleftrightarrow> (\<exists>x. st = Some x \<and> nps_Phase x = Some (if n = 0 then [] else en_NP_SYNCHRONIZING en))"

definition described :: "SdkEnums \<Rightarrow> nat \<Rightarrow> NodePoolResponse \<Rightarrow> bool" where
  "described en n r \<longleftrightarrow> npr_Kind r \<noteq> None \<and> npr_ApiVersion r \<noteq> None \<and> pool_in en n (npr_Status r)"

definition node_ok :: "Node \<Rightarrow> bool" where
  "node_ok x \<longleftrightarrow> (\<exists>md. no_Metadata x = Some md \<and> nm_Uid md \<noteq> None) \<and> no_Az x \<noteq> None"

definition healthy_pools :: "'w env \<Rightarrow> (nat \<Rightarrow> 'w \<Rightarrow> bool) \<Rightarrow> bool" where
  "healthy_pools E W \<longleftrightarrow>
     (\<forall>a b c. grants W (k_PatchMachinePool (env_kube E) a b c) (\<lambda>_. True)) \<and>
     (\<forall>n. grants W (k_GetSecret (env_kube E) n) (\<lambda>_. True)) \<and>
     (\<forall>n w. W n w \<longrightarrow> W (n - 1) (k_Sleep (env_kube E) (30 * Second) w)) \<and>
     (\<forall>auth region. \<exists>C. env_NewCceClient E auth region = Ret C \<and>
        (\<forall>i j n w. W n w \<longrightarrow> (\<exists>r v. ShowNodePool C i j w = (Ret r, v) \<and> W n v \<and> described (lib_enums (env_lib E)) n r)) \<and>
        (\<forall>q n w. W n w \<longrightarrow> (\<exists>r v m i. CreateNodePool C q w = (Ret r, v) \<and> W n v \<and> described (lib_enums (env_lib E)) n r \<and>
           npr_Metadata r = Some m \<and> npm_Uid m = Some i \<and> i \<noteq> [])) \<and>
        (\<forall>i. grants W (ListNodes C i) (\<lambda>r. \<exists>xs. ln_Items r = Some xs \<and> list_all node_ok xs)))"

text \<open>A service with such a client.\<close>

definition pool_served :: "'w env \<Rightarrow> 'w NodepoolService \<Rightarrow> (nat \<Rightarrow> 'w \<Rightarrow> bool) \<Rightarrow> bool" where
  "pool_served E S W \<longleftrightarrow>
     (\<forall>i j n w. W n w \<longrightarrow> (\<exists>r v. ShowNodePool (nsv_CCEClient S) i j w = (Ret r, v) \<and> W n v \<and> described (lib_enums (env_lib E)) n r)) \<and>
     (\<forall>q n w. W n w \<longrightarrow> (\<exists>r v m i. CreateNodePool (nsv_CCEClient S) q w = (Ret r, v) \<and> W n v \<and>
        described (lib_enums (env_lib E)) n r \<and> npr_Metadata r = Some m \<and> npm_Uid m = Some i \<and> i \<noteq> [])) \<and>
     (\<forall>i. grants W (ListNodes (nsv_CCEClient S) i) (\<lambda>r. \<exists>xs. ln_Items r = Some xs \<and> list_all node_ok xs))"

lemma healthy_poolsD:
  assumes "healthy_pools E W"
  shows "grants W (k_PatchMachinePool (env_kube E) a b c) (\<lambda>_. True)"
    and "grants W (k_GetSecret (env_kube E) nn) (\<lambda>_. True)"
    and "W i w \<Longrightarrow> W (i - 1) (k_Sleep (env_kube E) (30 * Second) w)"
    and "\<exists>C. env_NewCceClient E auth region = Ret C \<and> pool_served E \<lparr>nsv_scope = sc, nsv_CCEClient = C\<rparr> W"
  using assms unfolding healthy_pools_def pool_served_def NodepoolService.simps by blast+

section \<open>How far a pool has come\<close>

text \<open>
  With the finalizer and the volume and subnet that a creation dereferences, a pool is at stage 0; then
  its ID is recorded (1) and it is ready (2).
\<close>

definition pool_complete :: "CCEManagedMachinePool \<Rightarrow> bool" where
  "pool_complete mp \<longleftrightarrow> mps_RootVolume (mp_Spec mp) \<noteq> None \<and> mps_Subnet (mp_Spec mp) \<noteq> None"

definition pool_stage :: "nat \<Rightarrow> CCEManagedMachinePool \<Rightarrow> bool" where
  "pool_stage k mp \<longleftrightarrow>
     pool_complete mp \<and> ManagedMachinePoolFinalizer \<in> set (mp_Finalizers mp) \<and>
     (1 \<le> k \<longrightarrow> smp_InfraMachinePoolID mp \<noteq> []) \<and> (2 \<le> k \<longrightarrow> mp_Ready mp)"

lemma pool_stage_keeps [simp]:
  "pool_stage k (mp_MarkTrue L t mp) = pool_stage k mp"
  "pool_stage k (mp_SetSummary L ts mp) = pool_stage k mp"
  "pool_stage k (set_nodes ids c mp) = pool_stage k mp"
  by (simp_all add: pool_stage_def pool_complete_def mp_Finalizers_def smp_InfraMachinePoolID_def mp_Ready_def set_nodes_def)

lemma pool_stage_climbs:
  "pool_stage 0 mp \<Longrightarrow> i \<noteq> [] \<Longrightarrow> pool_stage 1 (smp_SetInfraMachinePoolID i mp)"
  by (simp add: pool_stage_def pool_complete_def pool_id.getID_setID mp_Finalizers_def pool_id.setID_identity)

lemma pool_stage_mirrors:
  assumes "phases_documented en" and "pool_stage 1 mp"
  shows "pool_stage (if n = 0 then 2 else 1) (mirror_phase en (if n = 0 then [] else en_NP_SYNCHRONIZING en) mp)"
  using assms(2)
  by (simp add: pool_stage_def pool_complete_def mp_Finalizers_def smp_InfraMachinePoolID_def mirror_phase_ready[OF assms(1)])

section \<open>The service\<close>

lemma pool_patch:
  "healthy_pools E W \<Longrightarrow> ends (during W n J) (smp_PatchObject E sc) (\<lambda>_. during W n J)"
  unfolding smp_PatchObject_def by (rule ends_get_obj_any, rule during_granted[OF healthy_poolsD(1)])

definition found_pool :: "'w env \<Rightarrow> nat \<Rightarrow> NodePool \<Rightarrow> bool" where
  "found_pool E n pool \<longleftrightarrow> pool_in (lib_enums (env_lib E)) n (np_Status pool)"

lemma described_pool:
  fixes E :: "'w env"
  assumes "described (lib_enums (env_lib E)) n r"
  shows "\<exists>pool. (response_pool r :: ((CCEManagedMachinePool, 'w) st, NodePool) go) = ret pool \<and> found_pool E n pool"
proof -
  from assms obtain k v where "npr_Kind r = Some k" "npr_ApiVersion r = Some v"
    by (auto simp: described_def)
  then show ?thesis
    using assms by (intro exI[of _ "\<lparr>np_Kind = k, np_ApiVersion = v, np_Metadata = npr_Metadata r, np_Spec = npr_Spec r,
      np_Status = npr_Status r\<rparr>"]) (simp add: response_pool_def described_def found_pool_def)
qed

lemma pool_shown:
  assumes "pool_served E S W"
  shows "ends (during W n J) (showNodepool S) (\<lambda>r s. during W n J s \<and> (\<exists>pool. r = Some pool \<and> found_pool E n pool))"
proof (rule endsI)
  fix s assume s: "during W n J s"
  let ?i = "cp_InfraClusterID (smp_ControlPlane (nsv_scope S))" and ?j = "smp_InfraMachinePoolID (obj s)"
  obtain r v where r: "ShowNodePool (nsv_CCEClient S) ?i ?j (world s) = (Ret r, v)" "W n v" "described (lib_enums (env_lib E)) n r"
    using assms s unfolding pool_served_def during_def by blast
  from described_pool[OF r(3)] obtain pool where pool: "found_pool E n pool"
    "(response_pool r :: ((CCEManagedMachinePool, 'a) st, NodePool) go) = ret pool" by blast
  with r s show "\<exists>x t. showNodepool S s = (Ret x, t) \<and> during W n J t \<and> (\<exists>pool. x = Some pool \<and> found_pool E n pool)"
    by (auto simp: showNodepool_def Let_def go_simps during_def)
qed

lemma provider_ids:
  "list_all node_ok xs \<Longrightarrow> \<exists>ids. (collect_provider_ids i xs :: ('s, string list) go) = ret ids"
proof (induction xs)
  case Nil
  show ?case by (intro exI[of _ "[]"]) simp
next
  case (Cons x xs)
  then obtain ids where "(collect_provider_ids i xs :: ('s, string list) go) = ret ids" by auto
  with Cons.prems show ?case by (auto simp: node_ok_def)
qed

lemma pool_nodes:
  fixes E :: "'w env"
  assumes S: "pool_served E S W"
  shows "ends (during W n (pool_stage k)) (record_nodes S st) (\<lambda>_. during W n (pool_stage k))"
proof -
  have l: "grants W (ListNodes (nsv_CCEClient S) i) (\<lambda>r. \<exists>xs. ln_Items r = Some xs \<and> list_all node_ok xs)" for i
    using S by (simp add: pool_served_def)
  have upd: "ends (during W n (pool_stage k)) (upd_obj (set_nodes ids c)) (\<lambda>_. during W n (pool_stage k))" for ids c
    by (rule during_upd_obj) simp
  have list: "ends (during W n (pool_stage k)) (andThen (wrapErr m (ext a (ListNodes (nsv_CCEClient S) i))) (\<lambda>response.
      andThen (deref (ln_Items response)) (\<lambda>items.
      andThen (collect_provider_ids j items) (\<lambda>ids. upd_obj (set_nodes ids c))))) (\<lambda>_. during W n (pool_stage k))"
    for m a i j c
  proof (rule ends_fact_then[OF ends_wrapErr[OF during_ext[OF l]]], elim exE conjE)
    fix r :: ListNodesResponse and xs assume xs: "ln_Items r = Some xs" "list_all node_ok xs"
    obtain ids where "(collect_provider_ids j xs :: ((CCEManagedMachinePool, 'w) st, string list) go) = ret ids"
      using provider_ids[OF xs(2)] by blast
    then show "ends (during W n (pool_stage k)) (andThen (deref (ln_Items r)) (\<lambda>items.
        andThen (collect_provider_ids j items) (\<lambda>ids. upd_obj (set_nodes ids c)))) (\<lambda>_. during W n (pool_stage k))"
      by (simp add: xs(1) upd)
  qed
  show ?thesis
    unfolding record_nodes_def Let_def
    by (rule ends_get_obj_any) (auto split: option.split intro: during_ret list)
qed

lemma pool_status_climbs:
  assumes P: "healthy_pools E W" and S: "pool_served E S W" and en: "phases_documented (lib_enums (env_lib E))"
    and pool: "found_pool E n pool"
  shows "ends (during W n (pool_stage 1)) (mp_setStatus E S (Some pool)) (\<lambda>_. during W n (pool_stage (if n = 0 then 2 else 1)))"
proof -
  let ?en = "lib_enums (env_lib E)"
  from pool obtain st where st: "np_Status pool = Some st" "nps_Phase st = Some (if n = 0 then [] else en_NP_SYNCHRONIZING ?en)"
    by (auto simp: found_pool_def pool_in_def)
  have "ends (during W n (pool_stage 1)) (upd_obj (mirror_phase ?en (if n = 0 then [] else en_NP_SYNCHRONIZING ?en)))
      (\<lambda>_. during W n (pool_stage (if n = 0 then 2 else 1)))"
    by (rule during_upd_obj) (rule pool_stage_mirrors[OF en])
  from ends_andThen[OF this ends_andThen[OF pool_nodes[OF S] ends_wrapErr[OF pool_patch[OF P]]]]
  show ?thesis
    unfolding mp_setStatus_def deref_Some andThen_ret st .
qed

section \<open>The wait\<close>

lemma found_pool_phase:
  fixes E :: "'w env"
  assumes "found_pool E n pool"
  shows "(pool_phase (Some pool) :: ((CCEManagedMachinePool, 'w) st, string) go)
    = ret (if n = 0 then [] else en_NP_SYNCHRONIZING (lib_enums (env_lib E)))"
  using assms by (auto simp: found_pool_def pool_in_def pool_phase_def)

lemma pool_poll:
  assumes S: "pool_served E S W" and en: "phases_documented (lib_enums (env_lib E))"
  shows "ends (during W n J) (nodepool_active_poll S) (\<lambda>r s. during W n J s \<and> r = (n = 0))"
  unfolding nodepool_active_poll_def
proof (rule ends_fact_then[OF pool_shown[OF S]], elim exE conjE)
  fix r pool assume r: "r = Some pool" "found_pool E n pool"
  show "ends (during W n J) (andThen (pool_phase r) (\<lambda>phase. ret (phase = []))) (\<lambda>r s. during W n J s \<and> r = (n = 0))"
    using en by (auto simp: r(1) found_pool_phase[OF r(2)] phases_documented_def intro: ends_ret)
qed

lemma pool_wait_climbs:
  assumes P: "healthy_pools E W" and S: "pool_served E S W" and en: "phases_documented (lib_enums (env_lib E))"
    and n: "n < 40"
  shows "ends (during W n (pool_stage 1)) (waitForNodepoolActive E S) (\<lambda>_. during W 0 (pool_stage 2))"
proof -
  have wait: "ends (during W n (pool_stage 1)) (waitUntil E (nodepool_active_poll S) (30 * Second) 40) (\<lambda>_. during W 0 (pool_stage 1))"
    unfolding waitUntil_def using n by (intro during_wait[OF pool_poll[OF S en]] healthy_poolsD(3)[OF P]) simp_all
  have after: "ends (during W 0 (pool_stage 1)) (andThen (wrapErr ''failed to describe CCE nodepool'' (showNodepool S)) (\<lambda>np.
      andThen (wrapErr ''failed to set status'' (mp_setStatus E S np)) (\<lambda>_. ret np))) (\<lambda>_. during W 0 (pool_stage 2))"
  proof (rule ends_fact_then[OF ends_wrapErr[OF pool_shown[OF S]]], elim exE conjE)
    fix r pool assume r: "r = Some pool" "found_pool E 0 pool"
    have "ends (during W 0 (pool_stage 1)) (mp_setStatus E S (Some pool)) (\<lambda>_. during W 0 (pool_stage 2))"
      using pool_status_climbs[OF P S en r(2)] by simp
    then show "ends (during W 0 (pool_stage 1)) (andThen (wrapErr ''failed to set status'' (mp_setStatus E S r)) (\<lambda>_. ret r))
        (\<lambda>_. during W 0 (pool_stage 2))"
      unfolding r(1) by (rule ends_andThen[OF ends_wrapErr during_ret])
  qed
  show ?thesis
    unfolding waitForNodepoolActive_def by (rule ends_gets_any, rule ends_andThen[OF ends_wrapErr[OF wait] after])
qed

section \<open>Reconciling the pool\<close>

lemma pool_created:
  fixes E :: "'w env"
  assumes S: "pool_served E S W"
  shows "ends (during W n (pool_stage 0)) (createNodepool E S) (\<lambda>pool s. during W n (pool_stage 1) s \<and> found_pool E n pool)"
proof (rule endsI)
  fix s assume s: "during W n (pool_stage 0) s"
  then obtain rv sn where mp: "mps_RootVolume (mp_Spec (obj s)) = Some rv" "mps_Subnet (mp_Spec (obj s)) = Some sn"
    by (auto simp: during_def pool_stage_def pool_complete_def)
  let ?q = "create_nodepool_request (lib_enums (env_lib E)) (cp_InfraClusterID (smp_ControlPlane (nsv_scope S))) (obj s) rv sn"
  have "W n (world s)" using s by (simp add: during_def)
  then obtain r v m i where r: "CreateNodePool (nsv_CCEClient S) ?q (world s) = (Ret r, v)" "W n v"
    "described (lib_enums (env_lib E)) n r" "npr_Metadata r = Some m" "npm_Uid m = Some i" "i \<noteq> []"
    using S unfolding pool_served_def by blast
  from described_pool[OF r(3)] obtain pool where pool: "found_pool E n pool"
    "(response_pool r :: ((CCEManagedMachinePool, 'w) st, NodePool) go) = ret pool" by blast
  have "pool_stage 1 (smp_SetInfraMachinePoolID i (obj s))"
    using s r(6) by (intro pool_stage_climbs) (simp_all add: during_def)
  with mp r pool show "\<exists>x t. createNodepool E S s = (Ret x, t) \<and> during W n (pool_stage 1) t \<and> found_pool E n x"
    by (simp add: createNodepool_def Let_def go_simps during_def)
qed

lemma pool_found_or_created:
  assumes S: "pool_served E S W"
  shows "ends (during W n (pool_stage 0)) (andThen (gets (\<lambda>s. smp_InfraMachinePoolID (obj s))) (\<lambda>i.
      andThen (if i \<noteq> [] then wrapErr a (showNodepool S) else ret None) (\<lambda>np.
        case np of None \<Rightarrow> wrapErr b (createNodepool E S) | Some pool \<Rightarrow> ret pool)))
    (\<lambda>pool s. during W n (pool_stage 1) s \<and> found_pool E n pool)"
proof (rule ends_gets_then)
  fix i
  have up: "ends (during W n (pool_stage 1)) (andThen (wrapErr a (showNodepool S)) (\<lambda>np.
      case np of None \<Rightarrow> wrapErr b (createNodepool E S) | Some pool \<Rightarrow> ret pool))
      (\<lambda>pool s. during W n (pool_stage 1) s \<and> found_pool E n pool)"
    by (rule ends_fact_then[OF ends_wrapErr[OF pool_shown[OF S]]]) (auto intro: ends_ret)
  show "ends (\<lambda>s. during W n (pool_stage 0) s \<and> smp_InfraMachinePoolID (obj s) = i)
      (andThen (if i \<noteq> [] then wrapErr a (showNodepool S) else ret None) (\<lambda>np.
        case np of None \<Rightarrow> wrapErr b (createNodepool E S) | Some pool \<Rightarrow> ret pool))
      (\<lambda>pool s. during W n (pool_stage 1) s \<and> found_pool E n pool)"
  proof (cases "i = []")
    case True
    with ends_and[OF ends_wrapErr[OF pool_created[OF S]]] show ?thesis by simp
  next
    case False
    with up show ?thesis by (auto elim!: ends_pre simp: during_def pool_stage_def)
  qed
qed

lemma pool_settles:
  assumes P: "healthy_pools E W" and S: "pool_served E S W" and en: "phases_documented (lib_enums (env_lib E))"
    and n: "n < 40" and pool: "found_pool E n pool"
  shows "ends (during W n (pool_stage 1))
    (andThen (wrapErr a (mp_setStatus E S (Some pool))) (\<lambda>_.
     andThen (pool_phase (Some pool)) (\<lambda>phase.
       if phase \<in> {en_NP_SYNCHRONIZING (lib_enums (env_lib E)), en_NP_SYNCHRONIZED (lib_enums (env_lib E))}
       then andThen (wrapErr b (waitForNodepoolActive E S)) (\<lambda>_. ret ())
       else ret ()))) (\<lambda>_. during W 0 (pool_stage 2))"
proof (rule ends_andThen[OF ends_wrapErr[OF pool_status_climbs[OF P S en pool]]], unfold found_pool_phase[OF pool] andThen_ret)
  show "ends (during W n (pool_stage (if n = 0 then 2 else 1)))
    (if (if n = 0 then [] else en_NP_SYNCHRONIZING (lib_enums (env_lib E)))
          \<in> {en_NP_SYNCHRONIZING (lib_enums (env_lib E)), en_NP_SYNCHRONIZED (lib_enums (env_lib E))}
     then andThen (wrapErr b (waitForNodepoolActive E S)) (\<lambda>_. ret ()) else ret ()) (\<lambda>_. during W 0 (pool_stage 2))"
  proof (cases "n = 0")
    case True
    with en show ?thesis by (auto simp: phases_documented_def intro: during_ret)
  next
    case False
    then show ?thesis
      by (simp add: ends_andThen[OF ends_wrapErr[OF pool_wait_climbs[OF P S en n]] during_ret, unfolded One_nat_def])
  qed
qed

lemma pool_climbs:
  assumes P: "healthy_pools E W" and S: "pool_served E S W" and en: "phases_documented (lib_enums (env_lib E))"
    and n: "n < 40"
  shows "ends (during W n (pool_stage 0)) (ReconcilePool E S) (\<lambda>_. during W 0 (pool_stage 2))"
proof -
  have "ends (during W n (pool_stage 0)) (reconcileNodepool E S) (\<lambda>_. during W 0 (pool_stage 2))"
    unfolding reconcileNodepool_def
    by (rule ends_fact_then[OF pool_found_or_created[OF S], unfolded andThen_assoc]) (rule pool_settles[OF P S en n])
  then show ?thesis
    unfolding ReconcilePool_def by (rule ends_andThen[OF ends_onErr during_upd_obj]) simp
qed

section \<open>The controller\<close>

lemma NewNodepoolService_served:
  assumes P: "healthy_pools E W" and ref: "cps_IdentityRef (cp_Spec (smp_ControlPlane sc)) \<noteq> None"
  shows "ends (during W n J) (NewNodepoolService E sc) (\<lambda>S s. during W n J s \<and> pool_served E S W)"
proof -
  obtain idref where idref: "cps_IdentityRef (cp_Spec (smp_ControlPlane sc)) = Some idref" using ref by auto
  show ?thesis
    unfolding NewNodepoolService_def idref deref_Some andThen_ret Let_def
  proof (rule ends_andThen[OF during_granted[OF healthy_poolsD(2)[OF P]]])
    fix sec :: Secret
    obtain C where "env_NewCceClient E \<lparr>cr_Ak = secret_field sec ''accessKey'', cr_Sk = secret_field sec ''secretKey''\<rparr>
        (cps_Region (cp_Spec (smp_ControlPlane sc))) = Ret C" "pool_served E \<lparr>nsv_scope = sc, nsv_CCEClient = C\<rparr> W"
      using healthy_poolsD(4)[OF P] by blast
    then show "ends (during W n J) (andThen (from_outcome (env_NewCceClient E
        \<lparr>cr_Ak = secret_field sec ''accessKey'', cr_Sk = secret_field sec ''secretKey''\<rparr>
        (cps_Region (cp_Spec (smp_ControlPlane sc))))) (\<lambda>C. ret \<lparr>nsv_scope = sc, nsv_CCEClient = C\<rparr>))
        (\<lambda>S s. during W n J s \<and> pool_served E S W)"
      by (auto simp: ends_def go_simps)
  qed
qed

lemma pool_provision_climbs:
  assumes P: "healthy_pools E W" and en: "phases_documented (lib_enums (env_lib E))" and n: "n < 40"
    and ref: "cps_IdentityRef (cp_Spec (smp_ControlPlane sc)) \<noteq> None"
  shows "ends (during W n (pool_stage 0)) (mpr_provision E sc) (\<lambda>res s. during W 0 (pool_stage 2) s \<and> res = Result0)"
  unfolding mpr_provision_def
  by (rule ends_get_obj_any, rule ends_fact_then[OF ends_wrapErr[OF NewNodepoolService_served[OF P ref]]])
    (intro ends_andThen[OF ends_wrapErr[OF pool_climbs[OF P _ en n]]] ends_ret; simp)

lemma pool_ensure_climbs:
  assumes P: "healthy_pools E W" and L: "finalizers_documented (env_lib E)"
  shows "ends (during W n pool_complete)
    (ensure_finalizer (env_lib E) ManagedMachinePoolFinalizer mp_Finalizers set_mp_Finalizers (smp_PatchObject E sc))
    (\<lambda>_. during W n (pool_stage 0))"
proof (rule mp_fin.ensure_ends[OF L])
  show "ends (\<lambda>s. during W n pool_complete s \<and> ManagedMachinePoolFinalizer \<in> set (mp_Finalizers (obj s)))
      (smp_PatchObject E sc) (\<lambda>_. during W n (pool_stage 0))"
    by (rule ends_pre[OF pool_patch[OF P]]) (simp add: during_def pool_stage_def)
qed (simp_all add: during_def pool_stage_def pool_complete_def set_mp_Finalizers_def)

lemma pool_provisioning_run:
  assumes P: "healthy_pools E W" and k: "k < 40" and L: "finalizers_documented (env_lib E)"
    and en: "phases_documented (lib_enums (env_lib E))"
    and get: "k_GetManagedMachinePool (env_kube E) req (world s) = (Ret mp, w1)"
    and owner: "owner_of (env_lib E) ''MachinePool'' (om_OwnerReferences (mp_Meta mp)) = Inr (Some name)"
    and pool: "k_GetMachinePool (env_kube E) \<lparr>nn_Namespace = om_Namespace (mp_Meta mp), nn_Name = name\<rparr> w1 = (Ret capi, w2)"
    and cluster: "k_GetClusterFromMetadata (env_kube E) (mpo_Meta capi) w2 = (Ret cluster, w3)"
    and ref: "cl_ControlPlaneRef cluster = Some r"
    and plane: "k_GetControlPlane (env_kube E) \<lparr>nn_Namespace = om_Namespace (mp_Meta mp), nn_Name = or_Name r\<rparr> w3 = (Ret cp, v)"
    and v: "W k v"
    and live: "Time_IsZero (om_DeletionTimestamp (mp_Meta mp))" "\<not> lib_IsPaused (env_lib E) cluster (mp_Meta mp)"
      "lib_NewHelperMachinePool (env_lib E) mp = None" "lib_NewHelperCAPIPool (env_lib E) capi = None"
    and cp: "cpst_Ready (cp_Status cp)" "cps_IdentityRef (cp_Spec cp) \<noteq> None"
    and spec: "mps_RootVolume (mp_Spec mp) \<noteq> None" "mps_Subnet (mp_Spec mp) \<noteq> None"
  shows "\<exists>t. mpr_Reconcile E req s = (Ret (Result0, None), t) \<and> during W 0 (pool_stage 2) t \<and>
    last (calls t) = CallPatchMachinePool (obj t) \<and> issues (pool_lane (cp_InfraClusterID cp)) s t"
proof -
  define sc where "sc = \<lparr>smp_patchHelper = mp, smp_capiMachinePoolPatchHelper = capi, smp_Cluster = Some cluster,
    smp_ControlPlane = cp, smp_MachinePool = capi, smp_controllerName = ''ccemanagedmachinepool''\<rparr>"
  let ?u = "s\<lparr>obj := mp, world := v, calls := calls s @ [CallRead ''CCEManagedMachinePool'', CallRead ''MachinePool'',
    CallRead ''Cluster'', CallRead ''CCEManagedControlPlane'']\<rparr>"
  have start: "during W k pool_complete ?u"
    using v spec by (simp add: during_def pool_complete_def)
  have "cps_IdentityRef (cp_Spec (smp_ControlPlane sc)) \<noteq> None"
    using cp(2) by (simp add: sc_def)
  then have up: "ends (during W k pool_complete) (mpr_reconcileNormal E sc) (\<lambda>q s. during W 0 (pool_stage 2) s \<and> q = Result0)"
    unfolding mpr_reconcileNormal_split by (rule ends_andThen[OF pool_ensure_climbs[OF P L] pool_provision_climbs[OF P en k]])
  have "\<exists>q t. mpr_reconcileNormal E sc ?u = (Ret q, t) \<and> during W 0 (pool_stage 2) t \<and> q = Result0"
    using up start by (rule endsD)
  then obtain t where t: "mpr_reconcileNormal E sc ?u = (Ret Result0, t)" "during W 0 (pool_stage 2) t"
    by (elim exE conjE) simp
  define m where "m = mp_SetSummary (env_lib E) [CCENodepoolReadyCondition] (obj t)"
  have m: "during W 0 (pool_stage 2) (t\<lparr>obj := m\<rparr>)"
    using t(2) by (simp add: during_def m_def)
  obtain x where x: "summarize_and_close E sc t = (Ret (), x)" "during W 0 (pool_stage 2) x"
      "last (calls x) = CallPatchMachinePool (obj x)"
    using endsD[OF pool_patch[OF P] m, of sc]
    by (auto simp: summarize_and_close_def smp_Close_def smp_PatchObject_apply go_simps m_def split: prod.splits)
  have run: "mpr_Reconcile E req s = with_close (summarize_and_close E sc) (mpr_body E mp sc) ?u"
    using get owner pool cluster ref plane live cp
    by (simp add: mpr_Reconcile_def mpr_body_def getOwnerMachinePool_def getMachinePoolByName_def go_simps
        NewManagedMachinePoolScope_def sc_def)
  with t(1) x(1) live(1) have ends: "mpr_Reconcile E req s = (Ret (Result0, None), x)"
    by (simp add: with_close_def mpr_body_def)
  have "issues (pool_lane (cp_InfraClusterID cp)) s ?u"
    by (simp add: issues_def)
  moreover have "issues (pool_lane (cp_InfraClusterID cp)) ?u x"
    using steps_inD[OF lane_mpr_closed run[symmetric, unfolded ends]] by (simp add: sc_def)
  ultimately have "issues (pool_lane (cp_InfraClusterID cp)) s x"
    by (rule issues.frame_trans)
  with ends x(2,3) show ?thesis by blast
qed

text \<open>
  C7. A machine pool gets provisioned. Take a live machine pool, from wherever an earlier reconcile left it,
  that has its root volume and the optional subnet set, whose cluster is not paused, and whose control
  plane is ready and has its identity reference set. (The creation of a pool dereferences root volume and
  subnet without a test, and panics without them; as long as the control plane is not ready, nothing is
  done.) In a cloud that knows the node pools it is asked for, grants what it is asked for and finishes the
  synchronization of a node pool within forty polls, and with an API server that answers the reads and accepts the
  patches, one reconcile ends without an error: the node pool is recorded, the machine pool is ready and
  carries the finalizer, and all of this is in the last patch.
\<close>

theorem pool_provisioning_completes:
  assumes P: "healthy_pools E W" and k: "k < 40" and L: "finalizers_documented (env_lib E)"
    and en: "phases_documented (lib_enums (env_lib E))"
    and get: "k_GetManagedMachinePool (env_kube E) req (world s) = (Ret mp, w1)"
    and owner: "owner_of (env_lib E) ''MachinePool'' (om_OwnerReferences (mp_Meta mp)) = Inr (Some name)"
    and pool: "k_GetMachinePool (env_kube E) \<lparr>nn_Namespace = om_Namespace (mp_Meta mp), nn_Name = name\<rparr> w1 = (Ret capi, w2)"
    and cluster: "k_GetClusterFromMetadata (env_kube E) (mpo_Meta capi) w2 = (Ret cluster, w3)"
    and ref: "cl_ControlPlaneRef cluster = Some r"
    and plane: "k_GetControlPlane (env_kube E) \<lparr>nn_Namespace = om_Namespace (mp_Meta mp), nn_Name = or_Name r\<rparr> w3 = (Ret cp, v)"
    and v: "W k v"
    and live: "Time_IsZero (om_DeletionTimestamp (mp_Meta mp))" "\<not> lib_IsPaused (env_lib E) cluster (mp_Meta mp)"
      "lib_NewHelperMachinePool (env_lib E) mp = None" "lib_NewHelperCAPIPool (env_lib E) capi = None"
    and cp: "cpst_Ready (cp_Status cp)" "cps_IdentityRef (cp_Spec cp) \<noteq> None"
    and spec: "mps_RootVolume (mp_Spec mp) \<noteq> None" "mps_Subnet (mp_Spec mp) \<noteq> None"
  shows "\<exists>t. mpr_Reconcile E req s = (Ret (Result0, None), t) \<and>
    smp_InfraMachinePoolID (obj t) \<noteq> [] \<and> mp_Ready (obj t) \<and>
    ManagedMachinePoolFinalizer \<in> set (mp_Finalizers (obj t)) \<and>
    last (calls t) = CallPatchMachinePool (obj t)"
  using pool_provisioning_run[OF assms] by (auto simp: during_def pool_stage_def)

text \<open>In the cloud of the example a node pool synchronizes for two polls.\<close>

definition syncing :: "nat \<Rightarrow> NodePoolResponse" where
  "syncing w = demo_np_response (if w < 2 then ''Synchronizing'' else [])"

definition syncing_env :: "nat env" where
  "syncing_env = demo_env\<lparr>
     env_kube := demo_kube\<lparr>k_GetManagedMachinePool := (\<lambda>_. ret owned_mp),
       k_GetControlPlane := (\<lambda>_. ret (set_cp_Ready True demo_cp))\<rparr>,
     env_NewCceClient := (\<lambda>_ _. Ret (demo_cce\<lparr>ShowNodePool := (\<lambda>_ _ w. (Ret (syncing w), w)),
       CreateNodePool := (\<lambda>_ w. (Ret (syncing w), w))\<rparr>))\<rparr>"

lemma syncing_healthy: "healthy_pools syncing_env demo_polls"
proof -
  have "described demo_enums n (syncing w) \<and> (\<exists>m i. npr_Metadata (syncing w) = Some m \<and> npm_Uid m = Some i \<and> i \<noteq> [])"
    if "n = 2 - w" for n w
    using that by (auto simp: described_def pool_in_def syncing_def demo_np_response_def demo_np_status_def demo_enums_def)
  then show ?thesis
    by (auto simp: healthy_pools_def grants_def syncing_env_def demo_env_def demo_kube_def demo_cce_def demo_lib_def
        node_ok_def demo_polls_def go_simps)
qed

lemma pool_provisioning_completes_witness:
  "\<exists>t. mpr_Reconcile syncing_env \<lparr>nn_Namespace = ''ns'', nn_Name = ''dev''\<rparr> (start demo_mp) = (Ret (Result0, None), t) \<and>
     mp_Ready (obj t)"
proof -
  let ?req = "\<lparr>nn_Namespace = ''ns'', nn_Name = ''dev''\<rparr>"
  have o: "owner_of (env_lib syncing_env) ''MachinePool'' (om_OwnerReferences (mp_Meta owned_mp)) = Inr (Some ''dev'')"
    by code_simp
  have L: "finalizers_documented (env_lib syncing_env)" "phases_documented (lib_enums (env_lib syncing_env))"
    by (simp_all add: syncing_env_def demo_env_def demo_finalizers, simp add: demo_lib_def demo_phases)
  have get: "k_GetManagedMachinePool (env_kube syncing_env) ?req (world (start demo_mp)) = (Ret owned_mp, 0)"
    "k_GetMachinePool (env_kube syncing_env) nn 0 = (Ret demo_pool, 0)"
    "k_GetClusterFromMetadata (env_kube syncing_env) m 0 = (Ret demo_cluster, 0)"
    "k_GetControlPlane (env_kube syncing_env) nn 0 = (Ret (set_cp_Ready True demo_cp), 0)" for nn m
    by (simp_all add: syncing_env_def demo_kube_def go_simps start_def)
  have ref: "cl_ControlPlaneRef demo_cluster = Some (demo_ref ''CCEManagedControlPlane'')"
    by (simp add: demo_cluster_def)
  have polls: "demo_polls 2 0" by (simp add: demo_polls_def)
  have "\<exists>t. mpr_Reconcile syncing_env ?req (start demo_mp) = (Ret (Result0, None), t) \<and>
    smp_InfraMachinePoolID (obj t) \<noteq> [] \<and> mp_Ready (obj t) \<and>
    ManagedMachinePoolFinalizer \<in> set (mp_Finalizers (obj t)) \<and>
    last (calls t) = CallPatchMachinePool (obj t)"
    by (rule pool_provisioning_completes[OF syncing_healthy _ L get(1) o get(2,3) ref get(4) polls])
      (simp_all add: owned_mp_def demo_mp_def demo_meta_def syncing_env_def demo_env_def demo_lib_def demo_cp_def set_cp_Ready_def)
  then show ?thesis by blast
qed

end
