(* ===== verification/Pool_Lifecycle_Props.thy ===== *)
theory Pool_Lifecycle_Props
  imports Lifecycle_Props
begin

text \<open>
  The life of a machine pool object over many reconciles: it refines the same abstract machine as that
  of a control plane (\<open>id_history\<close> in \<open>Lifecycle_Props\<close>), so an object has one node pool, unless the
  cloud reports that pool missing.
\<close>

section \<open>What one reconcile does to the ID\<close>

abbreviation mp_recorded ::
  "(CCEManagedMachinePool, 'w) st \<Rightarrow> (CCEManagedMachinePool, 'w) st \<Rightarrow> bool" where
  "mp_recorded \<equiv> recorded smp_InfraMachinePoolID pool_creation"

abbreviation mp_ensure ::
  "'w env \<Rightarrow> ManagedMachinePoolScope \<Rightarrow> ((CCEManagedMachinePool, 'w) st, unit) go" where
  "mp_ensure E sc \<equiv> ensure_finalizer (env_lib E) ManagedMachinePoolFinalizer mp_Finalizers set_mp_Finalizers
                      (smp_PatchObject E sc)"

lemma smp_InfraMachinePoolID_finalizers [simp]:
  "smp_InfraMachinePoolID (set_mp_Finalizers fs x) = smp_InfraMachinePoolID x"
  by (simp add: smp_InfraMachinePoolID_def set_mp_Finalizers_def)

lemma keeps_mp_ensure: "steps_in (keeps smp_InfraMachinePoolID) (mp_ensure E sc)"
  unfolding ensure_finalizer_def smp_PatchObject_def by (intro keeps_rules smp_InfraMachinePoolID_finalizers)

lemma mp_ensure_calls: "(\<And>p. A (CallPatchMachinePool p)) \<Longrightarrow> steps_in (issues A) (mp_ensure E sc)"
  by (intro issues_ensure_finalizer issues_smp_PatchObject)

text \<open>The first part of \<open>reconcileNodepool\<close>, up to the pool it works on.\<close>

definition find_or_create_pool ::
  "'w env \<Rightarrow> 'w NodepoolService \<Rightarrow> ((CCEManagedMachinePool, 'w) st, NodePool) go" where
  "find_or_create_pool E S =
     andThen (gets (\<lambda>s. smp_InfraMachinePoolID (obj s))) (\<lambda>i.
     andThen (if i \<noteq> [] then wrapErr ''failed to show nodepool'' (showNodepool S) else ret None) (\<lambda>np.
       case np of
         None \<Rightarrow> wrapErr ''failed to create nodepool'' (createNodepool E S)
       | Some pool \<Rightarrow> ret pool))"

lemma reconcileNodepool_split:
  "reconcileNodepool E S =
     andThen (find_or_create_pool E S) (\<lambda>pool.
     andThen (wrapErr ''failed to set status'' (mp_setStatus E S (Some pool))) (\<lambda>_.
     andThen (pool_phase (Some pool)) (\<lambda>phase.
       if phase \<in> {en_NP_SYNCHRONIZING (lib_enums (env_lib E)), en_NP_SYNCHRONIZED (lib_enums (env_lib E))}
       then andThen (wrapErr ''failed to wait for nodepool to be active'' (waitForNodepoolActive E S)) (\<lambda>_. ret ())
       else ret ())))"
  unfolding reconcileNodepool_def find_or_create_pool_def andThen_assoc by (rule refl)

lemma createNodepool_recorded: "steps_in mp_recorded (createNodepool E S)"
proof (rule steps_inI)
  fix s r t assume run: "createNodepool E S s = (r, t)"
  show "mp_recorded s t"
  proof (cases "mps_RootVolume (mp_Spec (obj s)) = None \<or> mps_Subnet (mp_Spec (obj s)) = None")
    case True
    with run have "t = s"
      by (auto simp: createNodepool_def go_simps split: option.splits)
    then show ?thesis by (simp add: recorded.frame_refl)
  next
    case False
    then obtain root subnet where args: "mps_RootVolume (mp_Spec (obj s)) = Some root"
      "mps_Subnet (mp_Spec (obj s)) = Some subnet" by auto
    let ?q = "create_nodepool_request (lib_enums (env_lib E)) (cp_InfraClusterID (smp_ControlPlane (nsv_scope S)))
                (obj s) root subnet"
    obtain a v where a: "CreateNodePool (nsv_CCEClient S) ?q (world s) = (a, v)" by fastforce
    have "calls t = calls s @ [CallCreateNodePool ?q]"
      using run args a
      by (cases a) (auto simp: createNodepool_def response_pool_def go_simps Let_def split: option.splits)
    then show ?thesis by (simp add: recorded_def issues_def)
  qed
qed

lemma find_or_create_pool_recorded: "steps_in mp_recorded (find_or_create_pool E S)"
proof -
  have lookup: "steps_in mp_recorded (showNodepool S)"
    by (rule recordedI[OF keeps_showNodepool issues_showNodepool[of "\<lambda>_. True"]]) simp
  show ?thesis
    unfolding find_or_create_pool_def by (intro recorded.in_rules lookup createNodepool_recorded)
qed

lemma free_pool_rest:
  "free pool_creation (andThen (wrapErr m (mp_setStatus E S (Some pool))) (\<lambda>_.
     andThen (pool_phase (Some pool)) (\<lambda>phase.
       if phase \<in> X then andThen (wrapErr m' (waitForNodepoolActive E S)) (\<lambda>_. ret ()) else ret ())))"
proof -
  have "free pool_creation (mp_setStatus E S (Some pool))"
    by (rule issues_mono[OF issues_mp_setStatus]) (rule pool_status_weights)
  moreover have "free pool_creation (waitForNodepoolActive E S)"
    by (rule issues_mono[OF issues_waitForNodepoolActive]) (rule pool_status_weights)
  ultimately show ?thesis by (intro issues_rules issues_pool_phase)
qed

lemma keeps_pool_rest:
  "steps_in (keeps smp_InfraMachinePoolID) (andThen (wrapErr m (mp_setStatus E S (Some pool))) (\<lambda>_.
     andThen (pool_phase (Some pool)) (\<lambda>phase.
       if phase \<in> X then andThen (wrapErr m' (waitForNodepoolActive E S)) (\<lambda>_. ret ()) else ret ())))"
  by (intro keeps_rules keeps_pool_phase mp_label.setStatus_keeps mp_label.waitForNodepoolActive_keeps)

lemma ReconcilePool_recorded: "steps_in mp_recorded (ReconcilePool E S)"
proof -
  have mark: "steps_in mp_recorded (upd_obj (mp_MarkTrue (env_lib E) CCENodepoolReadyCondition))"
    "steps_in mp_recorded (upd_obj (mp_MarkFalse (env_lib E) CCENodepoolReadyCondition x y z))" for x y z
    by (intro recordedI[of _ _ "\<lambda>_. True"] keeps_upd_obj issues_upd_obj; simp add: mp_label.f_simps)+
  show ?thesis
    unfolding ReconcilePool_def reconcileNodepool_split
    by (intro recorded.in_andThen recorded.in_onErr recorded.in_fail find_or_create_pool_recorded mark
        recordedI[OF keeps_pool_rest free_pool_rest])
qed

lemma mpr_body_recorded: "steps_in mp_recorded (mpr_body E mp sc)"
proof -
  have new: "steps_in mp_recorded (NewNodepoolService E sc)"
    by (rule recordedI[OF keeps_NewNodepoolService issues_NewNodepoolService[of "\<lambda>_. True"]]) simp
  have ensure: "steps_in mp_recorded (mp_ensure E sc)"
    by (rule recordedI[OF keeps_mp_ensure mp_ensure_calls[of "\<lambda>_. True"]]) simp
  have del: "steps_in mp_recorded (ReconcilePoolDelete E S)" for S
    by (rule recordedI[OF mp_label.ReconcilePoolDelete_keeps free_pool_creation_delete])
  have fin: "steps_in mp_recorded (upd_obj (\<lambda>mp. set_mp_Finalizers (g mp) mp))" for g
    by (intro recordedI[of _ _ "\<lambda>_. True"] keeps_upd_obj issues_upd_obj smp_InfraMachinePoolID_finalizers)
  show ?thesis
    unfolding mpr_body_def mpr_reconcileDelete_def mpr_reconcileNormal_def get_obj_def
    by (intro recorded.in_rules ensure new del fin ReconcilePool_recorded)
qed

text \<open>
  \<open>mpr_before E req\<close> is the part of a reconcile that comes before it looks for the node pool; it returns the
  service the reconcile works with. From there, \<open>pool_missing\<close> is the recorded ID if the cloud answers the
  lookup of it with 404, and \<open>pool_granted\<close> is the ID the cloud's answer gives to the request for a node pool that
  would follow. \<open>missing_pool\<close> and \<open>granted_pool\<close> are both for a whole reconcile.
\<close>

definition mpr_before ::
  "'w env \<Rightarrow> NamespacedName \<Rightarrow> ((CCEManagedMachinePool, 'w) st, 'w NodepoolService) go" where
  "mpr_before E req =
     andThen (mpr_opening E req) (\<lambda>sc.
     andThen (mp_ensure E sc) (\<lambda>_. NewNodepoolService E sc))"

definition pool_missing :: "'w NodepoolService \<Rightarrow> ((CCEManagedMachinePool, 'w) st, string option) go" where
  "pool_missing S =
     andThen (gets (\<lambda>s. smp_InfraMachinePoolID (obj s))) (\<lambda>i.
       if i = [] then ret None
       else andThen (showNodepool S) (\<lambda>np. ret (if np = None then Some i else None)))"

definition pool_granted :: "'w env \<Rightarrow> 'w NodepoolService \<Rightarrow> ((CCEManagedMachinePool, 'w) st, string option) go" where
  "pool_granted E S =
     andThen (pool_missing S) (\<lambda>_.
     andThen get_obj (\<lambda>mp.
     andThen (deref (mps_RootVolume (mp_Spec mp))) (\<lambda>root.
     andThen (deref (mps_Subnet (mp_Spec mp))) (\<lambda>subnet.
     andThen (gets (\<lambda>_. create_nodepool_request (lib_enums (env_lib E))
                          (cp_InfraClusterID (smp_ControlPlane (nsv_scope S))) mp root subnet)) (\<lambda>q.
     andThen (ext (CallCreateNodePool q) (CreateNodePool (nsv_CCEClient S) q)) (\<lambda>response.
       ret (Option.bind (npr_Metadata response) npm_Uid)))))))"

definition missing_pool ::
  "'w env \<Rightarrow> NamespacedName \<Rightarrow> (CCEManagedMachinePool, 'w) st \<Rightarrow> string option" where
  "missing_pool E req = answer (andThen (mpr_before E req) pool_missing)"

definition granted_pool ::
  "'w env \<Rightarrow> NamespacedName \<Rightarrow> (CCEManagedMachinePool, 'w) st \<Rightarrow> string option" where
  "granted_pool E req = answer (andThen (mpr_before E req) (pool_granted E))"

text \<open>
  A node pool is requested: if there was an ID, the lookup has reported it missing; and an ID the cloud
  grants is the one the object carries in the end.
\<close>

lemma createNodepool_grants:
  assumes run: "createNodepool E S v = (q, u)" and m: "pool_missing S s = (Ret x, v)"
    and j: "answer (pool_granted E S) s = Some j"
  shows "smp_InfraMachinePoolID (obj u) = j"
proof (cases "mps_RootVolume (mp_Spec (obj v)) = None \<or> mps_Subnet (mp_Spec (obj v)) = None")
  case True
  with m j show ?thesis by (auto simp: answer_def pool_granted_def go_simps split: option.splits)
next
  case False
  then obtain root subnet where args: "mps_RootVolume (mp_Spec (obj v)) = Some root"
    "mps_Subnet (mp_Spec (obj v)) = Some subnet" by auto
  let ?q = "create_nodepool_request (lib_enums (env_lib E)) (cp_InfraClusterID (smp_ControlPlane (nsv_scope S)))
              (obj v) root subnet"
  obtain a w where a: "CreateNodePool (nsv_CCEClient S) ?q (world v) = (a, w)" by fastforce
  with m j args obtain response metadata where "a = Ret response" "npr_Metadata response = Some metadata"
    "npm_Uid metadata = Some j"
    by (cases a) (auto simp: answer_def pool_granted_def go_simps bind_eq_Some_conv)
  with run args a show ?thesis
    by (auto simp: createNodepool_def response_pool_def go_simps Let_def pool_id.getID_setID split: option.splits)
qed

lemma find_or_create_pool_requests:
  assumes f: "find_or_create_pool E S s = (q, u)" and c: "pool_creation c \<noteq> 0" "c \<in> set (new_calls s u)"
  shows "smp_InfraMachinePoolID (obj s) \<noteq> [] \<Longrightarrow> answer (pool_missing S) s = Some (smp_InfraMachinePoolID (obj s))"
    and "answer (pool_granted E S) s = Some j \<Longrightarrow> smp_InfraMachinePoolID (obj u) = j"
proof -
  let ?i = "smp_InfraMachinePoolID (obj s)"
  have "\<exists>v q'. pool_missing S s = (Ret (if ?i = [] then None else Some ?i), v) \<and> createNodepool E S v = (q', u)"
  proof (cases "?i = []")
    case True
    obtain q' w where "createNodepool E S s = (q', w)" by fastforce
    moreover from this f True have "w = u"
      by (cases q') (auto simp: find_or_create_pool_def go_simps)
    ultimately show ?thesis using True by (simp add: pool_missing_def go_simps)
  next
    case i: False
    obtain a v where a: "showNodepool S s = (a, v)" by fastforce
    have "issues (\<lambda>c. pool_creation c = 0) s v"
      by (rule steps_inD[OF issues_showNodepool a]) simp
    from issues_new_calls[OF this] c have "u \<noteq> v"
      by (auto simp: list_all_iff)
    moreover have "u = v" if "a \<noteq> Ret None"
      using f a i that by (cases a) (auto simp: find_or_create_pool_def go_simps split: option.splits)
    ultimately have a': "a = Ret None" by blast
    obtain q' w where w: "createNodepool E S v = (q', w)" by fastforce
    with f a a' i have "w = u"
      by (cases q') (auto simp: find_or_create_pool_def go_simps)
    with w a a' i show ?thesis by (simp add: pool_missing_def go_simps)
  qed
  then obtain v q' where v: "pool_missing S s = (Ret (if ?i = [] then None else Some ?i), v)"
    "createNodepool E S v = (q', u)" by blast
  show "?i \<noteq> [] \<Longrightarrow> answer (pool_missing S) s = Some ?i"
    using v(1) by (simp add: answer_def)
  show "answer (pool_granted E S) s = Some j \<Longrightarrow> smp_InfraMachinePoolID (obj u) = j"
    by (rule createNodepool_grants[OF v(2,1)])
qed

lemma pool_request_answers:
  assumes run: "ReconcilePool E S s = (r, t)"
    and c: "pool_creation c \<noteq> 0" "c \<in> set (new_calls s t)"
  shows "smp_InfraMachinePoolID (obj s) \<noteq> [] \<Longrightarrow> answer (pool_missing S) s = Some (smp_InfraMachinePoolID (obj s))"
    and "answer (pool_granted E S) s = Some j \<Longrightarrow> smp_InfraMachinePoolID (obj t) = j"
proof -
  obtain r1 t1 where r1: "reconcileNodepool E S s = (r1, t1)" by fastforce
  with run c(2) have c1: "c \<in> set (new_calls s t1)"
    using calls_ReconcilePool[of E S s] by (simp add: new_calls_def)
  have grows: "steps_in (issues (\<lambda>_. True)) (find_or_create_pool E S)"
    unfolding find_or_create_pool_def createNodepool_def Let_def
    by (intro issues_rules issues_showNodepool issues_response_pool) simp_all
  obtain q u where f: "find_or_create_pool E S s = (q, u)" and cu: "c \<in> set (new_calls s u)"
    using r1 c(1) c1 grows unfolding reconcileNodepool_split
    by (elim early_call[where A = "\<lambda>c. pool_creation c \<noteq> 0"]) (assumption | simp only: not_not free_pool_rest)+
  show "smp_InfraMachinePoolID (obj s) \<noteq> [] \<Longrightarrow> answer (pool_missing S) s = Some (smp_InfraMachinePoolID (obj s))"
    by (rule find_or_create_pool_requests(1)[OF f c(1) cu])
  have "smp_InfraMachinePoolID (obj t1) = smp_InfraMachinePoolID (obj u)"
  proof (cases q)
    case (Ret x)
    note rest = andThen_outcome[OF r1[unfolded reconcileNodepool_split] f, unfolded Ret outcome.case]
    from steps_inD[OF keeps_pool_rest rest] show ?thesis by (simp add: keeps_def)
  qed (use andThen_outcome[OF r1[unfolded reconcileNodepool_split] f] in auto)
  moreover have "smp_InfraMachinePoolID (obj t) = smp_InfraMachinePoolID (obj t1)"
    using run r1 by (cases r1) (auto simp: ReconcilePool_def go_simps mp_label.f_simps)
  moreover assume "answer (pool_granted E S) s = Some j"
  then have "smp_InfraMachinePoolID (obj u) = j" by (rule find_or_create_pool_requests(2)[OF f c(1) cu])
  ultimately show "smp_InfraMachinePoolID (obj t) = j" by simp
qed

lemma pool_request_in_body:
  assumes run: "mpr_body E mp sc u = (q, m)" and opened: "mpr_opening E req s = (Ret sc, u)"
    and c: "pool_creation c \<noteq> 0" "c \<in> set (new_calls u m)"
  obtains S v p where "mpr_before E req s = (Ret S, v)" "ReconcilePool E S v = (p, m)"
    "c \<in> set (new_calls v m)" "smp_InfraMachinePoolID (obj v) = smp_InfraMachinePoolID (obj u)"
proof -
  let ?A = "\<lambda>c. pool_creation c \<noteq> 0" and ?n = "\<lambda>mp p. p @ object_path (mp_Meta mp)"
  have new: "steps_in (issues (\<lambda>c. \<not> ?A c)) (wrapErr m (NewNodepoolService E sc))" for m
    by (intro issues.in_wrapErr issues_NewNodepoolService) simp
  have "free pool_creation (mpr_reconcileDelete E sc)"
    unfolding mpr_reconcileDelete_def
    by (intro issues_rules free_pool_creation_delete issues_NewNodepoolService) simp
  then have "\<not> mpr_reconcileDelete E sc u = (q, m)"
    using c by (auto dest!: steps_inD issues_new_calls simp: list_all_iff)
  with run have "mpr_reconcileNormal E sc u = (q, m)" by (simp add: mpr_body_def split: if_splits)
  then have normal: "andThen (mp_ensure E sc) (\<lambda>_. andThen get_obj (\<lambda>mp.
      andThen (wrapErr (?n mp ''failed to init cce service for CCEManagedMachinePool '') (NewNodepoolService E sc)) (\<lambda>S.
      andThen (wrapErr (?n mp ''failed to reconcile machine pool for CCEManagedMachinePool '') (ReconcilePool E S)) (\<lambda>_.
        ret Result0)))) u = (q, m)"
    unfolding mpr_reconcileNormal_def .
  have rest: "steps_in (issues (\<lambda>_. True)) (andThen (wrapErr k (ReconcilePool E S)) (\<lambda>_. ret Result0))" for k S
    by (intro issues_rules grows_ReconcilePool)
  have tail: "steps_in (issues (\<lambda>_. True)) (andThen get_obj (\<lambda>mp. andThen (wrapErr (k mp) (NewNodepoolService E sc)) (\<lambda>S.
      andThen (wrapErr (l mp) (ReconcilePool E S)) (\<lambda>_. ret Result0))))" for k l
    by (intro issues_rules issues_NewNodepoolService grows_ReconcilePool) simp
  have "steps_in (issues (\<lambda>c. \<not> ?A c)) (mp_ensure E sc)"
    by (rule mp_ensure_calls) simp
  from late_call[where A = ?A, OF normal c this tail]
  obtain x v where e: "mp_ensure E sc u = (Ret x, v)" and cv: "c \<in> set (new_calls v m)" and
    v: "andThen (wrapErr (?n (obj v) ''failed to init cce service for CCEManagedMachinePool '') (NewNodepoolService E sc)) (\<lambda>S.
         andThen (wrapErr (?n (obj v) ''failed to reconcile machine pool for CCEManagedMachinePool '') (ReconcilePool E S)) (\<lambda>_.
         ret Result0)) v = (q, m)"
    unfolding andThen_run[OF get_obj_apply] by blast
  from v c(1) cv obtain S w where S: "NewNodepoolService E sc v = (Ret S, w)" and cw: "c \<in> set (new_calls w m)" and
    w: "andThen (wrapErr (?n (obj v) ''failed to reconcile machine pool for CCEManagedMachinePool '') (ReconcilePool E S)) (\<lambda>_.
         ret Result0) w = (q, m)"
    by (elim late_call[where A = ?A, OF _ _ _ new rest]) simp_all
  obtain p z where z: "ReconcilePool E S w = (p, z)" by fastforce
  with w have "m = z" by (cases p) (auto simp: go_simps)
  have same: "smp_InfraMachinePoolID (obj w) = smp_InfraMachinePoolID (obj u)"
    using steps_inD[OF keeps_NewNodepoolService[of smp_InfraMachinePoolID] S] steps_inD[OF keeps_mp_ensure e]
    by (simp add: keeps_def)
  have "mpr_before E req s = (Ret S, w)"
    using opened e S by (simp add: mpr_before_def andThen_run)
  from this z[folded \<open>m = z\<close>] cw same show thesis by (rule that)
qed

text \<open>The turn of a reconcile that read \<open>mp\<close> and ran from \<open>s\<close> to \<open>t\<close>.\<close>

definition mp_turn ::
  "'w env \<Rightarrow> NamespacedName \<Rightarrow> CCEManagedMachinePool \<Rightarrow> (CCEManagedMachinePool, 'w) st \<Rightarrow>
   (CCEManagedMachinePool, 'w) st \<Rightarrow> bool \<Rightarrow> turn" where
  "mp_turn E req mp s t saved =
     \<lparr>tu_stored = smp_InfraMachinePoolID (if saved then obj t else mp),
      tu_requests = created_pools (new_calls s t),
      tu_missing = missing_pool E req s, tu_granted = granted_pool E req s, tu_saved = saved\<rparr>"

lemma pool_reconcile_id_step:
  assumes run: "mpr_Reconcile E req s = (res, t)"
    and get: "k_GetManagedMachinePool (env_kube E) req (world s) = (Ret mp, w)"
    and saved: "saved \<Longrightarrow> \<not> list_all read_call (new_calls s t)"
  shows "id_step (smp_InfraMachinePoolID mp) (mp_turn E req mp s t saved)"
  using run
proof (cases rule: mpr_Reconcile_cases)
  case idle
  then have reads: "list_all read_call (new_calls s t)" by (rule issues_new_calls)
  then have "list_all (\<lambda>c. pool_creation c = 0) (new_calls s t)"
    by (auto simp: list_all_iff read_weights)
  then have "created_pools (new_calls s t) = 0"
    by (simp add: created_pools_def list_all_iff)
  with reads saved show ?thesis by (auto simp: id_step_def mp_turn_def)
next
  case (body mp' cp nn w0 w1 w2 sc u)
  obtain q m where m: "mpr_body E mp' sc u = (q, m)" by fastforce
  have t: "t = snd (summarize_and_close E sc m)"
    using with_close_state[of "summarize_and_close E sc" "mpr_body E mp' sc" u] body(8) m by simp
  have "\<exists>c. calls t = calls m @ [c] \<and> pool_creation c = 0 \<and> smp_InfraMachinePoolID (obj t) = smp_InfraMachinePoolID (obj m)"
    unfolding t
    by (auto simp: summarize_and_close_def smp_Close_def smp_PatchObject_apply andThen_run[OF upd_obj_apply]
        mp_label.f_simps split: prod.split)
  then obtain d where d: "calls t = calls m @ [d]" "pool_creation d = 0"
      "smp_InfraMachinePoolID (obj t) = smp_InfraMachinePoolID (obj m)" by blast
  have mp: "obj u = mp" using body(1,7) get by simp
  have one: "created_pools (new_calls s t) \<le> 1"
    using mpr_within_budget[of s E req] run by (simp add: within_budget_def)
  show ?thesis
  proof (cases "created_pools (new_calls s t) = 0")
    case True
    have "smp_InfraMachinePoolID (obj t) = smp_InfraMachinePoolID (obj u)"
      using d True unfolding created_pools_def
      by (intro recorded_between[OF body(6) steps_inD[OF mpr_body_recorded m]]) simp_all
    with mp True show ?thesis by (simp add: id_step_def mp_turn_def)
  next
    case False
    from counted_call[OF False[unfolded created_pools_def]]
    obtain c where c: "pool_creation c \<noteq> 0" "c \<in> set (new_calls s t)" by auto
    have um: "issues (\<lambda>_. True) u m" using steps_inD[OF mpr_body_recorded m] by (simp add: recorded_def)
    have "new_calls s t = new_calls s u @ new_calls u m @ [d]"
      using body(6) um d(1) by (auto simp: issues_def new_calls_def)
    moreover have "c \<notin> set (new_calls s u)"
      using issues_new_calls[OF body(6)] c(1) by (auto simp: list_all_iff read_weights)
    moreover have "c \<noteq> d" using c(1) d(2) by auto
    ultimately have cm: "c \<in> set (new_calls u m)" using c(2) by simp
    from m body(9) c(1) cm obtain S v p where S: "mpr_before E req s = (Ret S, v)"
      "ReconcilePool E S v = (p, m)" "c \<in> set (new_calls v m)"
      "smp_InfraMachinePoolID (obj v) = smp_InfraMachinePoolID (obj u)"
      by (rule pool_request_in_body)
    have answers: "missing_pool E req s = answer (pool_missing S) v" "granted_pool E req s = answer (pool_granted E S) v"
      using S(1) by (simp_all add: missing_pool_def granted_pool_def answer_def andThen_run)
    have "missing_pool E req s = Some (smp_InfraMachinePoolID mp)" if "smp_InfraMachinePoolID mp \<noteq> []"
      using pool_request_answers(1)[OF S(2) c(1) S(3)] that S(4) mp answers(1) by simp
    moreover have "smp_InfraMachinePoolID (obj t) = j" if "granted_pool E req s = Some j" for j
      using pool_request_answers(2)[OF S(2) c(1) S(3)] that answers(2) d(3) by simp
    ultimately show ?thesis using one False by (auto simp: id_step_def mp_turn_def)
  qed
qed

section \<open>Histories\<close>

text \<open>
  \<open>pool_history Es req mp log\<close>: after the turns in \<open>log\<close>, the latest first, the API server stores \<open>mp\<close>. A
  reconcile reads the stored object. What is stored after it carries the ID the reconcile ended with,
  or still the one it read: always when it only read, and else when the patch that should have
  stored the new one was refused or lost. Between reconciles anything may happen to the world, and to
  the object anything that leaves the ID label. Nothing is assumed of the environments in \<open>Es\<close>.
\<close>

inductive pool_history ::
  "'w env set \<Rightarrow> NamespacedName \<Rightarrow> CCEManagedMachinePool \<Rightarrow> turn list \<Rightarrow> bool"
  for Es req where
  pool_submitted: "smp_InfraMachinePoolID mp = [] \<Longrightarrow> pool_history Es req mp []"
| pool_edited: "pool_history Es req mp log \<Longrightarrow> smp_InfraMachinePoolID mp' = smp_InfraMachinePoolID mp \<Longrightarrow>
    pool_history Es req mp' log"
| pool_reconciled: "pool_history Es req mp log \<Longrightarrow> E \<in> Es \<Longrightarrow>
    k_GetManagedMachinePool (env_kube E) req (world s) = (Ret mp, w) \<Longrightarrow>
    mpr_Reconcile E req s = (res, t) \<Longrightarrow> (saved \<Longrightarrow> \<not> list_all read_call (new_calls s t)) \<Longrightarrow>
    smp_InfraMachinePoolID mp' = tu_stored (mp_turn E req mp s t saved) \<Longrightarrow>
    pool_history Es req mp' (mp_turn E req mp s t saved # log)"

text \<open>
  C2. Over the whole life of a machine pool object, through any number of reconciles, deletions
  included, whatever the cloud and the API server answer and however each of them ends, each reading
  the stored object: a node pool ID that was stored is still there and no node pool has been requested
  after it, unless the lookup of a later reconcile had exactly that ID answered with 404 and that
  reconcile requested a replacement. And the requests are one at most, beside those that replace an ID
  reported missing and those whose ID was lost: the cloud gave none, or the patch with it did not get
  stored. Whenever it gets stored, it is the ID the cloud gave.
\<close>

theorem one_pool_per_life:
  assumes "pool_history Es req mp log"
  shows "one_per_life (smp_InfraMachinePoolID mp) log"
proof (rule id_history_one_per_life)
  show "id_history (smp_InfraMachinePoolID mp) log"
    using assms
  proof (induction rule: pool_history.induct)
    case (pool_reconciled mp log E s w res t saved mp')
    from id_history.id_next[OF pool_reconciled.IH pool_reconcile_id_step[OF pool_reconciled.hyps(4,3,5)]]
      pool_reconciled.hyps(6)
    show ?case by simp
  qed (simp_all add: id_history.id_start)
qed

text \<open>
  A server that at first stores the pool as submitted and then, when the world is 1 or 2, with an ID; the
  cloud cannot be reached when the world is 1, and reports the pool missing when it is 2.
\<close>

definition pool_life_env :: "nat env" where
  "pool_life_env = demo_env\<lparr>
     env_kube := demo_kube\<lparr>
       k_GetManagedMachinePool :=
         (\<lambda>_ w. (Ret (if w = 0 then owned_mp else smp_SetInfraMachinePoolID ''np-1'' owned_mp), w)),
       k_GetControlPlane := (\<lambda>_. ret (set_cp_Ready True demo_cp))\<rparr>,
     env_NewCceClient := (\<lambda>_ _. Ret (demo_cce\<lparr>ShowNodePool := (\<lambda>_ _ w.
       (Err (if w = 1 then ErrorString ''timeout'' else ServiceResponseError 404 ''CCE.404'' ''no pool''), w))\<rparr>))\<rparr>"

abbreviation pool_life_log :: "turn list" where
  "pool_life_log \<equiv>
     [\<lparr>tu_stored = ''np-1'', tu_requests = 1, tu_missing = Some ''np-1'', tu_granted = Some ''np-1'', tu_saved = True\<rparr>,
      \<lparr>tu_stored = ''np-1'', tu_requests = 0, tu_missing = None, tu_granted = None, tu_saved = False\<rparr>,
      \<lparr>tu_stored = ''np-1'', tu_requests = 1, tu_missing = None, tu_granted = Some ''np-1'', tu_saved = True\<rparr>]"

lemma one_pool_per_life_witness:
  "\<exists>mp. pool_history {pool_life_env} \<lparr>nn_Namespace = ''ns'', nn_Name = ''dev''\<rparr> mp pool_life_log \<and>
     one_per_life ''np-1'' pool_life_log"
proof -
  let ?nn = "\<lparr>nn_Namespace = ''ns'', nn_Name = ''dev''\<rparr>" and ?mp = "smp_SetInfraMachinePoolID ''np-1'' owned_mp"
  let ?s = "\<lambda>n. (start demo_mp)\<lparr>world := n\<rparr>"
  let ?run = "\<lambda>n. mpr_Reconcile pool_life_env ?nn (?s n)"
  have turn: "mp_turn pool_life_env ?nn owned_mp (?s 0) (snd (?run 0)) True = pool_life_log ! 2"
    "mp_turn pool_life_env ?nn ?mp (?s 1) (snd (?run 1)) False = pool_life_log ! 1"
    "mp_turn pool_life_env ?nn ?mp (?s 2) (snd (?run 2)) True = pool_life_log ! 0"
    by code_simp+
  have work: "\<not> list_all read_call (new_calls (?s 0) (snd (?run 0)))" "\<not> list_all read_call (new_calls (?s 2) (snd (?run 2)))"
    by code_simp+
  have get: "k_GetManagedMachinePool (env_kube pool_life_env) ?nn (world (?s 0)) = (Ret owned_mp, 0)"
    "k_GetManagedMachinePool (env_kube pool_life_env) ?nn (world (?s 1)) = (Ret ?mp, 1)"
    "k_GetManagedMachinePool (env_kube pool_life_env) ?nn (world (?s 2)) = (Ret ?mp, 2)"
    by (simp_all add: pool_life_env_def start_def)
  have id: "smp_InfraMachinePoolID ?mp = ''np-1''" by (simp add: pool_id.getID_setID)
  have "pool_history {pool_life_env} ?nn owned_mp []"
    by (rule pool_history.pool_submitted) code_simp
  from pool_history.pool_reconciled[OF this _ get(1) surjective_pairing work(1), of ?mp True]
  have "pool_history {pool_life_env} ?nn ?mp [pool_life_log ! 2]"
    unfolding turn by (simp add: id)
  from pool_history.pool_reconciled[OF this _ get(2) surjective_pairing, of False ?mp]
  have "pool_history {pool_life_env} ?nn ?mp [pool_life_log ! 1, pool_life_log ! 2]"
    unfolding turn by (simp add: id)
  from pool_history.pool_reconciled[OF this _ get(3) surjective_pairing work(2), of ?mp True]
  have h: "pool_history {pool_life_env} ?nn ?mp pool_life_log"
    unfolding turn by (simp add: id)
  from one_pool_per_life[OF h] h show ?thesis unfolding id by blast
qed

end
