(* ===== verification/Bringup_Props.thy ===== *)
theory Bringup_Props
  imports Pool_Provisioning_Props
begin

text \<open>
  The three controllers together, over an API server that stores what they send: a submitted cluster
  comes up. Each controller is one reconcile (two for the managed cluster); what one sends is what the next one reads.
\<close>

section \<open>An API server that stores the objects\<close>

text \<open>
  \<open>reads_cluster\<close>, \<open>reads_plane\<close> and \<open>reads_pool\<close>: what the reads of a reconcile of a managed cluster, of a
  control plane and of a machine pool are answered from the world \<open>w\<close> on, which they leave as \<open>v\<close>.
\<close>

definition reads_cluster ::
  "'w env \<Rightarrow> NamespacedName \<Rightarrow> CCEManagedCluster \<Rightarrow> Cluster \<Rightarrow> CCEManagedControlPlane \<Rightarrow> 'w \<Rightarrow> 'w \<Rightarrow> bool" where
  "reads_cluster E req mc cluster cp w v \<longleftrightarrow>
     (\<exists>w1 w2 ref. k_GetManagedCluster (env_kube E) req w = (Ret mc, w1) \<and>
        k_GetOwnerCluster (env_kube E) (mc_Meta mc) w1 = (Ret (Some cluster), w2) \<and> cl_ControlPlaneRef cluster = Some ref \<and>
        k_GetControlPlane (env_kube E) \<lparr>nn_Namespace = or_Namespace ref, nn_Name = or_Name ref\<rparr> w2 = (Ret cp, v))"

definition reads_plane ::
  "'w env \<Rightarrow> NamespacedName \<Rightarrow> CCEManagedControlPlane \<Rightarrow> Cluster \<Rightarrow> 'w \<Rightarrow> 'w \<Rightarrow> bool" where
  "reads_plane E req cp cluster w v \<longleftrightarrow>
     (\<exists>w1. k_GetControlPlane (env_kube E) req w = (Ret cp, w1) \<and>
        k_GetOwnerCluster (env_kube E) (cp_Meta cp) w1 = (Ret (Some cluster), v))"

definition reads_pool ::
  "'w env \<Rightarrow> NamespacedName \<Rightarrow> CCEManagedMachinePool \<Rightarrow> MachinePool \<Rightarrow> Cluster \<Rightarrow> CCEManagedControlPlane \<Rightarrow> 'w \<Rightarrow> 'w \<Rightarrow> bool"
where
  "reads_pool E req mp capi cluster cp w v \<longleftrightarrow>
     (\<exists>w1 w2 w3 name ref. k_GetManagedMachinePool (env_kube E) req w = (Ret mp, w1) \<and>
        owner_of (env_lib E) ''MachinePool'' (om_OwnerReferences (mp_Meta mp)) = Inr (Some name) \<and>
        k_GetMachinePool (env_kube E) \<lparr>nn_Namespace = om_Namespace (mp_Meta mp), nn_Name = name\<rparr> w1 = (Ret capi, w2) \<and>
        k_GetClusterFromMetadata (env_kube E) (mpo_Meta capi) w2 = (Ret cluster, w3) \<and> cl_ControlPlaneRef cluster = Some ref \<and>
        k_GetControlPlane (env_kube E) \<lparr>nn_Namespace = om_Namespace (mp_Meta mp), nn_Name = or_Name ref\<rparr> w3 = (Ret cp, v))"

text \<open>
  The owner as the API server has it next to the managed cluster \<open>mc\<close>. Cluster API's documented contract
  for infrastructure providers: its core sets \<open>status.infrastructureReady\<close> of the owner to the
  \<open>status.ready\<close> of the infrastructure object.
\<close>

definition owner_with :: "Cluster \<Rightarrow> CCEManagedCluster \<Rightarrow> Cluster" where
  "owner_with cluster mc = cluster\<lparr>cl_InfrastructureReady := mcst_Ready (mc_Status mc)\<rparr>"

text \<open>
  \<open>serves\<close>: \<open>K cp mc w\<close> says that the world \<open>w\<close> stores the control plane \<open>cp\<close> and the managed cluster \<open>mc\<close>.
  The reads of the three controllers find what is stored; an accepted patch of the managed cluster
  stores it, and so does one of the control plane, which leaves the managed cluster. \<open>W mc n\<close> and \<open>V n\<close> say
  how many polls a cluster and a node pool need (\<open>healthy\<close>, \<open>healthy_pools\<close>), \<open>W\<close> moreover that \<open>mc\<close> is
  stored, which the operations of a control plane's reconcile leave alone.
\<close>

definition serves ::
  "'w env \<Rightarrow> Cluster \<Rightarrow> NamespacedName \<Rightarrow> NamespacedName \<Rightarrow> NamespacedName \<Rightarrow> CCEManagedMachinePool \<Rightarrow> MachinePool \<Rightarrow>
   (CCEManagedControlPlane \<Rightarrow> CCEManagedCluster \<Rightarrow> 'w \<Rightarrow> bool) \<Rightarrow>
   (CCEManagedCluster \<Rightarrow> nat \<Rightarrow> 'w \<Rightarrow> bool) \<Rightarrow> (nat \<Rightarrow> 'w \<Rightarrow> bool) \<Rightarrow> bool" where
  "serves E cluster req creq preq mp capi K W V \<longleftrightarrow>
     (\<forall>cp mc w. K cp mc w \<longrightarrow> (\<exists>v. reads_cluster E creq mc (owner_with cluster mc) cp w v \<and>
        (\<forall>new. \<exists>v'. k_PatchManagedCluster (env_kube E) mc new v = (Ret (), v') \<and> K cp new v'))) \<and>
     (\<forall>cp mc w. K cp mc w \<longrightarrow> (\<exists>v. reads_plane E req cp (owner_with cluster mc) w v \<and> (\<exists>k<40. W mc k v))) \<and>
     (\<forall>old conds cp mc n w w'. k_PatchControlPlane (env_kube E) old conds cp w = (Ret (), w') \<longrightarrow> W mc n w' \<longrightarrow> K cp mc w') \<and>
     (\<forall>cp mc w. K cp mc w \<longrightarrow> (\<exists>v. reads_pool E preq mp capi (owner_with cluster mc) cp w v \<and> (\<exists>k<40. V k v)))"

lemma servesD:
  assumes "serves E cluster req creq preq mp capi K W V"
  shows "K cp mc w \<Longrightarrow> \<exists>v. reads_cluster E creq mc (owner_with cluster mc) cp w v \<and>
        (\<forall>new. \<exists>v'. k_PatchManagedCluster (env_kube E) mc new v = (Ret (), v') \<and> K cp new v')"
    and "K cp mc w \<Longrightarrow> \<exists>v. reads_plane E req cp (owner_with cluster mc) w v \<and> (\<exists>k<40. W mc k v)"
    and "k_PatchControlPlane (env_kube E) old conds cp w = (Ret (), w') \<Longrightarrow> W mc n w' \<Longrightarrow> K cp mc w'"
    and "K cp mc w \<Longrightarrow> \<exists>v. reads_pool E preq mp capi (owner_with cluster mc) cp w v \<and> (\<exists>k<40. V k v)"
  using assms unfolding serves_def by blast+

section \<open>One reconcile of each controller\<close>

text \<open>What a reconcile makes of a managed cluster.\<close>

definition published :: "CCEManagedControlPlane \<Rightarrow> CCEManagedCluster \<Rightarrow> CCEManagedCluster" where
  "published cp mc = set_mc_Endpoint (cps_ControlPlaneEndpoint (cp_Spec cp)) (set_mc_Ready mc)"

lemma published_simps [simp]:
  "mc_Meta (published cp mc) = mc_Meta mc"
  "mcs_ControlPlaneEndpoint (mc_Spec (published cp mc)) = cps_ControlPlaneEndpoint (cp_Spec cp)"
  "mcst_Ready (mc_Status (published cp mc))"
  by (simp_all add: published_def set_mc_Endpoint_def set_mc_Ready_def)

lemma managed_cluster_run:
  assumes S: "serves E cluster req creq preq mp capi K W V" and K: "K cp mc (world s)"
    and live: "\<And>b. \<not> lib_IsPaused (env_lib E) (cluster\<lparr>cl_InfrastructureReady := b\<rparr>) (mc_Meta mc)"
      "lib_NewHelperManagedCluster (env_lib E) mc = None"
  shows "\<exists>t. mcr_Reconcile E creq s = (Ret (Result0, None), t) \<and> obj t = published cp mc \<and> K cp (published cp mc) (world t)"
proof -
  obtain v v' where v: "reads_cluster E creq mc (owner_with cluster mc) cp (world s) v"
    "k_PatchManagedCluster (env_kube E) mc (published cp mc) v = (Ret (), v')" "K cp (published cp mc) v'"
    using servesD(1)[OF S K] by blast
  from v(1) obtain w1 w2 ref where r: "k_GetManagedCluster (env_kube E) creq (world s) = (Ret mc, w1)"
    "k_GetOwnerCluster (env_kube E) (mc_Meta mc) w1 = (Ret (Some (owner_with cluster mc)), w2)"
    "cl_ControlPlaneRef (owner_with cluster mc) = Some ref"
    "k_GetControlPlane (env_kube E) \<lparr>nn_Namespace = or_Namespace ref, nn_Name = or_Name ref\<rparr> w2 = (Ret cp, v)"
    unfolding reads_cluster_def by blast
  have "\<not> lib_IsPaused (env_lib E) (owner_with cluster mc) (mc_Meta mc)"
    unfolding owner_with_def by (rule live(1))
  with r v(2) live(2) have "\<exists>t. mcr_Reconcile E creq s = (Ret (Result0, None), t) \<and> obj t = published cp mc \<and> world t = v'"
    by (simp add: mcr_Reconcile_def or_return_def go_simps published_def)
  with v(3) show ?thesis by auto
qed

lemma control_plane_run:
  assumes S: "serves E cluster req creq preq mp capi K W V" and K: "K cp mc (world s)"
    and ready: "mcst_Ready (mc_Status mc)"
    and H: "healthy E (om_Name (cp_Meta cp)) (W mc)" and L: "finalizers_documented (env_lib E)"
    and live: "Time_IsZero (om_DeletionTimestamp (cp_Meta cp))"
      "\<And>b. \<not> lib_IsPaused (env_lib E) (cluster\<lparr>cl_InfrastructureReady := b\<rparr>) (cp_Meta cp)"
      "lib_NewHelperControlPlane (env_lib E) cp = None"
    and infra: "cl_InfrastructureRef cluster = Some ref"
    and spec: "cl_ClusterNetwork cluster \<noteq> None" "cps_IdentityRef (cp_Spec cp) \<noteq> None"
      "cps_EndpointAccess (cp_Spec cp) \<noteq> None"
  shows "\<exists>t. cpr_Reconcile E r req s = (Ret (Result0, None), t) \<and> stage (om_Name (cp_Meta cp)) 6 (obj t) \<and>
    K (obj t) mc (world t)"
proof -
  obtain v k where "reads_plane E req cp (owner_with cluster mc) (world s) v" and W: "W mc k v" and k: "k < 40"
    using servesD(2)[OF S K] by blast
  then obtain w where get: "k_GetControlPlane (env_kube E) req (world s) = (Ret cp, w)"
    and own: "k_GetOwnerCluster (env_kube E) (cp_Meta cp) w = (Ret (Some (owner_with cluster mc)), v)"
    unfolding reads_plane_def by blast
  have owner: "\<not> lib_IsPaused (env_lib E) (owner_with cluster mc) (cp_Meta cp)"
    "cl_InfrastructureRef (owner_with cluster mc) = Some ref" "cl_InfrastructureReady (owner_with cluster mc)"
    "cl_ClusterNetwork (owner_with cluster mc) \<noteq> None"
    using live(2) infra spec(1) ready by (simp_all add: owner_with_def)
  obtain t old conds w' where t: "cpr_Reconcile E r req s = (Ret (Result0, None), t)"
    "reached (W mc) (om_Name (cp_Meta cp)) 0 6 t" "k_PatchControlPlane (env_kube E) old conds (obj t) w' = (Ret (), world t)"
    using provisioning_run[OF H k L get own W live(1) owner(1) live(3) owner(2-4) spec(2,3)] by blast
  from t(2) have "W mc 0 (world t)" and stage: "stage (om_Name (cp_Meta cp)) 6 (obj t)"
    by (simp_all add: during_def)
  from servesD(3)[OF S t(3) this(1)] t(1) stage show ?thesis by blast
qed

lemma machine_pool_run:
  assumes S: "serves E cluster req creq preq mp capi K W V" and K: "K cp mc (world s)"
    and P: "healthy_pools E V" and L: "finalizers_documented (env_lib E)" and en: "phases_documented (lib_enums (env_lib E))"
    and live: "Time_IsZero (om_DeletionTimestamp (mp_Meta mp))"
      "\<And>b. \<not> lib_IsPaused (env_lib E) (cluster\<lparr>cl_InfrastructureReady := b\<rparr>) (mp_Meta mp)"
      "lib_NewHelperMachinePool (env_lib E) mp = None" "lib_NewHelperCAPIPool (env_lib E) capi = None"
    and spec: "mps_RootVolume (mp_Spec mp) \<noteq> None" "mps_Subnet (mp_Spec mp) \<noteq> None"
    and cp: "cpst_Ready (cp_Status cp)" "cps_IdentityRef (cp_Spec cp) \<noteq> None"
  shows "\<exists>t. mpr_Reconcile E preq s = (Ret (Result0, None), t) \<and> pool_stage 2 (obj t) \<and>
    issues (pool_lane (cp_InfraClusterID cp)) s t"
proof -
  obtain v k where "reads_pool E preq mp capi (owner_with cluster mc) cp (world s) v" "V k v" "k < 40"
    using servesD(4)[OF S K] by blast
  then obtain w1 w2 w3 name ref where r: "k_GetManagedMachinePool (env_kube E) preq (world s) = (Ret mp, w1)"
    "owner_of (env_lib E) ''MachinePool'' (om_OwnerReferences (mp_Meta mp)) = Inr (Some name)"
    "k_GetMachinePool (env_kube E) \<lparr>nn_Namespace = om_Namespace (mp_Meta mp), nn_Name = name\<rparr> w1 = (Ret capi, w2)"
    "k_GetClusterFromMetadata (env_kube E) (mpo_Meta capi) w2 = (Ret (owner_with cluster mc), w3)"
    "cl_ControlPlaneRef (owner_with cluster mc) = Some ref"
    "k_GetControlPlane (env_kube E) \<lparr>nn_Namespace = om_Namespace (mp_Meta mp), nn_Name = or_Name ref\<rparr> w3 = (Ret cp, v)"
    "V k v" and k: "k < 40"
    unfolding reads_pool_def by blast
  have "\<not> lib_IsPaused (env_lib E) (owner_with cluster mc) (mp_Meta mp)"
    unfolding owner_with_def by (rule live(2))
  from pool_provisioning_run[OF P k L en r live(1) this live(3,4) cp spec] show ?thesis
    by (auto simp: during_def)
qed

section \<open>A cluster comes up\<close>

text \<open>
  C5. A submitted cluster comes up, over an API server that stores what it accepts and a cloud that grants
  what it is asked for and needs fewer than forty polls. Nothing is ready at the start; the specs are
  complete (the owner has an infrastructure reference and a cluster network, the control plane its
  identity reference and endpoint access, the machine pool its root volume and subnet), and nothing is
  paused or being deleted. Four reconciles are enough: of the managed cluster, which becomes ready, so
  that Cluster API reports its owner's infrastructure ready; of the control plane; of the managed cluster
  again; and of the machine pool, each reading what the ones before have sent. None ends with an error.
  Then the control plane is ready and initialized, the managed cluster is ready and publishes the control
  plane's endpoint, and the machine pool is ready with a node pool that was asked for in the cluster of
  that control plane and in no other.
\<close>

theorem cluster_comes_up:
  assumes H: "\<And>m. healthy E (om_Name (cp_Meta cp)) (W m)" and P: "healthy_pools E V"
    and L: "finalizers_documented (env_lib E)" "phases_documented (lib_enums (env_lib E))"
    and server: "serves E cluster req creq preq mp capi K W V" "K cp mc w"
    and live: "Time_IsZero (om_DeletionTimestamp (cp_Meta cp))" "Time_IsZero (om_DeletionTimestamp (mp_Meta mp))"
      "\<And>b m. m \<in> {cp_Meta cp, mc_Meta mc, mp_Meta mp} \<Longrightarrow>
         \<not> lib_IsPaused (env_lib E) (cluster\<lparr>cl_InfrastructureReady := b\<rparr>) m"
    and helpers: "lib_NewHelperControlPlane (env_lib E) cp = None" "lib_NewHelperMachinePool (env_lib E) mp = None"
      "lib_NewHelperCAPIPool (env_lib E) capi = None"
      "\<And>m. mc_Meta m = mc_Meta mc \<Longrightarrow> lib_NewHelperManagedCluster (env_lib E) m = None"
    and spec: "cl_InfrastructureRef cluster = Some ref" "cl_ClusterNetwork cluster \<noteq> None"
      "cps_IdentityRef (cp_Spec cp) \<noteq> None" "cps_EndpointAccess (cp_Spec cp) \<noteq> None"
      "mps_RootVolume (mp_Spec mp) \<noteq> None" "mps_Subnet (mp_Spec mp) \<noteq> None"
  shows "\<exists>s1 s2 s3 s4.
    mcr_Reconcile E creq \<lparr>obj = mc0, world = w, calls = []\<rparr> = (Ret (Result0, None), s1) \<and>
    cpr_Reconcile E r req \<lparr>obj = cp0, world = world s1, calls = []\<rparr> = (Ret (Result0, None), s2) \<and>
    mcr_Reconcile E creq \<lparr>obj = mc0, world = world s2, calls = []\<rparr> = (Ret (Result0, None), s3) \<and>
    mpr_Reconcile E preq \<lparr>obj = mp0, world = world s3, calls = []\<rparr> = (Ret (Result0, None), s4) \<and>
    cp_Ready (obj s2) \<and> cpst_Initialized (cp_Status (obj s2)) \<and> scp_InfraClusterID (obj s2) \<noteq> [] \<and>
    mcst_Ready (mc_Status (obj s3)) \<and>
    mcs_ControlPlaneEndpoint (mc_Spec (obj s3)) = cps_ControlPlaneEndpoint (cp_Spec (obj s2)) \<and>
    Host (cps_ControlPlaneEndpoint (cp_Spec (obj s2))) \<noteq> [] \<and>
    mp_Ready (obj s4) \<and> smp_InfraMachinePoolID (obj s4) \<noteq> [] \<and>
    list_all (pool_lane (scp_InfraClusterID (obj s2))) (calls s4)"
proof -
  have unpaused: "\<And>b. \<not> lib_IsPaused (env_lib E) (cluster\<lparr>cl_InfrastructureReady := b\<rparr>) (cp_Meta cp)"
    "\<And>b. \<not> lib_IsPaused (env_lib E) (cluster\<lparr>cl_InfrastructureReady := b\<rparr>) (mc_Meta mc)"
    "\<And>b. \<not> lib_IsPaused (env_lib E) (cluster\<lparr>cl_InfrastructureReady := b\<rparr>) (mp_Meta mp)"
    by (rule live(3), simp)+
  let ?mc = "published cp mc"
  let ?t0 = "\<lparr>obj = mc0, world = w, calls = []\<rparr>"
  have "K cp mc (world ?t0)" using server(2) by simp
  from managed_cluster_run[OF server(1) this unpaused(2) helpers(4)[OF refl]] obtain s1 where
    s1: "mcr_Reconcile E creq ?t0 = (Ret (Result0, None), s1)" "K cp ?mc (world s1)" by blast
  let ?t1 = "\<lparr>obj = cp0, world = world s1, calls = []\<rparr>"
  have "K cp ?mc (world ?t1)" "mcst_Ready (mc_Status ?mc)" using s1(2) by simp_all
  from control_plane_run[OF server(1) this H L(1) live(1) unpaused(1) helpers(1) spec(1-4)] obtain s2 where
    s2: "cpr_Reconcile E r req ?t1 = (Ret (Result0, None), s2)" "stage (om_Name (cp_Meta cp)) 6 (obj s2)"
      "K (obj s2) ?mc (world s2)" by blast
  let ?t2 = "\<lparr>obj = mc0, world = world s2, calls = []\<rparr>"
  have meta: "mc_Meta ?mc = mc_Meta mc" by simp
  have "K (obj s2) ?mc (world ?t2)" using s2(3) by simp
  from managed_cluster_run[OF server(1) this unpaused(2)[folded meta] helpers(4)[OF meta]] obtain s3 where
    s3: "mcr_Reconcile E creq ?t2 = (Ret (Result0, None), s3)" "obj s3 = published (obj s2) ?mc"
      "K (obj s2) (obj s3) (world s3)" by auto
  let ?t3 = "\<lparr>obj = mp0, world = world s3, calls = []\<rparr>"
  have K: "K (obj s2) (obj s3) (world ?t3)" using s3(3) by simp
  have ready: "cpst_Ready (cp_Status (obj s2))" "cps_IdentityRef (cp_Spec (obj s2)) \<noteq> None"
    using s2(2) by (simp_all add: stage_def complete_def cp_Ready_def)
  from machine_pool_run[OF server(1) K P L live(2) unpaused(3) helpers(2,3) spec(5,6) ready] obtain s4 where
    s4: "mpr_Reconcile E preq ?t3 = (Ret (Result0, None), s4)" "pool_stage 2 (obj s4)"
      "issues (pool_lane (cp_InfraClusterID (obj s2))) ?t3 s4"
    by blast
  have "cp_InfraClusterID (obj s2) = scp_InfraClusterID (obj s2)"
    by (simp add: cp_InfraClusterID_def scp_InfraClusterID_def)
  then have lane: "list_all (pool_lane (scp_InfraClusterID (obj s2))) (calls s4)"
    using s4(3) by (auto simp: issues_def)
  have ends: "cp_Ready (obj s2)" "cpst_Initialized (cp_Status (obj s2))" "scp_InfraClusterID (obj s2) \<noteq> []"
    "Host (cps_ControlPlaneEndpoint (cp_Spec (obj s2))) \<noteq> []" "mcst_Ready (mc_Status (obj s3))"
    "mcs_ControlPlaneEndpoint (mc_Spec (obj s3)) = cps_ControlPlaneEndpoint (cp_Spec (obj s2))"
    "mp_Ready (obj s4)" "smp_InfraMachinePoolID (obj s4) \<noteq> []"
    using s2(2) s3(2) s4(2) by (simp_all add: stage_def pool_stage_def)
  show ?thesis
    by (intro exI[of _ s1] exI[of _ s2] exI[of _ s3] exI[of _ s4] conjI s1(1) s2(1) s3(1) s4(1) ends lane)
qed

section \<open>The example with stored objects\<close>

text \<open>
  The world of the examples next to what is stored: \<open>beside\<close> runs in the first and leaves the second
  alone. \<open>storing\<close> is an environment whose control plane and managed cluster are the stored objects.
\<close>

definition beside :: "('w, 'a) go \<Rightarrow> ('w \<times> 'b, 'a) go" where
  "beside m = (\<lambda>(w, x). case m w of (r, v) \<Rightarrow> (r, (v, x)))"

lemma beside_apply [simp]: "beside m (w, x) = (fst (m w), (snd (m w), x))"
  by (simp add: beside_def split: prod.split)

lemma grants_beside: "grants W m R \<Longrightarrow> grants (\<lambda>n w. W n (fst w) \<and> Q (snd w)) (beside m) R"
  unfolding grants_def by fastforce

lemma attempt_beside: "attempt (beside m) = beside (attempt m)"
  by (rule ext) (auto simp: go_simps beside_def split: prod.splits outcome.splits)

definition storing_cce :: "'w CceClient \<Rightarrow> ('w \<times> 'b) CceClient" where
  "storing_cce C =
     \<lparr>ShowCluster = (\<lambda>i. beside (ShowCluster C i)), CreateCluster = (\<lambda>q. beside (CreateCluster C q)),
      DeleteCluster = (\<lambda>i. beside (DeleteCluster C i)),
      ShowClusterEndpoints = (\<lambda>i. beside (ShowClusterEndpoints C i)),
      UpdateClusterEip = (\<lambda>q. beside (UpdateClusterEip C q)),
      CreateKubernetesClusterCert = (\<lambda>q. beside (CreateKubernetesClusterCert C q)),
      ShowNodePool = (\<lambda>i j. beside (ShowNodePool C i j)), CreateNodePool = (\<lambda>q. beside (CreateNodePool C q)),
      DeleteNodePool = (\<lambda>i j. beside (DeleteNodePool C i j)), ListNodes = (\<lambda>i. beside (ListNodes C i))\<rparr>"

type_synonym stored = "CCEManagedControlPlane \<times> CCEManagedCluster"

definition storing_kube :: "'w kube \<Rightarrow> ('w \<times> stored) kube" where
  "storing_kube k =
     \<lparr>k_GetControlPlane = (\<lambda>_ w. (Ret (fst (snd w)), w)), k_GetManagedCluster = (\<lambda>_ w. (Ret (snd (snd w)), w)),
      k_GetManagedMachinePool = (\<lambda>n. beside (k_GetManagedMachinePool k n)),
      k_GetMachinePool = (\<lambda>n. beside (k_GetMachinePool k n)), k_GetSecret = (\<lambda>n. beside (k_GetSecret k n)),
      k_GetKubeconfigSecret = (\<lambda>n. beside (k_GetKubeconfigSecret k n)),
      k_GetOwnerCluster = (\<lambda>m w. map_prod (map_outcome (map_option (\<lambda>c. owner_with c (snd (snd w))))) id
         (beside (k_GetOwnerCluster k m) w)),
      k_GetClusterFromMetadata = (\<lambda>m w. map_prod (map_outcome (\<lambda>c. owner_with c (snd (snd w)))) id
         (beside (k_GetClusterFromMetadata k m) w)),
      k_ListManagedMachinePools = (\<lambda>a b. beside (k_ListManagedMachinePools k a b)),
      k_ListMachinePools = (\<lambda>a b. beside (k_ListMachinePools k a b)),
      k_CreateSecret = (\<lambda>x. beside (k_CreateSecret k x)), k_UpdateSecret = (\<lambda>x. beside (k_UpdateSecret k x)),
      k_PatchControlPlane = (\<lambda>_ _ cp w. (Ret (), (fst w, cp, snd (snd w)))),
      k_PatchMachinePool = (\<lambda>a b x. beside (k_PatchMachinePool k a b x)),
      k_PatchManagedCluster = (\<lambda>_ mc w. (Ret (), (fst w, fst (snd w), mc))),
      k_Eventf = (\<lambda>a b w. (k_Eventf k a b (fst w), snd w)), k_Sleep = (\<lambda>d w. (k_Sleep k d (fst w), snd w)),
      k_RandString = (\<lambda>n w. (fst (k_RandString k n (fst w)), (snd (k_RandString k n (fst w)), snd w)))\<rparr>"

definition storing :: "'w env \<Rightarrow> ('w \<times> stored) env" where
  "storing E =
     \<lparr>env_lib = env_lib E, env_kube = storing_kube (env_kube E),
      env_NewCceClient = (\<lambda>a g. map_outcome storing_cce (env_NewCceClient E a g)),
      env_NewEipClient = (\<lambda>a g. map_outcome (\<lambda>I. \<lparr>CreatePublicip = (\<lambda>q. beside (CreatePublicip I q))\<rparr>) (env_NewEipClient E a g)),
      env_NewVpcClient = (\<lambda>a g. map_outcome (\<lambda>X. \<lparr>CreateVpc = (\<lambda>q. beside (CreateVpc X q)),
        CreateSubnet = (\<lambda>q. beside (CreateSubnet X q)), ListSubnets = (\<lambda>i. beside (ListSubnets X i))\<rparr>) (env_NewVpcClient E a g))\<rparr>"

text \<open>The clock next to a stored managed cluster.\<close>

abbreviation of_clock :: "(nat \<Rightarrow> 'w \<Rightarrow> bool) \<Rightarrow> (CCEManagedCluster \<Rightarrow> bool) \<Rightarrow> nat \<Rightarrow> 'w \<times> stored \<Rightarrow> bool" where
  "of_clock W Q n w \<equiv> W n (fst w) \<and> Q (snd (snd w))"

lemma storing_healthy:
  assumes "healthy E name W"
  shows "healthy (storing E) name (of_clock W Q)"
proof -
  have cce: "healthy_cce (storing_cce C) (of_clock W Q)" if "healthy_cce C W" for C
    using that unfolding healthy_cce_def storing_cce_def CceClient.simps
    by (intro conjI allI grants_beside) (blast, fastforce, blast+)
  have kube: "healthy_kube (storing E) name (of_clock W Q)" if "healthy_kube E name W"
    using that unfolding healthy_kube_def storing_def env.simps storing_kube_def kube.simps attempt_beside
    by (intro conjI allI grants_beside impI) (auto simp: grants_def)
  have net: "healthy_net X I W \<Longrightarrow> healthy_net \<lparr>CreateVpc = (\<lambda>q. beside (CreateVpc X q)),
      CreateSubnet = (\<lambda>q. beside (CreateSubnet X q)), ListSubnets = (\<lambda>i. beside (ListSubnets X i))\<rparr>
      \<lparr>CreatePublicip = (\<lambda>q. beside (CreatePublicip I q))\<rparr> (of_clock W Q)" for X I
    unfolding healthy_net_def VpcClient.simps EipClient.simps by (intro conjI allI grants_beside) blast+
  show ?thesis
    unfolding healthy_def
  proof (intro conjI allI kube)
    show "healthy_kube E name W" using assms by (simp add: healthy_def)
    fix auth region
    obtain C I X where "env_NewCceClient E auth region = Ret C" "env_NewEipClient E auth region = Ret I"
      "env_NewVpcClient E auth region = Ret X" "healthy_cce C W" "healthy_net X I W"
      using assms unfolding healthy_def by blast
    then show "\<exists>C I X. env_NewCceClient (storing E) auth region = Ret C \<and> env_NewEipClient (storing E) auth region = Ret I \<and>
        env_NewVpcClient (storing E) auth region = Ret X \<and> healthy_cce C (of_clock W Q) \<and> healthy_net X I (of_clock W Q)"
      by (simp add: storing_def cce net)
  qed
qed

lemma storing_healthy_pools:
  assumes "healthy_pools E W"
  shows "healthy_pools (storing E) (of_clock W Q)"
  unfolding healthy_pools_def
proof (intro conjI allI)
  fix auth region
  obtain C where C: "env_NewCceClient E auth region = Ret C"
    "\<And>i j n w. W n w \<Longrightarrow> \<exists>r v. ShowNodePool C i j w = (Ret r, v) \<and> W n v \<and> described (lib_enums (env_lib E)) n r"
    "\<And>q n w. W n w \<Longrightarrow> \<exists>r v m i. CreateNodePool C q w = (Ret r, v) \<and> W n v \<and> described (lib_enums (env_lib E)) n r \<and>
       npr_Metadata r = Some m \<and> npm_Uid m = Some i \<and> i \<noteq> []"
    "\<And>i. grants W (ListNodes C i) (\<lambda>r. \<exists>xs. ln_Items r = Some xs \<and> list_all node_ok xs)"
    using assms unfolding healthy_pools_def by blast
  have "\<exists>r v. ShowNodePool (storing_cce C) i j w = (Ret r, v) \<and> of_clock W Q n v \<and> described (lib_enums (env_lib E)) n r"
    if "of_clock W Q n w" for i j n and w :: "'a \<times> stored"
    using C(2)[of n "fst w" i j] that by (cases w) (auto simp: storing_cce_def)
  moreover have "\<exists>r v m i. CreateNodePool (storing_cce C) q w = (Ret r, v) \<and> of_clock W Q n v \<and>
      described (lib_enums (env_lib E)) n r \<and> npr_Metadata r = Some m \<and> npm_Uid m = Some i \<and> i \<noteq> []"
    if "of_clock W Q n w" for q n and w :: "'a \<times> stored"
    using C(3)[of n "fst w" q] that by (cases w) (auto simp: storing_cce_def)
  moreover have "grants (of_clock W Q) (ListNodes (storing_cce C :: ('a \<times> stored) CceClient) i)
      (\<lambda>r. \<exists>xs. ln_Items r = Some xs \<and> list_all node_ok xs)" for i
    unfolding storing_cce_def CceClient.simps by (rule grants_beside[OF C(4)])
  ultimately show "\<exists>C. env_NewCceClient (storing E) auth region = Ret C \<and>
      (\<forall>i j n w. of_clock W Q n w \<longrightarrow> (\<exists>r v. ShowNodePool C i j w = (Ret r, v) \<and> of_clock W Q n v \<and>
         described (lib_enums (env_lib (storing E))) n r)) \<and>
      (\<forall>q n w. of_clock W Q n w \<longrightarrow> (\<exists>r v m i. CreateNodePool C q w = (Ret r, v) \<and> of_clock W Q n v \<and>
         described (lib_enums (env_lib (storing E))) n r \<and> npr_Metadata r = Some m \<and> npm_Uid m = Some i \<and> i \<noteq> [])) \<and>
      (\<forall>i. grants (of_clock W Q) (ListNodes C i) (\<lambda>r. \<exists>xs. ln_Items r = Some xs \<and> list_all node_ok xs))"
    by (intro exI[of _ "storing_cce C"]) (simp add: storing_def C(1))
qed (use assms in \<open>auto simp: healthy_pools_def storing_def storing_kube_def intro!: grants_beside\<close>)

text \<open>The cloud of the pool's example, with its pool and its managed cluster, over a stored control plane.\<close>

lemma syncing_healthy_plane: "healthy syncing_env ''dev'' demo_polls"
  using demo_healthy
  by (simp add: healthy_def healthy_kube_def healthy_cce_def syncing_env_def demo_env_def demo_kube_def)

lemma storing_serves:
  "serves (storing syncing_env) demo_cluster req creq preq owned_mp demo_pool
     (\<lambda>cp mc w. snd w = (cp, mc)) (\<lambda>mc. of_clock demo_polls (\<lambda>m. m = mc)) (of_clock demo_polls (\<lambda>_. True))"
proof -
  have o: "owner_of (env_lib (storing syncing_env)) ''MachinePool'' (om_OwnerReferences (mp_Meta owned_mp)) = Inr (Some ''dev'')"
    by code_simp
  have few: "\<exists>k<40. demo_polls k n" for n
    by (intro exI[of _ "2 - n"]) (simp add: demo_polls_def)
  show ?thesis
    unfolding serves_def reads_cluster_def reads_plane_def reads_pool_def o
    by (auto simp: storing_def storing_kube_def syncing_env_def demo_env_def demo_kube_def demo_cluster_def go_simps few
        owner_with_def)
qed

lemma cluster_comes_up_witness:
  "\<exists>s1 s2 s3 s4.
    mcr_Reconcile (storing syncing_env) life_req \<lparr>obj = demo_mc, world = (0, demo_cp, demo_mc), calls = []\<rparr>
      = (Ret (Result0, None), s1) \<and>
    cpr_Reconcile (storing syncing_env) demo_reconciler life_req \<lparr>obj = demo_cp, world = world s1, calls = []\<rparr>
      = (Ret (Result0, None), s2) \<and>
    mcr_Reconcile (storing syncing_env) life_req \<lparr>obj = demo_mc, world = world s2, calls = []\<rparr> = (Ret (Result0, None), s3) \<and>
    mpr_Reconcile (storing syncing_env) life_req \<lparr>obj = owned_mp, world = world s3, calls = []\<rparr>
      = (Ret (Result0, None), s4) \<and>
    \<not> mcst_Ready (mc_Status demo_mc) \<and> mcst_Ready (mc_Status (obj s3)) \<and> mp_Ready (obj s4)"
proof -
  let ?E = "storing syncing_env"
  have name: "om_Name (cp_Meta demo_cp) = ''dev''"
    by (simp add: demo_cp_def demo_meta_def)
  have L: "finalizers_documented (env_lib ?E)" "phases_documented (lib_enums (env_lib ?E))"
    by (simp_all add: storing_def syncing_env_def demo_env_def demo_finalizers, simp add: demo_lib_def demo_phases)
  have ref: "cl_InfrastructureRef demo_cluster = Some (demo_ref ''CCEManagedCluster'')"
    by (simp add: demo_cluster_def)
  have simple: "lib_IsPaused (env_lib ?E) c m = False" "lib_NewHelperControlPlane (env_lib ?E) cp = None"
    "lib_NewHelperManagedCluster (env_lib ?E) mc = None" "lib_NewHelperMachinePool (env_lib ?E) mp = None"
    "lib_NewHelperCAPIPool (env_lib ?E) p = None" for c m cp mc mp p
    by (simp_all add: storing_def syncing_env_def demo_env_def demo_lib_def)
  have new: "\<not> mcst_Ready (mc_Status demo_mc)" by (simp add: demo_mc_def)
  have "\<exists>s1 s2 s3 s4.
    mcr_Reconcile ?E life_req \<lparr>obj = demo_mc, world = (0, demo_cp, demo_mc), calls = []\<rparr> = (Ret (Result0, None), s1) \<and>
    cpr_Reconcile ?E demo_reconciler life_req \<lparr>obj = demo_cp, world = world s1, calls = []\<rparr> = (Ret (Result0, None), s2) \<and>
    mcr_Reconcile ?E life_req \<lparr>obj = demo_mc, world = world s2, calls = []\<rparr> = (Ret (Result0, None), s3) \<and>
    mpr_Reconcile ?E life_req \<lparr>obj = owned_mp, world = world s3, calls = []\<rparr> = (Ret (Result0, None), s4) \<and>
    cp_Ready (obj s2) \<and> cpst_Initialized (cp_Status (obj s2)) \<and> scp_InfraClusterID (obj s2) \<noteq> [] \<and>
    mcst_Ready (mc_Status (obj s3)) \<and>
    mcs_ControlPlaneEndpoint (mc_Spec (obj s3)) = cps_ControlPlaneEndpoint (cp_Spec (obj s2)) \<and>
    Host (cps_ControlPlaneEndpoint (cp_Spec (obj s2))) \<noteq> [] \<and>
    mp_Ready (obj s4) \<and> smp_InfraMachinePoolID (obj s4) \<noteq> [] \<and>
    list_all (pool_lane (scp_InfraClusterID (obj s2))) (calls s4)"
    by (rule cluster_comes_up[OF storing_healthy[OF syncing_healthy_plane, folded name]
          storing_healthy_pools[OF syncing_healthy] L storing_serves _ _ _ _ _ _ _ _ ref])
      (simp_all add: simple, simp_all add: demo_cp_def demo_meta_def demo_cluster_def owned_mp_def demo_mp_def)
  with new show ?thesis by blast
qed

end
