(* ===== verification/Deletion_Props.thy ===== *)
theory Deletion_Props
  imports Lifecycle_Props
begin

text \<open>
  Deletion across the controllers and over time: when the deletion of a control plane completes in one
  reconcile, and the case in which the deletions of a control plane and of its machine pool wait for
  each other.
\<close>

section \<open>A deletion that completes\<close>

text \<open>
  \<open>tears_down client K del i k w\<close>: from the world \<open>w\<close> on the cloud shows the cluster \<open>i\<close> in the phase
  \<open>del\<close> at the next \<open>k\<close> polls, thirty seconds apart, and then reports it as missing.
\<close>

fun tears_down :: "'w CceClient \<Rightarrow> 'w kube \<Rightarrow> string \<Rightarrow> string \<Rightarrow> nat \<Rightarrow> 'w \<Rightarrow> bool" where
  "tears_down client K del i 0 w \<longleftrightarrow> (\<exists>e v. ShowCluster client i w = (Err e, v) \<and> not_found_404 e)"
| "tears_down client K del i (Suc k) w \<longleftrightarrow>
     (\<exists>c status v. ShowCluster client i w = (Ret c, v) \<and> sc_Status c = Some status \<and> cs_Phase status = Some del \<and>
        tears_down client K del i k (k_Sleep K (30 * Second) v))"

text \<open>The calls of such a wait.\<close>

primrec deletion_polls :: "string \<Rightarrow> nat \<Rightarrow> call list" where
  "deletion_polls i 0 = [CallShowCluster i]"
| "deletion_polls i (Suc k) = CallShowCluster i # CallSleep (30 * Second) # deletion_polls i k"

lemma deletion_wait_ends:
  assumes "tears_down (sv_CCEClient S) (env_kube E) (en_NP_DELETING (lib_enums (env_lib E))) i k (world s)"
    and "k < n"
  shows "\<exists>w. waitLoop E (cluster_deleted_poll E S i) (30 * Second) n s
    = (Ret (), s\<lparr>world := w, calls := calls s @ deletion_polls i k\<rparr>)"
  using assms
proof (induction k arbitrary: n s)
  case 0
  then obtain m where n: "n = Suc m" by (cases n) auto
  from 0 obtain e v where "ShowCluster (sv_CCEClient S) i (world s) = (Err e, v)" "not_found_404 e" by auto
  then show ?case
    by (intro exI[of _ v])
      (simp add: n waitLoop_step cluster_deleted_poll_def showCCECluster_def go_simps verdict_def del: waitLoop.simps)
next
  case (Suc k)
  then obtain m where n: "n = Suc m" "k < m" by (cases n) auto
  from Suc.prems(1) obtain c status v where c: "ShowCluster (sv_CCEClient S) i (world s) = (Ret c, v)"
    "sc_Status c = Some status" "cs_Phase status = Some (en_NP_DELETING (lib_enums (env_lib E)))"
    "tears_down (sv_CCEClient S) (env_kube E) (en_NP_DELETING (lib_enums (env_lib E))) i k
       (k_Sleep (env_kube E) (30 * Second) v)"
    by auto
  let ?u = "s\<lparr>world := k_Sleep (env_kube E) (30 * Second) v,
              calls := calls s @ [CallShowCluster i, CallSleep (30 * Second)]\<rparr>"
  obtain w where "waitLoop E (cluster_deleted_poll E S i) (30 * Second) m ?u
      = (Ret (), ?u\<lparr>world := w, calls := calls ?u @ deletion_polls i k\<rparr>)"
    using Suc.IH[of ?u m] c(4) n(2) by auto
  moreover have "cluster_deleted_poll E S i s = (Ret False, s\<lparr>world := v, calls := calls s @ [CallShowCluster i]\<rparr>)"
    using c(1-3) by (simp add: cluster_deleted_poll_def showCCECluster_def deref_phase_def go_simps)
  ultimately show ?case
    by (intro exI[of _ w]) (simp add: n(1) waitLoop_step verdict_def sleep_apply del: waitLoop.simps)
qed

text \<open>
  C13. Deletion gets done. When no machine pool of the cluster is listed, the credentials can be read,
  the cloud knows the recorded cluster, accepts the request to delete it, shows it as being deleted at
  fewer than forty polls and then reports it missing, one reconcile of the deletion succeeds: it
  has requested that deletion exactly once and removed the finalizer, and nothing else of the
  object has changed.
\<close>

theorem deletion_completes:
  assumes L: "finalizers_documented (env_lib E)"
    and pools: "k_ListManagedMachinePools (env_kube E) (om_Namespace (cl_Meta (scp_Cluster sc)))
                  (om_Name (cl_Meta (scp_Cluster sc))) (world s) = (Ret [], w)"
    and svc: "NewService E sc [] (s\<lparr>world := w, calls := calls s @ [CallRead ''CCEManagedMachinePoolList'']\<rparr>) = (Ret S, u)"
    and i: "scp_InfraClusterID (obj s) \<noteq> []"
    and known: "ShowCluster (sv_CCEClient S) (scp_InfraClusterID (obj s)) (world u) = (Ret c, w1)"
    and accepted: "DeleteCluster (sv_CCEClient S) (scp_InfraClusterID (obj s)) w1 = (Ret (), w2)"
    and gone: "tears_down (sv_CCEClient S) (env_kube E) (en_NP_DELETING (lib_enums (env_lib E)))
                 (scp_InfraClusterID (obj s)) k w2" "k < 40"
  shows "\<exists>reads t. cpr_reconcileDelete E sc s = (Ret Result0, t) \<and> list_all read_call reads \<and>
    calls t = calls s @ reads @ [CallShowCluster (scp_InfraClusterID (obj s)), CallDeleteCluster (scp_InfraClusterID (obj s))]
      @ deletion_polls (scp_InfraClusterID (obj s)) k \<and>
    obj t = set_cp_Finalizers (filter (\<lambda>f. f \<noteq> ManagedControlPlaneFinalizer) (cp_Finalizers (obj s))) (obj s)"
proof -
  let ?i = "scp_InfraClusterID (obj s)"
  let ?s = "s\<lparr>world := w, calls := calls s @ [CallRead ''CCEManagedMachinePoolList'']\<rparr>"
  have "steps_in (issues read_call) (NewService E sc [])"
    by (rule issues_NewService) simp
  then obtain cs where cs: "calls u = calls ?s @ cs" "list_all read_call cs"
    using svc by (auto dest!: steps_inD simp: issues_def)
  have obj: "obj u = obj s"
    using steps_inD[OF keeps_NewService[of id] svc] by (simp add: keeps_def)
  let ?v = "u\<lparr>world := w2, calls := calls u @ [CallShowCluster ?i, CallDeleteCluster ?i]\<rparr>"
  obtain w3 where "waitLoop E (cluster_deleted_poll E S ?i) (30 * Second) 40 ?v
      = (Ret (), ?v\<lparr>world := w3, calls := calls ?v @ deletion_polls ?i k\<rparr>)"
    using deletion_wait_ends[of S E ?i k ?v 40] gone by auto
  then have "DeleteControlPlane E S u = (Ret (), ?v\<lparr>world := w3, calls := calls ?v @ deletion_polls ?i k\<rparr>)"
    using i known accepted obj
    by (simp add: DeleteControlPlane_def deleteCluster_def deleteClusterAndWait_def waitForClusterDeleted_def
        waitUntil_def showCCECluster_def go_simps del: waitLoop.simps)
  moreover have "dependencyCount E sc s = (Ret 0, ?s)"
    using pools by (simp add: dependencyCount_run)
  ultimately have "cpr_reconcileDelete E sc s = (Ret Result0,
      ?v\<lparr>world := w3, calls := calls ?v @ deletion_polls ?i k,
         obj := set_cp_Finalizers (filter (\<lambda>f. f \<noteq> ManagedControlPlaneFinalizer) (cp_Finalizers (obj s))) (obj s)\<rparr>)"
    using svc obj L
    by (simp add: cpr_reconcileDelete_def DeleteNetwork_def go_simps finalizers_documentedD)
  with cs show ?thesis
    by (intro exI[of _ "CallRead ''CCEManagedMachinePoolList'' # cs"]) simp
qed

text \<open>A cloud that deletes a cluster within two sleeps.\<close>

definition gone_cce :: "nat CceClient" where
  "gone_cce = demo_cce\<lparr>
     ShowCluster := (\<lambda>_ w. if w < 10 then (Ret \<lparr>sc_Status = Some (demo_status ''Available'')\<rparr>, w)
        else if w < 12 then (Ret \<lparr>sc_Status = Some (demo_status ''Deleting'')\<rparr>, w)
        else (Err (ServiceResponseError 404 ''CCE.404'' ''no cluster''), w)),
     DeleteCluster := (\<lambda>_ _. (Ret (), 10))\<rparr>"

definition gone_env :: "nat env" where
  "gone_env = demo_env\<lparr>env_NewCceClient := (\<lambda>_ _. Ret gone_cce)\<rparr>"

definition gone_cp :: CCEManagedControlPlane where
  "gone_cp = scp_SetInfraClusterID ''cce-1'' demo_deleted"

lemma deletion_completes_witness:
  "cp_Finalizers (obj (snd (cpr_reconcileDelete gone_env demo_scope (start gone_cp)))) = [''other'']"
proof -
  let ?s = "start gone_cp"
  have L: "finalizers_documented (env_lib gone_env)"
    by (simp add: gone_env_def demo_env_def demo_finalizers)
  have pools: "k_ListManagedMachinePools (env_kube gone_env) (om_Namespace (cl_Meta (scp_Cluster demo_scope)))
      (om_Name (cl_Meta (scp_Cluster demo_scope))) (world ?s) = (Ret [], 0)"
    by (simp add: gone_env_def demo_env_def demo_kube_def go_simps start_def)
  have i: "scp_InfraClusterID (obj ?s) = ''cce-1''"
    by (simp add: start_def gone_cp_def cluster_id.getID_setID)
  let ?l = "?s\<lparr>world := 0, calls := calls ?s @ [CallRead ''CCEManagedMachinePoolList'']\<rparr>"
  have "fst (NewService gone_env demo_scope [] ?l) = Ret (demo_service\<lparr>sv_CCEClient := gone_cce\<rparr>) \<and>
      world (snd (NewService gone_env demo_scope [] ?l)) = 0"
    by (simp add: NewService_def gone_env_def demo_env_def demo_kube_def demo_service_def go_simps start_def
        gone_cp_def demo_deleted_def demo_cp_def scp_SetInfraClusterID_def from_outcome_def Let_def)
  then obtain u where svc: "NewService gone_env demo_scope [] ?l = (Ret (demo_service\<lparr>sv_CCEClient := gone_cce\<rparr>), u)"
    "world u = 0" by (metis prod.collapse)
  have gone: "tears_down gone_cce (env_kube gone_env) (en_NP_DELETING (lib_enums (env_lib gone_env))) j 2 10" for j
    by (simp add: numeral_2_eq_2 gone_cce_def gone_env_def demo_env_def demo_kube_def demo_lib_def demo_enums_def
        demo_status_def)
  have "\<exists>reads t. cpr_reconcileDelete gone_env demo_scope ?s = (Ret Result0, t) \<and> list_all read_call reads \<and>
      calls t = calls ?s @ reads @ [CallShowCluster (scp_InfraClusterID (obj ?s)), CallDeleteCluster (scp_InfraClusterID (obj ?s))]
        @ deletion_polls (scp_InfraClusterID (obj ?s)) 2 \<and>
      obj t = set_cp_Finalizers (filter (\<lambda>f. f \<noteq> ManagedControlPlaneFinalizer) (cp_Finalizers (obj ?s))) (obj ?s)"
    by (rule deletion_completes[OF L pools svc(1), of "\<lparr>sc_Status = Some (demo_status ''Available'')\<rparr>" 0 10])
      (simp_all add: i svc(2) gone, simp_all add: gone_cce_def)
  moreover have "cp_Finalizers (obj ?s) = [''other'', ManagedControlPlaneFinalizer]"
    by (simp add: start_def gone_cp_def demo_deleted_def scp_SetInfraClusterID_def cp_Finalizers_def)
  ultimately show ?thesis
    by (auto simp: ManagedControlPlaneFinalizer_def)
qed

section \<open>Deletions that wait for each other\<close>

text \<open>
  \<open>deletion_history Es cp0 mp0 cp mp log\<close>: the API server stored the control plane \<open>cp0\<close> and the machine
  pool \<open>mp0\<close> of its cluster, then reconciles of both ran in any order, and now it stores \<open>cp\<close> and
  \<open>mp\<close>. \<open>log\<close> holds the calls they issued. A pool with a finalizer is listed; what a reconcile patches
  is stored. The environments, and with them the cloud's and the server's other answers, may differ
  from step to step.
\<close>

inductive deletion_history ::
  "'w env set \<Rightarrow> CCEManagedControlPlane \<Rightarrow> CCEManagedMachinePool \<Rightarrow> CCEManagedControlPlane \<Rightarrow>
   CCEManagedMachinePool \<Rightarrow> call list \<Rightarrow> bool"
  for Es cp0 mp0 where
  requested: "deletion_history Es cp0 mp0 cp0 mp0 []"
| cluster_turn: "deletion_history Es cp0 mp0 cp mp log \<Longrightarrow> E \<in> Es \<Longrightarrow>
    k_GetControlPlane (env_kube E) req (world s) = (Ret cp, w) \<Longrightarrow>
    (mp_Finalizers mp \<noteq> [] \<longrightarrow> (\<forall>n m v. fst (k_ListManagedMachinePools (env_kube E) n m v) \<noteq> Ret [])) \<Longrightarrow>
    cpr_Reconcile E r req s = (res, t) \<Longrightarrow>
    deletion_history Es cp0 mp0 (obj t) mp (log @ new_calls s t)"
| pool_turn: "deletion_history Es cp0 mp0 cp mp log \<Longrightarrow> E \<in> Es \<Longrightarrow>
    k_GetManagedMachinePool (env_kube E) req (world s) = (Ret mp, w) \<Longrightarrow>
    (\<forall>n v c v'. k_GetControlPlane (env_kube E) n v = (Ret c, v') \<longrightarrow> c = cp) \<Longrightarrow>
    mpr_Reconcile E req s = (out, t) \<Longrightarrow>
    deletion_history Es cp0 mp0 cp (if list_all read_call (new_calls s t) then mp else obj t) (log @ new_calls s t)"

text \<open>With a pool listed, the deletion of a control plane does nothing.\<close>

lemma delete_waits_for_pools:
  assumes "cpr_reconcileDelete E sc s = (res, t)"
    and "\<And>n m v. fst (k_ListManagedMachinePools (env_kube E) n m v) \<noteq> Ret []"
  shows "obj t = obj s" "issues read_call s t"
proof -
  obtain q w where q: "k_ListManagedMachinePools (env_kube E) (om_Namespace (cl_Meta (scp_Cluster sc)))
      (om_Name (cl_Meta (scp_Cluster sc))) (world s) = (q, w)" by fastforce
  with assms(2) have "q \<noteq> Ret []" by (metis fst_conv)
  then have "t = s\<lparr>world := w, calls := calls s @ [CallRead ''CCEManagedMachinePoolList'']\<rparr>"
    using assms(1) q by (cases q) (auto simp: cpr_reconcileDelete_def dependencyCount_run andThen_def ret_apply)
  then show "obj t = obj s" "issues read_call s t" by (simp_all add: issues_def)
qed

lemma cluster_turn_waits:
  assumes run: "cpr_Reconcile E r req s = (res, t)"
    and get: "k_GetControlPlane (env_kube E) req (world s) = (Ret cp, w)"
    and deleted: "\<not> Time_IsZero (om_DeletionTimestamp (cp_Meta cp))"
    and pools: "\<And>n m v. fst (k_ListManagedMachinePools (env_kube E) n m v) \<noteq> Ret []"
  shows "obj t = cp \<and> list_all (\<lambda>c. \<not> cloud_deletion c) (new_calls s t)"
  using run
proof (cases rule: cpr_Reconcile_cases)
  case idle
  then show ?thesis using get by (auto dest!: issues_new_calls simp: list_all_iff read_call_harmless)
next
  case (body cp' v sc u)
  obtain q m where m: "cpr_body E r cp' sc u = (q, m)" by fastforce
  have cp: "cp' = cp" using body(1) get by simp
  from m have del: "cpr_reconcileDelete E sc u = (q, m)"
    using deleted by (simp add: cpr_body_def cp)
  have t: "calls t = calls m @ [CallPatchControlPlane (obj m)]" "obj t = obj m"
    using with_scope_closed[OF body(6) m] by simp_all
  have "issues read_call s m"
    by (rule issues.frame_trans[OF body(3) delete_waits_for_pools(2)[OF del pools]])
  then obtain cs where cs: "calls m = calls s @ cs" "list_all read_call cs"
    by (auto simp: issues_def)
  have "new_calls s t = cs @ [CallPatchControlPlane (obj m)]"
    using cs(1) t(1) by (intro new_calls_append) simp
  then show ?thesis
    using cs(2) t(2) delete_waits_for_pools(1)[OF del pools] body(4) cp
    by (auto simp: list_all_iff read_call_harmless)
qed

text \<open>
  C12. A control plane that is deleted while it is not ready, and whose cluster has a machine pool with a
  finalizer, is never deleted, and neither is the pool: the control plane waits until no pool is
  listed, and a pool is not touched, not even to delete it, until its control plane is ready. Through
  any number of reconciles of both, both objects stay as they are, and nothing is deleted in the cloud.
\<close>

theorem deletion_deadlock:
  assumes "deletion_history Es cp0 mp0 cp mp log"
    and "\<not> Time_IsZero (om_DeletionTimestamp (cp_Meta cp0))" and "\<not> cpst_Ready (cp_Status cp0)"
    and "mp_Finalizers mp0 \<noteq> []"
  shows "cp = cp0 \<and> mp = mp0 \<and> list_all (\<lambda>c. \<not> cloud_deletion c) log"
  using assms(1)
proof (induction rule: deletion_history.induct)
  case requested
  then show ?case by simp
next
  case (cluster_turn cp mp log E req s w r res t)
  have "obj t = cp \<and> list_all (\<lambda>c. \<not> cloud_deletion c) (new_calls s t)"
    using cluster_turn.hyps(3-5) cluster_turn.IH assms(2,4) by (intro cluster_turn_waits) auto
  with cluster_turn.IH show ?case by simp
next
  case (pool_turn cp mp log E req s w out t)
  have "list_all read_call (new_calls s t)"
    using pool_turn.hyps(5)
  proof (cases rule: mpr_Reconcile_cases)
    case (body mp' cp' nn w0 w1 w2 sc u)
    have "cp' = cp" using pool_turn.hyps(4) body(2) by blast
    with body(3) pool_turn.IH assms(3) show ?thesis by simp
  qed (rule issues_new_calls)
  moreover from this have "list_all (\<lambda>c. \<not> cloud_deletion c) (new_calls s t)"
    by (auto simp: list_all_iff read_call_harmless)
  ultimately show ?case using pool_turn.IH by simp
qed

text \<open>A server whose cluster is being deleted, has a pool, and is not ready; each controller takes a turn.\<close>

definition deadlock_env :: "nat env" where
  "deadlock_env = owned_env\<lparr>env_kube := (env_kube owned_env)\<lparr>
     k_GetControlPlane := (\<lambda>_. ret demo_deleted),
     k_ListManagedMachinePools := (\<lambda>_ _. ret [owned_mp\<lparr>mp_Meta := (mp_Meta owned_mp)\<lparr>om_Finalizers := [ManagedMachinePoolFinalizer]\<rparr>\<rparr>]),
     k_GetManagedMachinePool := (\<lambda>_. ret (owned_mp\<lparr>mp_Meta := (mp_Meta owned_mp)\<lparr>om_Finalizers := [ManagedMachinePoolFinalizer]\<rparr>\<rparr>))\<rparr>\<rparr>"

lemma deletion_deadlock_witness:
  "obj (snd (cpr_Reconcile deadlock_env demo_reconciler \<lparr>nn_Namespace = ''ns'', nn_Name = ''dev''\<rparr> (start demo_cp)))
     = demo_deleted"
proof -
  let ?req = "\<lparr>nn_Namespace = ''ns'', nn_Name = ''dev''\<rparr>"
  let ?mp = "owned_mp\<lparr>mp_Meta := (mp_Meta owned_mp)\<lparr>om_Finalizers := [ManagedMachinePoolFinalizer]\<rparr>\<rparr>"
  have pool: "k_GetManagedMachinePool (env_kube deadlock_env) ?req (world (start demo_mp)) = (Ret ?mp, 0)"
    "\<forall>n v c v'. k_GetControlPlane (env_kube deadlock_env) n v = (Ret c, v') \<longrightarrow> c = demo_deleted"
    by (auto simp: deadlock_env_def go_simps start_def)
  have cluster: "k_GetControlPlane (env_kube deadlock_env) ?req (world (start demo_cp)) = (Ret demo_deleted, 0)"
    "\<forall>n m v. fst (k_ListManagedMachinePools (env_kube deadlock_env) n m v) \<noteq> Ret []"
    by (auto simp: deadlock_env_def go_simps start_def)
  obtain out t where t: "mpr_Reconcile deadlock_env ?req (start demo_mp) = (out, t)" by fastforce
  obtain out' t' where t': "cpr_Reconcile deadlock_env demo_reconciler ?req (start demo_cp) = (out', t')" by fastforce
  from deletion_history.requested[of "{deadlock_env}" demo_deleted ?mp]
  have "deletion_history {deadlock_env} demo_deleted ?mp demo_deleted
      (if list_all read_call (new_calls (start demo_mp) t) then ?mp else obj t) ([] @ new_calls (start demo_mp) t)"
    by (rule deletion_history.pool_turn[OF _ _ pool t]) simp
  then have "deletion_history {deadlock_env} demo_deleted ?mp (obj t')
      (if list_all read_call (new_calls (start demo_mp) t) then ?mp else obj t)
      (([] @ new_calls (start demo_mp) t) @ new_calls (start demo_cp) t')"
    by (rule deletion_history.cluster_turn[OF _ _ cluster(1) _ t']) (simp_all add: cluster(2))
  moreover have "\<not> Time_IsZero (om_DeletionTimestamp (cp_Meta demo_deleted))" "\<not> cpst_Ready (cp_Status demo_deleted)"
    "mp_Finalizers ?mp \<noteq> []"
    by (simp_all add: demo_deleted_def demo_cp_def mp_Finalizers_def Time_IsZero_def)
  ultimately have "obj t' = demo_deleted" by (rule deletion_deadlock[THEN conjunct1])
  with t' show ?thesis by simp
qed

section \<open>No orphaned cluster\<close>

text \<open>
  \<open>cpr_deletion_service E req\<close> is the part of a reconcile of a deleted control plane that comes before
  the cluster is deleted; it returns the service the deletion works with.
\<close>

definition cpr_deletion_service ::
  "'w env \<Rightarrow> NamespacedName \<Rightarrow> ((CCEManagedControlPlane, 'w) st, 'w Service) go" where
  "cpr_deletion_service E req =
     andThen (cpr_opening E req) (\<lambda>sc. andThen (dependencyCount E sc) (\<lambda>_. NewService E sc []))"

text \<open>
  \<open>let_go client i cs w\<close>: asked for the cluster \<open>i\<close> in the world \<open>w\<close>, the cloud reports it missing; or it
  shows it, and then accepts the request to delete it, which is one of the calls \<open>cs\<close>, or reports it
  missing then.
\<close>

definition let_go :: "'w CceClient \<Rightarrow> string \<Rightarrow> call list \<Rightarrow> 'w \<Rightarrow> bool" where
  "let_go client i cs w \<longleftrightarrow>
     (case ShowCluster client i w of (shown, v) \<Rightarrow>
        (case shown of
           Ret _ \<Rightarrow> CallDeleteCluster i \<in> set cs \<and>
             (case fst (DeleteCluster client i v) of
                Ret _ \<Rightarrow> True | Err e \<Rightarrow> not_found_404 e | Panic \<Rightarrow> False)
         | Err e \<Rightarrow> not_found_404 e
         | Panic \<Rightarrow> False))"

lemma let_go_mono: "let_go client i cs w \<Longrightarrow> set cs \<subseteq> set ds \<Longrightarrow> let_go client i ds w"
  by (auto simp: let_go_def split: prod.splits outcome.splits)

lemma deleteClusterAndWait_accepted:
  assumes run: "deleteClusterAndWait E S i s = (Ret (), t)"
  shows "CallDeleteCluster i \<in> set (new_calls s t)"
    and "case fst (DeleteCluster (sv_CCEClient S) i (world s)) of Ret _ \<Rightarrow> True | Err e \<Rightarrow> not_found_404 e | Panic \<Rightarrow> False"
proof -
  obtain r w where r: "DeleteCluster (sv_CCEClient S) i (world s) = (r, w)" by fastforce
  let ?v = "s\<lparr>world := w, calls := calls s @ [CallDeleteCluster i]\<rparr>"
  have "steps_in (issues (\<lambda>_. True)) (waitForClusterDeleted E S i)"
    unfolding waitForClusterDeleted_def cluster_deleted_poll_def
    by (intro issues_waitUntil issues_rules issues_showCCECluster issues_deref_phase) simp_all
  with run r have "issues (\<lambda>_. True) ?v t"
    by (auto simp: deleteClusterAndWait_def go_simps issues.frame_refl dest!: steps_inD
        split: if_splits prod.splits outcome.splits)
  then obtain ds where "calls t = calls ?v @ ds" by (auto simp: issues_def)
  then show "CallDeleteCluster i \<in> set (new_calls s t)" by (simp add: new_calls_def)
  from run r show "case fst (DeleteCluster (sv_CCEClient S) i (world s)) of Ret _ \<Rightarrow> True | Err e \<Rightarrow> not_found_404 e | Panic \<Rightarrow> False"
    by (cases r) (auto simp: deleteClusterAndWait_def go_simps split: if_splits)
qed

lemma DeleteControlPlane_let_go:
  assumes run: "DeleteControlPlane E S s = (Ret (), t)" and i: "scp_InfraClusterID (obj s) \<noteq> []"
  shows "let_go (sv_CCEClient S) (scp_InfraClusterID (obj s)) (new_calls s t) (world s)"
proof -
  let ?i = "scp_InfraClusterID (obj s)"
  obtain r v where r: "ShowCluster (sv_CCEClient S) ?i (world s) = (r, v)" by fastforce
  let ?u = "s\<lparr>world := v, calls := calls s @ [CallShowCluster ?i]\<rparr>"
  show ?thesis
  proof (cases r)
    case (Ret c)
    then have del: "deleteClusterAndWait E S ?i ?u = (Ret (), t)"
      using run i r by (simp add: DeleteControlPlane_def deleteCluster_def showCCECluster_def go_simps
          split: prod.splits outcome.splits)
    from deleteClusterAndWait_accepted[OF del] have "CallDeleteCluster ?i \<in> set (new_calls s t)"
      by (auto simp: new_calls_def dest: in_set_dropD intro: set_drop_subset_set_drop[THEN subsetD, rotated])
    with deleteClusterAndWait_accepted(2)[OF del] r Ret show ?thesis
      by (simp add: let_go_def)
  qed (use run i r in \<open>auto simp: DeleteControlPlane_def deleteCluster_def showCCECluster_def let_go_def go_simps
      split: if_splits\<close>)
qed

text \<open>A reconcile that takes the finalizer away has made the cloud let the recorded cluster go.\<close>

lemma finalizer_gone_let_go:
  assumes L: "finalizers_documented (env_lib E)"
    and run: "cpr_Reconcile E r req s = (res, t)"
    and get: "k_GetControlPlane (env_kube E) req (world s) = (Ret cp, w)"
    and fin: "ManagedControlPlaneFinalizer \<in> set (cp_Finalizers cp)"
      "ManagedControlPlaneFinalizer \<notin> set (cp_Finalizers (obj t))"
    and i: "scp_InfraClusterID cp \<noteq> []"
  shows "\<exists>S x. cpr_deletion_service E req s = (Ret S, x) \<and>
    let_go (sv_CCEClient S) (scp_InfraClusterID cp) (new_calls s t) (world x)"
  using run
proof (cases rule: cpr_Reconcile_cases)
  case idle
  then show ?thesis using get fin by blast
next
  case (body cp' w' sc u)
  obtain q m where m: "cpr_body E r cp' sc u = (q, m)" by fastforce
  note closed = with_scope_closed[OF body(6) m]
  have cp: "cp' = cp" "obj u = cp" using body(1,4) get by simp_all
  have del: "cpr_reconcileDelete E sc u = (q, m)"
  proof (rule ccontr)
    assume "\<not> ?thesis"
    with m have normal: "cpr_reconcileNormal E r sc u = (q, m)"
      by (simp add: cpr_body_def split: if_splits)
    have "steps_in (keeps (\<lambda>c. ManagedControlPlaneFinalizer \<in> set (cp_Finalizers c))) (cpr_provision E sc)"
      by (rule steps_inI) (drule steps_inD[OF keeps_provision], simp add: keeps_def)
    moreover have "andThen (cp_ensure E sc) (\<lambda>_. cpr_provision E sc) u = (q, m) \<or> m = u"
      using normal by (auto simp: cpr_reconcileNormal_split go_simps split: option.splits if_splits)
    moreover have "cp_ensure E sc u = (Ret (), u)"
      using fin(1) cp(2) by (intro cp_fin.ensure_present[OF L]) simp
    ultimately have "ManagedControlPlaneFinalizer \<in> set (cp_Finalizers (obj m))"
      using fin(1) cp(2) by (auto simp: andThen_run keeps_def dest!: steps_inD)
    with fin(2) closed(2) show False by simp
  qed
  from L del show ?thesis
  proof (cases rule: reconcileDelete_cases)
    case kept
    then show ?thesis using fin closed(2) cp(2) by simp
  next
    case (removed v z S x y)
    have svc: "cpr_deletion_service E req s = (Ret S, x)"
      using body(7) removed(2,10) by (simp add: cpr_deletion_service_def andThen_run)
    have go: "let_go (sv_CCEClient S) (scp_InfraClusterID cp) (new_calls x y) (world x)"
      using DeleteControlPlane_let_go[OF removed(6)] removed(5) i cp(2) by simp
    have "set (new_calls x y) \<subseteq> set (new_calls s t)"
    proof -
      obtain as where "calls u = calls s @ as" using body(3) by (auto simp: issues_def)
      moreover have "steps_in (issues read_call) (NewService E sc [])" by (rule issues_NewService) simp
      then obtain bs where "calls x = calls z @ bs" using removed(2) by (auto simp: issues_def dest!: steps_inD)
      moreover obtain cs where "calls y = calls x @ cs"
        using steps_inD[OF issues_DeleteControlPlane removed(6)] by (auto simp: issues_def)
      ultimately show ?thesis using removed(3,7) closed(1) by (auto simp: new_calls_def)
    qed
    from svc let_go_mono[OF go this] show ?thesis by (intro exI conjI)
  qed
qed

text \<open>
  C4. No stored cluster is orphaned. Take any life of a control plane object (as in C1, with any answers
  of the cloud and lost patches) and a reconcile that then takes the finalizer away, so that the object
  may disappear. Take any turn of that life after which a cluster ID was stored. Either a later turn
  had exactly that ID answered with 404 and replaced it; or it is the ID recorded on the object, and
  with the client and in the world this last reconcile has come to, the cloud reports that cluster
  missing, or shows it and accepts the request to delete it, which the reconcile has made.
\<close>

theorem no_orphaned_cluster:
  assumes L: "finalizers_documented (env_lib E)"
    and life: "history Es r req cp (new @ e # old)"
    and last: "k_GetControlPlane (env_kube E) req (world s) = (Ret cp, w)"
      "cpr_Reconcile E r req s = (res, t)"
    and fin: "ManagedControlPlaneFinalizer \<in> set (cp_Finalizers cp)"
      "ManagedControlPlaneFinalizer \<notin> set (cp_Finalizers (obj t))"
    and stored: "tu_stored e \<noteq> []"
  shows "list_ex (replaces (tu_stored e)) new \<or>
    scp_InfraClusterID cp = tu_stored e \<and>
    (\<exists>S x. cpr_deletion_service E req s = (Ret S, x) \<and>
       let_go (sv_CCEClient S) (tu_stored e) (new_calls s t) (world x))"
proof (cases "list_ex (replaces (tu_stored e)) new")
  case False
  from id_history_kept[OF history_refines[OF life] refl stored this] have "scp_InfraClusterID cp = tu_stored e"
    by (rule conjunct1)
  with finalizer_gone_let_go[OF L last(2,1) fin] stored show ?thesis by simp
qed blast

definition last_env :: "nat env" where
  "last_env = gone_env\<lparr>env_kube := demo_kube\<lparr>k_GetControlPlane := (\<lambda>_. ret gone_cp)\<rparr>\<rparr>"

lemma no_orphaned_cluster_witness:
  "\<exists>S x. cpr_deletion_service last_env life_req (start demo_cp) = (Ret S, x) \<and>
     let_go (sv_CCEClient S) ''cce-1''
       (new_calls (start demo_cp) (snd (cpr_Reconcile last_env demo_reconciler life_req (start demo_cp)))) (world x)"
proof -
  let ?run = "cpr_Reconcile last_env demo_reconciler life_req (start demo_cp)"
  have L: "finalizers_documented (env_lib last_env)"
    by (simp add: last_env_def gone_env_def demo_env_def demo_finalizers)
  have id: "scp_InfraClusterID gone_cp = ''cce-1''"
    by (simp add: gone_cp_def cluster_id.getID_setID)
  have get: "k_GetControlPlane (env_kube last_env) life_req (world (start demo_cp)) = (Ret gone_cp, 0)"
    by (simp add: last_env_def go_simps start_def)
  have fin: "ManagedControlPlaneFinalizer \<in> set (cp_Finalizers gone_cp)"
    "ManagedControlPlaneFinalizer \<notin> set (cp_Finalizers (obj (snd ?run)))"
    by code_simp+
  have "history {life_env} demo_reconciler life_req gone_cp ([] @ first_turn # [])"
    using life_first[OF id] by simp
  from no_orphaned_cluster[OF L this get surjective_pairing fin] show ?thesis by simp
qed

end
