(* ===== verification/Go_Memory.thy ===== *)
theory Go_Memory
  imports Kube_Types "HOL-Library.AList"
begin

text \<open>
  Go's memory, for code whose correctness is about aliasing. A heap is the list of the cells
  allocated so far; an address is a position in it; a pointer, a slice and a map are an address or
  nil. The type of a value is a schema, \<open>ty\<close>, and \<open>den t h g\<close> unfolds a value of type \<open>t\<close> into the
  tree of everything reachable from it, or fails when an address is dangling or a cell has another
  shape.

  \<open>deep t c\<close> is the contract of a deep copy: the copy unfolds to the same tree whatever is later
  written to the cells that existed before, and those cells are left as they were.
\<close>

section \<open>Values and cells\<close>

datatype gval = GStr string | GNum int32 | GBool bool | GRef "nat option" | GStruct "(string \<times> gval) list"

text \<open>A cell is what a pointer points to, the array a slice shows, or the entries of a map.\<close>

datatype cell = CellVal gval | CellArr "gval list" | CellMap "(string \<times> gval) list"

type_synonym heap = "cell list"

definition load :: "nat \<Rightarrow> (heap, cell) go" where
  "load a = (\<lambda>h. if a < length h then (Ret (h ! a), h) else (Panic, h))"

definition alloc :: "cell \<Rightarrow> (heap, nat) go" where
  "alloc c = (\<lambda>h. (Ret (length h), h @ [c]))"

lemma load_apply [go_simps]: "load a h = (if a < length h then (Ret (h ! a), h) else (Panic, h))"
  by (simp add: load_def)

lemma alloc_apply [go_simps]: "alloc c h = (Ret (length h), h @ [c])"
  by (simp add: alloc_def)

section \<open>Types and what a value denotes\<close>

datatype ty = TStr | TNum | TBool | TPtr ty | TSlice ty | TMap ty | TStruct "(string \<times> ty) list"

datatype tree =
    LStr string | LNum int32 | LBool bool | LNil
  | LPtr tree | LSlice "tree list" | LMap "(string \<times> tree) list" | LStruct "(string \<times> tree) list"

definition entry :: "('a \<Rightarrow> 'b option) \<Rightarrow> string \<times> 'a \<Rightarrow> (string \<times> 'b) option" where
  "entry f kv = map_option (Pair (fst kv)) (f (snd kv))"

lemma entry_cong [fundef_cong]:
  "kv = kv' \<Longrightarrow> f (snd kv') = f' (snd kv') \<Longrightarrow> entry f kv = entry f' kv'"
  by (simp add: entry_def)

fun den :: "ty \<Rightarrow> heap \<Rightarrow> gval \<Rightarrow> tree option" where
  "den TStr h (GStr s) = Some (LStr s)"
| "den TNum h (GNum n) = Some (LNum n)"
| "den TBool h (GBool b) = Some (LBool b)"
| "den (TPtr t) h (GRef None) = Some LNil"
| "den (TPtr t) h (GRef (Some a)) =
     (if a < length h then (case h ! a of CellVal g \<Rightarrow> map_option LPtr (den t h g) | _ \<Rightarrow> None) else None)"
| "den (TSlice t) h (GRef None) = Some LNil"
| "den (TSlice t) h (GRef (Some a)) =
     (if a < length h
      then (case h ! a of CellArr gs \<Rightarrow> map_option LSlice (those (map (den t h) gs)) | _ \<Rightarrow> None) else None)"
| "den (TMap t) h (GRef None) = Some LNil"
| "den (TMap t) h (GRef (Some a)) =
     (if a < length h
      then (case h ! a of CellMap es \<Rightarrow> map_option LMap (those (map (entry (den t h)) es)) | _ \<Rightarrow> None) else None)"
| "den (TStruct fs) h (GStruct gs) =
     map_option LStruct (those (map (\<lambda>(n, t). case map_of gs n of None \<Rightarrow> None
                                                | Some g \<Rightarrow> map_option (Pair n) (den t h g)) fs))"
| "den _ h _ = None"

text \<open>A type is flat when its values hold no address.\<close>

fun flat :: "ty \<Rightarrow> bool" where
  "flat (TPtr t) = False"
| "flat (TSlice t) = False"
| "flat (TMap t) = False"
| "flat (TStruct fs) = list_all (\<lambda>(n, t). flat t) fs"
| "flat _ = True"

lemma those_map_cong: "(\<And>x. x \<in> set xs \<Longrightarrow> f x = g x) \<Longrightarrow> those (map f xs) = those (map g xs)"
  by (metis map_cong)

lemma those_map_mono:
  assumes "those (map f xs) = Some ys" and "\<And>x y. x \<in> set xs \<Longrightarrow> f x = Some y \<Longrightarrow> g x = Some y"
  shows "those (map g xs) = Some ys"
  using assms by (induction xs arbitrary: ys) (auto split: option.splits)

lemma den_flat: "flat t \<Longrightarrow> den t h g = den t h' g"
proof (induction t h g rule: den.induct)
  case (10 fs h gs)
  then show ?case
    by (auto simp: list_all_iff split: option.splits intro!: arg_cong[where f = "map_option LStruct"] those_map_cong)
qed auto

lemma den_append: "den t h g = Some v \<Longrightarrow> den t (h @ ds) g = Some v"
proof (induction t h g arbitrary: v rule: den.induct)
  case (5 t h a)
  then show ?case by (auto simp: nth_append split: if_splits cell.splits)
next
  case (7 t h a)
  then show ?case
    by (fastforce simp: nth_append split: if_splits cell.splits elim!: those_map_mono)
next
  case (9 t h a)
  then show ?case
    by (fastforce simp: nth_append entry_def split: if_splits cell.splits elim!: those_map_mono)
next
  case (10 fs h gs)
  then show ?case
    by (fastforce split: option.splits elim!: those_map_mono)
qed auto

section \<open>Copying\<close>

primrec mapM :: "('a \<Rightarrow> ('s, 'b) go) \<Rightarrow> 'a list \<Rightarrow> ('s, 'b list) go" where
  "mapM f [] = ret []"
| "mapM f (x # xs) = andThen (f x) (\<lambda>y. andThen (mapM f xs) (\<lambda>ys. ret (y # ys)))"

text \<open>
  The statements the copying functions are made of. \<open>copy_ptr c\<close>, for a pointer field:
  \<open>if in.F != nil { *out = new(T); **out = c(**in) }\<close>. \<open>copy_slice c\<close>: \<open>make([]T, len(*in))\<close> and a loop
  over the elements. \<open>copy_map c\<close>: \<open>make(map[string]T, len(*in))\<close> and a loop over the entries.
  \<open>copy_struct ops\<close>: \<open>*out = *in\<close> and then, field by field, what \<open>ops\<close> says.
\<close>

definition copy_ptr :: "(gval \<Rightarrow> (heap, gval) go) \<Rightarrow> gval \<Rightarrow> (heap, gval) go" where
  "copy_ptr c g =
     (case g of
        GRef None \<Rightarrow> ret (GRef None)
      | GRef (Some a) \<Rightarrow>
          andThen (load a) (\<lambda>x. case x of
            CellVal v \<Rightarrow> andThen (c v) (\<lambda>v'. andThen (alloc (CellVal v')) (\<lambda>b. ret (GRef (Some b))))
          | _ \<Rightarrow> panic)
      | _ \<Rightarrow> panic)"

definition copy_slice :: "(gval \<Rightarrow> (heap, gval) go) \<Rightarrow> gval \<Rightarrow> (heap, gval) go" where
  "copy_slice c g =
     (case g of
        GRef None \<Rightarrow> ret (GRef None)
      | GRef (Some a) \<Rightarrow>
          andThen (load a) (\<lambda>x. case x of
            CellArr vs \<Rightarrow> andThen (mapM c vs) (\<lambda>vs'. andThen (alloc (CellArr vs')) (\<lambda>b. ret (GRef (Some b))))
          | _ \<Rightarrow> panic)
      | _ \<Rightarrow> panic)"

definition copy_map :: "(gval \<Rightarrow> (heap, gval) go) \<Rightarrow> gval \<Rightarrow> (heap, gval) go" where
  "copy_map c g =
     (case g of
        GRef None \<Rightarrow> ret (GRef None)
      | GRef (Some a) \<Rightarrow>
          andThen (load a) (\<lambda>x. case x of
            CellMap es \<Rightarrow>
              andThen (mapM (\<lambda>(k, v). andThen (c v) (\<lambda>v'. ret (k, v'))) es) (\<lambda>es'.
              andThen (alloc (CellMap es')) (\<lambda>b. ret (GRef (Some b))))
          | _ \<Rightarrow> panic)
      | _ \<Rightarrow> panic)"

primrec copy_fields ::
  "(string \<times> (gval \<Rightarrow> (heap, gval) go)) list \<Rightarrow> (string \<times> gval) list \<Rightarrow> (string \<times> gval) list \<Rightarrow>
   (heap, (string \<times> gval) list) go" where
  "copy_fields [] ins outs = ret outs"
| "copy_fields (op1 # ops) ins outs =
     (case map_of ins (fst op1) of
        None \<Rightarrow> panic
      | Some g \<Rightarrow> andThen (snd op1 g) (\<lambda>g'. copy_fields ops ins (AList.update (fst op1) g' outs)))"

definition copy_struct :: "(string \<times> (gval \<Rightarrow> (heap, gval) go)) list \<Rightarrow> gval \<Rightarrow> (heap, gval) go" where
  "copy_struct ops g =
     (case g of
        GStruct gs \<Rightarrow> andThen (copy_fields ops gs gs) (\<lambda>outs. ret (GStruct outs))
      | _ \<Rightarrow> panic)"

text \<open>\<open>func (in *T) DeepCopy() *T\<close>, from \<open>DeepCopyInto\<close>.\<close>

definition new_copy :: "(gval \<Rightarrow> (heap, gval) go) \<Rightarrow> nat option \<Rightarrow> (heap, nat option) go" where
  "new_copy c inp =
     (case inp of
        None \<Rightarrow> ret None
      | Some a \<Rightarrow>
          andThen (load a) (\<lambda>x. case x of
            CellVal v \<Rightarrow> andThen (c v) (\<lambda>v'. andThen (alloc (CellVal v')) (\<lambda>b. ret (Some b)))
          | _ \<Rightarrow> panic))"

section \<open>The contract of a deep copy\<close>

text \<open>
  \<open>copies D c\<close>, for any way \<open>D\<close> to denote values in a heap: \<open>c\<close> ends without a panic, it only adds cells,
  and its result denotes the same as its argument, also after the old cells have been overwritten.
\<close>

definition copies :: "(heap \<Rightarrow> 'a \<Rightarrow> 'v option) \<Rightarrow> ('a \<Rightarrow> (heap, 'a) go) \<Rightarrow> bool" where
  "copies D c \<longleftrightarrow>
     (\<forall>h x v. D h x = Some v \<longrightarrow>
        (\<exists>x' ds. c x h = (Ret x', h @ ds) \<and>
           (\<forall>old. length old = length h \<longrightarrow> D (old @ ds) x' = Some v)))"

abbreviation deep :: "ty \<Rightarrow> (gval \<Rightarrow> (heap, gval) go) \<Rightarrow> bool" where
  "deep t \<equiv> copies (den t)"

lemma copiesI:
  assumes "\<And>h x v. D h x = Some v \<Longrightarrow> \<exists>x' ds. c x h = (Ret x', h @ ds) \<and>
             (\<forall>old. length old = length h \<longrightarrow> D (old @ ds) x' = Some v)"
  shows "copies D c"
  using assms by (auto simp: copies_def)

lemma copiesE:
  assumes "copies D c" and "D h x = Some v"
  obtains x' ds where "c x h = (Ret x', h @ ds)" "\<forall>old. length old = length h \<longrightarrow> D (old @ ds) x' = Some v"
  using assms unfolding copies_def by metis

text \<open>The interface: new cells do not change what a value denotes.\<close>

locale denotation =
  fixes D :: "heap \<Rightarrow> 'a \<Rightarrow> 'v option"
  assumes D_append: "D h x = Some v \<Longrightarrow> D (h @ ds) x = Some v"
begin

lemma D_later: "\<forall>old. length old = n \<longrightarrow> D (old @ ds) x = Some v \<Longrightarrow> length old = n \<Longrightarrow> D (old @ ds @ es) x = Some v"
  using D_append[of "old @ ds" x v es] by simp

lemma list_append:
  "those (map (D h) xs) = Some vs \<Longrightarrow> those (map (D (h @ ds)) xs) = Some vs"
  by (erule those_map_mono) (rule D_append)

lemma mapM_copies:
  assumes "copies D c"
  shows "copies (\<lambda>h xs. those (map (D h) xs)) (mapM c)"
proof (rule copiesI)
  show "\<exists>xs' ds. mapM c xs h = (Ret xs', h @ ds) \<and>
      (\<forall>old. length old = length h \<longrightarrow> those (map (D (old @ ds)) xs') = Some vs)"
    if "those (map (D h) xs) = Some vs" for h xs vs
    using that
  proof (induction xs arbitrary: h vs)
    case Nil
    then show ?case by (auto simp: ret_apply)
  next
    case (Cons x xs)
    then obtain v ws where v: "D h x = Some v" "those (map (D h) xs) = Some ws" "vs = v # ws"
      by (auto split: option.splits)
    obtain x' ds where x': "c x h = (Ret x', h @ ds)" "\<forall>old. length old = length h \<longrightarrow> D (old @ ds) x' = Some v"
      by (rule copiesE[OF assms v(1)])
    obtain xs' es where xs': "mapM c xs (h @ ds) = (Ret xs', (h @ ds) @ es)"
      "\<forall>old. length old = length (h @ ds) \<longrightarrow> those (map (D (old @ es)) xs') = Some ws"
      using Cons.IH[OF list_append[OF v(2)], of ds] by blast
    have "those (map (D (old @ ds @ es)) (x' # xs')) = Some vs" if "length old = length h" for old
      using D_later[OF x'(2) that, of es] xs'(2)[rule_format, of "old @ ds"] that v(3) by simp
    moreover have "mapM c (x # xs) h = (Ret (x' # xs'), h @ ds @ es)"
      using x'(1) xs'(1) by (simp add: go_simps)
    ultimately show ?case by blast
  qed
qed

end

interpretation gvals: denotation "den t" for t
  by unfold_locales (rule den_append)

interpretation entries: denotation "\<lambda>h. entry (den t h)" for t
  by unfold_locales (auto simp: entry_def intro: den_append)

lemma copies_entry:
  assumes "deep t c"
  shows "copies (\<lambda>h. entry (den t h)) (\<lambda>(k, g). andThen (c g) (\<lambda>g'. ret (k, g')))"
proof (rule copiesI)
  fix h kv v assume "entry (den t h) kv = Some v"
  then obtain w where w: "den t h (snd kv) = Some w" "v = (fst kv, w)"
    by (auto simp: entry_def)
  show "\<exists>kv' ds. (case kv of (k, g) \<Rightarrow> andThen (c g) (\<lambda>g'. ret (k, g'))) h = (Ret kv', h @ ds) \<and>
      (\<forall>old. length old = length h \<longrightarrow> entry (den t (old @ ds)) kv' = Some v)"
    by (rule copiesE[OF assms w(1)]) (auto simp: w(2) go_simps entry_def split: prod.split)
qed

section \<open>Every statement of a copying function keeps the contract\<close>

lemma deep_flat: "flat t \<Longrightarrow> deep t ret"
  by (rule copiesI) (metis append_Nil2 den_flat ret_apply)

text \<open>A reference is copied by copying the content of its cell and allocating a new one.\<close>

lemma deep_ref:
  assumes nil: "\<And>h. den t h (GRef None) = Some LNil" "copy (GRef None) = ret (GRef None)"
    and shape: "\<And>h g v. den t h g = Some v \<Longrightarrow> \<exists>r. g = GRef r"
    and cell: "\<And>h a v. den t h (GRef (Some a)) = Some v \<Longrightarrow> a < length h \<and> (\<exists>x w. h ! a = cl x \<and> D h x = Some w \<and> v = mk w)"
    and cell': "\<And>h a x w. a < length h \<Longrightarrow> h ! a = cl x \<Longrightarrow> D h x = Some w \<Longrightarrow> den t h (GRef (Some a)) = Some (mk w)"
    and copy: "\<And>h a x. a < length h \<Longrightarrow> h ! a = cl x \<Longrightarrow> copy (GRef (Some a)) h
          = andThen (c x) (\<lambda>x'. andThen (alloc (cl x')) (\<lambda>b. ret (GRef (Some b)))) h"
    and D: "denotation D" and c: "copies D c"
  shows "deep t copy"
proof (rule copiesI)
  fix h g v assume d: "den t h g = Some v"
  then obtain r where r: "g = GRef r" using shape by blast
  show "\<exists>g' ds. copy g h = (Ret g', h @ ds) \<and> (\<forall>old. length old = length h \<longrightarrow> den t (old @ ds) g' = Some v)"
  proof (cases r)
    case None
    with d r nil show ?thesis by (auto simp: ret_apply)
  next
    case (Some a)
    with d r cell obtain x w where x: "a < length h" "h ! a = cl x" "D h x = Some w" "v = mk w"
      by blast
    obtain x' ds where x': "c x h = (Ret x', h @ ds)" "\<forall>old. length old = length h \<longrightarrow> D (old @ ds) x' = Some w"
      by (rule copiesE[OF c x(3)])
    have "den t (old @ ds @ [cl x']) (GRef (Some (length h + length ds))) = Some v" if "length old = length h" for old
      unfolding x(4)
      by (rule cell'[OF _ _ denotation.D_later[OF D x'(2) that]]) (simp_all add: that nth_append)
    moreover have "copy g h = (Ret (GRef (Some (length h + length ds))), h @ ds @ [cl x'])"
      using copy[OF x(1,2)] r Some x'(1) by (simp add: go_simps)
    ultimately show ?thesis by blast
  qed
qed

lemma deep_ptr: "deep t c \<Longrightarrow> deep (TPtr t) (copy_ptr c)"
  by (rule deep_ref[where cl = CellVal and D = "den t" and mk = LPtr and c = c])
    (auto simp: copy_ptr_def go_simps gvals.denotation_axioms split: if_splits cell.splits elim: den.elims)

lemma deep_slice: "deep t c \<Longrightarrow> deep (TSlice t) (copy_slice c)"
  by (rule deep_ref[where cl = CellArr and D = "\<lambda>h xs. those (map (den t h) xs)" and mk = LSlice and c = "mapM c"])
    (auto simp: copy_slice_def go_simps denotation_def gvals.list_append gvals.mapM_copies
      split: if_splits cell.splits elim: den.elims)

lemma deep_map: "deep t c \<Longrightarrow> deep (TMap t) (copy_map c)"
  by (rule deep_ref[where cl = CellMap and D = "\<lambda>h xs. those (map (entry (den t h)) xs)" and mk = LMap
        and c = "mapM (\<lambda>(k, v). andThen (c v) (\<lambda>v'. ret (k, v')))"])
    (auto simp: copy_map_def go_simps denotation_def entries.list_append entries.mapM_copies[OF copies_entry]
      split: if_splits cell.splits elim: den.elims)

text \<open>
  The fields in order: \<open>V n\<close> is what field \<open>n\<close> denotes. The copied ones denote it without the old
  cells, the others are as they were.
\<close>

lemma copy_fields_deep:
  assumes "distinct (map fst ops)"
    and "\<And>n c. (n, c) \<in> set ops \<Longrightarrow> \<exists>g. map_of ins n = Some g \<and> den (T n) h g = Some (V n) \<and> deep (T n) c"
  shows "\<exists>outs' ds. copy_fields ops ins outs h = (Ret outs', h @ ds) \<and>
    (\<forall>n. n \<notin> fst ` set ops \<longrightarrow> map_of outs' n = map_of outs n) \<and>
    (\<forall>n\<in>fst ` set ops. \<exists>g. map_of outs' n = Some g \<and>
       (\<forall>old. length old = length h \<longrightarrow> den (T n) (old @ ds) g = Some (V n)))"
  using assms
proof (induction ops arbitrary: outs h)
  case Nil
  then show ?case by (simp add: ret_apply)
next
  case (Cons op1 ops)
  obtain n c where op: "op1 = (n, c)" by fastforce
  obtain g where g: "map_of ins n = Some g" "den (T n) h g = Some (V n)" "deep (T n) c"
    using Cons.prems(2) op by (metis list.set_intros(1))
  obtain g' ds where g': "c g h = (Ret g', h @ ds)" "\<forall>old. length old = length h \<longrightarrow> den (T n) (old @ ds) g' = Some (V n)"
    by (rule copiesE[OF g(3,2)])
  have prem: "\<exists>g. map_of ins m = Some g \<and> den (T m) (h @ ds) g = Some (V m) \<and> deep (T m) d"
    if md: "(m, d) \<in> set ops" for m d
    using Cons.prems(2)[OF list.set_intros(2)[OF md]] den_append by blast
  have dist: "distinct (map fst ops)" using Cons.prems(1) by simp
  obtain outs' es where rest: "copy_fields ops ins (AList.update n g' outs) (h @ ds) = (Ret outs', (h @ ds) @ es)"
    "\<forall>m. m \<notin> fst ` set ops \<longrightarrow> map_of outs' m = map_of (AList.update n g' outs) m"
    "\<forall>m\<in>fst ` set ops. \<exists>g. map_of outs' m = Some g \<and>
       (\<forall>old. length old = length (h @ ds) \<longrightarrow> den (T m) (old @ es) g = Some (V m))"
    using Cons.IH[OF dist prem, of "AList.update n g' outs"] by blast
  have "n \<notin> fst ` set ops"
    using Cons.prems(1) op by simp
  then have n: "map_of outs' n = Some g'"
    using rest(2) by (simp add: update_conv')
  have "\<exists>g. map_of outs' m = Some g \<and> (\<forall>old. length old = length h \<longrightarrow> den (T m) (old @ ds @ es) g = Some (V m))"
    if m: "m \<in> fst ` set (op1 # ops)" for m
  proof (cases "m = n")
    case True
    with n g'(2) show ?thesis using gvals.D_later by blast
  next
    case False
    with m op rest(3) obtain k where "map_of outs' m = Some k"
      "\<forall>old. length old = length (h @ ds) \<longrightarrow> den (T m) (old @ es) k = Some (V m)"
      by auto
    then show ?thesis
      by (metis append_assoc length_append)
  qed
  moreover have "copy_fields (op1 # ops) ins outs h = (Ret outs', h @ ds @ es)"
    using op g(1) g'(1) rest(1) by (simp add: go_simps)
  moreover have "\<forall>m. m \<notin> fst ` set (op1 # ops) \<longrightarrow> map_of outs' m = map_of outs m"
    using rest(2) op by (auto simp: update_conv')
  ultimately show ?case by blast
qed

lemma deep_struct:
  assumes dist: "distinct (map fst fs)" "distinct (map fst ops)"
    and ops: "\<And>n c. (n, c) \<in> set ops \<Longrightarrow> \<exists>t. map_of fs n = Some t \<and> deep t c"
    and rest: "\<And>n t. (n, t) \<in> set fs \<Longrightarrow> n \<in> fst ` set ops \<or> flat t"
  shows "deep (TStruct fs) (copy_struct ops)"
proof (rule copiesI)
  fix h g v assume d: "den (TStruct fs) h g = Some v"
  define F where "F h gs = (\<lambda>(n, t). case map_of gs n of None \<Rightarrow> None | Some g \<Rightarrow> map_option (Pair n) (den t h g))"
    for h and gs :: "(string \<times> gval) list"
  obtain gs vs where gs: "g = GStruct gs" "v = LStruct vs" "those (map (F h gs) fs) = Some vs"
    using d by (cases g) (auto simp: F_def)
  have field: "\<exists>g w. map_of gs n = Some g \<and> den t h g = Some w" if "(n, t) \<in> set fs" for n t
  proof -
    have "those (map f xs) = Some ys \<Longrightarrow> x \<in> set xs \<Longrightarrow> \<exists>y. f x = Some y" for f :: "_ \<Rightarrow> (string \<times> tree) option" and xs ys x
      by (induction xs arbitrary: ys) (auto split: option.splits)
    from this[OF gs(3) that] show ?thesis by (auto simp: F_def split: option.splits)
  qed
  define T where "T n = the (map_of fs n)" for n
  define V where "V n = the (den (T n) h (the (map_of gs n)))" for n
  have "\<exists>g. map_of gs n = Some g \<and> den (T n) h g = Some (V n) \<and> deep (T n) c" if "(n, c) \<in> set ops" for n c
  proof -
    from ops[OF that] obtain t where t: "map_of fs n = Some t" "deep t c" by blast
    with field[OF map_of_SomeD[OF t(1)]] show ?thesis by (auto simp: T_def V_def)
  qed
  from copy_fields_deep[OF dist(2) this, where outs = gs] obtain outs ds where
    outs: "copy_fields ops gs gs h = (Ret outs, h @ ds)"
      "\<forall>n. n \<notin> fst ` set ops \<longrightarrow> map_of outs n = map_of gs n"
      "\<forall>n\<in>fst ` set ops. \<exists>g. map_of outs n = Some g \<and>
         (\<forall>old. length old = length h \<longrightarrow> den (T n) (old @ ds) g = Some (V n))"
    by blast
  have "den (TStruct fs) (old @ ds) (GStruct outs) = Some v" if old: "length old = length h" for old
  proof -
    have "those (map (F (old @ ds) outs) fs) = Some vs"
      using gs(3)
    proof (rule those_map_mono)
      fix x y assume x: "x \<in> set fs" "F h gs x = Some y"
      obtain n t where nt: "x = (n, t)" by fastforce
      obtain k w where w: "map_of gs n = Some k" "den t h k = Some w" "y = (n, w)"
        using x(2) nt by (auto simp: F_def split: option.splits)
      have t: "map_of fs n = Some t" using x(1) nt dist(1) by simp
      show "F (old @ ds) outs x = Some y"
      proof (cases "n \<in> fst ` set ops")
        case True
        with outs(3) old t w show ?thesis by (auto simp: F_def nt T_def V_def)
      next
        case False
        with rest x(1) nt have "flat t" by blast
        with False outs(2) w show ?thesis
          by (auto simp: F_def nt den_flat[of t "old @ ds" _ h])
      qed
    qed
    then show ?thesis by (simp add: gs(2) F_def)
  qed
  moreover have "copy_struct ops g h = (Ret (GStruct outs), h @ ds)"
    using outs(1) gs(1) by (simp add: copy_struct_def go_simps)
  ultimately show "\<exists>g' ds. copy_struct ops g h = (Ret g', h @ ds) \<and>
      (\<forall>old. length old = length h \<longrightarrow> den (TStruct fs) (old @ ds) g' = Some v)"
    by blast
qed

lemma deep_struct_list:
  assumes "distinct (map fst fs)" and "distinct (map fst ops)"
    and "list_all (\<lambda>(n, c). case map_of fs n of None \<Rightarrow> False | Some t \<Rightarrow> deep t c) ops"
    and "list_all (\<lambda>(n, t). n \<in> fst ` set ops \<or> flat t) fs"
  shows "deep (TStruct fs) (copy_struct ops)"
  using assms by (intro deep_struct) (fastforce simp: list_all_iff split: option.splits)+

text \<open>
  Copying through a pointer: the new pointer is another one, both objects denote the same value, and
  each still does after the cells of the other have been overwritten.
\<close>

lemma new_copy_independent:
  assumes "deep t c" and "den (TPtr t) h (GRef (Some a)) = Some v"
  shows "\<exists>b ds. new_copy c (Some a) h = (Ret (Some b), h @ ds) \<and> length h \<le> b \<and>
    (\<forall>old. length old = length h \<longrightarrow> den (TPtr t) (old @ ds) (GRef (Some b)) = Some v) \<and>
    (\<forall>new. den (TPtr t) (h @ new) (GRef (Some a)) = Some v)"
proof -
  obtain x w where a: "a < length h" "h ! a = CellVal x" "den t h x = Some w" "v = LPtr w"
    using assms(2) by (auto split: if_splits cell.splits)
  obtain x' ds where x': "c x h = (Ret x', h @ ds)" "\<forall>old. length old = length h \<longrightarrow> den t (old @ ds) x' = Some w"
    by (rule copiesE[OF assms(1) a(3)])
  have "den (TPtr t) (old @ ds @ [CellVal x']) (GRef (Some (length h + length ds))) = Some v"
    if "length old = length h" for old
    using gvals.D_later[OF x'(2) that, of "[CellVal x']"] that a(4) by (simp add: nth_append)
  moreover have "new_copy c (Some a) h = (Ret (Some (length h + length ds)), h @ ds @ [CellVal x'])"
    using a x'(1) by (simp add: new_copy_def go_simps)
  ultimately show ?thesis
    using den_append[OF assms(2)] by (metis le_add1)
qed

end
