(* ===== verification/Deepcopy.thy ===== *)
theory Deepcopy
  imports Go_Memory
begin

text \<open>
  \<open>zz_generated.deepcopy.go\<close> over the memory of \<open>Go_Memory\<close>, where the objects are not values but
  structs with pointers. For each type of \<open>api/v1beta1\<close>: its fields (\<open>T_type\<close>), \<open>DeepCopyInto\<close> as the
  list of the fields it copies after \<open>*out = *in\<close>, \<open>DeepCopy\<close>, and for the kinds \<open>DeepCopyObject\<close>. The
  copying functions of \<open>metav1\<close> and \<open>clusterv1\<close> types are parameters, with the types they copy.
\<close>

section \<open>Library types\<close>

record deepcopy_lib =
  dl_ObjectMeta_type :: ty
  dl_ObjectMeta :: "gval \<Rightarrow> (heap, gval) go"
  dl_ListMeta_type :: ty
  dl_ListMeta :: "gval \<Rightarrow> (heap, gval) go"
  dl_Condition_type :: ty
  dl_Condition :: "gval \<Rightarrow> (heap, gval) go"
  dl_FailureDomainSpec_type :: ty
  dl_FailureDomainSpec :: "gval \<Rightarrow> (heap, gval) go"

text \<open>Their documented contract: each is a deep copy.\<close>

definition deepcopy_documented :: "deepcopy_lib \<Rightarrow> bool" where
  "deepcopy_documented L \<longleftrightarrow>
     deep (dl_ObjectMeta_type L) (dl_ObjectMeta L) \<and> deep (dl_ListMeta_type L) (dl_ListMeta L) \<and>
     deep (dl_Condition_type L) (dl_Condition L) \<and>
     deep (dl_FailureDomainSpec_type L) (dl_FailureDomainSpec L)"

definition TypeMeta_type :: ty where
  "TypeMeta_type = TStruct [(''Kind'', TStr), (''APIVersion'', TStr)]"

definition ObjectReference_type :: ty where
  "ObjectReference_type = TStruct
     [(''Kind'', TStr), (''Namespace'', TStr), (''Name'', TStr), (''UID'', TStr),
      (''APIVersion'', TStr), (''ResourceVersion'', TStr), (''FieldPath'', TStr)]"

definition APIEndpoint_type :: ty where
  "APIEndpoint_type = TStruct [(''Host'', TStr), (''Port'', TNum)]"

text \<open>
  A \<open>runtime.Object\<close>: nil, or the dynamic type and the pointer. \<open>as_object\<close> is the end of every
  \<open>DeepCopyObject\<close>: \<open>if c := in.DeepCopy(); c != nil { return c }; return nil\<close>.
\<close>

type_synonym runtime_Object = "(string \<times> nat) option"

definition as_object :: "string \<Rightarrow> nat option \<Rightarrow> (heap, runtime_Object) go" where
  "as_object kind c = (case c of Some p \<Rightarrow> ret (Some (kind, p)) | None \<Rightarrow> ret None)"

section \<open>The control plane\<close>

definition VPC_type :: ty where
  "VPC_type = TStruct [(''ID'', TStr)]"

definition VPC_DeepCopyInto :: "gval \<Rightarrow> (heap, gval) go" where
  "VPC_DeepCopyInto = copy_struct []"

definition VPC_DeepCopy :: "nat option \<Rightarrow> (heap, nat option) go" where
  "VPC_DeepCopy = new_copy VPC_DeepCopyInto"

definition Subnet_type :: ty where
  "Subnet_type = TStruct [(''ID'', TStr)]"

definition Subnet_DeepCopyInto :: "gval \<Rightarrow> (heap, gval) go" where
  "Subnet_DeepCopyInto = copy_struct []"

definition Subnet_DeepCopy :: "nat option \<Rightarrow> (heap, nat option) go" where
  "Subnet_DeepCopy = new_copy Subnet_DeepCopyInto"

definition EIP_type :: ty where
  "EIP_type = TStruct [(''ID'', TStr)]"

definition EIP_DeepCopyInto :: "gval \<Rightarrow> (heap, gval) go" where
  "EIP_DeepCopyInto = copy_struct []"

definition EIP_DeepCopy :: "nat option \<Rightarrow> (heap, nat option) go" where
  "EIP_DeepCopy = new_copy EIP_DeepCopyInto"

definition NetworkSpec_type :: ty where
  "NetworkSpec_type = TStruct
     [(''Mode'', TPtr TStr), (''VPC'', VPC_type), (''Subnet'', Subnet_type)]"

definition NetworkSpec_DeepCopyInto :: "gval \<Rightarrow> (heap, gval) go" where
  "NetworkSpec_DeepCopyInto = copy_struct [(''Mode'', copy_ptr ret), (''VPC'', ret), (''Subnet'', ret)]"

definition NetworkSpec_DeepCopy :: "nat option \<Rightarrow> (heap, nat option) go" where
  "NetworkSpec_DeepCopy = new_copy NetworkSpec_DeepCopyInto"

definition NetworkStatus_type :: ty where
  "NetworkStatus_type = TStruct [(''EIP'', EIP_type)]"

definition NetworkStatus_DeepCopyInto :: "gval \<Rightarrow> (heap, gval) go" where
  "NetworkStatus_DeepCopyInto = copy_struct [(''EIP'', ret)]"

definition NetworkStatus_DeepCopy :: "nat option \<Rightarrow> (heap, nat option) go" where
  "NetworkStatus_DeepCopy = new_copy NetworkStatus_DeepCopyInto"

definition EndpointAccess_type :: ty where
  "EndpointAccess_type = TStruct [(''Public'', TPtr TBool)]"

definition EndpointAccess_DeepCopyInto :: "gval \<Rightarrow> (heap, gval) go" where
  "EndpointAccess_DeepCopyInto = copy_struct [(''Public'', copy_ptr ret)]"

definition EndpointAccess_DeepCopy :: "nat option \<Rightarrow> (heap, nat option) go" where
  "EndpointAccess_DeepCopy = new_copy EndpointAccess_DeepCopyInto"

definition CCEManagedControlPlaneSpec_type :: ty where
  "CCEManagedControlPlaneSpec_type = TStruct
     [(''IdentityRef'', TPtr ObjectReference_type), (''Project'', TPtr TStr),
      (''Region'', TStr), (''Version'', TPtr TStr), (''Flavor'', TPtr TStr),
      (''NetworkSpec'', NetworkSpec_type), (''EndpointAccess'', TPtr EndpointAccess_type),
      (''ControlPlaneEndpoint'', APIEndpoint_type)]"

definition CCEManagedControlPlaneSpec_DeepCopyInto :: "gval \<Rightarrow> (heap, gval) go" where
  "CCEManagedControlPlaneSpec_DeepCopyInto = copy_struct
     [(''IdentityRef'', copy_ptr ret), (''Project'', copy_ptr ret),
      (''Version'', copy_ptr ret), (''Flavor'', copy_ptr ret),
      (''NetworkSpec'', NetworkSpec_DeepCopyInto),
      (''EndpointAccess'', copy_ptr EndpointAccess_DeepCopyInto),
      (''ControlPlaneEndpoint'', ret)]"

definition CCEManagedControlPlaneSpec_DeepCopy :: "nat option \<Rightarrow> (heap, nat option) go" where
  "CCEManagedControlPlaneSpec_DeepCopy = new_copy CCEManagedControlPlaneSpec_DeepCopyInto"

definition CCEManagedControlPlaneStatus_type :: "deepcopy_lib \<Rightarrow> ty" where
  "CCEManagedControlPlaneStatus_type L = TStruct
     [(''Network'', NetworkStatus_type), (''ExternalManagedControlPlane'', TPtr TBool),
      (''Initialized'', TBool), (''Ready'', TBool), (''FailureMessage'', TPtr TStr),
      (''Conditions'', TSlice (dl_Condition_type L))]"

definition CCEManagedControlPlaneStatus_DeepCopyInto :: "deepcopy_lib \<Rightarrow> gval \<Rightarrow> (heap, gval) go" where
  "CCEManagedControlPlaneStatus_DeepCopyInto L = copy_struct
     [(''Network'', ret), (''ExternalManagedControlPlane'', copy_ptr ret),
      (''FailureMessage'', copy_ptr ret), (''Conditions'', copy_slice (dl_Condition L))]"

definition CCEManagedControlPlaneStatus_DeepCopy :: "deepcopy_lib \<Rightarrow> nat option \<Rightarrow> (heap, nat option) go" where
  "CCEManagedControlPlaneStatus_DeepCopy L = new_copy (CCEManagedControlPlaneStatus_DeepCopyInto L)"

definition CCEManagedControlPlane_type :: "deepcopy_lib \<Rightarrow> ty" where
  "CCEManagedControlPlane_type L = TStruct
     [(''TypeMeta'', TypeMeta_type), (''ObjectMeta'', dl_ObjectMeta_type L),
      (''Spec'', CCEManagedControlPlaneSpec_type),
      (''Status'', CCEManagedControlPlaneStatus_type L)]"

definition CCEManagedControlPlane_DeepCopyInto :: "deepcopy_lib \<Rightarrow> gval \<Rightarrow> (heap, gval) go" where
  "CCEManagedControlPlane_DeepCopyInto L = copy_struct
     [(''TypeMeta'', ret), (''ObjectMeta'', dl_ObjectMeta L),
      (''Spec'', CCEManagedControlPlaneSpec_DeepCopyInto),
      (''Status'', CCEManagedControlPlaneStatus_DeepCopyInto L)]"

definition CCEManagedControlPlane_DeepCopy :: "deepcopy_lib \<Rightarrow> nat option \<Rightarrow> (heap, nat option) go" where
  "CCEManagedControlPlane_DeepCopy L = new_copy (CCEManagedControlPlane_DeepCopyInto L)"

definition CCEManagedControlPlane_DeepCopyObject :: "deepcopy_lib \<Rightarrow> nat option \<Rightarrow> (heap, runtime_Object) go" where
  "CCEManagedControlPlane_DeepCopyObject L inp =
     andThen (CCEManagedControlPlane_DeepCopy L inp) (as_object ''CCEManagedControlPlane'')"

definition CCEManagedControlPlaneList_type :: "deepcopy_lib \<Rightarrow> ty" where
  "CCEManagedControlPlaneList_type L = TStruct
     [(''TypeMeta'', TypeMeta_type), (''ListMeta'', dl_ListMeta_type L),
      (''Items'', TSlice (CCEManagedControlPlane_type L))]"

definition CCEManagedControlPlaneList_DeepCopyInto :: "deepcopy_lib \<Rightarrow> gval \<Rightarrow> (heap, gval) go" where
  "CCEManagedControlPlaneList_DeepCopyInto L = copy_struct
     [(''TypeMeta'', ret), (''ListMeta'', dl_ListMeta L),
      (''Items'', copy_slice (CCEManagedControlPlane_DeepCopyInto L))]"

definition CCEManagedControlPlaneList_DeepCopy :: "deepcopy_lib \<Rightarrow> nat option \<Rightarrow> (heap, nat option) go" where
  "CCEManagedControlPlaneList_DeepCopy L = new_copy (CCEManagedControlPlaneList_DeepCopyInto L)"

definition CCEManagedControlPlaneList_DeepCopyObject :: "deepcopy_lib \<Rightarrow> nat option \<Rightarrow> (heap, runtime_Object) go" where
  "CCEManagedControlPlaneList_DeepCopyObject L inp =
     andThen (CCEManagedControlPlaneList_DeepCopy L inp) (as_object ''CCEManagedControlPlaneList'')"

section \<open>The machine pool\<close>

definition Taint_type :: ty where
  "Taint_type = TStruct [(''Key'', TStr), (''Value'', TPtr TStr), (''Effect'', TStr)]"

definition Taint_DeepCopyInto :: "gval \<Rightarrow> (heap, gval) go" where
  "Taint_DeepCopyInto = copy_struct [(''Value'', copy_ptr ret)]"

definition Taint_DeepCopy :: "nat option \<Rightarrow> (heap, nat option) go" where
  "Taint_DeepCopy = new_copy Taint_DeepCopyInto"

definition Volume_type :: ty where
  "Volume_type = TStruct [(''Size'', TNum), (''Volumetype'', TStr)]"

definition Volume_DeepCopyInto :: "gval \<Rightarrow> (heap, gval) go" where
  "Volume_DeepCopyInto = copy_struct []"

definition Volume_DeepCopy :: "nat option \<Rightarrow> (heap, nat option) go" where
  "Volume_DeepCopy = new_copy Volume_DeepCopyInto"

definition CCEManagedMachinePoolSpec_type :: ty where
  "CCEManagedMachinePoolSpec_type = TStruct
     [(''Replicas'', TPtr TNum), (''Flavor'', TPtr TStr), (''Runtime'', TPtr TStr),
      (''SSHKeyName'', TPtr TStr), (''RootVolume'', TPtr Volume_type),
      (''DataVolumes'', TSlice Volume_type), (''Labels'', TMap TStr),
      (''Taints'', TPtr (TSlice Taint_type)), (''Subnet'', TPtr Subnet_type),
      (''ProviderIDList'', TSlice TStr)]"

definition CCEManagedMachinePoolSpec_DeepCopyInto :: "gval \<Rightarrow> (heap, gval) go" where
  "CCEManagedMachinePoolSpec_DeepCopyInto = copy_struct
     [(''Replicas'', copy_ptr ret), (''Flavor'', copy_ptr ret),
      (''Runtime'', copy_ptr ret), (''SSHKeyName'', copy_ptr ret),
      (''RootVolume'', copy_ptr ret), (''DataVolumes'', copy_slice ret),
      (''Labels'', copy_map ret), (''Taints'', copy_ptr (copy_slice Taint_DeepCopyInto)),
      (''Subnet'', copy_ptr ret), (''ProviderIDList'', copy_slice ret)]"

definition CCEManagedMachinePoolSpec_DeepCopy :: "nat option \<Rightarrow> (heap, nat option) go" where
  "CCEManagedMachinePoolSpec_DeepCopy = new_copy CCEManagedMachinePoolSpec_DeepCopyInto"

definition CCEManagedMachinePoolStatus_type :: "deepcopy_lib \<Rightarrow> ty" where
  "CCEManagedMachinePoolStatus_type L = TStruct
     [(''Ready'', TBool), (''Replicas'', TNum), (''FailureReason'', TPtr TStr),
      (''FailureMessage'', TPtr TStr), (''Conditions'', TSlice (dl_Condition_type L))]"

definition CCEManagedMachinePoolStatus_DeepCopyInto :: "deepcopy_lib \<Rightarrow> gval \<Rightarrow> (heap, gval) go" where
  "CCEManagedMachinePoolStatus_DeepCopyInto L = copy_struct
     [(''FailureReason'', copy_ptr ret), (''FailureMessage'', copy_ptr ret),
      (''Conditions'', copy_slice (dl_Condition L))]"

definition CCEManagedMachinePoolStatus_DeepCopy :: "deepcopy_lib \<Rightarrow> nat option \<Rightarrow> (heap, nat option) go" where
  "CCEManagedMachinePoolStatus_DeepCopy L = new_copy (CCEManagedMachinePoolStatus_DeepCopyInto L)"

definition CCEManagedMachinePool_type :: "deepcopy_lib \<Rightarrow> ty" where
  "CCEManagedMachinePool_type L = TStruct
     [(''TypeMeta'', TypeMeta_type), (''ObjectMeta'', dl_ObjectMeta_type L),
      (''Spec'', CCEManagedMachinePoolSpec_type),
      (''Status'', CCEManagedMachinePoolStatus_type L)]"

definition CCEManagedMachinePool_DeepCopyInto :: "deepcopy_lib \<Rightarrow> gval \<Rightarrow> (heap, gval) go" where
  "CCEManagedMachinePool_DeepCopyInto L = copy_struct
     [(''TypeMeta'', ret), (''ObjectMeta'', dl_ObjectMeta L),
      (''Spec'', CCEManagedMachinePoolSpec_DeepCopyInto),
      (''Status'', CCEManagedMachinePoolStatus_DeepCopyInto L)]"

definition CCEManagedMachinePool_DeepCopy :: "deepcopy_lib \<Rightarrow> nat option \<Rightarrow> (heap, nat option) go" where
  "CCEManagedMachinePool_DeepCopy L = new_copy (CCEManagedMachinePool_DeepCopyInto L)"

definition CCEManagedMachinePool_DeepCopyObject :: "deepcopy_lib \<Rightarrow> nat option \<Rightarrow> (heap, runtime_Object) go" where
  "CCEManagedMachinePool_DeepCopyObject L inp =
     andThen (CCEManagedMachinePool_DeepCopy L inp) (as_object ''CCEManagedMachinePool'')"

definition CCEManagedMachinePoolList_type :: "deepcopy_lib \<Rightarrow> ty" where
  "CCEManagedMachinePoolList_type L = TStruct
     [(''TypeMeta'', TypeMeta_type), (''ListMeta'', dl_ListMeta_type L),
      (''Items'', TSlice (CCEManagedMachinePool_type L))]"

definition CCEManagedMachinePoolList_DeepCopyInto :: "deepcopy_lib \<Rightarrow> gval \<Rightarrow> (heap, gval) go" where
  "CCEManagedMachinePoolList_DeepCopyInto L = copy_struct
     [(''TypeMeta'', ret), (''ListMeta'', dl_ListMeta L),
      (''Items'', copy_slice (CCEManagedMachinePool_DeepCopyInto L))]"

definition CCEManagedMachinePoolList_DeepCopy :: "deepcopy_lib \<Rightarrow> nat option \<Rightarrow> (heap, nat option) go" where
  "CCEManagedMachinePoolList_DeepCopy L = new_copy (CCEManagedMachinePoolList_DeepCopyInto L)"

definition CCEManagedMachinePoolList_DeepCopyObject :: "deepcopy_lib \<Rightarrow> nat option \<Rightarrow> (heap, runtime_Object) go" where
  "CCEManagedMachinePoolList_DeepCopyObject L inp =
     andThen (CCEManagedMachinePoolList_DeepCopy L inp) (as_object ''CCEManagedMachinePoolList'')"

section \<open>The managed cluster\<close>

definition CCEManagedClusterSpec_type :: ty where
  "CCEManagedClusterSpec_type = TStruct [(''ControlPlaneEndpoint'', APIEndpoint_type)]"

definition CCEManagedClusterSpec_DeepCopyInto :: "gval \<Rightarrow> (heap, gval) go" where
  "CCEManagedClusterSpec_DeepCopyInto = copy_struct [(''ControlPlaneEndpoint'', ret)]"

definition CCEManagedClusterSpec_DeepCopy :: "nat option \<Rightarrow> (heap, nat option) go" where
  "CCEManagedClusterSpec_DeepCopy = new_copy CCEManagedClusterSpec_DeepCopyInto"

definition CCEManagedClusterStatus_type :: "deepcopy_lib \<Rightarrow> ty" where
  "CCEManagedClusterStatus_type L = TStruct
     [(''Ready'', TBool), (''FailureDomains'', TMap (dl_FailureDomainSpec_type L))]"

definition CCEManagedClusterStatus_DeepCopyInto :: "deepcopy_lib \<Rightarrow> gval \<Rightarrow> (heap, gval) go" where
  "CCEManagedClusterStatus_DeepCopyInto L = copy_struct [(''FailureDomains'', copy_map (dl_FailureDomainSpec L))]"

definition CCEManagedClusterStatus_DeepCopy :: "deepcopy_lib \<Rightarrow> nat option \<Rightarrow> (heap, nat option) go" where
  "CCEManagedClusterStatus_DeepCopy L = new_copy (CCEManagedClusterStatus_DeepCopyInto L)"

definition CCEManagedCluster_type :: "deepcopy_lib \<Rightarrow> ty" where
  "CCEManagedCluster_type L = TStruct
     [(''TypeMeta'', TypeMeta_type), (''ObjectMeta'', dl_ObjectMeta_type L),
      (''Spec'', CCEManagedClusterSpec_type), (''Status'', CCEManagedClusterStatus_type L)]"

definition CCEManagedCluster_DeepCopyInto :: "deepcopy_lib \<Rightarrow> gval \<Rightarrow> (heap, gval) go" where
  "CCEManagedCluster_DeepCopyInto L = copy_struct
     [(''TypeMeta'', ret), (''ObjectMeta'', dl_ObjectMeta L), (''Spec'', ret),
      (''Status'', CCEManagedClusterStatus_DeepCopyInto L)]"

definition CCEManagedCluster_DeepCopy :: "deepcopy_lib \<Rightarrow> nat option \<Rightarrow> (heap, nat option) go" where
  "CCEManagedCluster_DeepCopy L = new_copy (CCEManagedCluster_DeepCopyInto L)"

definition CCEManagedCluster_DeepCopyObject :: "deepcopy_lib \<Rightarrow> nat option \<Rightarrow> (heap, runtime_Object) go" where
  "CCEManagedCluster_DeepCopyObject L inp =
     andThen (CCEManagedCluster_DeepCopy L inp) (as_object ''CCEManagedCluster'')"

definition CCEManagedClusterList_type :: "deepcopy_lib \<Rightarrow> ty" where
  "CCEManagedClusterList_type L = TStruct
     [(''TypeMeta'', TypeMeta_type), (''ListMeta'', dl_ListMeta_type L),
      (''Items'', TSlice (CCEManagedCluster_type L))]"

definition CCEManagedClusterList_DeepCopyInto :: "deepcopy_lib \<Rightarrow> gval \<Rightarrow> (heap, gval) go" where
  "CCEManagedClusterList_DeepCopyInto L = copy_struct
     [(''TypeMeta'', ret), (''ListMeta'', dl_ListMeta L),
      (''Items'', copy_slice (CCEManagedCluster_DeepCopyInto L))]"

definition CCEManagedClusterList_DeepCopy :: "deepcopy_lib \<Rightarrow> nat option \<Rightarrow> (heap, nat option) go" where
  "CCEManagedClusterList_DeepCopy L = new_copy (CCEManagedClusterList_DeepCopyInto L)"

definition CCEManagedClusterList_DeepCopyObject :: "deepcopy_lib \<Rightarrow> nat option \<Rightarrow> (heap, runtime_Object) go" where
  "CCEManagedClusterList_DeepCopyObject L inp =
     andThen (CCEManagedClusterList_DeepCopy L inp) (as_object ''CCEManagedClusterList'')"

end
