(* ===== verification/Deepcopy_Props.thy ===== *)
theory Deepcopy_Props
  imports Deepcopy "HOL-Library.Code_Target_Numeral"
begin

text \<open>
  What the generated copying functions promise: a copy denotes the same object as the original, and
  shares no memory with it.
\<close>

section \<open>Each type\<close>

lemma flat_types [simp]:
  "flat TypeMeta_type" "flat ObjectReference_type" "flat APIEndpoint_type" "flat VPC_type" "flat Subnet_type"
  "flat EIP_type" "flat NetworkStatus_type" "flat Volume_type" "flat CCEManagedClusterSpec_type"
  by (simp_all add: TypeMeta_type_def ObjectReference_type_def APIEndpoint_type_def VPC_type_def Subnet_type_def
      EIP_type_def NetworkStatus_type_def Volume_type_def CCEManagedClusterSpec_type_def)

named_theorems deep_rules "the deep copies proved so far"

lemmas [deep_rules] = deep_flat deep_ptr deep_slice deep_map

lemma deep_VPC [deep_rules]: "deep VPC_type VPC_DeepCopyInto"
  unfolding VPC_type_def VPC_DeepCopyInto_def
  by (rule deep_struct_list; simp; intro conjI deep_rules; simp add: deepcopy_documented_def)

lemma deep_Subnet [deep_rules]: "deep Subnet_type Subnet_DeepCopyInto"
  unfolding Subnet_type_def Subnet_DeepCopyInto_def
  by (rule deep_struct_list; simp; intro conjI deep_rules; simp add: deepcopy_documented_def)

lemma deep_EIP [deep_rules]: "deep EIP_type EIP_DeepCopyInto"
  unfolding EIP_type_def EIP_DeepCopyInto_def
  by (rule deep_struct_list; simp; intro conjI deep_rules; simp add: deepcopy_documented_def)

lemma deep_NetworkSpec [deep_rules]: "deep NetworkSpec_type NetworkSpec_DeepCopyInto"
  unfolding NetworkSpec_type_def NetworkSpec_DeepCopyInto_def
  by (rule deep_struct_list; simp; intro conjI deep_rules; simp add: deepcopy_documented_def)

lemma deep_NetworkStatus [deep_rules]: "deep NetworkStatus_type NetworkStatus_DeepCopyInto"
  unfolding NetworkStatus_type_def NetworkStatus_DeepCopyInto_def
  by (rule deep_struct_list; simp; intro conjI deep_rules; simp add: deepcopy_documented_def)

lemma deep_EndpointAccess [deep_rules]: "deep EndpointAccess_type EndpointAccess_DeepCopyInto"
  unfolding EndpointAccess_type_def EndpointAccess_DeepCopyInto_def
  by (rule deep_struct_list; simp; intro conjI deep_rules; simp add: deepcopy_documented_def)

lemma deep_CCEManagedControlPlaneSpec [deep_rules]:
  "deep CCEManagedControlPlaneSpec_type CCEManagedControlPlaneSpec_DeepCopyInto"
  unfolding CCEManagedControlPlaneSpec_type_def CCEManagedControlPlaneSpec_DeepCopyInto_def
  by (rule deep_struct_list; simp; intro conjI deep_rules; simp add: deepcopy_documented_def)

lemma deep_CCEManagedControlPlaneStatus [deep_rules]:
  "deepcopy_documented L \<Longrightarrow> deep (CCEManagedControlPlaneStatus_type L) (CCEManagedControlPlaneStatus_DeepCopyInto L)"
  unfolding CCEManagedControlPlaneStatus_type_def CCEManagedControlPlaneStatus_DeepCopyInto_def
  by (rule deep_struct_list; simp; intro conjI deep_rules; simp add: deepcopy_documented_def)

lemma deep_CCEManagedControlPlane [deep_rules]:
  "deepcopy_documented L \<Longrightarrow> deep (CCEManagedControlPlane_type L) (CCEManagedControlPlane_DeepCopyInto L)"
  unfolding CCEManagedControlPlane_type_def CCEManagedControlPlane_DeepCopyInto_def
  by (rule deep_struct_list; simp; intro conjI deep_rules; simp add: deepcopy_documented_def)

lemma deep_CCEManagedControlPlaneList [deep_rules]:
  "deepcopy_documented L \<Longrightarrow> deep (CCEManagedControlPlaneList_type L) (CCEManagedControlPlaneList_DeepCopyInto L)"
  unfolding CCEManagedControlPlaneList_type_def CCEManagedControlPlaneList_DeepCopyInto_def
  by (rule deep_struct_list; simp; intro conjI deep_rules; simp add: deepcopy_documented_def)

lemma deep_Taint [deep_rules]: "deep Taint_type Taint_DeepCopyInto"
  unfolding Taint_type_def Taint_DeepCopyInto_def
  by (rule deep_struct_list; simp; intro conjI deep_rules; simp add: deepcopy_documented_def)

lemma deep_Volume [deep_rules]: "deep Volume_type Volume_DeepCopyInto"
  unfolding Volume_type_def Volume_DeepCopyInto_def
  by (rule deep_struct_list; simp; intro conjI deep_rules; simp add: deepcopy_documented_def)

lemma deep_CCEManagedMachinePoolSpec [deep_rules]:
  "deep CCEManagedMachinePoolSpec_type CCEManagedMachinePoolSpec_DeepCopyInto"
  unfolding CCEManagedMachinePoolSpec_type_def CCEManagedMachinePoolSpec_DeepCopyInto_def
  by (rule deep_struct_list; simp; intro conjI deep_rules; simp add: deepcopy_documented_def)

lemma deep_CCEManagedMachinePoolStatus [deep_rules]:
  "deepcopy_documented L \<Longrightarrow> deep (CCEManagedMachinePoolStatus_type L) (CCEManagedMachinePoolStatus_DeepCopyInto L)"
  unfolding CCEManagedMachinePoolStatus_type_def CCEManagedMachinePoolStatus_DeepCopyInto_def
  by (rule deep_struct_list; simp; intro conjI deep_rules; simp add: deepcopy_documented_def)

lemma deep_CCEManagedMachinePool [deep_rules]:
  "deepcopy_documented L \<Longrightarrow> deep (CCEManagedMachinePool_type L) (CCEManagedMachinePool_DeepCopyInto L)"
  unfolding CCEManagedMachinePool_type_def CCEManagedMachinePool_DeepCopyInto_def
  by (rule deep_struct_list; simp; intro conjI deep_rules; simp add: deepcopy_documented_def)

lemma deep_CCEManagedMachinePoolList [deep_rules]:
  "deepcopy_documented L \<Longrightarrow> deep (CCEManagedMachinePoolList_type L) (CCEManagedMachinePoolList_DeepCopyInto L)"
  unfolding CCEManagedMachinePoolList_type_def CCEManagedMachinePoolList_DeepCopyInto_def
  by (rule deep_struct_list; simp; intro conjI deep_rules; simp add: deepcopy_documented_def)

lemma deep_CCEManagedClusterSpec [deep_rules]:
  "deep CCEManagedClusterSpec_type CCEManagedClusterSpec_DeepCopyInto"
  unfolding CCEManagedClusterSpec_type_def CCEManagedClusterSpec_DeepCopyInto_def
  by (rule deep_struct_list; simp; intro conjI deep_rules; simp add: deepcopy_documented_def)

lemma deep_CCEManagedClusterStatus [deep_rules]:
  "deepcopy_documented L \<Longrightarrow> deep (CCEManagedClusterStatus_type L) (CCEManagedClusterStatus_DeepCopyInto L)"
  unfolding CCEManagedClusterStatus_type_def CCEManagedClusterStatus_DeepCopyInto_def
  by (rule deep_struct_list; simp; intro conjI deep_rules; simp add: deepcopy_documented_def)

lemma deep_CCEManagedCluster [deep_rules]:
  "deepcopy_documented L \<Longrightarrow> deep (CCEManagedCluster_type L) (CCEManagedCluster_DeepCopyInto L)"
  unfolding CCEManagedCluster_type_def CCEManagedCluster_DeepCopyInto_def
  by (rule deep_struct_list; simp; intro conjI deep_rules; simp add: deepcopy_documented_def)

lemma deep_CCEManagedClusterList [deep_rules]:
  "deepcopy_documented L \<Longrightarrow> deep (CCEManagedClusterList_type L) (CCEManagedClusterList_DeepCopyInto L)"
  unfolding CCEManagedClusterList_type_def CCEManagedClusterList_DeepCopyInto_def
  by (rule deep_struct_list; simp; intro conjI deep_rules; simp add: deepcopy_documented_def)

section \<open>Copies are equal and independent\<close>

text \<open>Every \<open>DeepCopy\<close> of the file, with the type it copies.\<close>

definition deep_copies :: "deepcopy_lib \<Rightarrow> (ty \<times> (nat option \<Rightarrow> (heap, nat option) go)) list" where
  "deep_copies L =
     [(VPC_type, VPC_DeepCopy),
      (Subnet_type, Subnet_DeepCopy),
      (EIP_type, EIP_DeepCopy),
      (NetworkSpec_type, NetworkSpec_DeepCopy),
      (NetworkStatus_type, NetworkStatus_DeepCopy),
      (EndpointAccess_type, EndpointAccess_DeepCopy),
      (CCEManagedControlPlaneSpec_type, CCEManagedControlPlaneSpec_DeepCopy),
      (CCEManagedControlPlaneStatus_type L, CCEManagedControlPlaneStatus_DeepCopy L),
      (CCEManagedControlPlane_type L, CCEManagedControlPlane_DeepCopy L),
      (CCEManagedControlPlaneList_type L, CCEManagedControlPlaneList_DeepCopy L),
      (Taint_type, Taint_DeepCopy),
      (Volume_type, Volume_DeepCopy),
      (CCEManagedMachinePoolSpec_type, CCEManagedMachinePoolSpec_DeepCopy),
      (CCEManagedMachinePoolStatus_type L, CCEManagedMachinePoolStatus_DeepCopy L),
      (CCEManagedMachinePool_type L, CCEManagedMachinePool_DeepCopy L),
      (CCEManagedMachinePoolList_type L, CCEManagedMachinePoolList_DeepCopy L),
      (CCEManagedClusterSpec_type, CCEManagedClusterSpec_DeepCopy),
      (CCEManagedClusterStatus_type L, CCEManagedClusterStatus_DeepCopy L),
      (CCEManagedCluster_type L, CCEManagedCluster_DeepCopy L),
      (CCEManagedClusterList_type L, CCEManagedClusterList_DeepCopy L)]"

lemma deep_copies_deep:
  assumes "deepcopy_documented L" and "(t, copy) \<in> set (deep_copies L)"
  shows "\<exists>c. copy = new_copy c \<and> deep t c"
  using assms(2) unfolding deep_copies_def VPC_DeepCopy_def Subnet_DeepCopy_def EIP_DeepCopy_def
    NetworkSpec_DeepCopy_def NetworkStatus_DeepCopy_def EndpointAccess_DeepCopy_def
    CCEManagedControlPlaneSpec_DeepCopy_def CCEManagedControlPlaneStatus_DeepCopy_def CCEManagedControlPlane_DeepCopy_def
    CCEManagedControlPlaneList_DeepCopy_def Taint_DeepCopy_def Volume_DeepCopy_def
    CCEManagedMachinePoolSpec_DeepCopy_def CCEManagedMachinePoolStatus_DeepCopy_def CCEManagedMachinePool_DeepCopy_def
    CCEManagedMachinePoolList_DeepCopy_def CCEManagedClusterSpec_DeepCopy_def CCEManagedClusterStatus_DeepCopy_def
    CCEManagedCluster_DeepCopy_def CCEManagedClusterList_DeepCopy_def
  by (auto intro: deep_rules assms(1))

text \<open>
  C37. Each \<open>DeepCopy\<close> returns a nil pointer for nil, and for an object it ends without a panic and
  returns a new pointer. Original and copy denote the same value, and share no memory: the copy
  keeps its value whatever is written to the cells that were there before, the original whatever is
  written to the cells the copy added, and making the copy has written none of the old ones.
\<close>

theorem deep_copy_independent:
  assumes "deepcopy_documented L" and "(t, copy) \<in> set (deep_copies L)"
    and "den (TPtr t) h (GRef (Some a)) = Some v"
  shows "copy None h = (Ret None, h) \<and>
    (\<exists>b ds. copy (Some a) h = (Ret (Some b), h @ ds) \<and> length h \<le> b \<and>
       (\<forall>old. length old = length h \<longrightarrow> den (TPtr t) (old @ ds) (GRef (Some b)) = Some v) \<and>
       (\<forall>new. den (TPtr t) (h @ new) (GRef (Some a)) = Some v))"
proof -
  from deep_copies_deep[OF assms(1,2)] obtain c where c: "copy = new_copy c" "deep t c" by blast
  with new_copy_independent[OF c(2) assms(3)] show ?thesis by (simp add: new_copy_def ret_apply)
qed

text \<open>Library types with one label map, and a control plane that shares one string between two fields.\<close>

definition demo_meta_type :: ty where
  "demo_meta_type = TStruct [(''Name'', TStr), (''Labels'', TMap TStr)]"

definition demo_deepcopy :: deepcopy_lib where
  "demo_deepcopy =
     \<lparr>dl_ObjectMeta_type = demo_meta_type, dl_ObjectMeta = copy_struct [(''Labels'', copy_map ret)],
      dl_ListMeta_type = TStruct [], dl_ListMeta = copy_struct [],
      dl_Condition_type = TStruct [(''Type'', TStr)], dl_Condition = ret,
      dl_FailureDomainSpec_type = TStruct [(''Attributes'', TMap TStr)],
      dl_FailureDomainSpec = copy_struct [(''Attributes'', copy_map ret)]\<rparr>"

lemma demo_deepcopy_documented: "deepcopy_documented demo_deepcopy"
proof -
  have "deep demo_meta_type (copy_struct [(''Labels'', copy_map ret)])"
    unfolding demo_meta_type_def
    by (rule deep_struct_list; simp; intro conjI deep_rules; simp)
  moreover have "deep (TStruct [(''Attributes'', TMap TStr)]) (copy_struct [(''Attributes'', copy_map ret)])"
    by (rule deep_struct_list; simp; intro conjI deep_rules; simp)
  moreover have "deep (TStruct []) (copy_struct [])"
    by (rule deep_struct_list; simp)
  ultimately show ?thesis
    by (simp add: deepcopy_documented_def demo_deepcopy_def deep_flat)
qed

definition demo_heap :: heap where
  "demo_heap =
     [CellVal (GStr ''p''), CellArr [GStruct [(''Type'', GStr ''Ready'')]], CellMap [(''k'', GStr ''v'')],
      CellVal (GStruct
        [(''TypeMeta'', GStruct [(''Kind'', GStr ''K''), (''APIVersion'', GStr ''v1'')]),
         (''ObjectMeta'', GStruct [(''Name'', GStr ''dev''), (''Labels'', GRef (Some 2))]),
         (''Spec'', GStruct
           [(''IdentityRef'', GRef None), (''Project'', GRef (Some 0)), (''Region'', GStr ''r''),
            (''Version'', GRef (Some 0)), (''Flavor'', GRef None),
            (''NetworkSpec'', GStruct [(''Mode'', GRef None), (''VPC'', GStruct [(''ID'', GStr [])]),
                                       (''Subnet'', GStruct [(''ID'', GStr [])])]),
            (''EndpointAccess'', GRef None),
            (''ControlPlaneEndpoint'', GStruct [(''Host'', GStr []), (''Port'', GNum 0)])]),
         (''Status'', GStruct
           [(''Network'', GStruct [(''EIP'', GStruct [(''ID'', GStr [])])]),
            (''ExternalManagedControlPlane'', GRef None), (''Initialized'', GBool False),
            (''Ready'', GBool True), (''FailureMessage'', GRef (Some 0)), (''Conditions'', GRef (Some 1))])])]"

lemma deep_copy_independent_witness:
  "\<exists>b ds v. CCEManagedControlPlane_DeepCopy demo_deepcopy (Some 3) demo_heap = (Ret (Some b), demo_heap @ ds) \<and>
     den (TPtr (CCEManagedControlPlane_type demo_deepcopy)) (replicate 4 (CellVal (GBool True)) @ ds) (GRef (Some b))
       = Some v \<and>
     den (TPtr (CCEManagedControlPlane_type demo_deepcopy)) demo_heap (GRef (Some 3)) = Some v"
proof -
  let ?t = "CCEManagedControlPlane_type demo_deepcopy"
  have "den (TPtr ?t) demo_heap (GRef (Some 3)) \<noteq> None"
    by code_simp
  then obtain v where v: "den (TPtr ?t) demo_heap (GRef (Some 3)) = Some v"
    by blast
  have m: "(?t, CCEManagedControlPlane_DeepCopy demo_deepcopy) \<in> set (deep_copies demo_deepcopy)"
    by (simp add: deep_copies_def)
  have "length (replicate 4 (CellVal (GBool True))) = length demo_heap"
    by (simp add: demo_heap_def)
  with conjunct2[OF deep_copy_independent[OF demo_deepcopy_documented m v]] v show ?thesis
    by blast
qed

section \<open>Objects\<close>

definition deep_objects ::
  "deepcopy_lib \<Rightarrow> (string \<times> (nat option \<Rightarrow> (heap, nat option) go) \<times> (nat option \<Rightarrow> (heap, runtime_Object) go)) list"
where
  "deep_objects L =
     [(''CCEManagedControlPlane'', CCEManagedControlPlane_DeepCopy L, CCEManagedControlPlane_DeepCopyObject L),
      (''CCEManagedControlPlaneList'', CCEManagedControlPlaneList_DeepCopy L, CCEManagedControlPlaneList_DeepCopyObject L),
      (''CCEManagedMachinePool'', CCEManagedMachinePool_DeepCopy L, CCEManagedMachinePool_DeepCopyObject L),
      (''CCEManagedMachinePoolList'', CCEManagedMachinePoolList_DeepCopy L, CCEManagedMachinePoolList_DeepCopyObject L),
      (''CCEManagedCluster'', CCEManagedCluster_DeepCopy L, CCEManagedCluster_DeepCopyObject L),
      (''CCEManagedClusterList'', CCEManagedClusterList_DeepCopy L, CCEManagedClusterList_DeepCopyObject L)]"

text \<open>A nil pointer is copied to a nil interface, not to an interface that holds a nil pointer.\<close>

lemma deep_object_typed:
  assumes "deepcopy_documented L" and "(kind, copy, object) \<in> set (deep_objects L)"
  shows "object None h = (Ret None, h) \<and>
    (\<forall>a b h'. copy (Some a) h = (Ret (Some b), h') \<longrightarrow> object (Some a) h = (Ret (Some (kind, b)), h'))"
proof -
  have "object inp = andThen (copy inp) (as_object kind)" and "copy None h = (Ret None, h)" for inp
    using assms(2) by (auto simp: deep_objects_def CCEManagedControlPlane_DeepCopyObject_def CCEManagedControlPlaneList_DeepCopyObject_def CCEManagedMachinePool_DeepCopyObject_def CCEManagedMachinePoolList_DeepCopyObject_def CCEManagedCluster_DeepCopyObject_def CCEManagedClusterList_DeepCopyObject_def CCEManagedControlPlane_DeepCopy_def CCEManagedControlPlaneList_DeepCopy_def CCEManagedMachinePool_DeepCopy_def CCEManagedMachinePoolList_DeepCopy_def CCEManagedCluster_DeepCopy_def CCEManagedClusterList_DeepCopy_def new_copy_def ret_apply)
  then show ?thesis by (simp add: as_object_def go_simps)
qed

end
