(* ===== verification/Manager.thy ===== *)
theory Manager
  imports Controlplane_Controller Managedcluster_Controller Machinepool_Controller
begin

text \<open>
  \<open>cmd/main.go\<close> and the three \<open>SetupWithManager\<close> methods: how the controllers are registered and the
  process is started. What controller-runtime is asked for is a \<open>setup_call\<close>; how it answers is a
  parameter. The trace of these calls is the observation, as in the reconcilers. Log lines are left out.
\<close>

section \<open>What is asked of controller-runtime\<close>

record controller_Options =
  MaxConcurrentReconciles :: int
  RecoverPanic :: "bool option"

record GroupVersionKind =
  gvk_Group :: string
  gvk_Version :: string
  gvk_Kind :: string

datatype map_func =
    ClusterToInfrastructure GroupVersionKind
  | ManagedControlPlaneToManagedCluster
  | ManagedClusterToManagedControlPlane
  | MachinePoolToInfrastructure
  | ManagedControlPlaneToManagedMachinePool

datatype watch_predicate = ClusterUnpaused | ClusterUnpausedAndInfrastructureReady

record watch =
  wa_Kind :: string
  wa_Map :: map_func
  wa_Predicates :: "watch_predicate list"

record manager_Options =
  mo_MetricsBindAddress :: string
  mo_HealthProbeBindAddress :: string
  mo_LeaderElection :: bool
  mo_LeaderElectionResourceLock :: string
  mo_LeaderElectionID :: string
  mo_LeaderElectionNamespace :: string
  mo_SyncPeriod :: int
  mo_EventBurstSize :: int
  mo_Port :: int
  mo_CertDir :: string

text \<open>
  \<open>CallNewManager agent options\<close> makes the manager that talks to the API server under that user agent;
  \<open>CallBuild kind options filter watches\<close> builds the controller \<open>For\<close> a kind, with the event filter
  \<open>ResourceNotPausedAndHasFilterLabel\<close> for the label value \<open>filter\<close>, and the watches the builder was
  given; \<open>CallWatch kind w\<close> adds a watch to the controller built for \<open>kind\<close>;
  \<open>CallWebhook kind\<close> registers the webhooks of a kind.
\<close>

datatype setup_call =
    CallSeed
  | CallParseFlags
  | CallApplyLogOptions
  | CallSetLogger
  | CallSetupSignalHandler
  | CallGetConfig
  | CallNewManager string manager_Options
  | CallGVKForObject string
  | CallBuild string controller_Options string "watch list"
  | CallWatch string watch
  | CallWebhook string
  | CallAddHealthzCheck
  | CallAddReadyzCheck
  | CallStart

record 'w boot =
  bt_world :: 'w
  bt_calls :: "setup_call list"

type_synonym 'w runtime = "setup_call \<Rightarrow> ('w, unit) go"

definition ask :: "'w runtime \<Rightarrow> setup_call \<Rightarrow> ('w boot, unit) go" where
  "ask A c = (\<lambda>s. case A c (bt_world s) of (r, w) \<Rightarrow> (r, s\<lparr>bt_world := w, bt_calls := bt_calls s @ [c]\<rparr>))"

text \<open>A call that has no error result; it may panic.\<close>

definition tell :: "'w runtime \<Rightarrow> setup_call \<Rightarrow> ('w boot, unit) go" where
  "tell A c = andThen (attempt (ask A c)) (\<lambda>_. ret ())"

section \<open>SetupWithManager\<close>

definition WithKind :: "string \<Rightarrow> GroupVersionKind" where
  "WithKind k = \<lparr>gvk_Group = GroupVersion_Group, gvk_Version = GroupVersion_Version, gvk_Kind = k\<rparr>"

record CCEManagedClusterReconciler =
  mcr_WatchFilterValue :: string

record CCEManagedMachinePoolReconciler =
  mpr_WatchFilterValue :: string

text \<open>\<open>GroupVersionKind()\<close> of an object whose \<open>TypeMeta\<close> has not been set, as in \<open>&CCEManagedControlPlane{}\<close>.\<close>

definition empty_GroupVersionKind :: GroupVersionKind where
  "empty_GroupVersionKind = \<lparr>gvk_Group = [], gvk_Version = [], gvk_Kind = []\<rparr>"

definition cpr_SetupWithManager ::
  "'w runtime \<Rightarrow> CCEManagedControlPlaneReconciler \<Rightarrow> controller_Options \<Rightarrow> ('w boot, unit) go" where
  "cpr_SetupWithManager A r options =
     andThen (wrapErr ''failed setting up the CCEManagedControlPlane controller manager''
               (ask A (CallBuild ''CCEManagedControlPlane'' options (cpr_WatchFilterValue r) []))) (\<lambda>_.
     andThen (wrapErr ''failed adding a watch for ready clusters''
               (ask A (CallWatch ''CCEManagedControlPlane''
                 \<lparr>wa_Kind = ''Cluster'', wa_Map = ClusterToInfrastructure empty_GroupVersionKind,
                  wa_Predicates = [ClusterUnpausedAndInfrastructureReady]\<rparr>))) (\<lambda>_.
       onErr (ask A (CallWatch ''CCEManagedControlPlane''
                \<lparr>wa_Kind = ''CCEManagedCluster'', wa_Map = ManagedClusterToManagedControlPlane, wa_Predicates = []\<rparr>))
         (\<lambda>_. fail (ErrorString ''failed adding a watch for CCEManagedCluster''))))"

definition mcr_SetupWithManager ::
  "'w runtime \<Rightarrow> CCEManagedClusterReconciler \<Rightarrow> controller_Options \<Rightarrow> ('w boot, unit) go" where
  "mcr_SetupWithManager A r options =
     andThen (wrapErr ''error creating controller''
               (ask A (CallBuild ''CCEManagedCluster'' options (mcr_WatchFilterValue r) []))) (\<lambda>_.
     andThen (wrapErr ''failed adding a watch for ready clusters''
               (ask A (CallWatch ''CCEManagedCluster''
                 \<lparr>wa_Kind = ''Cluster'', wa_Map = ClusterToInfrastructure (WithKind ''CCEManagedCluster''),
                  wa_Predicates = [ClusterUnpaused]\<rparr>))) (\<lambda>_.
       wrapErr ''failed adding watch on CCEManagedControlPlane''
         (ask A (CallWatch ''CCEManagedCluster''
           \<lparr>wa_Kind = ''CCEManagedControlPlane'', wa_Map = ManagedControlPlaneToManagedCluster, wa_Predicates = []\<rparr>))))"

definition mpr_SetupWithManager ::
  "'w runtime \<Rightarrow> CCEManagedMachinePoolReconciler \<Rightarrow> controller_Options \<Rightarrow> ('w boot, unit) go" where
  "mpr_SetupWithManager A r options =
     andThen (wrapErr ''failed to find GVK for CCEManagedMachinePool''
               (ask A (CallGVKForObject ''CCEManagedMachinePool''))) (\<lambda>_.
       ask A (CallBuild ''CCEManagedMachinePool'' options (mpr_WatchFilterValue r)
         [\<lparr>wa_Kind = ''MachinePool'', wa_Map = MachinePoolToInfrastructure, wa_Predicates = []\<rparr>,
          \<lparr>wa_Kind = ''CCEManagedControlPlane'', wa_Map = ManagedControlPlaneToManagedMachinePool,
           wa_Predicates = []\<rparr>]))"

section \<open>Flags\<close>

record flags =
  metricsAddr :: string
  enableLeaderElection :: bool
  leaderElectionNamespace :: string
  probeAddr :: string
  webhookPort :: int
  webhookCertDir :: string
  waitInfraPeriod :: int
  syncPeriod :: int
  cceClusterConcurrency :: int
  watchFilterValue :: string

text \<open>
  What \<open>initFlags\<close> registers: the names, on the given flag set or on Go's own one, which \<open>main\<close> merges,
  and the default values. \<open>Parse\<close> replaces the values of those that are given on the command line. The
  help texts and the flags of the logging library are left out.
\<close>

datatype flag_set = PFlagSet | GoFlagSet

definition initFlags_names :: "(flag_set \<times> string) list" where
  "initFlags_names =
     [(PFlagSet, ''metrics-bind-address''), (GoFlagSet, ''health-probe-bind-address''),
      (GoFlagSet, ''leader-elect''), (PFlagSet, ''webhook-port''), (PFlagSet, ''leader-elect-namespace''),
      (PFlagSet, ''sync-period''), (PFlagSet, ''webhook-cert-dir''), (PFlagSet, ''ccecluster-concurrency''),
      (PFlagSet, ''watch-filter''), (PFlagSet, ''wait-infra-period'')]"

definition initFlags :: flags where
  "initFlags =
     \<lparr>metricsAddr = '':8080'', enableLeaderElection = False, leaderElectionNamespace = [],
      probeAddr = '':8081'', webhookPort = 9443,
      webhookCertDir = ''/tmp/k8s-webhook-server/serving-certs/'',
      waitInfraPeriod = 60 * Second, syncPeriod = 600 * Second,
      cceClusterConcurrency = 5, watchFilterValue = []\<rparr>"

section \<open>main\<close>

text \<open>\<open>if err := m; err != nil { os.Exit(1) }\<close>; the value of a run is the exit code.\<close>

definition or_exit :: "('s, unit) go \<Rightarrow> ('s, nat) go \<Rightarrow> ('s, nat) go" where
  "or_exit m k = andThen (attempt m) (\<lambda>r. case r of Inl err \<Rightarrow> ret 1 | Inr _ \<Rightarrow> k)"

definition LeasesResourceLock :: string where
  "LeasesResourceLock = ''leases''"

definition manager_options :: "flags \<Rightarrow> manager_Options" where
  "manager_options F =
     \<lparr>mo_MetricsBindAddress = metricsAddr F, mo_HealthProbeBindAddress = probeAddr F,
      mo_LeaderElection = enableLeaderElection F, mo_LeaderElectionResourceLock = LeasesResourceLock,
      mo_LeaderElectionID = ''5053f7c0.cluster.x-k8s.io'',
      mo_LeaderElectionNamespace = leaderElectionNamespace F, mo_SyncPeriod = syncPeriod F,
      mo_EventBurstSize = 100,
      mo_Port = webhookPort F, mo_CertDir = webhookCertDir F\<rparr>"

definition controller_options :: "flags \<Rightarrow> controller_Options" where
  "controller_options F = \<lparr>MaxConcurrentReconciles = cceClusterConcurrency F, RecoverPanic = Some True\<rparr>"

text \<open>
  \<open>pflag.Parse\<close> and \<open>GetConfigOrDie\<close> end the process themselves; the first with exit code 2, and \<open>F\<close> is
  what it leaves in the variables.
\<close>

definition main :: "'w runtime \<Rightarrow> flags \<Rightarrow> ('w boot, nat) go" where
  "main A F =
     andThen (tell A CallSeed) (\<lambda>_.
     andThen (attempt (ask A CallParseFlags)) (\<lambda>parsed. case parsed of Inl err \<Rightarrow> ret 2 | Inr _ \<Rightarrow>
     or_exit (ask A CallApplyLogOptions) (
     andThen (tell A CallSetLogger) (\<lambda>_.
     andThen (tell A CallSetupSignalHandler) (\<lambda>_.
     or_exit (ask A CallGetConfig) (
     or_exit (ask A (CallNewManager ''cluster-api-provider-cce-controller'' (manager_options F))) (
     or_exit (cpr_SetupWithManager A
                \<lparr>cpr_WatchFilterValue = watchFilterValue F, cpr_WaitInfraPeriod = waitInfraPeriod F\<rparr>
                (controller_options F)) (
     or_exit (mcr_SetupWithManager A \<lparr>mcr_WatchFilterValue = watchFilterValue F\<rparr> (controller_options F)) (
     or_exit (mpr_SetupWithManager A \<lparr>mpr_WatchFilterValue = watchFilterValue F\<rparr> (controller_options F)) (
     or_exit (ask A CallAddHealthzCheck) (
     or_exit (ask A CallAddReadyzCheck) (
     or_exit (ask A CallStart) (
       ret 0)))))))))))))"

end
