(* ===== verification/Manager_Props.thy ===== *)
theory Manager_Props
  imports Manager Demo_Env
begin

text \<open>
  Properties of the start of the process: it starts the manager only when everything has been
  registered, and what is registered.
\<close>

section \<open>Runs that follow a list of calls\<close>

text \<open>
  \<open>accepted A cs w\<close>: asked for \<open>cs\<close> in that order from the world \<open>w\<close> on, the runtime accepts every one of
  them and leaves the world that is returned. Three of the calls have no error result.
\<close>

definition no_error_result :: "setup_call \<Rightarrow> bool" where
  "no_error_result c \<longleftrightarrow> c \<in> {CallSeed, CallSetLogger, CallSetupSignalHandler}"

primrec accepted :: "'w runtime \<Rightarrow> setup_call list \<Rightarrow> 'w \<Rightarrow> 'w option" where
  "accepted A [] w = Some w"
| "accepted A (c # cs) w =
     (case A c w of (r, v) \<Rightarrow>
        (case r of
           Ret _ \<Rightarrow> accepted A cs v
         | Err _ \<Rightarrow> if no_error_result c then accepted A cs v else None
         | Panic \<Rightarrow> None))"

lemma accepted_append: "accepted A (cs @ ds) w = Option.bind (accepted A cs w) (accepted A ds)"
  by (induction cs arbitrary: w) (auto split: prod.split outcome.split)

lemma accepted_prefix: "accepted A ds w = None \<Longrightarrow> prefix ds cs \<Longrightarrow> accepted A cs w = None"
  by (auto simp: prefix_def accepted_append)

text \<open>
  \<open>follows A ok cs m\<close>: a run of \<open>m\<close> issues the calls \<open>cs\<close> in that order and stops at the first that is not
  accepted; it ends in \<open>ok\<close> exactly if all are.
\<close>

definition followed :: "'w runtime \<Rightarrow> bool \<Rightarrow> setup_call list \<Rightarrow> 'w boot \<Rightarrow> 'w boot \<Rightarrow> setup_call list \<Rightarrow> bool" where
  "followed A ok cs s t ds \<longleftrightarrow>
     bt_calls t = bt_calls s @ ds \<and> prefix ds cs \<and>
     (if ok then ds = cs \<and> accepted A ds (bt_world s) = Some (bt_world t)
      else ds \<noteq> [] \<and> accepted A (butlast ds) (bt_world s) \<noteq> None \<and> accepted A ds (bt_world s) = None)"

definition follows :: "'w runtime \<Rightarrow> ('a outcome \<Rightarrow> bool) \<Rightarrow> setup_call list \<Rightarrow> ('w boot, 'a) go \<Rightarrow> bool" where
  "follows A ok cs m \<longleftrightarrow> (\<forall>s r t. m s = (r, t) \<longrightarrow> (\<exists>ds. followed A (ok r) cs s t ds))"

fun returned :: "'a outcome \<Rightarrow> bool" where
  "returned (Ret x) = True"
| "returned _ = False"

lemma followsI: "(\<And>s r t. m s = (r, t) \<Longrightarrow> \<exists>ds. followed A (ok r) cs s t ds) \<Longrightarrow> follows A ok cs m"
  by (auto simp: follows_def)

lemma followsD: "follows A ok cs m \<Longrightarrow> m s = (r, t) \<Longrightarrow> \<exists>ds. followed A (ok r) cs s t ds"
  unfolding follows_def by blast

text \<open>One part after another.\<close>

lemma followed_then:
  assumes "followed A True cs s u es" and "followed A ok ds u t fs"
  shows "followed A ok (cs @ ds) s t (es @ fs)"
  using assms by (auto simp: followed_def accepted_append butlast_append)

lemma followed_refused: "followed A False cs s t es \<Longrightarrow> followed A False (cs @ ds) s t es"
  by (auto simp: followed_def)

lemma follows_ask: "\<not> no_error_result c \<Longrightarrow> follows A returned [c] (ask A c)"
proof (rule followsI)
  fix s r t assume c: "\<not> no_error_result c" and "ask A c s = (r, t)"
  then show "\<exists>ds. followed A (returned r) [c] s t ds"
    by (intro exI[of _ "[c]"]) (cases r, auto simp: ask_def followed_def split: prod.splits)
qed

lemma follows_ret: "follows A (\<lambda>r. r = Ret x) [] (ret x)"
  by (rule followsI) (auto simp: ret_apply followed_def)

lemma follows_andThen:
  assumes "follows A returned cs m" and "\<And>x. follows A returned ds (f x)"
  shows "follows A returned (cs @ ds) (andThen m f)"
proof (rule followsI)
  fix s r t assume run: "andThen m f s = (r, t)"
  obtain q u where q: "m s = (q, u)" by fastforce
  obtain es where es: "followed A (returned q) cs s u es"
    using followsD[OF assms(1) q] by blast
  show "\<exists>es. followed A (returned r) (cs @ ds) s t es"
  proof (cases q)
    case (Ret x)
    with run q have "f x u = (r, t)" by (simp add: go_simps)
    from followsD[OF assms(2) this] es Ret show ?thesis by (auto dest: followed_then)
  next
    case (Err e)
    with run q have "t = u" "\<not> returned r" by (auto simp: go_simps)
    with es Err show ?thesis by (intro exI[of _ es]) (simp add: followed_refused)
  next
    case Panic
    with run q have "t = u" "\<not> returned r" by (auto simp: go_simps)
    with es Panic show ?thesis by (intro exI[of _ es]) (simp add: followed_refused)
  qed
qed

lemma follows_onErr: "follows A returned cs m \<Longrightarrow> follows A returned cs (onErr m (\<lambda>e. fail (h e)))"
  by (rule followsI) (auto simp: go_simps split: prod.splits outcome.splits dest!: followsD)

lemma follows_wrapErr: "follows A returned cs m \<Longrightarrow> follows A returned cs (wrapErr msg m)"
  unfolding wrapErr_def by (rule follows_onErr)

text \<open>A step that ends the process with a code of its own when it is refused.\<close>

lemma follows_or_code:
  assumes "follows A returned cs m" and "follows A (\<lambda>r. r = Ret 0) ds k" and "code \<noteq> 0"
  shows "follows A (\<lambda>r. r = Ret (0::nat)) (cs @ ds)
           (andThen (attempt m) (\<lambda>p. case p of Inl err \<Rightarrow> ret code | Inr _ \<Rightarrow> k))"
proof (rule followsI)
  fix s r t assume run: "andThen (attempt m) (\<lambda>p. case p of Inl err \<Rightarrow> ret code | Inr _ \<Rightarrow> k) s = (r, t)"
  obtain q u where q: "m s = (q, u)" by fastforce
  obtain es where es: "followed A (returned q) cs s u es"
    using followsD[OF assms(1) q] by blast
  show "\<exists>es. followed A (r = Ret 0) (cs @ ds) s t es"
  proof (cases q)
    case (Ret x)
    with run q have "k u = (r, t)" by (simp add: go_simps)
    from followsD[OF assms(2) this] es Ret show ?thesis by (auto dest: followed_then)
  next
    case (Err e)
    with run q assms(3) have "t = u" "r \<noteq> Ret 0" by (auto simp: go_simps)
    with es Err show ?thesis by (intro exI[of _ es]) (simp add: followed_refused)
  next
    case Panic
    with run q have "t = u" "r \<noteq> Ret 0" by (auto simp: go_simps)
    with es Panic show ?thesis by (intro exI[of _ es]) (simp add: followed_refused)
  qed
qed

lemma follows_or_exit:
  assumes "follows A returned cs m" and "follows A (\<lambda>r. r = Ret 0) ds k"
  shows "follows A (\<lambda>r. r = Ret 0) (cs @ ds) (or_exit m k)"
  unfolding or_exit_def by (rule follows_or_code[OF assms]) simp

lemma follows_tell:
  assumes "no_error_result c" and "follows A (\<lambda>r. r = Ret (0::nat)) ds k"
  shows "follows A (\<lambda>r. r = Ret 0) (c # ds) (andThen (tell A c) (\<lambda>_. k))"
proof (rule followsI)
  fix s r t assume run: "andThen (tell A c) (\<lambda>_. k) s = (r, t)"
  obtain q v where q: "A c (bt_world s) = (q, v)" by fastforce
  let ?u = "s\<lparr>bt_world := v, bt_calls := bt_calls s @ [c]\<rparr>"
  show "\<exists>es. followed A (r = Ret 0) (c # ds) s t es"
  proof (cases "q = Panic")
    case False
    with run q have "k ?u = (r, t)"
      by (cases q) (auto simp: tell_def ask_def go_simps)
    then obtain fs where fs: "followed A (r = Ret 0) ds ?u t fs"
      using followsD[OF assms(2)] by blast
    have "followed A True [c] s ?u [c]"
      using q False assms(1) by (cases q) (simp_all add: followed_def)
    from followed_then[OF this fs] show ?thesis by auto
  next
    case True
    with run q show ?thesis
      by (intro exI[of _ "[c]"]) (auto simp: tell_def ask_def go_simps followed_def)
  qed
qed

section \<open>All or nothing\<close>

text \<open>What the process asks for, in order.\<close>

definition cp_sequence :: "flags \<Rightarrow> setup_call list" where
  "cp_sequence F =
     [CallBuild ''CCEManagedControlPlane'' (controller_options F) (watchFilterValue F) [],
      CallWatch ''CCEManagedControlPlane''
        \<lparr>wa_Kind = ''Cluster'', wa_Map = ClusterToInfrastructure empty_GroupVersionKind,
         wa_Predicates = [ClusterUnpausedAndInfrastructureReady]\<rparr>,
      CallWatch ''CCEManagedControlPlane''
        \<lparr>wa_Kind = ''CCEManagedCluster'', wa_Map = ManagedClusterToManagedControlPlane, wa_Predicates = []\<rparr>]"

definition mc_sequence :: "flags \<Rightarrow> setup_call list" where
  "mc_sequence F =
     [CallBuild ''CCEManagedCluster'' (controller_options F) (watchFilterValue F) [],
      CallWatch ''CCEManagedCluster''
        \<lparr>wa_Kind = ''Cluster'', wa_Map = ClusterToInfrastructure (WithKind ''CCEManagedCluster''),
         wa_Predicates = [ClusterUnpaused]\<rparr>,
      CallWatch ''CCEManagedCluster''
        \<lparr>wa_Kind = ''CCEManagedControlPlane'', wa_Map = ManagedControlPlaneToManagedCluster, wa_Predicates = []\<rparr>]"

definition mp_sequence :: "flags \<Rightarrow> setup_call list" where
  "mp_sequence F =
     [CallGVKForObject ''CCEManagedMachinePool'',
      CallBuild ''CCEManagedMachinePool'' (controller_options F) (watchFilterValue F)
        [\<lparr>wa_Kind = ''MachinePool'', wa_Map = MachinePoolToInfrastructure, wa_Predicates = []\<rparr>,
         \<lparr>wa_Kind = ''CCEManagedControlPlane'', wa_Map = ManagedControlPlaneToManagedMachinePool,
          wa_Predicates = []\<rparr>]]"

definition preparation :: "flags \<Rightarrow> setup_call list" where
  "preparation F =
     [CallSeed, CallParseFlags, CallApplyLogOptions, CallSetLogger, CallSetupSignalHandler, CallGetConfig,
      CallNewManager ''cluster-api-provider-cce-controller'' (manager_options F)] @
     cp_sequence F @ mc_sequence F @ mp_sequence F @ [CallAddHealthzCheck, CallAddReadyzCheck]"

lemma follows_setups:
  "follows A returned (cp_sequence F) (cpr_SetupWithManager A
     \<lparr>cpr_WatchFilterValue = watchFilterValue F, cpr_WaitInfraPeriod = waitInfraPeriod F\<rparr> (controller_options F))"
  "follows A returned (mc_sequence F) (mcr_SetupWithManager A \<lparr>mcr_WatchFilterValue = watchFilterValue F\<rparr> (controller_options F))"
  "follows A returned (mp_sequence F) (mpr_SetupWithManager A \<lparr>mpr_WatchFilterValue = watchFilterValue F\<rparr> (controller_options F))"
proof -
  have ask: "follows A returned [CallBuild k o' f ws] (ask A (CallBuild k o' f ws))"
    "follows A returned [CallWatch k w] (ask A (CallWatch k w))"
    "follows A returned [CallGVKForObject k] (ask A (CallGVKForObject k))" for k o' f ws w
    by (simp_all add: follows_ask no_error_result_def)
  note cons = follows_andThen[OF follows_wrapErr[OF ask(1)], simplified]
    follows_andThen[OF follows_wrapErr[OF ask(2)], simplified] follows_andThen[OF follows_wrapErr[OF ask(3)], simplified]
  show "follows A returned (cp_sequence F) (cpr_SetupWithManager A
     \<lparr>cpr_WatchFilterValue = watchFilterValue F, cpr_WaitInfraPeriod = waitInfraPeriod F\<rparr> (controller_options F))"
    unfolding cpr_SetupWithManager_def cp_sequence_def
    by (simp, intro cons follows_onErr ask)
  show "follows A returned (mc_sequence F) (mcr_SetupWithManager A \<lparr>mcr_WatchFilterValue = watchFilterValue F\<rparr> (controller_options F))"
    unfolding mcr_SetupWithManager_def mc_sequence_def CCEManagedClusterReconciler.simps
    by (intro cons follows_wrapErr ask)
  show "follows A returned (mp_sequence F) (mpr_SetupWithManager A \<lparr>mpr_WatchFilterValue = watchFilterValue F\<rparr> (controller_options F))"
    unfolding mpr_SetupWithManager_def mp_sequence_def CCEManagedMachinePoolReconciler.simps
    by (intro cons ask)
qed

lemma follows_main: "follows A (\<lambda>r. r = Ret 0) (preparation F @ [CallStart]) (main A F)"
proof -
  have two: "(2::nat) \<noteq> 0" by simp
  have ask: "follows A returned [c] (ask A c)" if "c \<notin> {CallSeed, CallSetLogger, CallSetupSignalHandler}" for c
    using that by (simp add: follows_ask no_error_result_def)
  have tells: "no_error_result CallSeed" "no_error_result CallSetLogger" "no_error_result CallSetupSignalHandler"
    by (simp_all add: no_error_result_def)
  note cons = follows_tell[OF tells(1)] follows_tell[OF tells(2)] follows_tell[OF tells(3)]
    follows_or_exit[OF ask, simplified] follows_or_code[OF ask _ two, simplified]
  show ?thesis
    unfolding main_def preparation_def append.simps append_assoc
    by (intro cons follows_or_exit[OF follows_setups(1)] follows_or_exit[OF follows_setups(2)]
        follows_or_exit[OF follows_setups(3)] follows_ret) simp_all
qed

lemma no_start_before: "CallStart \<notin> set (preparation F)"
  by (simp add: preparation_def cp_sequence_def mc_sequence_def mp_sequence_def)

lemma no_webhook: "CallWebhook k \<notin> set (preparation F @ [CallStart])"
  by (simp add: preparation_def cp_sequence_def mc_sequence_def mp_sequence_def)

lemma prefix_with_last:
  assumes "prefix ds (cs @ [c])" and "c \<in> set ds" and "c \<notin> set cs"
  shows "ds = cs @ [c]"
  using assms set_mono_prefix[of ds cs] by (auto simp: prefix_snoc)

lemma built_controllers:
  "CallBuild k opts filt ws \<in> set (preparation F @ [CallStart]) \<Longrightarrow>
   opts = \<lparr>MaxConcurrentReconciles = cceClusterConcurrency F, RecoverPanic = Some True\<rparr> \<and> filt = watchFilterValue F"
  by (auto simp: preparation_def cp_sequence_def mc_sequence_def mp_sequence_def controller_options_def)

text \<open>
  C38. The process starts all or nothing. It asks for a fixed sequence of registrations, in that order, and
  stops at the first that is refused: everything it asked for but the last was accepted, and if it did not get
  to the end, the last was refused. The manager is started exactly if all registrations before were
  accepted, and the exit code is 0 exactly if moreover the manager returned without an error. Every
  controller it builds recovers panics, with the concurrency and the label filter of the flags; no webhook
  is ever registered.
\<close>

theorem main_all_or_nothing:
  assumes "main A F s = (res, t)"
  shows "\<exists>ds. bt_calls t = bt_calls s @ ds \<and> prefix ds (preparation F @ [CallStart]) \<and>
    accepted A (butlast ds) (bt_world s) \<noteq> None \<and>
    (ds \<noteq> preparation F @ [CallStart] \<longrightarrow> accepted A ds (bt_world s) = None) \<and>
    (CallStart \<in> set ds \<longleftrightarrow> accepted A (preparation F) (bt_world s) \<noteq> None) \<and>
    (res = Ret 0 \<longleftrightarrow> accepted A (preparation F @ [CallStart]) (bt_world s) \<noteq> None) \<and>
    (\<forall>k opts filt ws. CallBuild k opts filt ws \<in> set ds \<longrightarrow>
       opts = \<lparr>MaxConcurrentReconciles = cceClusterConcurrency F, RecoverPanic = Some True\<rparr> \<and>
       filt = watchFilterValue F) \<and>
    (\<forall>k. CallWebhook k \<notin> set ds)"
proof -
  obtain ds where ds: "followed A (res = Ret 0) (preparation F @ [CallStart]) s t ds"
    using followsD[OF follows_main assms] by blast
  then have pre: "prefix ds (preparation F @ [CallStart])" and calls: "bt_calls t = bt_calls s @ ds"
    by (simp_all add: followed_def)
  have ok: "ds = preparation F @ [CallStart] \<and> accepted A ds (bt_world s) \<noteq> None" if "res = Ret 0"
    using ds that unfolding followed_def by (metis option.distinct(1))
  have refused: "accepted A (butlast ds) (bt_world s) \<noteq> None \<and> accepted A ds (bt_world s) = None" if "res \<noteq> Ret 0"
    using ds that by (simp add: followed_def)
  have last: "accepted A (butlast ds) (bt_world s) \<noteq> None"
  proof (cases "res = Ret 0")
    case True
    from conjunct2[OF ok[OF this]] accepted_prefix[OF _ prefixeq_butlast, of A ds "bt_world s"]
    show ?thesis by (cases "accepted A (butlast ds) (bt_world s)") simp_all
  next
    case False
    with refused show ?thesis by blast
  qed
  have stop: "accepted A ds (bt_world s) = None" if "ds \<noteq> preparation F @ [CallStart]"
    using ok refused that by blast
  have code: "res = Ret 0 \<longleftrightarrow> accepted A (preparation F @ [CallStart]) (bt_world s) \<noteq> None"
  proof
    assume "res = Ret 0"
    from ok[OF this] show "accepted A (preparation F @ [CallStart]) (bt_world s) \<noteq> None" by auto
  next
    assume "accepted A (preparation F @ [CallStart]) (bt_world s) \<noteq> None"
    then have "accepted A ds (bt_world s) \<noteq> None"
      using accepted_prefix[OF _ pre, of A "bt_world s"] by (cases "accepted A ds (bt_world s)") simp_all
    with refused show "res = Ret 0" by blast
  qed
  have "CallStart \<in> set ds \<longleftrightarrow> accepted A (preparation F) (bt_world s) \<noteq> None"
  proof
    assume "CallStart \<in> set ds"
    then have "ds = preparation F @ [CallStart]"
      by (rule prefix_with_last[OF pre _ no_start_before])
    with last show "accepted A (preparation F) (bt_world s) \<noteq> None" by simp
  next
    assume all: "accepted A (preparation F) (bt_world s) \<noteq> None"
    have "ds = preparation F @ [CallStart]"
    proof (rule ccontr)
      assume other: "ds \<noteq> preparation F @ [CallStart]"
      with pre have "prefix ds (preparation F)" by (simp add: prefix_snoc)
      from accepted_prefix[OF stop[OF other] this] all show False by simp
    qed
    then show "CallStart \<in> set ds" by simp
  qed
  moreover have "opts = \<lparr>MaxConcurrentReconciles = cceClusterConcurrency F, RecoverPanic = Some True\<rparr> \<and>
      filt = watchFilterValue F" if "CallBuild k opts filt ws \<in> set ds" for k opts filt ws
    using built_controllers set_mono_prefix[OF pre] that by blast
  moreover have "CallWebhook k \<notin> set ds" for k
    using set_mono_prefix[OF pre] no_webhook[of k F] by blast
  ultimately show ?thesis
    by (intro exI[of _ ds] conjI calls pre last code) (use stop in \<open>assumption | simp\<close>)+
qed

text \<open>A runtime that accepts everything, and one that refuses the third controller.\<close>

definition accepting :: "nat runtime" where
  "accepting c = ret ()"

definition no_pool_controller :: "nat runtime" where
  "no_pool_controller c =
     (case c of CallGVKForObject k \<Rightarrow> fail (ErrorString ''no kind is registered'') | _ \<Rightarrow> ret ())"

definition booting :: "nat boot" where
  "booting = \<lparr>bt_world = 0, bt_calls = []\<rparr>"

lemmas boot_simps =
  main_def or_exit_def tell_def go_simps ask_def cpr_SetupWithManager_def mcr_SetupWithManager_def
  mpr_SetupWithManager_def accepting_def no_pool_controller_def booting_def

lemma main_all_or_nothing_witness:
  "bt_calls (snd (main accepting initFlags booting)) = preparation initFlags @ [CallStart] \<and>
   CallStart \<notin> set (bt_calls (snd (main no_pool_controller initFlags booting)))"
proof -
  let ?r1 = "main accepting initFlags booting" and ?r2 = "main no_pool_controller initFlags booting"
  have b: "bt_calls booting = []"
    by (simp add: booting_def)
  have all: "accepted accepting cs w = Some w" for cs w
    by (induction cs) (simp_all add: accepting_def ret_apply)
  have "accepted no_pool_controller (preparation initFlags) (bt_world booting) = None"
    by (simp add: preparation_def cp_sequence_def mc_sequence_def mp_sequence_def no_pool_controller_def no_error_result_def go_simps)
  then have 2: "CallStart \<notin> set (bt_calls (snd ?r2))"
    using main_all_or_nothing[OF surjective_pairing, of no_pool_controller initFlags booting] b by auto
  have "CallStart \<in> set (bt_calls (snd ?r1)) \<and> prefix (bt_calls (snd ?r1)) (preparation initFlags @ [CallStart])"
    using main_all_or_nothing[OF surjective_pairing, of accepting initFlags booting] b by (auto simp: all)
  then have "bt_calls (snd ?r1) = preparation initFlags @ [CallStart]"
    by (intro prefix_with_last[OF _ _ no_start_before]) simp_all
  with 2 show ?thesis by blast
qed

section \<open>Watches\<close>

text \<open>
  The documented contract of \<open>util.ClusterToInfrastructureMapFunc\<close>, as far as it is used here: a
  cluster whose infrastructure reference has another group and kind than the given one, or none, is
  mapped to no request.
\<close>

definition cluster_map_documented ::
  "lib \<Rightarrow> (GroupVersionKind \<Rightarrow> Cluster \<Rightarrow> ('w, NamespacedName list) go) \<Rightarrow> bool" where
  "cluster_map_documented L C \<longleftrightarrow>
     (\<forall>gvk cluster w.
        (case cl_InfrastructureRef cluster of None \<Rightarrow> True
         | Some ref \<Rightarrow> lib_GroupKind L ref \<noteq> (gvk_Group gvk, gvk_Kind gvk)) \<longrightarrow>
        C gvk cluster w = (Ret [], w))"

lemma cluster_watches:
  assumes "CallWatch k w \<in> set (preparation F @ [CallStart])" and "wa_Kind w = ''Cluster''"
  shows "wa_Map w = ClusterToInfrastructure
           (if k = ''CCEManagedControlPlane'' then empty_GroupVersionKind else WithKind ''CCEManagedCluster'')"
  using assms by (auto simp: preparation_def cp_sequence_def mc_sequence_def mp_sequence_def)

text \<open>
  C39. The watch on clusters that the control plane controller registers never enqueues anything: it
  is given the group and kind of an object whose type has not been set, which no reference has. So
  a control plane is not reconciled when its cluster is unpaused or its infrastructure becomes ready,
  only when its own object, the managed cluster or the requeue interval calls for it.
\<close>

theorem cluster_watch_inert:
  assumes "main A F s = (res, t)" and "CallWatch ''CCEManagedControlPlane'' w \<in> set (bt_calls t)"
    and "bt_calls s = []" and "wa_Kind w = ''Cluster''"
    and "cluster_map_documented L C"
    and "\<And>ref. cl_InfrastructureRef cluster = Some ref \<Longrightarrow> snd (lib_GroupKind L ref) \<noteq> []"
  shows "\<exists>gvk. wa_Map w = ClusterToInfrastructure gvk \<and> C gvk cluster v = (Ret [], v)"
proof -
  obtain ds where "bt_calls t = ds" "prefix ds (preparation F @ [CallStart])"
    using followsD[OF follows_main assms(1)] assms(3) by (auto simp: followed_def)
  with assms(2) have "CallWatch ''CCEManagedControlPlane'' w \<in> set (preparation F @ [CallStart])"
    using set_mono_prefix by blast
  from cluster_watches[OF this assms(4)] have "wa_Map w = ClusterToInfrastructure empty_GroupVersionKind"
    by simp
  moreover have "C empty_GroupVersionKind cluster v = (Ret [], v)"
    using assms(5,6) by (auto simp: cluster_map_documented_def empty_GroupVersionKind_def prod_eq_iff split: option.splits)
  ultimately show ?thesis by blast
qed

definition demo_cluster_map :: "GroupVersionKind \<Rightarrow> Cluster \<Rightarrow> (nat, NamespacedName list) go" where
  "demo_cluster_map gvk cluster =
     ret (case cl_InfrastructureRef cluster of None \<Rightarrow> []
          | Some ref \<Rightarrow> if lib_GroupKind demo_lib ref \<noteq> (gvk_Group gvk, gvk_Kind gvk) then []
                        else [\<lparr>nn_Namespace = or_Namespace ref, nn_Name = or_Name ref\<rparr>])"

lemma cluster_watch_inert_witness:
  "demo_cluster_map (WithKind ''CCEManagedCluster'') demo_cluster 0 \<noteq> (Ret [], 0) \<and>
   (\<exists>gvk. demo_cluster_map gvk demo_cluster 0 = (Ret [], 0) \<and>
      list_ex (\<lambda>c. case c of CallWatch k w \<Rightarrow> wa_Map w = ClusterToInfrastructure gvk | _ \<Rightarrow> False)
        (bt_calls (snd (main accepting initFlags booting))))"
proof -
  let ?w = "\<lparr>wa_Kind = ''Cluster'', wa_Map = ClusterToInfrastructure empty_GroupVersionKind,
             wa_Predicates = [ClusterUnpausedAndInfrastructureReady]\<rparr>"
  let ?c = "bt_calls (snd (main accepting initFlags booting))"
  have w: "CallWatch ''CCEManagedControlPlane'' ?w \<in> set ?c"
    by (simp add: boot_simps)
  have doc: "cluster_map_documented demo_lib demo_cluster_map"
    by (auto simp: cluster_map_documented_def demo_cluster_map_def ret_apply split: option.split)
  have ref: "cl_InfrastructureRef demo_cluster = Some r \<Longrightarrow> snd (lib_GroupKind demo_lib r) \<noteq> []" for r
    by (auto simp: demo_cluster_def demo_lib_def demo_ref_def)
  have "\<exists>gvk. wa_Map ?w = ClusterToInfrastructure gvk \<and> demo_cluster_map gvk demo_cluster 0 = (Ret [], 0)"
    by (rule cluster_watch_inert[OF surjective_pairing w _ _ doc ref]) (simp_all add: booting_def)
  then have "demo_cluster_map empty_GroupVersionKind demo_cluster 0 = (Ret [], 0)"
    by simp
  moreover have "fst (demo_cluster_map (WithKind ''CCEManagedCluster'') demo_cluster 0) \<noteq> Ret []"
    by code_simp
  moreover have "list_ex (\<lambda>c. case c of CallWatch k w \<Rightarrow> wa_Map w = ClusterToInfrastructure empty_GroupVersionKind
      | _ \<Rightarrow> False) ?c"
    unfolding list_ex_iff by (rule bexI[OF _ w]) simp
  ultimately show ?thesis
    by (metis fst_conv)
qed

end
