(* ===== verification/Api_Access.thy ===== *)
theory Api_Access
  imports Manager
begin

text \<open>
  What stands between the controllers and the Kubernetes API: the scheme, which the \<open>init\<close> functions of
  \<open>api/v1beta1\<close> and of \<open>cmd/main.go\<close> fill and without which the client does not know a Go type, and the
  role, which the RBAC markers above the \<open>Reconcile\<close> methods ask for and without which the API server
  refuses a request.
\<close>

section \<open>The scheme\<close>

text \<open>
  \<open>runtime.Scheme\<close>, \<open>scheme.Builder\<close> and the three \<open>AddToScheme\<close> functions of other packages are
  library code, so parameters. \<open>sl_Recognizes\<close> is the scheme's own method.
\<close>

record ('b, 's) scheme_lib =
  sl_NewBuilder :: "string \<times> string \<Rightarrow> 'b"
  sl_Register :: "string list \<Rightarrow> 'b \<Rightarrow> 'b"
  sl_AddToScheme :: "'b \<Rightarrow> ('s, unit) go"
  sl_clientgoscheme :: "('s, unit) go"
  sl_clusterv1 :: "('s, unit) go"
  sl_expclusterv1 :: "('s, unit) go"
  sl_Recognizes :: "'s \<Rightarrow> GroupVersionKind \<Rightarrow> bool"

definition SchemeBuilder :: "('b, 's) scheme_lib \<Rightarrow> 'b" where
  "SchemeBuilder R = sl_NewBuilder R (GroupVersion_Group, GroupVersion_Version)"

definition init_managedcluster :: "('b, 's) scheme_lib \<Rightarrow> 'b \<Rightarrow> 'b" where
  "init_managedcluster R = sl_Register R [''CCEManagedCluster'', ''CCEManagedClusterList'']"

definition init_managedcontrolplane :: "('b, 's) scheme_lib \<Rightarrow> 'b \<Rightarrow> 'b" where
  "init_managedcontrolplane R = sl_Register R [''CCEManagedControlPlane'', ''CCEManagedControlPlaneList'']"

definition init_managedmachinepool :: "('b, 's) scheme_lib \<Rightarrow> 'b \<Rightarrow> 'b" where
  "init_managedmachinepool R = sl_Register R [''CCEManagedMachinePool'', ''CCEManagedMachinePoolList'']"

text \<open>Go runs the \<open>init\<close> functions of a package in the order of its file names.\<close>

definition AddToScheme :: "('b, 's) scheme_lib \<Rightarrow> ('s, unit) go" where
  "AddToScheme R =
     sl_AddToScheme R
       (init_managedmachinepool R (init_managedcontrolplane R (init_managedcluster R (SchemeBuilder R))))"

text \<open>\<open>utilruntime.Must\<close> panics on an error.\<close>

definition Must :: "('s, unit) go \<Rightarrow> ('s, unit) go" where
  "Must m = onErr m (\<lambda>_. panic)"

definition main_init :: "('b, 's) scheme_lib \<Rightarrow> ('s, unit) go" where
  "main_init R =
     andThen (Must (sl_clientgoscheme R)) (\<lambda>_.
     andThen (Must (sl_clusterv1 R)) (\<lambda>_.
     andThen (Must (sl_expclusterv1 R)) (\<lambda>_.
       Must (AddToScheme R))))"

section \<open>The role\<close>

record policy_rule =
  rule_APIGroups :: "string list"
  rule_Resources :: "string list"
  rule_Verbs :: "string list"

definition rule :: "string \<Rightarrow> string list \<Rightarrow> string list \<Rightarrow> policy_rule" where
  "rule g rs vs = \<lparr>rule_APIGroups = [g], rule_Resources = rs, rule_Verbs = vs\<rparr>"

abbreviation reading :: "string list" where
  "reading \<equiv> [''get'', ''list'', ''watch'']"

text \<open>The markers, file by file; the marker's group \<open>core\<close> is the group with the empty name.\<close>

definition rbac_managedcluster :: "policy_rule list" where
  "rbac_managedcluster =
     [rule [] [''events''] (reading @ [''create'', ''patch'']),
      rule [] [''secrets''] (reading @ [''create'', ''update'', ''delete'', ''patch'']),
      rule [] [''namespaces''] reading,
      rule ''cluster.x-k8s.io'' [''clusters'', ''clusters/status''] reading,
      rule ''cluster.x-k8s.io'' [''machinedeployments''] reading,
      rule ''cluster.x-k8s.io'' [''machinepools''] reading,
      rule ''infrastructure.cluster.x-k8s.io'' [''ccemanagedclusters'']
        (reading @ [''create'', ''update'', ''patch'', ''delete'']),
      rule ''infrastructure.cluster.x-k8s.io'' [''ccemanagedclusters/status''] [''get'', ''update'', ''patch''],
      rule ''infrastructure.cluster.x-k8s.io'' [''ccemanagedclusters/finalizers''] [''update''],
      rule ''infrastructure.cluster.x-k8s.io'' [''ccemanagedmachinepools'', ''ccemanagedmachinepools/status''] reading,
      rule ''infrastructure.cluster.x-k8s.io'' [''ccemachinepools'', ''ccemachinepools/status''] reading,
      rule ''infrastructure.cluster.x-k8s.io'' [''ccemanagedcontrolplanes''] (reading @ [''update'', ''patch'', ''delete'']),
      rule ''infrastructure.cluster.x-k8s.io'' [''ccemanagedcontrolplanes/status''] [''get'', ''update'', ''patch'']]"

definition rbac_managedmachinepool :: "policy_rule list" where
  "rbac_managedmachinepool =
     [rule ''infrastructure.cluster.x-k8s.io'' [''ccemanagedmachinepools'']
        (reading @ [''create'', ''update'', ''patch'', ''delete'']),
      rule ''infrastructure.cluster.x-k8s.io'' [''ccemanagedmachinepools/status''] [''get'', ''update'', ''patch''],
      rule ''infrastructure.cluster.x-k8s.io'' [''ccemanagedmachinepools/finalizers''] [''update'']]"

definition rbac_managedcontrolplane :: "policy_rule list" where
  "rbac_managedcontrolplane =
     [rule ''infrastructure.cluster.x-k8s.io'' [''ccemanagedcontrolplanes'']
        (reading @ [''create'', ''update'', ''patch'', ''delete'']),
      rule ''infrastructure.cluster.x-k8s.io'' [''ccemanagedcontrolplanes/status''] [''get'', ''update'', ''patch''],
      rule ''infrastructure.cluster.x-k8s.io'' [''ccemanagedcontrolplanes/finalizers''] [''update'']]"

definition manager_role :: "policy_rule list" where
  "manager_role = rbac_managedcluster @ rbac_managedcontrolplane @ rbac_managedmachinepool"

text \<open>The API server's rule: a request is permitted when one rule names its group, resource and verb.\<close>

definition permits :: "policy_rule list \<Rightarrow> string \<Rightarrow> string \<Rightarrow> string \<Rightarrow> bool" where
  "permits role g res verb \<longleftrightarrow>
     list_ex (\<lambda>r. g \<in> set (rule_APIGroups r) \<and> res \<in> set (rule_Resources r) \<and> verb \<in> set (rule_Verbs r)) role"

section \<open>Requests\<close>

text \<open>
  \<open>Request verb kind sub\<close>: a request to the API server about objects of a kind, or their subresource
  \<open>sub\<close>. The manager's client serves reads from informers, which list and watch the kind.
\<close>

datatype api_request = Request (req_verb: string) (req_kind: string) (req_sub: string)

definition informer :: "string \<Rightarrow> api_request list" where
  "informer k = [Request ''get'' k [], Request ''list'' k [], Request ''watch'' k []]"

definition patching :: "string \<Rightarrow> api_request list" where
  "patching k = [Request ''patch'' k [], Request ''patch'' k ''/status'']"

definition read_kind :: "string \<Rightarrow> string" where
  "read_kind what =
     (if what = ''KubeconfigSecret'' then ''Secret''
      else if what = ''CCEManagedMachinePoolList'' then ''CCEManagedMachinePool''
      else if what = ''MachinePoolList'' then ''MachinePool'' else what)"

fun api_requests :: "call \<Rightarrow> api_request list" where
  "api_requests (CallRead what) = informer (read_kind what)"
| "api_requests (CallPatchControlPlane cp) = patching ''CCEManagedControlPlane''"
| "api_requests (CallPatchMachinePool mp) = patching ''CCEManagedMachinePool''"
| "api_requests (CallPatchManagedCluster mc) = patching ''CCEManagedCluster''"
| "api_requests (CallCreateSecret se) = [Request ''create'' ''Secret'' []]"
| "api_requests (CallUpdateSecret se) = [Request ''update'' ''Secret'' []]"
| "api_requests (CallEvent reason msg) = [Request ''create'' ''Event'' []]"
| "api_requests _ = []"

fun setup_requests :: "setup_call \<Rightarrow> api_request list" where
  "setup_requests (CallBuild k opts filt ws) = informer k @ concat (map (\<lambda>w. informer (wa_Kind w)) ws)"
| "setup_requests (CallWatch k w) = informer (wa_Kind w)"
| "setup_requests (CallGVKForObject k) = informer k"
| "setup_requests _ = []"

text \<open>
  The group, version and resource of each kind, as the definitions in its package declare them, and the
  Go types that a request needs: a list is read into the list type of its kind.
\<close>

definition kind_gvk :: "string \<Rightarrow> GroupVersionKind" where
  "kind_gvk k =
     (if k \<in> {''Cluster'', ''ClusterList'', ''MachinePool'', ''MachinePoolList''}
      then \<lparr>gvk_Group = ClusterAPI_Group, gvk_Version = ''v1beta1'', gvk_Kind = k\<rparr>
      else if k \<in> {''Secret'', ''SecretList'', ''Event''} then \<lparr>gvk_Group = [], gvk_Version = ''v1'', gvk_Kind = k\<rparr>
      else WithKind k)"

definition go_types :: "api_request \<Rightarrow> string list" where
  "go_types q = (if req_verb q = ''list'' then [req_kind q, req_kind q @ ''List''] else [req_kind q])"

definition resource_of :: "string \<Rightarrow> string" where
  "resource_of k =
     (if k = ''Cluster'' then ''clusters'' else if k = ''MachinePool'' then ''machinepools''
      else if k = ''Secret'' then ''secrets'' else if k = ''Event'' then ''events''
      else if k = ''CCEManagedCluster'' then ''ccemanagedclusters''
      else if k = ''CCEManagedControlPlane'' then ''ccemanagedcontrolplanes''
      else if k = ''CCEManagedMachinePool'' then ''ccemanagedmachinepools'' else [])"

end
