(* ===== verification/Api_Access_Props.thy ===== *)
theory Api_Access_Props
  imports Api_Access Manager_Props Reconcile_Props
begin

text \<open>
  Every request the program makes to the Kubernetes API is about a kind the scheme knows and permitted
  by the role: one lemma collects all requests, and two properties follow.
\<close>

section \<open>Which requests the program makes\<close>

definition used_requests :: "api_request list" where
  "used_requests =
     concat (map informer [''Cluster'', ''MachinePool'', ''Secret'', ''CCEManagedCluster'',
       ''CCEManagedControlPlane'', ''CCEManagedMachinePool'']) @
     concat (map patching [''CCEManagedCluster'', ''CCEManagedControlPlane'', ''CCEManagedMachinePool'']) @
     [Request ''create'' ''Secret'' [], Request ''update'' ''Secret'' [], Request ''create'' ''Event'' []]"

definition listed_call :: "call \<Rightarrow> bool" where
  "listed_call c \<longleftrightarrow> set (api_requests c) \<subseteq> set used_requests"

lemma listed_reads [simp]:
  "listed_call (CallRead ''Cluster'')" "listed_call (CallRead ''MachinePool'')" "listed_call (CallRead ''Secret'')"
  "listed_call (CallRead ''KubeconfigSecret'')" "listed_call (CallRead ''MachinePoolList'')"
  "listed_call (CallRead ''CCEManagedCluster'')" "listed_call (CallRead ''CCEManagedControlPlane'')"
  "listed_call (CallRead ''CCEManagedMachinePool'')" "listed_call (CallRead ''CCEManagedMachinePoolList'')"
  by (auto simp: listed_call_def used_requests_def read_kind_def informer_def)

lemma listed_others: "\<not> read_call c \<Longrightarrow> listed_call c"
  by (cases c) (auto simp: listed_call_def used_requests_def read_call_def patching_def)

lemma listed_simps [simp]:
  "listed_call (CallPatchControlPlane cp)" "listed_call (CallPatchMachinePool mp)" "listed_call (CallPatchManagedCluster mc)"
  "listed_call (CallCreateSecret se)" "listed_call (CallUpdateSecret se)" "listed_call (CallEvent a b)"
  "listed_call (CallShowCluster i)" "listed_call (CallCreateCluster cq)" "listed_call (CallDeleteCluster i)"
  "listed_call (CallShowClusterEndpoints i)" "listed_call (CallCreatePublicip pq)" "listed_call (CallUpdateClusterEip u)"
  "listed_call (CallCreateCert ct)" "listed_call (CallShowNodePool i j)" "listed_call (CallCreateNodePool nq)"
  "listed_call (CallDeleteNodePool i j)" "listed_call (CallListNodes i)" "listed_call (CallSleep d)"
  by (rule listed_others, simp add: read_call_def)+

lemma listed_classes: "network_call c \<or> status_call c \<or> sleep_or_status c \<or> eip_call c \<Longrightarrow> listed_call c"
  by (rule listed_others)
    (auto simp: network_call_def status_call_def sleep_or_status_def eip_call_def read_call_def split: call.splits)

lemma listed_ReconcileControlPlane: "steps_in (issues listed_call) (ReconcileControlPlane E S)"
proof -
  have st: "steps_in (issues listed_call) (cp_setStatus E S x)" for x
    by (rule issues_mono[OF issues_cp_setStatus]) (simp add: listed_classes)
  have w: "steps_in (issues listed_call) (waitForClusterActive E S)"
    by (rule issues_mono[OF issues_waitForClusterActive]) (simp add: listed_classes)
  have eip: "steps_in (issues listed_call) (reconcileEIP E S)"
    by (rule issues_mono[OF issues_reconcileEIP]) (simp add: listed_classes)
  have k: "steps_in (issues listed_call) (reconcileKubeconfig E S)"
    unfolding reconcileKubeconfig_def createCAPIKubeconfigSecret_def updateCAPIKubeconfigSecret_def
      createBaseKubeConfig_def generateClientData_def Let_def
    by (intro issues_rules issues_Eventf issues_from_sum issues_decode_field listed_reads listed_simps)
  show ?thesis
    unfolding ReconcileControlPlane_def reconcileCluster_def find_or_create_def settle_cluster_def
      provide_access_def publish_endpoint_def
    by (intro issues_rules issues_showCCECluster issues_createCluster issues_deref_phase issues_public_access
        issues_apply_endpoints st w eip k listed_simps)
qed

lemma listed_NewService: "steps_in (issues listed_call) (NewService E sc opts)"
  "steps_in (issues listed_call) (NewNodepoolService E psc)"
  unfolding NewService_def NewNodepoolService_def Let_def
  by (intro issues_rules issues_from_outcome listed_reads)+

lemma listed_cpr_Reconcile: "steps_in (issues listed_call) (cpr_Reconcile E r req)"
proof -
  have net: "steps_in (issues listed_call) (ReconcileNetwork E S)" for S
    by (rule issues_mono[OF issues_ReconcileNetwork]) (simp add: listed_classes)
  have del: "steps_in (issues listed_call) (DeleteControlPlane E S)" for S
    by (rule issues_mono[OF issues_DeleteControlPlane]) (auto simp: listed_classes)
  show ?thesis
    unfolding cpr_Reconcile_def cpr_reconcileDelete_def dependencyCount_def DeleteNetwork_def scp_Close_def Let_def
      cpr_reconcileNormal_split cpr_provision_def
    by (intro issues_rules issues_with_close listed_NewService net del listed_ReconcileControlPlane cp_ensure_calls
        issues_scp_PatchObject listed_reads listed_simps)
qed

lemma listed_mpr_Reconcile: "steps_in (issues listed_call) (mpr_Reconcile E req)"
proof -
  have lane: "pool_lane i c \<Longrightarrow> \<not> read_call c \<Longrightarrow> listed_call c" for i c
    by (rule listed_others)
  have st: "steps_in (issues listed_call) (mp_setStatus E S np)" for S np
    by (rule issues_mono[OF issues_mp_setStatus], rule listed_others)
      (auto simp: pool_status_call_def read_call_def split: call.splits)
  have w: "steps_in (issues listed_call) (waitForNodepoolActive E S)" for S
    by (rule issues_mono[OF issues_waitForNodepoolActive], rule listed_others)
      (auto simp: pool_status_call_def read_call_def split: call.splits)
  show ?thesis
    unfolding mpr_Reconcile_def getOwnerMachinePool_def getMachinePoolByName_def summarize_and_close_def smp_Close_def
      mpr_reconcileDelete_def mpr_reconcileNormal_def ReconcilePool_def reconcileNodepool_def createNodepool_def
      ReconcilePoolDelete_def deleteNodepoolAndWait_def delete_nodepool_body_def waitForNodepoolDeleted_def
      nodepool_deleted_poll_def Let_def
    by (intro issues_rules issues_with_close listed_NewService issues_ensure_finalizer issues_smp_PatchObject
        issues_showNodepool issues_pool_phase issues_response_pool in_with_deletion_report[OF issues.frame_axioms]
        issues_NodepoolReadyFalse issues_waitUntil st w listed_reads listed_simps)
qed

lemma listed_mcr_Reconcile: "steps_in (issues listed_call) (mcr_Reconcile E req)"
  unfolding mcr_Reconcile_def by (intro issues_rules issues_or_return listed_reads listed_simps)

lemma listed_mappings:
  "steps_in (issues listed_call) (managedClusterToManagedControlPlane E x)"
  "steps_in (issues listed_call) (managedControlPlaneToManagedCluster E x)"
  "steps_in (issues listed_call) (managedControlPlaneToManagedMachinePoolMapFunc E gk x)"
proof -
  have one: "steps_in (issues listed_call) (machinePoolToInfrastructureMapFunc L gk y)" for L gk y
    unfolding machinePoolToInfrastructureMapFunc_def by (intro issues_rules)
  have pools: "steps_in (issues listed_call) (map_pools L gk ps)" for L gk ps
    by (induction ps) (auto intro!: issues_rules one)
  show "steps_in (issues listed_call) (managedClusterToManagedControlPlane E x)"
    unfolding managedClusterToManagedControlPlane_def by (intro issues_rules listed_reads)
  show "steps_in (issues listed_call) (managedControlPlaneToManagedCluster E x)"
    unfolding managedControlPlaneToManagedCluster_def by (intro issues_rules listed_reads)
  show "steps_in (issues listed_call) (managedControlPlaneToManagedMachinePoolMapFunc E gk x)"
    unfolding managedControlPlaneToManagedMachinePoolMapFunc_def by (intro issues_rules pools listed_reads)
qed

lemma listed_main: "c \<in> set (preparation F @ [CallStart]) \<Longrightarrow> set (setup_requests c) \<subseteq> set used_requests"
  by (auto simp: preparation_def cp_sequence_def mc_sequence_def mp_sequence_def used_requests_def informer_def)

text \<open>
  \<open>requested E A q\<close>: some run of a controller, of a mapping function or of the start of the process
  makes the request \<open>q\<close>.
\<close>

inductive requested :: "'w env \<Rightarrow> 'v runtime \<Rightarrow> api_request \<Rightarrow> bool" for E :: "'w env" and A :: "'v runtime" where
  by_control_plane: "cpr_Reconcile E r req s = (res, t) \<Longrightarrow> calls s = [] \<Longrightarrow> c \<in> set (calls t) \<Longrightarrow>
     q \<in> set (api_requests c) \<Longrightarrow> requested E A q"
| by_machine_pool: "mpr_Reconcile E req s = (res, t) \<Longrightarrow> calls s = [] \<Longrightarrow> c \<in> set (calls t) \<Longrightarrow>
     q \<in> set (api_requests c) \<Longrightarrow> requested E A q"
| by_managed_cluster: "mcr_Reconcile E req s = (res, t) \<Longrightarrow> calls s = [] \<Longrightarrow> c \<in> set (calls t) \<Longrightarrow>
     q \<in> set (api_requests c) \<Longrightarrow> requested E A q"
| by_mapping_clusters: "managedClusterToManagedControlPlane E x (s1 :: (unit, 'w) st) = (res1, t1) \<Longrightarrow>
     calls s1 = [] \<Longrightarrow> c \<in> set (calls t1) \<Longrightarrow> q \<in> set (api_requests c) \<Longrightarrow> requested E A q"
| by_mapping_control_planes: "managedControlPlaneToManagedCluster E x (s1 :: (unit, 'w) st) = (res1, t1) \<Longrightarrow>
     calls s1 = [] \<Longrightarrow> c \<in> set (calls t1) \<Longrightarrow> q \<in> set (api_requests c) \<Longrightarrow> requested E A q"
| by_mapping_pools: "managedControlPlaneToManagedMachinePoolMapFunc E gk x (s1 :: (unit, 'w) st) = (res1, t1) \<Longrightarrow>
     calls s1 = [] \<Longrightarrow> c \<in> set (calls t1) \<Longrightarrow> q \<in> set (api_requests c) \<Longrightarrow> requested E A q"
| by_main: "main A F b = (code, b') \<Longrightarrow> bt_calls b = [] \<Longrightarrow> sc \<in> set (bt_calls b') \<Longrightarrow>
     q \<in> set (setup_requests sc) \<Longrightarrow> requested E A q"

lemma listed_run:
  assumes "steps_in (issues listed_call) m" and "m s = (r, t)" and "calls s = []" and "c \<in> set (calls t)"
    and "q \<in> set (api_requests c)"
  shows "q \<in> set used_requests"
proof -
  have "issues listed_call s t" by (rule steps_inD[OF assms(1,2)])
  then have "list_all listed_call (calls t)"
    using assms(3) by (simp add: issues_def new_calls_def)
  then show ?thesis
    using assms(4,5) by (auto simp: list_all_iff listed_call_def)
qed

lemma requested_used: "requested E A q \<Longrightarrow> q \<in> set used_requests"
proof (induction rule: requested.induct)
  case (by_main F b code b' sc q)
  obtain ds where "bt_calls b' = ds" "prefix ds (preparation F @ [CallStart])"
    using followsD[OF follows_main by_main(1)] by_main(2) by (auto simp: followed_def)
  with by_main(3) have "sc \<in> set (preparation F @ [CallStart])"
    using set_mono_prefix by blast
  from listed_main[OF this] by_main(4) show ?case by blast
qed (blast intro: listed_run[OF listed_cpr_Reconcile] listed_run[OF listed_mpr_Reconcile]
       listed_run[OF listed_mcr_Reconcile] listed_run[OF listed_mappings(1)] listed_run[OF listed_mappings(2)]
       listed_run[OF listed_mappings(3)])+

section \<open>The scheme knows them\<close>

text \<open>
  The documented contract of the scheme: nothing is ever taken out of it, a builder adds the types
  registered with it under its group and version, and the other packages add their own kinds.
\<close>

definition only_adds :: "('b, 's) scheme_lib \<Rightarrow> ('s, unit) go \<Rightarrow> bool" where
  "only_adds R m \<longleftrightarrow> (\<forall>s r t g. m s = (r, t) \<longrightarrow> sl_Recognizes R s g \<longrightarrow> sl_Recognizes R t g)"

definition adds :: "('b, 's) scheme_lib \<Rightarrow> GroupVersionKind set \<Rightarrow> ('s, unit) go \<Rightarrow> bool" where
  "adds R G m \<longleftrightarrow> only_adds R m \<and> (\<forall>s t. m s = (Ret (), t) \<longrightarrow> (\<forall>g \<in> G. sl_Recognizes R t g))"

definition scheme_documented :: "('b, 's) scheme_lib \<Rightarrow> bool" where
  "scheme_documented R \<longleftrightarrow>
     (\<forall>gv kss. adds R {\<lparr>gvk_Group = fst gv, gvk_Version = snd gv, gvk_Kind = k\<rparr> |k. k \<in> set (concat kss)}
        (sl_AddToScheme R (fold (sl_Register R) kss (sl_NewBuilder R gv)))) \<and>
     adds R (kind_gvk ` {''Secret'', ''SecretList'', ''Event''}) (sl_clientgoscheme R) \<and>
     adds R (kind_gvk ` {''Cluster'', ''ClusterList''}) (sl_clusterv1 R) \<and>
     adds R (kind_gvk ` {''MachinePool'', ''MachinePoolList''}) (sl_expclusterv1 R)"

lemma addsI: "only_adds R m \<Longrightarrow> (\<And>s t g. m s = (Ret (), t) \<Longrightarrow> g \<in> G \<Longrightarrow> sl_Recognizes R t g) \<Longrightarrow> adds R G m"
  by (auto simp: adds_def)

lemma adds_Must: "adds R G m \<Longrightarrow> adds R G (Must m)"
  unfolding adds_def only_adds_def Must_def by (auto simp: go_simps split: prod.splits outcome.splits)

lemma adds_then:
  assumes "adds R G m" and "adds R H n"
  shows "adds R (G \<union> H) (andThen m (\<lambda>_. n))"
  using assms unfolding adds_def only_adds_def
  by (auto simp: go_simps split: prod.splits outcome.splits)

definition own_kinds :: "string list" where
  "own_kinds =
     [''CCEManagedCluster'', ''CCEManagedClusterList'', ''CCEManagedControlPlane'', ''CCEManagedControlPlaneList'',
      ''CCEManagedMachinePool'', ''CCEManagedMachinePoolList'']"

definition scheme_kinds :: "GroupVersionKind list" where
  "scheme_kinds =
     map kind_gvk [''Secret'', ''SecretList'', ''Event''] @ map kind_gvk [''Cluster'', ''ClusterList''] @
     map kind_gvk [''MachinePool'', ''MachinePoolList''] @ map WithKind own_kinds"

lemma AddToScheme_registers:
  "AddToScheme R = sl_AddToScheme R (fold (sl_Register R)
     [[''CCEManagedCluster'', ''CCEManagedClusterList''], [''CCEManagedControlPlane'', ''CCEManagedControlPlaneList''],
      [''CCEManagedMachinePool'', ''CCEManagedMachinePoolList'']]
     (sl_NewBuilder R (GroupVersion_Group, GroupVersion_Version)))"
  by (simp add: AddToScheme_def SchemeBuilder_def init_managedcluster_def init_managedcontrolplane_def
      init_managedmachinepool_def)

lemma adds_builder:
  "scheme_documented R \<Longrightarrow>
   adds R {\<lparr>gvk_Group = fst gv, gvk_Version = snd gv, gvk_Kind = k\<rparr> |k. k \<in> set (concat kss)}
     (sl_AddToScheme R (fold (sl_Register R) kss (sl_NewBuilder R gv)))"
  unfolding scheme_documented_def by (elim conjE allE)

lemma adds_mono: "adds R G m \<Longrightarrow> H \<subseteq> G \<Longrightarrow> adds R H m"
  unfolding adds_def by blast

lemma adds_AddToScheme: "scheme_documented R \<Longrightarrow> adds R (set (map WithKind own_kinds)) (AddToScheme R)"
  unfolding AddToScheme_registers
  by (erule adds_mono[OF adds_builder]) (simp add: WithKind_def own_kinds_def)

lemma adds_main_init:
  assumes "scheme_documented R"
  shows "adds R (set scheme_kinds) (main_init R)"
  unfolding main_init_def scheme_kinds_def set_append using assms
  by (intro adds_then adds_Must adds_AddToScheme) (simp_all only: scheme_documented_def set_map list.set simp_thms)

lemma kinds_in_scheme: "q \<in> set used_requests \<Longrightarrow> k \<in> set (go_types q) \<Longrightarrow> kind_gvk k \<in> set scheme_kinds"
proof -
  have "list_all (\<lambda>q. list_all (\<lambda>k. kind_gvk k \<in> set scheme_kinds) (go_types q)) used_requests"
    by code_simp
  then show "q \<in> set used_requests \<Longrightarrow> k \<in> set (go_types q) \<Longrightarrow> kind_gvk k \<in> set scheme_kinds"
    by (simp add: list_all_iff)
qed

text \<open>
  C16. The scheme that \<open>main\<close> builds in its initialiser, when that does not panic, knows the Go type of
  every object and list that any controller, any mapping function or the registration of a watch asks
  the API server for: no request fails because a kind is not registered.
\<close>

theorem scheme_covers_requests:
  assumes "scheme_documented R" and "main_init R s = (Ret (), t)"
    and "requested E A q" and "k \<in> set (go_types q)"
  shows "sl_Recognizes R t (kind_gvk k)"
  using adds_main_init[OF assms(1)] kinds_in_scheme[OF requested_used[OF assms(3)] assms(4)] assms(2)
  unfolding adds_def by blast

text \<open>A scheme as the set of the kinds it knows.\<close>

definition demo_scheme :: "((string \<times> string) \<times> string list, GroupVersionKind list) scheme_lib" where
  "demo_scheme =
     \<lparr>sl_NewBuilder = (\<lambda>gv. (gv, [])),
      sl_Register = (\<lambda>ks b. (fst b, snd b @ ks)),
      sl_AddToScheme = (\<lambda>b s. (Ret (), s @ map (\<lambda>k. \<lparr>gvk_Group = fst (fst b), gvk_Version = snd (fst b), gvk_Kind = k\<rparr>) (snd b))),
      sl_clientgoscheme = (\<lambda>s. (Ret (), s @ map kind_gvk [''Secret'', ''SecretList'', ''Event''])),
      sl_clusterv1 = (\<lambda>s. (Ret (), s @ map kind_gvk [''Cluster'', ''ClusterList''])),
      sl_expclusterv1 = (\<lambda>s. (Ret (), s @ map kind_gvk [''MachinePool'', ''MachinePoolList''])),
      sl_Recognizes = (\<lambda>s g. g \<in> set s)\<rparr>"

lemma demo_scheme_documented: "scheme_documented demo_scheme"
proof -
  have "fold (\<lambda>ks b. (fst b, snd b @ ks)) kss (gv, ks) = (gv, ks @ concat kss)"
    for kss and gv :: "string \<times> string" and ks :: "string list"
    by (induction kss arbitrary: ks) auto
  then show ?thesis
    unfolding scheme_documented_def adds_def only_adds_def demo_scheme_def by auto
qed

lemma demo_list_request: "requested demo_env accepting (Request ''list'' ''MachinePool'' [])"
proof (rule requested.by_main[OF surjective_pairing])
  show "mp_sequence initFlags ! 1 \<in> set (bt_calls (snd (main accepting initFlags booting)))"
    by (simp add: boot_simps mp_sequence_def)
qed (simp_all add: booting_def mp_sequence_def informer_def)

lemma scheme_covers_requests_witness:
  "\<exists>t. main_init demo_scheme [] = (Ret (), t) \<and> kind_gvk ''MachinePoolList'' \<in> set t"
proof -
  obtain t where t: "main_init demo_scheme [] = (Ret (), t)"
    by (auto simp: main_init_def Must_def AddToScheme_def demo_scheme_def go_simps)
  have "sl_Recognizes demo_scheme t (kind_gvk ''MachinePoolList'')"
    by (rule scheme_covers_requests[OF demo_scheme_documented t demo_list_request]) (simp add: go_types_def)
  with t show ?thesis by (simp add: demo_scheme_def)
qed

section \<open>The role permits them\<close>

text \<open>
  C17. The role that the RBAC markers ask for permits every request that any controller, any mapping
  function or the registration of a watch makes to the API server: on the objects, and on the status
  where the code patches it.
\<close>

theorem role_permits_requests:
  assumes "requested E A q"
  shows "permits manager_role (gvk_Group (kind_gvk (req_kind q))) (resource_of (req_kind q) @ req_sub q) (req_verb q)"
proof -
  have "list_all (\<lambda>q. permits manager_role (gvk_Group (kind_gvk (req_kind q))) (resource_of (req_kind q) @ req_sub q)
          (req_verb q)) used_requests"
    by code_simp
  then show ?thesis
    using requested_used[OF assms] by (simp add: list_all_iff)
qed

lemma role_permits_requests_witness:
  "permits manager_role ''cluster.x-k8s.io'' ''machinepools'' ''list'' \<and>
   \<not> permits manager_role ''cluster.x-k8s.io'' ''machinepools'' ''delete''"
proof
  show "permits manager_role ''cluster.x-k8s.io'' ''machinepools'' ''list''"
    using role_permits_requests[OF demo_list_request]
    by (simp add: kind_gvk_def resource_of_def ClusterAPI_Group_def)
  show "\<not> permits manager_role ''cluster.x-k8s.io'' ''machinepools'' ''delete''"
    by code_simp
qed

end
