(* ===== verification/Logger.thy ===== *)
theory Logger
  imports Controller_Base
begin

text \<open>
  \<open>pkg/logger\<close>: a \<open>*Logger\<close> is a pointer to a struct with one \<open>logr.Logger\<close>. The state holds these structs
  by address and the lines written so far. \<open>logr\<close> itself is a parameter over a type \<open>'l\<close> of logger
  values; of its \<open>WithValues\<close> and \<open>WithName\<close> only the documented contract is used.
\<close>

record 'l logr =
  lr_WithValues :: "string list \<Rightarrow> 'l \<Rightarrow> 'l"
  lr_WithName :: "string \<Rightarrow> 'l \<Rightarrow> 'l"
  lr_values :: "'l \<Rightarrow> string list"

text \<open>
  What is handed to \<open>logr\<close>: the logger value, the verbosity of \<open>V(n).Info\<close> or the error of \<open>Error\<close>, the
  text and the pairs.
\<close>

record 'l log_line =
  li_logger :: 'l
  li_level :: "go_error + nat"
  li_msg :: string
  li_keysAndValues :: "string list"

record 'l logs =
  lo_loggers :: "'l list"
  lo_lines :: "'l log_line list"

definition logLevelDebug :: nat where
  "logLevelDebug = 2"

definition logLevelWarn :: nat where
  "logLevelWarn = 3"

definition logLevelTrace :: nat where
  "logLevelTrace = 4"

text \<open>A method call on a pointer reads the struct; a nil or dangling pointer panics.\<close>

definition on_logger :: "nat \<Rightarrow> ('l \<Rightarrow> ('l logs, 'a) go) \<Rightarrow> ('l logs, 'a) go" where
  "on_logger c f = (\<lambda>s. if c < length (lo_loggers s) then f (lo_loggers s ! c) s else (Panic, s))"

definition write_line :: "'l log_line \<Rightarrow> ('l logs, unit) go" where
  "write_line l = modify (lo_lines_update (\<lambda>ls. ls @ [l]))"

definition NewLogger :: "'l \<Rightarrow> ('l logs, nat) go" where
  "NewLogger log = (\<lambda>s. (Ret (length (lo_loggers s)), s\<lparr>lo_loggers := lo_loggers s @ [log]\<rparr>))"

text \<open>\<open>ctxLogger\<close> is what \<open>logr.FromContextOrDiscard\<close> finds in the context.\<close>

definition FromContext :: "'l \<Rightarrow> ('l logs, nat) go" where
  "FromContext ctxLogger = NewLogger ctxLogger"

definition log_at :: "go_error + nat \<Rightarrow> nat \<Rightarrow> string \<Rightarrow> string list \<Rightarrow> ('l logs, unit) go" where
  "log_at level c msg kvs =
     on_logger c (\<lambda>l. write_line \<lparr>li_logger = l, li_level = level, li_msg = msg, li_keysAndValues = kvs\<rparr>)"

definition log_Info :: "nat \<Rightarrow> string \<Rightarrow> string list \<Rightarrow> ('l logs, unit) go" where
  "log_Info = log_at (Inr 0)"

definition log_Debug :: "nat \<Rightarrow> string \<Rightarrow> string list \<Rightarrow> ('l logs, unit) go" where
  "log_Debug = log_at (Inr logLevelDebug)"

definition log_Warn :: "nat \<Rightarrow> string \<Rightarrow> string list \<Rightarrow> ('l logs, unit) go" where
  "log_Warn = log_at (Inr logLevelWarn)"

definition log_Trace :: "nat \<Rightarrow> string \<Rightarrow> string list \<Rightarrow> ('l logs, unit) go" where
  "log_Trace = log_at (Inr logLevelTrace)"

definition log_Error :: "nat \<Rightarrow> go_error \<Rightarrow> string \<Rightarrow> string list \<Rightarrow> ('l logs, unit) go" where
  "log_Error c err = log_at (Inl err) c"

definition GetLogger :: "nat \<Rightarrow> ('l logs, 'l) go" where
  "GetLogger c = on_logger c ret"

definition WithValues :: "'l logr \<Rightarrow> nat \<Rightarrow> string list \<Rightarrow> ('l logs, nat) go" where
  "WithValues R c kvs =
     on_logger c (\<lambda>l. andThen (modify (lo_loggers_update (\<lambda>ls. ls[c := lr_WithValues R kvs l]))) (\<lambda>_. ret c))"

definition WithName :: "'l logr \<Rightarrow> nat \<Rightarrow> string \<Rightarrow> ('l logs, nat) go" where
  "WithName R c name =
     on_logger c (\<lambda>l. andThen (modify (lo_loggers_update (\<lambda>ls. ls[c := lr_WithName R name l]))) (\<lambda>_. ret c))"

text \<open>
  What \<open>managedControlPlaneToManagedCluster\<close> does with the logger it was given at registration, before
  it looks at the object: for another kind it logs an error, else it adds its values.
\<close>

text \<open>How \<open>klog.KRef\<close> prints: the namespace is left out when it is empty.\<close>

definition KRef_text :: "string \<Rightarrow> string \<Rightarrow> string" where
  "KRef_text namespace name = (if namespace = [] then name else namespace @ ''/'' @ name)"

definition ccemcpTomc_pairs :: "CCEManagedControlPlane \<Rightarrow> string list" where
  "ccemcpTomc_pairs cp =
     [''objectMapper'', ''ccemcpTomc'', ''ccemanagedcontrolplane'',
      KRef_text (om_Namespace (cp_Meta cp)) (om_Name (cp_Meta cp))]"

definition ccemcpTomc_log :: "'l logr \<Rightarrow> nat \<Rightarrow> client_object \<Rightarrow> ('l logs, unit) go" where
  "ccemcpTomc_log R c x =
     (case as_ControlPlane x of
        None \<Rightarrow> log_Error c (ErrorString ''expected an CCEManagedControlPlane'')
                  ''failed to map CCEManagedControlPlane'' []
      | Some cp \<Rightarrow> andThen (WithValues R c (ccemcpTomc_pairs cp)) (\<lambda>_. ret ()))"

end
