(* ===== verification/Logger_Props.thy ===== *)
theory Logger_Props
  imports Logger Demo_Env
begin

text \<open>
  \<open>WithValues\<close> changes its receiver and returns it: values meant for one piece of work stay on the
  shared logger.
\<close>

text \<open>\<open>logr\<close>: \<open>WithValues\<close> returns a logger with the pairs added to those it has.\<close>

definition logr_documented :: "'l logr \<Rightarrow> bool" where
  "logr_documented R \<longleftrightarrow> (\<forall>kvs l. lr_values R (lr_WithValues R kvs l) = lr_values R l @ kvs)"

lemma on_logger_apply [go_simps]:
  "on_logger c f s = (if c < length (lo_loggers s) then f (lo_loggers s ! c) s else (Panic, s))"
  by (simp add: on_logger_def)

lemma WithValues_apply [go_simps]:
  "WithValues R c kvs s =
     (if c < length (lo_loggers s)
      then (Ret c, s\<lparr>lo_loggers := (lo_loggers s)[c := lr_WithValues R kvs (lo_loggers s ! c)]\<rparr>)
      else (Panic, s))"
  by (simp add: WithValues_def go_simps)

lemma log_at_apply [go_simps]:
  "log_at level c msg kvs s =
     (if c < length (lo_loggers s)
      then (Ret (), s\<lparr>lo_lines := lo_lines s @
              [\<lparr>li_logger = lo_loggers s ! c, li_level = level, li_msg = msg, li_keysAndValues = kvs\<rparr>]\<rparr>)
      else (Panic, s))"
  by (simp add: log_at_def write_line_def go_simps)

primrec each :: "('a \<Rightarrow> ('s, unit) go) \<Rightarrow> 'a list \<Rightarrow> ('s, unit) go" where
  "each f [] = ret ()"
| "each f (x # xs) = andThen (f x) (\<lambda>_. each f xs)"

lemma ccemcpTomc_log_run:
  assumes "logr_documented R" and "c < length (lo_loggers s)"
  obtains t where "ccemcpTomc_log R c x s = (Ret (), t)" "length (lo_loggers t) = length (lo_loggers s)"
    "lr_values R (lo_loggers t ! c) = lr_values R (lo_loggers s ! c) @
       (case as_ControlPlane x of None \<Rightarrow> [] | Some cp \<Rightarrow> ccemcpTomc_pairs cp)"
    "\<forall>d. d \<noteq> c \<longrightarrow> lo_loggers t ! d = lo_loggers s ! d"
  using assms that[of "snd (ccemcpTomc_log R c x s)"]
  by (simp add: ccemcpTomc_log_def log_Error_def go_simps logr_documented_def split: option.split)

text \<open>
  C40. The logger of the mapping function only grows: it is created once, at registration, and every
  control plane event adds its four values to it for good. After the events \<open>xs\<close> it carries the
  values of all of them, four for each control plane, so the memory it holds and the length of the
  lines it writes are not bounded.
\<close>

theorem mapping_logger_grows:
  assumes "logr_documented R" and "c < length (lo_loggers s)"
    and "each (ccemcpTomc_log R c) xs s = (res, t)"
  shows "res = Ret () \<and>
    lr_values R (lo_loggers t ! c) = lr_values R (lo_loggers s ! c) @
       concat (map ccemcpTomc_pairs (List.map_filter as_ControlPlane xs)) \<and>
    length (lr_values R (lo_loggers t ! c))
      = length (lr_values R (lo_loggers s ! c)) + 4 * length (List.map_filter as_ControlPlane xs) \<and>
    (\<forall>d. d \<noteq> c \<longrightarrow> lo_loggers t ! d = lo_loggers s ! d)"
  using assms(2,3)
proof (induction xs arbitrary: s)
  case Nil
  then show ?case by (simp add: ret_apply map_filter_simps)
next
  case (Cons x xs)
  obtain u where u: "ccemcpTomc_log R c x s = (Ret (), u)" "length (lo_loggers u) = length (lo_loggers s)"
    "lr_values R (lo_loggers u ! c) = lr_values R (lo_loggers s ! c) @
       (case as_ControlPlane x of None \<Rightarrow> [] | Some cp \<Rightarrow> ccemcpTomc_pairs cp)"
    "\<forall>d. d \<noteq> c \<longrightarrow> lo_loggers u ! d = lo_loggers s ! d"
    by (rule ccemcpTomc_log_run[OF assms(1) Cons.prems(1), where x = x])
  have "each (ccemcpTomc_log R c) xs u = (res, t)"
    using Cons.prems(2) u(1) by (simp add: go_simps)
  from Cons.IH[OF _ this] u Cons.prems(1) show ?case
    by (auto simp: map_filter_simps ccemcpTomc_pairs_def split: option.split)
qed

definition list_logr :: "string list logr" where
  "list_logr = \<lparr>lr_WithValues = (\<lambda>kvs l. l @ kvs), lr_WithName = (\<lambda>n l. l), lr_values = id\<rparr>"

lemma mapping_logger_grows_witness:
  "length (lo_loggers (snd (each (ccemcpTomc_log list_logr 0) (replicate 5 (ObjControlPlane demo_cp))
     \<lparr>lo_loggers = [[]], lo_lines = []\<rparr>)) ! 0) = 20"
proof -
  let ?s = "\<lparr>lo_loggers = [[]], lo_lines = []\<rparr> :: string list logs"
  let ?xs = "replicate 5 (ObjControlPlane demo_cp)"
  have doc: "logr_documented list_logr"
    by (simp add: logr_documented_def list_logr_def)
  have l: "0 < length (lo_loggers ?s)"
    by simp
  have v: "lr_values list_logr x = x" for x
    by (simp add: list_logr_def)
  have n: "length (List.map_filter as_ControlPlane ?xs) = 5"
    by (simp add: List.map_filter_def)
  from mapping_logger_grows[OF doc l surjective_pairing, of ?xs, THEN conjunct2, THEN conjunct2, THEN conjunct1]
  show ?thesis unfolding v n by simp
qed

end
