(* ===== verification/Webhooks.thy ===== *)
theory Webhooks
  imports Manager Logger
begin

text \<open>
  The webhooks of the three kinds (\<open>api/v1beta1/*_webhook.go\<close>): a defaulter that may change the object
  it is called on, three validators that may refuse a request, and their registration. The state is that
  of \<open>Logger\<close>: all they do is to write a line on the logger of their file, which is made from the root
  logger \<open>l\<close> of controller-runtime. What a defaulter leaves of its receiver is its value.
\<close>

definition resource_line :: "'l \<Rightarrow> string \<Rightarrow> ObjectMeta \<Rightarrow> ('l logs, unit) go" where
  "resource_line l msg m =
     write_line \<lparr>li_logger = l, li_level = Inr 0, li_msg = msg, li_keysAndValues = [''name'', om_Name m]\<rparr>"

section \<open>CCEManagedCluster\<close>

definition ccemanagedclusterlog :: "'l logr \<Rightarrow> 'l \<Rightarrow> 'l" where
  "ccemanagedclusterlog R l = lr_WithName R ''ccemanagedcluster-resource'' l"

definition mc_SetupWebhookWithManager :: "'w runtime \<Rightarrow> ('w boot, unit) go" where
  "mc_SetupWebhookWithManager A = ask A (CallWebhook ''CCEManagedCluster'')"

definition mc_Default :: "'l logr \<Rightarrow> 'l \<Rightarrow> CCEManagedCluster \<Rightarrow> ('l logs, CCEManagedCluster) go" where
  "mc_Default R l r =
     andThen (resource_line (ccemanagedclusterlog R l) ''default'' (mc_Meta r)) (\<lambda>_. ret r)"

definition mc_ValidateCreate :: "'l logr \<Rightarrow> 'l \<Rightarrow> CCEManagedCluster \<Rightarrow> ('l logs, unit) go" where
  "mc_ValidateCreate R l r = resource_line (ccemanagedclusterlog R l) ''validate create'' (mc_Meta r)"

definition mc_ValidateUpdate ::
  "'l logr \<Rightarrow> 'l \<Rightarrow> CCEManagedCluster \<Rightarrow> client_object \<Rightarrow> ('l logs, unit) go" where
  "mc_ValidateUpdate R l r old = resource_line (ccemanagedclusterlog R l) ''validate update'' (mc_Meta r)"

definition mc_ValidateDelete :: "'l logr \<Rightarrow> 'l \<Rightarrow> CCEManagedCluster \<Rightarrow> ('l logs, unit) go" where
  "mc_ValidateDelete R l r = resource_line (ccemanagedclusterlog R l) ''validate delete'' (mc_Meta r)"

section \<open>CCEManagedControlPlane\<close>

definition ccemanagedcontrolplanelog :: "'l logr \<Rightarrow> 'l \<Rightarrow> 'l" where
  "ccemanagedcontrolplanelog R l = lr_WithName R ''ccemanagedcontrolplane-resource'' l"

definition cp_SetupWebhookWithManager :: "'w runtime \<Rightarrow> ('w boot, unit) go" where
  "cp_SetupWebhookWithManager A = ask A (CallWebhook ''CCEManagedControlPlane'')"

definition cp_Default :: "'l logr \<Rightarrow> 'l \<Rightarrow> CCEManagedControlPlane \<Rightarrow> ('l logs, CCEManagedControlPlane) go" where
  "cp_Default R l r =
     andThen (resource_line (ccemanagedcontrolplanelog R l) ''default'' (cp_Meta r)) (\<lambda>_. ret r)"

definition cp_ValidateCreate :: "'l logr \<Rightarrow> 'l \<Rightarrow> CCEManagedControlPlane \<Rightarrow> ('l logs, unit) go" where
  "cp_ValidateCreate R l r = resource_line (ccemanagedcontrolplanelog R l) ''validate create'' (cp_Meta r)"

definition cp_ValidateUpdate ::
  "'l logr \<Rightarrow> 'l \<Rightarrow> CCEManagedControlPlane \<Rightarrow> client_object \<Rightarrow> ('l logs, unit) go" where
  "cp_ValidateUpdate R l r old = resource_line (ccemanagedcontrolplanelog R l) ''validate update'' (cp_Meta r)"

definition cp_ValidateDelete :: "'l logr \<Rightarrow> 'l \<Rightarrow> CCEManagedControlPlane \<Rightarrow> ('l logs, unit) go" where
  "cp_ValidateDelete R l r = resource_line (ccemanagedcontrolplanelog R l) ''validate delete'' (cp_Meta r)"

section \<open>CCEManagedMachinePool\<close>

definition ccemanagedmachinepoollog :: "'l logr \<Rightarrow> 'l \<Rightarrow> 'l" where
  "ccemanagedmachinepoollog R l = lr_WithName R ''ccemanagedmachinepool-resource'' l"

definition mp_SetupWebhookWithManager :: "'w runtime \<Rightarrow> ('w boot, unit) go" where
  "mp_SetupWebhookWithManager A = ask A (CallWebhook ''CCEManagedMachinePool'')"

definition mp_Default :: "'l logr \<Rightarrow> 'l \<Rightarrow> CCEManagedMachinePool \<Rightarrow> ('l logs, CCEManagedMachinePool) go" where
  "mp_Default R l r =
     andThen (resource_line (ccemanagedmachinepoollog R l) ''default'' (mp_Meta r)) (\<lambda>_. ret r)"

definition mp_ValidateCreate :: "'l logr \<Rightarrow> 'l \<Rightarrow> CCEManagedMachinePool \<Rightarrow> ('l logs, unit) go" where
  "mp_ValidateCreate R l r = resource_line (ccemanagedmachinepoollog R l) ''validate create'' (mp_Meta r)"

definition mp_ValidateUpdate ::
  "'l logr \<Rightarrow> 'l \<Rightarrow> CCEManagedMachinePool \<Rightarrow> client_object \<Rightarrow> ('l logs, unit) go" where
  "mp_ValidateUpdate R l r old = resource_line (ccemanagedmachinepoollog R l) ''validate update'' (mp_Meta r)"

definition mp_ValidateDelete :: "'l logr \<Rightarrow> 'l \<Rightarrow> CCEManagedMachinePool \<Rightarrow> ('l logs, unit) go" where
  "mp_ValidateDelete R l r = resource_line (ccemanagedmachinepoollog R l) ''validate delete'' (mp_Meta r)"

end
