(* ===== verification/Spec2Isabelle.thy ===== *)
theory Spec2Isabelle
  imports Service_Props Network_Props Access_Props Cluster_Props Nodepool_Props Controller_Props
    Pool_Controller_Props Readiness_Props Lifecycle_Props Steady_Props Provisioning_Props Pool_Provisioning_Props Reconcile_Props Pool_Lifecycle_Props
    Bringup_Props
    Deletion_Props Deepcopy_Props Manager_Props Api_Access_Props Logger_Props Webhooks
begin

text \<open>
  A model of the Cluster API infrastructure provider for Huawei Cloud CCE (Go), and what is proved
  about it.

  \<^bold>\<open>The program.\<close> Three controllers (\<open>internal/controller\<close>) react to changes of three kinds of
  Kubernetes objects (\<open>api/v1beta1\<close>). \<open>CCEManagedControlPlane\<close> stands for a CCE cluster: its
  reconcile builds a scope (\<open>pkg/cloud/scope\<close>), puts a finalizer on the object, and lets the control
  plane service (\<open>pkg/cloud/services/cce\<close>) create a VPC, a subnet, the cluster, an elastic IP and a
  kubeconfig secret, mirroring the cloud's state into the object; its deletion waits until no machine
  pool is left, deletes the cluster and removes the finalizer. \<open>CCEManagedMachinePool\<close> stands for a
  node pool of that cluster and is handled alike by the node pool service. \<open>CCEManagedCluster\<close> only
  copies the endpoint. Mapping functions turn a change of one kind into reconciles of another.

  \<^bold>\<open>How it is modelled.\<close> A Go function body is a value of \<open>('s, 'a) go\<close>: from a state to an outcome
  (a value, an error, a panic) and the state it leaves. The state \<open>st\<close> of a reconcile holds the object
  the scope points to, the outside world, and the trace of calls issued, which is an observation only.
  Libraries, the Kubernetes API, the clock, the random source and the cloud are parameters: records of
  functions (\<open>lib\<close>, \<open>kube\<close>, \<open>CceClient\<close>, ...), about which a theorem assumes at most a documented
  contract (\<open>conditions_documented\<close>, \<open>finalizers_documented\<close>, \<open>phases_documented\<close>); only those that
  promise progress assume a cloud that cooperates, and their text says how. Go's own \<open>net/url\<close>,
  \<open>strconv.Atoi\<close> and \<open>encoding/base64\<close> are defined, as far as the code uses them.

  \<^bold>\<open>Theories and sources.\<close>
  \<^item> \<open>Prelude\<close>: errors, outcomes, the monad, the judgements \<open>steps_in\<close>, \<open>gives\<close> and \<open>ends\<close>, the locale \<open>frame\<close>.
  \<^item> \<open>Go_Std\<close>: the standard library functions. \<open>Kube_Types\<close>, \<open>Cloud_Sdk\<close>: the library's types.
  \<^item> \<open>Api_Types\<close>: \<open>api/v1beta1\<close>, with the locale \<open>conditions_setter\<close> for the two kinds with conditions.
  \<^item> \<open>Environment\<close>: the parameters, the state, the trace and the frames \<open>issues\<close> and \<open>keeps\<close>.
  \<^item> \<open>Scope\<close>: \<open>pkg/cloud/scope\<close> and \<open>pkg/util/conditions\<close>, with the locale \<open>infra_id\<close> for the label.
  \<^item> \<open>Cce_Service\<close> (\<open>service.go\<close>, \<open>pkg/util/strings\<close>), \<open>Network\<close> (\<open>network.go\<close>, \<open>vpc.go\<close>,
    \<open>subnets.go\<close>), \<open>Eip\<close> (\<open>eip.go\<close>), \<open>Kubeconfig\<close> (\<open>config.go\<close>), \<open>Cluster_Service\<close>
    (\<open>cluster.go\<close>), \<open>Nodepool_Service\<close> (\<open>nodepool.go\<close>).
  \<^item> \<open>Controller_Base\<close> (deferred close, finalizers, with the locale \<open>finalizers\<close>),
    \<open>Controlplane_Controller\<close>, \<open>Managedcluster_Controller\<close>, \<open>Machinepool_Controller\<close>:
    \<open>internal/controller\<close>.
  \<^item> \<open>Demo_Env\<close>: concrete providers for the witnesses. \<open>Call_Costs\<close>: counting calls (\<open>costs\<close>), calls
    of a kind (\<open>free\<close>), and calls that need a property of the object (\<open>guarded\<close>).
  \<^item> \<open>Go_Memory\<close> (the memory \<open>Deepcopy\<close> works in: numbered cells, values with pointers into them, the
    locale \<open>denotation\<close>) and \<open>Deepcopy\<close> (\<open>zz_generated.deepcopy.go\<close>). Everywhere else objects are
    values: what is copied and what is shared is settled by \<open>Deepcopy_Props\<close>.
  \<^item> \<open>Manager\<close>: \<open>cmd/main.go\<close> and the \<open>SetupWithManager\<close> methods, over a record of the functions of
    controller-runtime. \<open>Logger\<close>: \<open>pkg/logger\<close>, over a record of those of \<open>logr\<close>. \<open>Webhooks\<close>:
    \<open>api/v1beta1/*_webhook.go\<close>.
  \<^item> \<open>Api_Access\<close>: the \<open>init\<close> functions that fill the scheme, over a record of the functions of
    \<open>runtime.Scheme\<close> and \<open>scheme.Builder\<close>; the role of the RBAC markers; and which request to the API
    server each call of the other theories stands for. \<open>Api_Access_Props\<close> collects all requests of the
    program (\<open>requested\<close>) and shows that the scheme knows their types and the role permits them.
  \<^item> \<open>Service_Props\<close>, \<open>Network_Props\<close>, \<open>Access_Props\<close>, \<open>Cluster_Props\<close>, \<open>Nodepool_Props\<close>,
    \<open>Controller_Props\<close>, \<open>Pool_Controller_Props\<close>, \<open>Deepcopy_Props\<close>, \<open>Manager_Props\<close>,
    \<open>Logger_Props\<close>: the properties of one component each, in theories that follow the sources.
  \<^item> \<open>Readiness_Props\<close>, \<open>Reconcile_Props\<close>, \<open>Lifecycle_Props\<close>, \<open>Pool_Lifecycle_Props\<close>,
    \<open>Deletion_Props\<close>, \<open>Steady_Props\<close>, \<open>Provisioning_Props\<close>, \<open>Pool_Provisioning_Props\<close>,
    \<open>Bringup_Props\<close>: the properties that span components. \<open>Reconcile_Props\<close> bounds what one reconcile of
    each kind may do, with the locale \<open>call_weight\<close> between the services' costs and the controllers'.
    \<open>Lifecycle_Props\<close> and \<open>Pool_Lifecycle_Props\<close> follow one object through any number of reconciles, each
    reading the stored object (the step relations \<open>history\<close> and \<open>pool_history\<close>), and show that both refine
    one abstract machine, \<open>id_history\<close>, whose state is the stored ID and whose steps are \<open>turn\<close>s. Nothing is
    assumed of the cloud and the API server there: a resource reported missing is requested again, and an ID
    whose patch is refused or lost is forgotten, as in the code; \<open>one_per_life\<close> says what holds
    nevertheless. \<open>Deletion_Props\<close> shows on these histories that no stored cluster is orphaned, when a
    deletion completes, and when two deletions wait for each other for good. \<open>Steady_Props\<close> says what a
    reconcile of a provisioned control plane may still create, again for any answers.
    \<open>Provisioning_Props\<close> shows by total correctness that a cloud which grants what it is asked for
    (\<open>healthy\<close>) takes a control plane there in one reconcile, once its owner is infrastructure ready and the optional
    fields the code dereferences are set; \<open>Pool_Provisioning_Props\<close> the same of machine pools
    (\<open>stage\<close> and \<open>pool_stage\<close> measure how far one is). \<open>Bringup_Props\<close> composes the three controllers over an API
    server that stores what they send (\<open>serves\<close>), from nothing ready to everything ready: it rests on
    Cluster API's contract that a managed cluster which is ready makes its owner's infrastructure ready.

  \<^bold>\<open>Bounds.\<close> The only loop that is not structural is \<open>waitUntil\<close>; the code bounds it by a number of
  retries, 40 at each use with sleeps of 30 seconds, and the model recurses on the retries that are
  left, so no fuel is invented. Histories are inductive relations of any length. Reading a value back
  from the memory of \<open>Deepcopy\<close> follows a type, which is finite. Durations are integers in
  nanoseconds, ports and replica counts are 32 bit words.

  \<^bold>\<open>Not modelled.\<close> Of \<open>cmd/main.go\<close> the help texts and the flags of the logging library; the test
  suites and the manifests under \<open>config\<close>, among them the role for leader election.
  Log calls are modelled for the webhooks, which do nothing else, and for one mapping function, where
  the logger has state; elsewhere they are
  output only and left out, except where an argument of theirs may panic. Transition times of
  conditions and the texts of \<open>net/url\<close> errors are left out.
\<close>

end
